(* ===== verification/Prelude.thy ===== *)
theory Prelude
  imports Main "HOL-Library.Word"
begin

text \<open>
  Shared vocabulary of the development: the Go scalar types and their wrap-around,
  the result of a Go call that may crash the process, Go maps with a zero value, and
  the generic lemmas on lists, maps and fixed-width integers that the component
  theories use.
\<close>

named_theorems go_simps \<open>equations of the Go run-time model\<close>

section \<open>Fixed-width integers\<close>

text \<open>
  Go's \<open>int64\<close>, \<open>int\<close> (64 bit on the deployment platform), \<open>int32\<close> and
  \<open>time.Duration\<close> are modelled by \<open>int\<close>; every operation of the code that may
  leave the range is wrapped explicitly.
\<close>

definition wrap64 :: "int \<Rightarrow> int" where
  "wrap64 x = (x + 2 ^ 63) mod 2 ^ 64 - 2 ^ 63"

definition wrap32 :: "int \<Rightarrow> int" where
  "wrap32 x = (x + 2 ^ 31) mod 2 ^ 32 - 2 ^ 31"

definition is_int64 :: "int \<Rightarrow> bool" where
  "is_int64 x \<longleftrightarrow> - (2 ^ 63) \<le> x \<and> x < 2 ^ 63"

definition is_int32 :: "int \<Rightarrow> bool" where
  "is_int32 x \<longleftrightarrow> - (2 ^ 31) \<le> x \<and> x < 2 ^ 31"

lemma wrap64_id [simp]: "is_int64 x \<Longrightarrow> wrap64 x = x"
  by (simp add: is_int64_def wrap64_def)

lemma wrap32_id [simp]: "is_int32 x \<Longrightarrow> wrap32 x = x"
  by (simp add: is_int32_def wrap32_def)

lemma is_int64_wrap64 [simp]: "is_int64 (wrap64 x)"
  using pos_mod_sign [of "2 ^ 64" "x + 2 ^ 63"] pos_mod_bound [of "2 ^ 64" "x + 2 ^ 63"]
  by (simp add: is_int64_def wrap64_def)

lemma is_int32_wrap32 [simp]: "is_int32 (wrap32 x)"
  using pos_mod_sign [of "2 ^ 32" "x + 2 ^ 31"] pos_mod_bound [of "2 ^ 32" "x + 2 ^ 31"]
  by (simp add: is_int32_def wrap32_def)

text \<open>The truncated division of Go's \<open>/\<close> on signed integers.\<close>

definition go_div :: "int \<Rightarrow> int \<Rightarrow> int" where
  "go_div a b = sgn a * sgn b * (\<bar>a\<bar> div \<bar>b\<bar>)"

lemma go_div_nonneg: "0 \<le> a \<Longrightarrow> 0 < b \<Longrightarrow> go_div a b = a div b"
  by (cases "a = 0") (simp_all add: go_div_def)

section \<open>Calls that may crash\<close>

text \<open>
  A Go call either returns or takes the process down: a run-time panic that nobody
  recovers (nil dereference, assignment into a nil map, index or slice bound out of range, unlock of an unlocked
  mutex), an explicit panic, or an exit. \<open>LogForwarder\<close> with level EXCEPTION exits.
\<close>

datatype crash = NilDeref | NilMap | OutOfRange | BadUnlock | ExplicitPanic | ProcessExit

datatype 'a go = Ret 'a | Crash crash

primrec go_bind :: "'a go \<Rightarrow> ('a \<Rightarrow> 'b go) \<Rightarrow> 'b go" where
  "go_bind (Ret x) f = f x"
| "go_bind (Crash c) f = Crash c"

lemma go_bind_Ret_iff [go_simps]: "go_bind m f = Ret y \<longleftrightarrow> (\<exists>x. m = Ret x \<and> f x = Ret y)"
  by (cases m) simp_all

lemma Ret_eq_bind: "Ret y = go_bind m f \<longleftrightarrow> (\<exists>x. m = Ret x \<and> f x = Ret y)"
  by (cases m) auto

lemma go_bind_Crash_iff: "go_bind m f = Crash c \<longleftrightarrow> m = Crash c \<or> (\<exists>x. m = Ret x \<and> f x = Crash c)"
  by (cases m) auto

lemma go_bind_assoc [simp]: "go_bind (go_bind m f) g = go_bind m (\<lambda>x. go_bind (f x) g)"
  by (cases m) simp_all

lemma go_bind_Ret_right [simp]: "go_bind m Ret = m"
  by (cases m) simp_all

text \<open>A case distinction on an error or a value that gives a known result.\<close>

lemma case_sum_eq:
  "(case r of Inl e \<Rightarrow> f e | Inr x \<Rightarrow> g x) = y \<longleftrightarrow> (\<exists>e. r = Inl e \<and> f e = y) \<or> (\<exists>x. r = Inr x \<and> g x = y)"
  by (cases r) simp_all

section \<open>Go maps\<close>

text \<open>
  A read of a missing key of a Go map gives the zero value of the element type;
  \<open>at z m k\<close> is that read with zero value \<open>z\<close>.
\<close>

definition at :: "'v \<Rightarrow> ('k \<rightharpoonup> 'v) \<Rightarrow> 'k \<Rightarrow> 'v" where
  "at z m k = (case m k of None \<Rightarrow> z | Some v \<Rightarrow> v)"

lemma at_upd [simp]: "at z (m(k \<mapsto> v)) k' = (if k' = k then v else at z m k')"
  by (simp add: at_def)

lemma at_empty [simp]: "at z Map.empty k = z"
  by (simp add: at_def)

lemma at_None: "m k = None \<Longrightarrow> at z m k = z"
  by (simp add: at_def)

lemma at_Some: "m k = Some v \<Longrightarrow> at z m k = v"
  by (simp add: at_def)

lemma map_add_self [simp]: "m ++ m = m"
  by (rule ext) (simp add: map_add_def split: option.splits)

section \<open>Lists\<close>

lemma concat_append_map [simp]: "concat (map (\<lambda>x. [x]) xs) = xs"
  by (induction xs) simp_all

text \<open>A loop body over a range, stopping at the first crash.\<close>

primrec go_foldl :: "('s \<Rightarrow> 'a \<Rightarrow> 's go) \<Rightarrow> 's \<Rightarrow> 'a list \<Rightarrow> 's go" where
  "go_foldl f s [] = Ret s"
| "go_foldl f s (x # xs) = go_bind (f s x) (\<lambda>s'. go_foldl f s' xs)"

lemma go_foldl_append:
  "go_foldl f s (xs @ ys) = go_bind (go_foldl f s xs) (\<lambda>s'. go_foldl f s' ys)"
  by (induction xs arbitrary: s) simp_all

lemma go_foldl_Ret: "(\<And>s x. f s x = Ret (g s x)) \<Longrightarrow> go_foldl f s xs = Ret (foldl g s xs)"
  by (induction xs arbitrary: s) simp_all

lemma go_foldl_invariant:
  assumes step: "\<And>s x s'. P s \<Longrightarrow> f s x = Ret s' \<Longrightarrow> P s'"
  shows "P s \<Longrightarrow> go_foldl f s xs = Ret s' \<Longrightarrow> P s'"
proof (induction xs arbitrary: s)
  case (Cons x xs)
  from Cons.prems(2) obtain t where t: "f s x = Ret t" "go_foldl f t xs = Ret s'"
    by (auto simp: go_simps)
  from step [OF Cons.prems(1) t(1)] have "P t" .
  from this t(2) show ?case by (rule Cons.IH)
qed simp

end
