(* ===== verification/Go_Std.thy ===== *)
theory Go_Std
  imports Prelude
begin

text \<open>
  The parts of Go's standard library that the gateway computes with: \<open>strconv\<close> and the
  \<open>fmt\<close> integer verbs, \<open>strings\<close>, the conversion of an integer to a string, and
  \<open>time\<close>. Strings are byte lists; case mapping is the ASCII one, which is what the
  code's severities, labels and host names use.
\<close>

section \<open>Decimal numbers\<close>

fun dec_nat :: "nat \<Rightarrow> string" where
  "dec_nat n = (if n < 10 then [char_of (48 + n)]
                else dec_nat (n div 10) @ [char_of (48 + n mod 10)])"

declare dec_nat.simps [simp del]

definition FormatInt :: "int \<Rightarrow> string" where
  "FormatInt x = (if x < 0 then CHR ''-'' # dec_nat (nat (- x)) else dec_nat (nat x))"

definition zero_pad :: "nat \<Rightarrow> string \<Rightarrow> string" where
  "zero_pad n s = replicate (n - length s) (CHR ''0'') @ s"

text \<open>\<open>%010d\<close> pads to a width that includes the sign, \<open>%.10d\<close> to ten digits.\<close>

definition fmt_010d :: "int \<Rightarrow> string" where
  "fmt_010d x = (if x < 0 then CHR ''-'' # zero_pad 9 (dec_nat (nat (- x)))
                 else zero_pad 10 (dec_nat (nat x)))"

definition fmt_prec10d :: "int \<Rightarrow> string" where
  "fmt_prec10d x = (if x < 0 then CHR ''-'' # zero_pad 10 (dec_nat (nat (- x)))
                    else zero_pad 10 (dec_nat (nat x)))"

definition is_digit :: "char \<Rightarrow> bool" where
  "is_digit c \<longleftrightarrow> 48 \<le> (of_char c :: nat) \<and> (of_char c :: nat) \<le> 57"

fun dec_val :: "nat \<Rightarrow> string \<Rightarrow> nat option" where
  "dec_val acc [] = Some acc"
| "dec_val acc (c # cs) =
     (if is_digit c then dec_val (10 * acc + (of_char c - 48)) cs else None)"

datatype num_error = ErrSyntax | ErrRange

text \<open>\<open>strconv.Atoi\<close> returns a value and an error; on a range error the value is clipped.\<close>

definition Atoi :: "string \<Rightarrow> int \<times> num_error option" where
  "Atoi s =
     (let neg = (case s of [] \<Rightarrow> False | c # _ \<Rightarrow> c = CHR ''-'');
          ds = (case s of [] \<Rightarrow> [] | c # cs \<Rightarrow> if c = CHR ''-'' \<or> c = CHR ''+'' then cs else s)
      in if ds = [] then (0, Some ErrSyntax)
         else case dec_val 0 ds of
             None \<Rightarrow> (0, Some ErrSyntax)
           | Some n \<Rightarrow>
               if neg then (if int n \<le> 2 ^ 63 then (- int n, None) else (- (2 ^ 63), Some ErrRange))
               else (if int n < 2 ^ 63 then (int n, None) else (2 ^ 63 - 1, Some ErrRange)))"

lemma is_digit_char_of [simp]: "d < 10 \<Longrightarrow> is_digit (char_of (48 + d :: nat))"
  by (simp add: is_digit_def)

lemma digit_value [simp]: "d < 10 \<Longrightarrow> of_char (char_of (48 + d :: nat)) = 48 + d"
  by simp

lemma dec_val_append:
  "dec_val a (xs @ ys) = (case dec_val a xs of None \<Rightarrow> None | Some b \<Rightarrow> dec_val b ys)"
  by (induction xs arbitrary: a) simp_all

lemma dec_val_dec_nat [simp]: "dec_val 0 (dec_nat n) = Some n"
proof (induction n rule: dec_nat.induct)
  case (1 n)
  show ?case
  proof (cases "n < 10")
    case True
    then show ?thesis by (simp add: dec_nat.simps [of n])
  next
    case False
    with "1.IH" have "dec_val 0 (dec_nat (n div 10)) = Some (n div 10)" by simp
    with False show ?thesis
      by (simp add: dec_nat.simps [of n] dec_val_append)
  qed
qed

lemma dec_val_zeros [simp]: "dec_val 0 (replicate k (CHR ''0'') @ s) = dec_val 0 s"
  by (induction k) (simp_all add: is_digit_def)

lemma dec_val_zero_pad [simp]: "dec_val 0 (zero_pad k s) = dec_val 0 s"
  by (simp add: zero_pad_def)

lemma dec_nat_digits: "\<forall>c \<in> set (dec_nat n). is_digit c"
proof (induction n rule: dec_nat.induct)
  case (1 n)
  then show ?case by (cases "n < 10") (auto simp: dec_nat.simps [of n])
qed

lemma dec_nat_nonempty [simp]: "dec_nat n \<noteq> []"
  by (simp add: dec_nat.simps [of n])

lemma not_digit_sign [simp]: "\<not> is_digit (CHR ''-'')" "\<not> is_digit (CHR ''+'')"
  by (simp_all add: is_digit_def)

lemma Atoi_digits:
  assumes "s \<noteq> []" and "\<forall>c \<in> set s. is_digit c" and "dec_val 0 s = Some n" and "int n < 2 ^ 63"
  shows "Atoi s = (int n, None)"
proof (cases s)
  case (Cons c cs)
  with assms(2) have "c \<noteq> CHR ''-''" "c \<noteq> CHR ''+''" by auto
  with assms Cons show ?thesis by (simp add: Atoi_def)
qed (use assms in simp)

lemma Atoi_neg_digits:
  assumes "s \<noteq> []" and "dec_val 0 s = Some n" and "int n \<le> 2 ^ 63"
  shows "Atoi (CHR ''-'' # s) = (- int n, None)"
  using assms by (simp add: Atoi_def)

lemma set_zero_pad: "\<forall>c \<in> set s. is_digit c \<Longrightarrow> \<forall>c \<in> set (zero_pad k s). is_digit c"
  by (auto simp: zero_pad_def is_digit_def)

lemma zero_pad_nonempty: "s \<noteq> [] \<Longrightarrow> zero_pad k s \<noteq> []"
  by (simp add: zero_pad_def)

lemma Atoi_FormatInt: "is_int64 x \<Longrightarrow> Atoi (FormatInt x) = (x, None)"
  by (simp add: FormatInt_def is_int64_def Atoi_neg_digits Atoi_digits dec_nat_digits)

lemma Atoi_fmt_010d: "is_int64 x \<Longrightarrow> Atoi (fmt_010d x) = (x, None)"
proof -
  assume x: "is_int64 x"
  have P: "Atoi (zero_pad k (dec_nat n)) = (int n, None)" if "int n < 2 ^ 63" for k n
    using that by (intro Atoi_digits set_zero_pad dec_nat_digits zero_pad_nonempty) simp_all
  have N: "Atoi (CHR ''-'' # zero_pad k (dec_nat n)) = (- int n, None)" if "int n \<le> 2 ^ 63" for k n
    using that by (intro Atoi_neg_digits zero_pad_nonempty) simp_all
  from x show ?thesis by (simp add: fmt_010d_def is_int64_def P N)
qed

lemma FormatInt_inject:
  assumes "FormatInt x = FormatInt y"
  shows "x = y"
proof -
  have D: "dec_nat a = dec_nat b \<Longrightarrow> a = b" for a b
    using dec_val_dec_nat by (metis option.inject)
  have M: "CHR ''-'' # dec_nat a \<noteq> dec_nat b" for a b
    using dec_nat_digits [of b] by (metis list.set_intros(1) not_digit_sign(1))
  from assms D M M [symmetric] show ?thesis
    by (fastforce simp: FormatInt_def nat_eq_iff split: if_splits)
qed

lemma length_zero_pad: "n \<le> length (zero_pad n s)"
  by (simp add: zero_pad_def)

section \<open>Strings\<close>

definition HasPrefix :: "string \<Rightarrow> string \<Rightarrow> bool" where
  "HasPrefix s p \<longleftrightarrow> take (length p) s = p"

definition HasSuffix :: "string \<Rightarrow> string \<Rightarrow> bool" where
  "HasSuffix s p \<longleftrightarrow> HasPrefix (rev s) (rev p)"

fun Contains :: "string \<Rightarrow> string \<Rightarrow> bool" where
  "Contains [] sub = (sub = [])"
| "Contains (c # s) sub = (HasPrefix (c # s) sub \<or> Contains s sub)"

text \<open>\<open>strings.Split\<close> with a separator of one character, the only kind the code uses.\<close>

fun Split :: "string \<Rightarrow> char \<Rightarrow> string list" where
  "Split [] sep = [[]]"
| "Split (c # s) sep =
     (if c = sep then [] # Split s sep
      else (case Split s sep of p # ps \<Rightarrow> (c # p) # ps | [] \<Rightarrow> [[c]]))"

definition TrimLeft :: "string \<Rightarrow> char \<Rightarrow> string" where
  "TrimLeft s c = dropWhile (\<lambda>x. x = c) s"

definition TrimRight :: "string \<Rightarrow> char \<Rightarrow> string" where
  "TrimRight s c = rev (dropWhile (\<lambda>x. x = c) (rev s))"

definition TrimSuffix :: "string \<Rightarrow> string \<Rightarrow> string" where
  "TrimSuffix s p = (if HasSuffix s p then take (length s - length p) s else s)"

text \<open>\<open>strings.Replace s old new 1\<close> for one-character arguments.\<close>

fun Replace1 :: "string \<Rightarrow> char \<Rightarrow> char \<Rightarrow> string" where
  "Replace1 [] old new = []"
| "Replace1 (c # s) old new = (if c = old then new # s else c # Replace1 s old new)"

definition upper_char :: "char \<Rightarrow> char" where
  "upper_char c = (let n = (of_char c :: nat) in if 97 \<le> n \<and> n \<le> 122 then char_of (n - 32) else c)"

definition lower_char :: "char \<Rightarrow> char" where
  "lower_char c = (let n = (of_char c :: nat) in if 65 \<le> n \<and> n \<le> 90 then char_of (n + 32) else c)"

definition ToUpper :: "string \<Rightarrow> string" where
  "ToUpper s = map upper_char s"

definition ToLower :: "string \<Rightarrow> string" where
  "ToLower s = map lower_char s"

text \<open>\<open>strings.Title\<close>: a letter after a separator is mapped to upper case.\<close>

definition title_sep :: "char \<Rightarrow> bool" where
  "title_sep c \<longleftrightarrow> (let n = (of_char c :: nat) in
     n < 128 \<and> \<not> (48 \<le> n \<and> n \<le> 57) \<and> \<not> (65 \<le> n \<and> n \<le> 90) \<and> \<not> (97 \<le> n \<and> n \<le> 122) \<and> n \<noteq> 95)"

fun title_from :: "bool \<Rightarrow> string \<Rightarrow> string" where
  "title_from b [] = []"
| "title_from b (c # s) = (if b then upper_char c else c) # title_from (title_sep c) s"

definition Title :: "string \<Rightarrow> string" where
  "Title s = title_from True s"

lemma Split_nonempty [simp]: "Split s sep \<noteq> []"
  by (cases s) (simp_all split: list.split)

lemma Split_no_sep: "\<forall>p \<in> set (Split s sep). sep \<notin> set p"
proof (induction s)
  case (Cons c s)
  then show ?case by (auto split: list.splits)
qed simp

lemma Split_absent: "sep \<notin> set s \<Longrightarrow> Split s sep = [s]"
  by (induction s) auto

lemma Split_at: "sep \<notin> set p \<Longrightarrow> Split (p @ sep # s) sep = p # Split s sep"
  by (induction p) auto

lemma Contains_char: "Contains s [c] \<longleftrightarrow> c \<in> set s"
  by (induction s) (auto simp: HasPrefix_def)

lemma HasPrefix_append [simp]: "HasPrefix (p @ s) p"
  by (simp add: HasPrefix_def)

lemma HasSuffix_append [simp]: "HasSuffix (s @ p) p"
  by (simp add: HasSuffix_def)

lemma TrimSuffix_append: "TrimSuffix (s @ p) p = s"
  by (simp add: TrimSuffix_def)

lemma TrimLeft_no_prefix: "\<not> HasPrefix (TrimLeft s c) [c]"
  by (induction s) (simp_all add: TrimLeft_def HasPrefix_def)

section \<open>Conversion of an integer to a string\<close>

text \<open>
  \<open>string(x)\<close> of an integer is the UTF-8 encoding of the code point \<open>x\<close>, and the
  encoding of U+FFFD when \<open>x\<close> is not a code point. It is not the decimal notation.
\<close>

definition byte :: "int \<Rightarrow> char" where
  "byte n = char_of (nat n)"

definition string_of_rune :: "int \<Rightarrow> string" where
  "string_of_rune x =
     (if x < 0 \<or> x > 1114111 \<or> (55296 \<le> x \<and> x \<le> 57343) then [byte 239, byte 191, byte 189]
      else if x < 128 then [byte x]
      else if x < 2048 then [byte (192 + x div 64), byte (128 + x mod 64)]
      else if x < 65536 then
        [byte (224 + x div 4096), byte (128 + x div 64 mod 64), byte (128 + x mod 64)]
      else [byte (240 + x div 262144), byte (128 + x div 4096 mod 64),
            byte (128 + x div 64 mod 64), byte (128 + x mod 64)])"

lemma byte_eq_iff: "0 \<le> a \<Longrightarrow> a < 256 \<Longrightarrow> 0 \<le> b \<Longrightarrow> b < 256 \<Longrightarrow> byte a = byte b \<longleftrightarrow> a = b"
proof
  assume A: "0 \<le> a" "a < 256" "0 \<le> b" "b < 256" and "byte a = byte b"
  then have "(of_char (char_of (nat a)) :: nat) = of_char (char_of (nat b))"
    by (simp add: byte_def)
  with A show "a = b" by simp
qed simp

section \<open>Time\<close>

text \<open>
  A \<open>time.Time\<close> is the number of nanoseconds since Go's zero time (year 1), a
  \<open>time.Duration\<close> a number of nanoseconds. \<open>Truncate\<close> and \<open>Round\<close> work relative to
  the zero time and leave the time alone when the duration is not positive.
\<close>

type_synonym time = int
type_synonym duration = int

abbreviation second :: duration where
  "second \<equiv> 1000000000"

definition unix_epoch :: time where
  "unix_epoch = 62135596800 * 1000000000"

definition IsZero :: "time \<Rightarrow> bool" where
  "IsZero t \<longleftrightarrow> t = 0"

definition Truncate :: "time \<Rightarrow> duration \<Rightarrow> time" where
  "Truncate t d = (if d \<le> 0 then t else t - t mod d)"

definition Round :: "time \<Rightarrow> duration \<Rightarrow> time" where
  "Round t d = (if d \<le> 0 then t
     else let r = t mod d in if r + r < d then t - r else t + (d - r))"

definition Unix :: "time \<Rightarrow> int" where
  "Unix t = (t - unix_epoch) div second"

definition time_Unix :: "int \<Rightarrow> time" where
  "time_Unix s = unix_epoch + s * second"

definition UnixNano :: "time \<Rightarrow> int" where
  "UnixNano t = wrap64 (t - unix_epoch)"

lemma Truncate_le: "Truncate t d \<le> t"
  by (simp add: Truncate_def)

lemma Truncate_gt: "0 < d \<Longrightarrow> t < Truncate t d + d"
  using pos_mod_bound [of d t] by (simp add: Truncate_def)

lemma Truncate_multiple: "0 < d \<Longrightarrow> d dvd Truncate t d"
  by (simp add: Truncate_def minus_mod_eq_mult_div)

lemma Round_multiple: "0 < d \<Longrightarrow> d dvd Round t d"
proof -
  have "t + (d - t mod d) = d * (t div d + 1)"
    using mult_div_mod_eq [of d t] by (simp add: algebra_simps)
  then show "0 < d \<Longrightarrow> d dvd Round t d"
    by (simp add: Round_def Let_def minus_mod_eq_mult_div)
qed

lemma Round_nearest:
  assumes "0 < d"
  shows "2 * \<bar>Round t d - t\<bar> \<le> d"
proof -
  define r where "r = t mod d"
  have "0 \<le> r" "r < d" using assms by (simp_all add: r_def)
  moreover have "Round t d - t = (if r + r < d then - r else d - r)"
    using assms by (simp add: Round_def Let_def r_def)
  ultimately show ?thesis by (simp add: abs_if)
qed

lemma Round_dvd_id: "d dvd t \<Longrightarrow> Round t d = t"
  by (simp add: Round_def Let_def)

lemma time_Unix_Unix: "time_Unix (Unix t) = Truncate t second"
proof -
  have "second dvd unix_epoch" by (simp add: unix_epoch_def)
  then have "(t - unix_epoch) mod second = t mod second"
    by (metis dvd_imp_mod_0 diff_zero mod_diff_right_eq)
  then show ?thesis
    using minus_mod_eq_div_mult [of "t - unix_epoch" second]
    by (simp add: time_Unix_def Unix_def Truncate_def)
qed

lemma Unix_time_Unix: "Unix (time_Unix s) = s"
  by (simp add: time_Unix_def Unix_def)

section \<open>Replacing and joining paths\<close>

text \<open>\<open>strings.Replace(s, old, new, -1)\<close> for a non-empty \<open>old\<close>.\<close>

function ReplaceAll :: "string \<Rightarrow> string \<Rightarrow> string \<Rightarrow> string" where
  "ReplaceAll [] old new = []"
| "ReplaceAll (c # s) old new =
     (if old \<noteq> [] \<and> HasPrefix (c # s) old then new @ ReplaceAll (drop (length old) (c # s)) old new
      else c # ReplaceAll s old new)"
  by pat_completeness auto
termination
proof (relation "measure (\<lambda>(s, _, _). length s)")
  fix c :: char and s old new :: string
  assume "old \<noteq> [] \<and> HasPrefix (c # s) old"
  then show "((drop (length old) (c # s), old, new), c # s, old, new) \<in> measure (\<lambda>(s, _, _). length s)"
    by (cases old) auto
qed auto

text \<open>\<open>path.Clean\<close> on the elements of a path, and \<open>path.Join\<close> of two of them.\<close>

fun clean_elems :: "bool \<Rightarrow> string list \<Rightarrow> string list \<Rightarrow> string list" where
  "clean_elems rooted acc [] = rev acc"
| "clean_elems rooted acc (e # es) =
     (if e = [] \<or> e = ''.'' then clean_elems rooted acc es
      else if e = ''..'' then
        (case acc of
           [] \<Rightarrow> clean_elems rooted (if rooted then [] else [e]) es
         | a # acc' \<Rightarrow> if a = ''..'' then clean_elems rooted (e # acc) es else clean_elems rooted acc' es)
      else clean_elems rooted (e # acc) es)"

fun join_with :: "string \<Rightarrow> string list \<Rightarrow> string" where
  "join_with sep [] = []"
| "join_with sep [x] = x"
| "join_with sep (x # y # ys) = x @ sep @ join_with sep (y # ys)"

definition path_Clean :: "string \<Rightarrow> string" where
  "path_Clean p =
     (if p = [] then ''.''
      else
        (let rooted = HasPrefix p ''/'';
             body = join_with ''/'' (clean_elems rooted [] (Split p (CHR ''/'')))
         in if rooted then CHR ''/'' # body else if body = [] then ''.'' else body))"

definition path_Join :: "string \<Rightarrow> string \<Rightarrow> string" where
  "path_Join a b =
     (if a = [] \<and> b = [] then []
      else if a = [] then path_Clean b
      else if b = [] then path_Clean a
      else path_Clean (a @ ''/'' @ b))"

section \<open>JSON values\<close>

text \<open>
  A value of type \<open>interface{}\<close> that came from JSON, and the tree that
  \<open>encoding/json\<close> writes as text and reads back. Numbers are the integers the code uses.
\<close>

datatype json =
    JNull
  | JBool bool
  | JNum int
  | JStr string
  | JArr "json list"
  | JObj "(string \<times> json) list"

text \<open>A key of an object; where a key occurs twice the last one counts.\<close>

definition jget :: "(string \<times> json) list \<Rightarrow> string \<Rightarrow> json option" where
  "jget kvs k = map_of (rev kvs) k"

text \<open>
  The text that \<open>json.Marshal\<close> writes, with its escapes: the quote, the backslash, the control
  characters, and the three HTML characters. Bytes above 127 are copied.
\<close>

definition hex_digit :: "nat \<Rightarrow> char" where
  "hex_digit n = char_of (if n < 10 then 48 + n else 87 + n)"

definition json_escape :: "char \<Rightarrow> string" where
  "json_escape c =
     (let n = (of_char c :: nat); bs = CHR 0x5C
      in if n = 34 \<or> n = 92 then [bs, c]
         else if n = 10 then [bs, CHR ''n''] else if n = 13 then [bs, CHR ''r'']
         else if n = 9 then [bs, CHR ''t'']
         else if n < 32 \<or> n = 60 \<or> n = 62 \<or> n = 38
           then [bs, CHR ''u'', CHR ''0'', CHR ''0'', hex_digit (n div 16), hex_digit (n mod 16)]
         else [c])"

definition json_string :: "string \<Rightarrow> string" where
  "json_string s = CHR 0x22 # concat (map json_escape s) @ [CHR 0x22]"

fun json_text :: "json \<Rightarrow> string" where
  "json_text JNull = ''null''"
| "json_text (JBool b) = (if b then ''true'' else ''false'')"
| "json_text (JNum n) = FormatInt n"
| "json_text (JStr s) = json_string s"
| "json_text (JArr js) = ''['' @ join_with '','' (map json_text js) @ '']''"
| "json_text (JObj kvs) = ''{'' @ join_with '','' (map (\<lambda>(k, v). json_string k @ '':'' @ json_text v) kvs) @ ''}''"

end
