(* ===== verification/Go_Date.thy ===== *)
theory Go_Date
  imports Go_Std
begin

text \<open>
  The calendar and the RFC 3339 texts of Go's \<open>time\<close> package, which \<open>encoding/json\<close> uses for a
  \<open>time.Time\<close>: the proleptic Gregorian date of an instant, the text of an instant in UTC, the
  parser of such texts, and that the parser reads back what the printer writes.
\<close>

section \<open>The calendar\<close>

text \<open>Day 0 is the first of January of year 1, the zero time.\<close>

definition days_before_year :: "int \<Rightarrow> int" where
  "days_before_year y = 365 * (y - 1) + (y - 1) div 4 - (y - 1) div 100 + (y - 1) div 400"

definition is_leap :: "int \<Rightarrow> bool" where
  "is_leap y \<longleftrightarrow> y mod 4 = 0 \<and> (y mod 100 \<noteq> 0 \<or> y mod 400 = 0)"

text \<open>\<open>absDate\<close>: cycles of 400, 100, 4 and 1 years, where the last century of a cycle and the last
  year of four are one day longer.\<close>

definition year_of_day :: "int \<Rightarrow> int" where
  "year_of_day d =
     (let q = d div 146097; r = d mod 146097;
          a = r div 36524 - r div 36524 div 4; r1 = r - 36524 * a;
          b = r1 div 1461; r2 = r1 - 1461 * b;
          c = r2 div 365 - r2 div 365 div 4
      in 400 * q + 100 * a + 4 * b + c + 1)"

definition days_before_month :: "bool \<Rightarrow> nat \<Rightarrow> int" where
  "days_before_month leap m =
     [0, 0, 31, 59, 90, 120, 151, 181, 212, 243, 273, 304, 334, 365] ! m + (if leap \<and> 2 < m then 1 else 0)"

definition month_of :: "bool \<Rightarrow> int \<Rightarrow> nat" where
  "month_of leap yd = length (filter (\<lambda>m. days_before_month leap m \<le> yd) [1..<13])"

lemma div_mod_of_sum:
  assumes "0 \<le> s" and "s < (k :: int)"
  shows "(k * q + s) div k = q" and "(k * q + s) mod k = s"
  using assms by simp_all

lemma div_between: "0 < (k :: int) \<Longrightarrow> k * (x div k) \<le> x \<and> x < k * (x div k) + k"
  using pos_mod_sign [of k x] pos_mod_bound [of k x] mult_div_mod_eq [of k x] by linarith

text \<open>The last part of a cycle takes the odd day: a quotient that may reach four is capped at three.\<close>

lemma capped_div:
  fixes x k :: int
  assumes "0 \<le> x" and "x < 4 * k + k" and "0 < k"
  shows "0 \<le> x div k - x div k div 4 \<and> x div k - x div k div 4 \<le> 3 \<and>
     k * (x div k - x div k div 4) \<le> x \<and>
     (x < k * (x div k - x div k div 4) + k \<or> x div k - x div k div 4 = 3 \<and> 4 * k \<le> x)"
proof -
  define n where "n = x div k"
  have n: "k * n \<le> x" "x < k * n + k" using div_between [OF assms(3), of x] by (simp_all add: n_def)
  have "0 \<le> n" using assms(1,3) by (simp add: n_def pos_imp_zdiv_nonneg_iff)
  moreover have "n < 5"
  proof (rule ccontr)
    assume "\<not> n < 5"
    then have "k * 5 \<le> k * n" using assms(3) by simp
    with n(1) assms(2) show False by linarith
  qed
  ultimately consider "n div 4 = 0" "0 \<le> n" "n \<le> 3" | "n = 4" by force
  then show ?thesis
  proof cases
    case 1
    with n show ?thesis by (simp add: n_def [symmetric])
  next
    case 2
    with n show ?thesis using assms(3) by (simp add: n_def [symmetric])
  qed
qed

definition year_digits :: "int \<Rightarrow> int \<Rightarrow> int \<Rightarrow> bool" where
  "year_digits a b c \<longleftrightarrow> 0 \<le> a \<and> a \<le> 3 \<and> 0 \<le> b \<and> b \<le> 24 \<and> 0 \<le> c \<and> c \<le> 3"

lemma days_before_year_cycles:
  assumes "year_digits a b c"
  shows "days_before_year (400 * q + 100 * a + 4 * b + c + 1) = 146097 * q + 36524 * a + 1461 * b + 365 * c"
proof -
  let ?y = "400 * q + 100 * a + 4 * b + c"
  note d = assms [unfolded year_digits_def]
  have "?y div 4 = 100 * q + 25 * a + b"
    using d div_mod_of_sum(1) [of c 4 "100 * q + 25 * a + b"] by (simp add: algebra_simps)
  moreover have "?y div 100 = 4 * q + a"
    using d div_mod_of_sum(1) [of "4 * b + c" 100 "4 * q + a"] by (simp add: algebra_simps)
  moreover have "?y div 400 = q"
    using d div_mod_of_sum(1) [of "100 * a + 4 * b + c" 400 q] by (simp add: algebra_simps)
  ultimately show ?thesis by (simp add: days_before_year_def)
qed

lemma is_leap_cycles:
  assumes "year_digits a b c"
  shows "is_leap (400 * q + 100 * a + 4 * b + c + 1) \<longleftrightarrow> c = 3 \<and> (b \<noteq> 24 \<or> a = 3)"
proof -
  let ?y = "400 * q + 100 * a + 4 * b + c + 1"
  note d = assms [unfolded year_digits_def]
  have y4: "?y = 4 * (100 * q + 25 * a + b) + (c + 1)" by simp
  have y100: "?y = 100 * (4 * q + a) + (4 * b + (c + 1))" by simp
  show ?thesis
  proof (cases "c = 3")
    case False
    with d have "0 \<le> c + 1" "c + 1 < 4" "c + 1 \<noteq> 0" by simp_all
    then have "?y mod 4 \<noteq> 0" unfolding y4 by (simp only: div_mod_of_sum not_False_eq_True)
    with False show ?thesis by (simp add: is_leap_def)
  next
    case True
    have m4: "?y mod 4 = 0" unfolding y4 True by simp
    show ?thesis
    proof (cases "b = 24")
      case False
      with d have b: "0 \<le> 4 * b + 4" "4 * b + 4 < 100" "4 * b + 4 \<noteq> 0" by simp_all
      have "?y mod 100 = 4 * b + 4"
        unfolding y100 True using div_mod_of_sum(2) [OF b(1,2), of "4 * q + a"]
        by (simp add: algebra_simps)
      with b m4 True False show ?thesis by (simp add: is_leap_def)
    next
      case b: True
      have "?y mod 100 = 0"
      proof -
        have "?y = 100 * (4 * q + a + 1)" unfolding b True by simp
        then show ?thesis by (simp only: mod_mult_self1_is_0)
      qed
      moreover have "?y mod 400 = 0 \<longleftrightarrow> a = 3"
      proof (cases "a = 3")
        case a: True
        have "?y = 400 * (q + 1)" unfolding a b True by simp
        with a show ?thesis by (simp only: mod_mult_self1_is_0 refl)
      next
        case False
        have y400: "?y = 400 * q + 100 * (a + 1)" unfolding b True by simp
        from d False have "0 \<le> 100 * (a + 1)" "100 * (a + 1) < 400" by simp_all
        then have m: "?y mod 400 = 100 * (a + 1)" unfolding y400 by (rule div_mod_of_sum)
        have "100 * (a + 1) \<noteq> 0" using d by simp
        with False show ?thesis by (simp only: m)
      qed
      ultimately show ?thesis using m4 True b by (simp add: is_leap_def)
    qed
  qed
qed

lemma year_cycles:
  obtains q a b c where "year_digits a b c" "y = 400 * q + 100 * a + 4 * b + c + 1"
proof -
  define q r where "q = (y - 1) div 400" and "r = (y - 1) mod 400"
  define a r1 where "a = r div 100" and "r1 = r mod 100"
  define b c where "b = r1 div 4" and "c = r1 mod 4"
  have "400 * q + r = y - 1" by (simp only: q_def r_def mult_div_mod_eq)
  moreover have "100 * a + r1 = r" by (simp only: a_def r1_def mult_div_mod_eq)
  moreover have "4 * b + c = r1" by (simp only: b_def c_def mult_div_mod_eq)
  ultimately have y: "y = 400 * q + 100 * a + 4 * b + c + 1" by linarith
  have "0 \<le> r" "r < 400" "0 \<le> r1" "r1 < 100" "0 \<le> c" "c < 4" by (simp_all add: r_def r1_def c_def)
  with \<open>100 * a + r1 = r\<close> \<open>4 * b + c = r1\<close> have "year_digits a b c"
    unfolding year_digits_def by linarith
  with y show ?thesis by (rule that [rotated])
qed

lemma days_in_year: "days_before_year (y + 1) = days_before_year y + (if is_leap y then 366 else 365)"
proof -
  obtain q a b c where d: "year_digits a b c" and y: "y = 400 * q + 100 * a + 4 * b + c + 1"
    by (rule year_cycles)
  consider "c < 3" | "c = 3" "b < 24" | "c = 3" "b = 24" "a < 3" | "c = 3" "b = 24" "a = 3"
    using d unfolding year_digits_def by linarith
  then obtain q' a' b' c' where d': "year_digits a' b' c'"
    and y': "y + 1 = 400 * q' + 100 * a' + 4 * b' + c' + 1"
    and n: "146097 * q' + 36524 * a' + 1461 * b' + 365 * c' =
      146097 * q + 36524 * a + 1461 * b + 365 * c + (if c = 3 \<and> (b \<noteq> 24 \<or> a = 3) then 366 else 365)"
  proof cases
    case 1
    then show ?thesis using d y by (intro that [of a b "c + 1" q]) (simp_all add: year_digits_def)
  next
    case 2
    then show ?thesis using d y by (intro that [of a "b + 1" 0 q]) (simp_all add: year_digits_def)
  next
    case 3
    then show ?thesis using d y by (intro that [of "a + 1" 0 0 q]) (simp_all add: year_digits_def)
  next
    case 4
    then show ?thesis using d y by (intro that [of 0 0 0 "q + 1"]) (simp_all add: year_digits_def)
  qed
  show ?thesis
    unfolding y' days_before_year_cycles [OF d'] n
    unfolding y days_before_year_cycles [OF d] is_leap_cycles [OF d] ..
qed

lemma year_of_day_bounds:
  "days_before_year (year_of_day d) \<le> d \<and> d < days_before_year (year_of_day d + 1)"
proof -
  define q r where "q = d div 146097" and "r = d mod 146097"
  define a where "a = r div 36524 - r div 36524 div 4"
  define r1 where "r1 = r - 36524 * a"
  define b where "b = r1 div 1461"
  define r2 where "r2 = r1 - 1461 * b"
  define c where "c = r2 div 365 - r2 div 365 div 4"
  have d: "d = 146097 * q + r" by (simp add: q_def r_def)
  have r: "0 \<le> r" "r < 146097" by (simp_all add: r_def)
  have a: "0 \<le> a" "a \<le> 3" and r1: "0 \<le> r1" "r1 < 36524 \<or> a = 3 \<and> r1 < 36525"
    using r capped_div [of r 36524] unfolding r1_def a_def by auto
  have b: "0 \<le> b" "b \<le> 24" and r2: "0 \<le> r2" "r2 < 1461" "b = 24 \<Longrightarrow> a \<noteq> 3 \<Longrightarrow> r2 < 1460"
    using r1 div_between [of 1461 r1] unfolding r2_def b_def by auto
  have c: "0 \<le> c" "c \<le> 3" and r3: "365 * c \<le> r2" "r2 < 365 * c + 365 \<or> c = 3 \<and> r2 < 1461"
    using r2(1,2) capped_div [of r2 365] unfolding c_def by auto
  have abc: "year_digits a b c" using a b c by (simp add: year_digits_def)
  have y: "year_of_day d = 400 * q + 100 * a + 4 * b + c + 1"
    by (simp add: year_of_day_def q_def r_def a_def r1_def b_def r2_def c_def Let_def)
  have D: "days_before_year (year_of_day d) = d - r2 + 365 * c"
    unfolding y days_before_year_cycles [OF abc] by (simp add: d r1_def r2_def)
  have "r2 < 365 * c + (if is_leap (year_of_day d) then 366 else 365)"
    using r3(2) r2(3) unfolding y is_leap_cycles [OF abc] by (auto split: if_splits)
  with D r3(1) show ?thesis by (simp add: days_in_year)
qed

lemma month_of_bounds:
  assumes "0 \<le> yd" and "yd < (if leap then 366 else 365)"
  shows "month_of leap yd \<in> {1..12} \<and> days_before_month leap (month_of leap yd) \<le> yd \<and>
     yd < days_before_month leap (Suc (month_of leap yd))"
proof -
  have "[1..<13] = [1, 2, 3, 4, 5, 6, 7, 8, 9, 10, 11, 12 :: nat]" by (simp add: upt_rec)
  then show ?thesis using assms by (cases leap) (auto simp: month_of_def days_before_month_def)
qed

section \<open>The text of an instant\<close>

definition day_ns :: int where
  "day_ns = 86400 * 1000000000"

definition time_Year :: "time \<Rightarrow> int" where
  "time_Year t = year_of_day (t div day_ns)"

definition num_text :: "nat \<Rightarrow> int \<Rightarrow> string" where
  "num_text w n = zero_pad w (dec_nat (nat n))"

text \<open>\<open>.999999999\<close>: the fraction of the second without its trailing zeros, nothing for a whole second.\<close>

definition frac_text :: "int \<Rightarrow> string" where
  "frac_text ns = (if ns = 0 then [] else CHR ''.'' # TrimRight (num_text 9 ns) (CHR ''0''))"

text \<open>The date and the time of day to the second, as the layout \<open>2006-01-02T15:04:05\<close> prints them.\<close>

definition clock_text :: "time \<Rightarrow> string" where
  "clock_text t =
     (let d = t div day_ns; ns = t mod day_ns; y = year_of_day d; leap = is_leap y;
          yd = d - days_before_year y; m = month_of leap yd; s = ns div second
      in num_text 4 y @ ''-'' @ num_text 2 (int m) @ ''-'' @ num_text 2 (yd - days_before_month leap m + 1) @ ''T'' @
         num_text 2 (s div 3600) @ '':'' @ num_text 2 (s mod 3600 div 60) @ '':'' @ num_text 2 (s mod 60))"

text \<open>\<open>Format(RFC3339Nano)\<close> of a time in UTC.\<close>

definition format_rfc3339 :: "time \<Rightarrow> string" where
  "format_rfc3339 t = clock_text t @ frac_text (t mod day_ns mod second) @ ''Z''"

text \<open>\<open>Time.MarshalJSON\<close> refuses years of more than four digits.\<close>

definition time_MarshalJSON :: "time \<Rightarrow> string option" where
  "time_MarshalJSON t = (if time_Year t < 0 \<or> 10000 \<le> time_Year t then None else Some (format_rfc3339 t))"

section \<open>Reading the text of an instant\<close>

text \<open>A number of exactly \<open>w\<close> digits and the rest of the text.\<close>

definition take_num :: "nat \<Rightarrow> string \<Rightarrow> (nat \<times> string) option" where
  "take_num w s = (if length s < w then None else map_option (\<lambda>n. (n, drop w s)) (dec_val 0 (take w s)))"

definition take_char :: "char \<Rightarrow> string \<Rightarrow> string option" where
  "take_char c s = (case s of [] \<Rightarrow> None | x # r \<Rightarrow> if x = c then Some r else None)"

text \<open>The hour may have one digit (\<open>getnum\<close> without \<open>fixed\<close>).\<close>

definition take_hour :: "string \<Rightarrow> (nat \<times> string) option" where
  "take_hour s = (case take_num 2 s of Some r \<Rightarrow> Some r | None \<Rightarrow> take_num 1 s)"

text \<open>The fraction after the seconds: a dot followed by a digit. Its value must be below one billion,
  whatever the number of digits.\<close>

definition take_frac :: "string \<Rightarrow> (nat \<times> string) option" where
  "take_frac s =
     (case s of
        c # d # r \<Rightarrow>
          if c = CHR ''.'' \<and> is_digit d then
            (let f = takeWhile is_digit (d # r)
             in case dec_val 0 f of
                  None \<Rightarrow> None
                | Some n \<Rightarrow> if n < 10 ^ 9 then Some (n * 10 ^ (9 - length f), drop (length f) (d # r)) else None)
          else Some (0, s)
      | _ \<Rightarrow> Some (0, s))"

text \<open>\<open>Z\<close>, or a sign, hours and minutes; the offset in seconds.\<close>

definition take_zone :: "string \<Rightarrow> (int \<times> string) option" where
  "take_zone s =
     (case s of
        [] \<Rightarrow> None
      | c # r \<Rightarrow>
          if c = CHR ''Z'' then Some (0, r)
          else if c = CHR ''+'' \<or> c = CHR ''-'' then
            Option.bind (take_num 2 r) (\<lambda>(h, r). Option.bind (take_char (CHR '':'') r) (\<lambda>r.
            Option.bind (take_num 2 r) (\<lambda>(m, r).
              Some ((if c = CHR ''-'' then -1 else 1) * int (h * 3600 + m * 60), r))))
          else None)"

definition date_time :: "nat \<Rightarrow> nat \<Rightarrow> nat \<Rightarrow> nat \<Rightarrow> nat \<Rightarrow> nat \<Rightarrow> nat \<Rightarrow> int \<Rightarrow> time option" where
  "date_time y m d h mi s ns off =
     (if m < 1 \<or> 12 < m \<or> d < 1 \<or>
         days_before_month (is_leap (int y)) (Suc m) - days_before_month (is_leap (int y)) m < int d \<or>
         24 \<le> h \<or> 60 \<le> mi \<or> 60 \<le> s then None
      else Some ((days_before_year (int y) + days_before_month (is_leap (int y)) m + int d - 1) * day_ns +
        (int (h * 3600 + mi * 60 + s) - off) * second + int ns))"

definition parse_rfc3339 :: "string \<Rightarrow> time option" where
  "parse_rfc3339 v =
     Option.bind (take_num 4 v) (\<lambda>(y, v). Option.bind (take_char (CHR ''-'') v) (\<lambda>v.
     Option.bind (take_num 2 v) (\<lambda>(m, v). Option.bind (take_char (CHR ''-'') v) (\<lambda>v.
     Option.bind (take_num 2 v) (\<lambda>(d, v). Option.bind (take_char (CHR ''T'') v) (\<lambda>v.
     Option.bind (take_hour v) (\<lambda>(h, v). Option.bind (take_char (CHR '':'') v) (\<lambda>v.
     Option.bind (take_num 2 v) (\<lambda>(mi, v). Option.bind (take_char (CHR '':'') v) (\<lambda>v.
     Option.bind (take_num 2 v) (\<lambda>(s, v). Option.bind (take_frac v) (\<lambda>(ns, v).
     Option.bind (take_zone v) (\<lambda>(off, v).
       if v = [] then date_time y m d h mi s ns off else None)))))))))))))"

section \<open>The parser reads what the printer writes\<close>

lemma length_dec_nat: "n < 10 ^ Suc k \<Longrightarrow> length (dec_nat n) \<le> Suc k"
proof (induction k arbitrary: n)
  case (Suc k)
  have "n div 10 < 10 ^ Suc k" using Suc.prems by (simp add: less_mult_imp_div_less mult.commute)
  from Suc.IH [OF this] show ?case by (simp add: dec_nat.simps [of n])
qed (simp add: dec_nat.simps)

lemma length_num_text: "0 \<le> n \<Longrightarrow> n < 10 ^ w \<Longrightarrow> 0 < w \<Longrightarrow> length (num_text w n) = w"
  using length_dec_nat [of "nat n" "w - 1"]
  by (cases w) (simp_all add: num_text_def zero_pad_def nat_less_iff)

lemma take_num_text:
  assumes "0 \<le> n" "n < 10 ^ w" "0 < w"
  shows "take_num w (num_text w n @ s) = Some (nat n, s)"
proof -
  have "length (num_text w n) = w" using assms by (rule length_num_text)
  then show ?thesis by (simp add: take_num_def) (simp add: num_text_def)
qed

lemma take_char_Cons [simp]: "take_char c (c # s) = Some s"
  by (simp add: take_char_def)

lemma dec_val_zeros_scale: "dec_val n (replicate k (CHR ''0'')) = Some (n * 10 ^ k)"
  by (induction k arbitrary: n) (simp_all add: is_digit_def)

lemma dec_val_digits: "\<forall>c \<in> set s. is_digit c \<Longrightarrow> \<exists>n. dec_val a s = Some n"
  by (induction s arbitrary: a) simp_all

lemma TrimRight_zeros: "\<exists>k. s = TrimRight s c @ replicate k c"
proof -
  have "rev s = takeWhile (\<lambda>x. x = c) (rev s) @ dropWhile (\<lambda>x. x = c) (rev s)" by simp
  then have "s = rev (dropWhile (\<lambda>x. x = c) (rev s)) @ rev (takeWhile (\<lambda>x. x = c) (rev s))"
    by (metis rev_append rev_rev_ident)
  moreover have "rev (takeWhile (\<lambda>x. x = c) (rev s)) = replicate (length (takeWhile (\<lambda>x. x = c) (rev s))) c"
    by (metis (full_types) replicate_length_same rev_replicate set_takeWhileD)
  ultimately show ?thesis unfolding TrimRight_def by metis
qed

lemma take_frac_digits:
  assumes "f \<noteq> []" "\<forall>c \<in> set f. is_digit c" "dec_val 0 f = Some m" "m < 10 ^ 9"
  shows "take_frac (CHR ''.'' # f @ ''Z'') = Some (m * 10 ^ (9 - length f), ''Z'')"
proof (cases f)
  case (Cons d r)
  have "takeWhile is_digit (r @ ''Z'') = r"
    using assms(2) Cons by (subst takeWhile_append2) (auto simp: is_digit_def)
  then show ?thesis using assms Cons by (simp add: take_frac_def del: dec_val.simps)
qed (use assms in simp)

lemma num_text_digits: "\<forall>c \<in> set (num_text w n). is_digit c"
  unfolding num_text_def by (intro set_zero_pad dec_nat_digits)

lemma dec_val_num_text: "dec_val 0 (num_text w n) = Some (nat n)"
  by (simp add: num_text_def)

lemma take_frac_full:
  assumes "0 \<le> n" "n < 10 ^ 9"
  shows "take_frac (CHR ''.'' # num_text 9 n @ ''Z'') = Some (nat n, ''Z'')"
proof -
  have "length (num_text 9 n) = 9" using assms by (intro length_num_text) simp_all
  moreover have "nat n < 10 ^ 9" using assms by simp
  ultimately show ?thesis
    using take_frac_digits [OF _ num_text_digits dec_val_num_text, of 9 n] by fastforce
qed

lemma take_frac_text:
  assumes "0 \<le> ns" "ns < 10 ^ 9"
  shows "take_frac (frac_text ns @ ''Z'') = Some (nat ns, ''Z'')"
proof (cases "ns = 0")
  case True
  then show ?thesis by (simp add: frac_text_def take_frac_def)
next
  case False
  define f where "f = TrimRight (num_text 9 ns) (CHR ''0'')"
  obtain k where k: "num_text 9 ns = f @ replicate k (CHR ''0'')"
    unfolding f_def using TrimRight_zeros by blast
  have len: "length f + k = 9"
    using length_num_text [of ns 9] assms arg_cong [OF k, of length] by simp
  have digits: "\<forall>c \<in> set f. is_digit c" using num_text_digits [of 9 ns] by (simp add: k)
  then obtain m where m: "dec_val 0 f = Some m" using dec_val_digits by blast
  with dec_val_num_text [of 9 ns] have v: "m * 10 ^ k = nat ns"
    by (simp add: k dec_val_append dec_val_zeros_scale)
  have "m * 1 \<le> m * 10 ^ k" by (intro mult_le_mono2) simp
  then have "m \<le> nat ns" by (simp only: v mult_1_right)
  moreover have "nat ns < 10 ^ 9" using assms by simp
  ultimately have "m < 10 ^ 9" by (rule le_less_trans)
  moreover have "f \<noteq> []" using m v False assms(1) by auto
  moreover have "9 - length f = k" using len by simp
  ultimately show ?thesis
    using take_frac_digits [OF _ digits m] v False by (simp add: frac_text_def f_def [symmetric])
qed

lemma take_hour_text: "0 \<le> n \<Longrightarrow> n < 100 \<Longrightarrow> take_hour (num_text 2 n @ s) = Some (nat n, s)"
  by (simp add: take_hour_def take_num_text)

lemma take_zone_Z [simp]: "take_zone ''Z'' = Some (0, [])"
  by (simp add: take_zone_def)

lemma date_of_day:
  fixes d :: int
  defines "y \<equiv> year_of_day d"
  defines "yd \<equiv> d - days_before_year y"
  defines "m \<equiv> month_of (is_leap y) yd"
  defines "md \<equiv> yd - days_before_month (is_leap y) m + 1"
  shows "1 \<le> m" "m \<le> 12" "1 \<le> md" "md \<le> 31"
    "md \<le> days_before_month (is_leap y) (Suc m) - days_before_month (is_leap y) m"
    "days_before_year y + days_before_month (is_leap y) m + md - 1 = d"
proof -
  have "0 \<le> yd" "yd < (if is_leap y then 366 else 365)"
    using year_of_day_bounds [of d] by (simp_all add: yd_def y_def days_in_year)
  then have m: "m \<in> {1..12}" "days_before_month (is_leap y) m \<le> yd"
    "yd < days_before_month (is_leap y) (Suc m)"
    using month_of_bounds [of yd "is_leap y"] by (simp_all add: m_def)
  have len: "days_before_month leap (Suc n) - days_before_month leap n \<le> 31" if "n \<in> {1..12}" for leap n
  proof -
    from that have "n \<in> {1, 2, 3, 4, 5, 6, 7, 8, 9, 10, 11, 12}" by simp arith
    then show ?thesis by (elim insertE emptyE) (simp_all add: days_before_month_def)
  qed
  show "1 \<le> m" "m \<le> 12" using m(1) by simp_all
  show b: "md \<le> days_before_month (is_leap y) (Suc m) - days_before_month (is_leap y) m"
    and "1 \<le> md" using m(2,3) by (simp_all add: md_def)
  from b len [OF m(1), of "is_leap y"] show "md \<le> 31" by linarith
  show "days_before_year y + days_before_month (is_leap y) m + md - 1 = d"
    by (simp add: md_def yd_def)
qed

lemma clock_of_ns:
  assumes "0 \<le> ns" "ns < day_ns"
  shows "0 \<le> ns div second div 3600" "ns div second div 3600 < 24"
    "0 \<le> ns div second mod 3600 div 60" "ns div second mod 3600 div 60 < 60"
    "ns div second div 3600 * 3600 + ns div second mod 3600 div 60 * 60 + ns div second mod 60 = ns div second"
proof -
  define s where "s = ns div second"
  define h r where "h = s div 3600" and "r = s mod 3600"
  define mi where "mi = r div 60"
  have s: "0 \<le> s" "s < 86400"
    using assms div_between [of second ns] by (simp_all add: s_def day_ns_def pos_imp_zdiv_nonneg_iff)
  have r: "0 \<le> r" "r < 3600" "3600 * h + r = s" by (simp_all add: r_def h_def)
  have mi: "60 * mi + s mod 60 = r"
    using mult_div_mod_eq [of 60 r] by (simp add: mi_def r_def mod_mod_cancel)
  have sec: "0 \<le> s mod 60" "s mod 60 < 60" by simp_all
  show "0 \<le> ns div second div 3600" "ns div second div 3600 < 24"
    "0 \<le> ns div second mod 3600 div 60" "ns div second mod 3600 div 60 < 60"
    "ns div second div 3600 * 3600 + ns div second mod 3600 div 60 * 60 + ns div second mod 60 = ns div second"
    unfolding s_def [symmetric] unfolding h_def [symmetric] r_def [symmetric] unfolding mi_def [symmetric]
    using s r mi sec by linarith+
qed

lemma parse_clock_text:
  assumes "0 \<le> time_Year t" "time_Year t < 10000"
    and frac: "take_frac (f @ ''Z'') = Some (nat (t mod day_ns mod second), ''Z'')"
  shows "parse_rfc3339 (clock_text t @ f @ ''Z'') = Some t"
proof -
  define d ns where "d = t div day_ns" and "ns = t mod day_ns"
  define y where "y = year_of_day d"
  define yd where "yd = d - days_before_year y"
  define m where "m = month_of (is_leap y) yd"
  define md where "md = yd - days_before_month (is_leap y) m + 1"
  define h mi sec fr where "h = ns div second div 3600" and "mi = ns div second mod 3600 div 60"
    and "sec = ns div second mod 60" and "fr = ns mod second"
  note date = date_of_day [of d, folded y_def, folded yd_def, folded m_def, folded md_def]
  have ns: "0 \<le> ns" "ns < day_ns" by (simp_all add: ns_def day_ns_def)
  note clock = clock_of_ns [OF ns, folded h_def mi_def sec_def]
  have sec: "0 \<le> sec" "sec < 60" and fr: "0 \<le> fr" "fr < 10 ^ 9" by (simp_all add: sec_def fr_def)
  have y: "0 \<le> y" "y < 10000" using assms(1,2) by (simp_all add: time_Year_def y_def d_def)
  have f: "clock_text t = num_text 4 y @ ''-'' @ num_text 2 (int m) @ ''-'' @ num_text 2 md @ ''T'' @
      num_text 2 h @ '':'' @ num_text 2 mi @ '':'' @ num_text 2 sec"
    by (simp add: clock_text_def Let_def d_def ns_def y_def yd_def m_def md_def h_def mi_def sec_def)
  have t: "t = d * day_ns + (h * 3600 + mi * 60 + sec) * second + fr"
    unfolding clock(5) by (simp add: fr_def d_def ns_def)
  have "parse_rfc3339 (clock_text t @ f @ ''Z'') = date_time (nat y) m (nat md) (nat h) (nat mi) (nat sec) (nat fr) 0"
    unfolding f parse_rfc3339_def using y date(1-4) clock(1-4) sec frac
    by (simp add: take_num_text take_hour_text ns_def fr_def)
  also have "\<dots> = Some t"
  proof -
    have "int (nat h * 3600 + nat mi * 60 + nat sec) = h * 3600 + mi * 60 + sec"
      using clock(1,3) sec(1) by simp
    then show ?thesis
      using y date clock(1-4) sec fr
      by (simp add: date_time_def t nat_less_iff not_le)
  qed
  finally show ?thesis .
qed

lemma parse_format_rfc3339:
  assumes "0 \<le> time_Year t" "time_Year t < 10000"
  shows "parse_rfc3339 (format_rfc3339 t) = Some t"
  unfolding format_rfc3339_def by (rule parse_clock_text [OF assms take_frac_text]) simp_all

lemma time_MarshalJSON_roundtrip: "time_MarshalJSON t = Some s \<Longrightarrow> parse_rfc3339 s = Some t"
  by (auto simp: time_MarshalJSON_def parse_format_rfc3339 split: if_splits)

end
