(* ===== verification/Logs.thy ===== *)
theory Logs
  imports Go_Date
begin

text \<open>
  The package \<open>logs\<close>: the levels, the configuration of the log and its file, the lines that it writes
  and the time stamps in them. The environment, the script that prints the container's identifier,
  the paths that the process may not touch and the time zone database are arguments.
\<close>

section \<open>Formatting a time by a layout\<close>

record time_fields =
  tf_year :: int
  tf_month :: nat
  tf_day :: int
  tf_hour :: int
  tf_minute :: int
  tf_second :: int
  tf_nano :: int

definition fields_of :: "time \<Rightarrow> time_fields" where
  "fields_of t =
     (let d = t div day_ns; ns = t mod day_ns; y = year_of_day d; leap = is_leap y;
          yd = d - days_before_year y; m = month_of leap yd; s = ns div second
      in \<lparr>tf_year = y, tf_month = m, tf_day = yd - days_before_month leap m + 1,
          tf_hour = s div 3600, tf_minute = s mod 3600 div 60, tf_second = s mod 60, tf_nano = ns mod second\<rparr>)"

text \<open>The elements of a layout that the formats of the package use, in the order in which
  \<open>nextStdChunk\<close> tries them.\<close>

definition year_text :: "int \<Rightarrow> string" where
  "year_text y = (if y < 0 then CHR ''-'' # num_text 4 (- y) else num_text 4 y)"

definition layout_chunks :: "(string \<times> (time_fields \<Rightarrow> string)) list" where
  "layout_chunks =
     [(''01'', \<lambda>f. num_text 2 (int (tf_month f))), (''02'', \<lambda>f. num_text 2 (tf_day f)),
      (''03'', \<lambda>f. num_text 2 (if tf_hour f mod 12 = 0 then 12 else tf_hour f mod 12)),
      (''04'', \<lambda>f. num_text 2 (tf_minute f)), (''05'', \<lambda>f. num_text 2 (tf_second f)),
      (''06'', \<lambda>f. num_text 2 (max 0 (tf_year f) mod 100)),
      (''15'', \<lambda>f. num_text 2 (tf_hour f)), (''2006'', \<lambda>f. year_text (tf_year f)),
      (''PM'', \<lambda>f. if 12 \<le> tf_hour f then ''PM'' else ''AM''),
      (''.000000000'', \<lambda>f. CHR ''.'' # num_text 9 (tf_nano f))]"

definition next_chunk :: "string \<Rightarrow> (string \<times> (time_fields \<Rightarrow> string)) option" where
  "next_chunk l = List.find (\<lambda>(c, _). HasPrefix l c) layout_chunks"

lemma next_chunk_nonempty: "next_chunk l = Some (p, g) \<Longrightarrow> p \<noteq> []"
  by (auto simp: next_chunk_def layout_chunks_def HasPrefix_def split: if_splits)

function format_layout :: "string \<Rightarrow> time_fields \<Rightarrow> string" where
  "format_layout [] f = []"
| "format_layout (c # l) f =
     (case next_chunk (c # l) of
        None \<Rightarrow> c # format_layout l f
      | Some (p, g) \<Rightarrow> g f @ format_layout (drop (length p) (c # l)) f)"
  by pat_completeness auto

termination
proof (relation "measure (\<lambda>(l, _). length l)")
  fix c :: char and l p f x and g :: "time_fields \<Rightarrow> string"
  assume "next_chunk (c # l) = Some x" "(p, g) = x"
  then have "p \<noteq> []" using next_chunk_nonempty by blast
  then show "((drop (length p) (c # l), f), c # l, f) \<in> measure (\<lambda>(l, _). length l)"
    by (cases p) auto
qed auto

section \<open>Time stamps\<close>

text \<open>\<open>time.LoadLocation\<close>: the empty name and UTC are UTC, the rest is in the time zone database. A
  location is the offset that it has at an instant.\<close>

definition LoadLocation :: "(string \<Rightarrow> (time \<Rightarrow> duration) option) \<Rightarrow> string \<Rightarrow> (time \<Rightarrow> duration) option" where
  "LoadLocation tzdb name = (if name = [] \<or> name = ''UTC'' then Some (\<lambda>_. 0) else tzdb name)"

definition get_layout :: "string \<Rightarrow> string" where
  "get_layout k =
     (if k = ''YY-MM-DDSS:MM:HH'' then ''2006-01-02 03:04:05PM''
      else if k = ''DD-MM-YYHH:MM:SS'' then ''02-01-2006 03:04:05PM''
      else if k = ''DD/MM/YYMM:HH:SS'' then ''02/01/2006 04:03:05PM''
      else if k = ''YY/MM/DDHH:MM:SS'' then ''2006/01/02 15:04:05''
      else if k = ''YY/DD/MMHH:SS:MM'' then ''2006/02/01 15:04:05''
      else if k = ''DD/MM/YYYY'' then ''02/01/2006''
      else if k = ''MM/DD/YYYY'' then ''01/02/2006''
      else if k = ''YY/MM/DD'' then ''2006/01/02''
      else if k = ''MM/DD/YY'' then ''01/02/2006''
      else if k = ''YYYY-MM-DD'' then ''2006-01-02''
      else if k = ''YYYYMMDDHHMMSS'' then ''20060102150405''
      else if k = ''YYYYMMDD'' then ''20060102''
      else if k = ''CYYMMDD'' then ''060102''
      else if k = ''DDMMYYYY'' then ''02012006''
      else if k = ''MMDDYYHHMMSS'' then ''010206150405''
      else if k = ''YY-MM-DDSS-MM-HH'' then ''2006-01-02T03-04-05''
      else if k = ''YY-MM-DDSS-MM-HH-MIC'' then ''2006-01-02T15:04:05.000000000''
      else ''2006-01-02T15:04:05'')"

text \<open>The second component is whether the location is unknown.\<close>

definition Get :: "(string \<Rightarrow> (time \<Rightarrow> duration) option) \<Rightarrow> time \<Rightarrow> string \<Rightarrow> string \<Rightarrow> string \<Rightarrow> string \<times> bool" where
  "Get tzdb now df tf location =
     (case LoadLocation tzdb location of
        None \<Rightarrow> ([], True)
      | Some tz \<Rightarrow>
          (let text = format_layout (get_layout (df @ tf)) (fields_of (now + tz now))
           in ((if df @ tf = ''CYYMMDD'' then CHR ''1'' # text else text), False)))"

section \<open>Levels\<close>

datatype LogLevel = LogLevelAll | LogLevelDebug | LogLevelInfo | LogLevelWarning | LogLevelError | LogLevelException

primrec level_nr :: "LogLevel \<Rightarrow> nat" where
  "level_nr LogLevelAll = 0"
| "level_nr LogLevelDebug = 1"
| "level_nr LogLevelInfo = 2"
| "level_nr LogLevelWarning = 3"
| "level_nr LogLevelError = 4"
| "level_nr LogLevelException = 5"

lemma level_nr_inj: "level_nr a = level_nr b \<longleftrightarrow> a = b"
  by (cases a; cases b) simp_all

instantiation LogLevel :: linorder
begin

definition less_eq_LogLevel :: "LogLevel \<Rightarrow> LogLevel \<Rightarrow> bool" where
  "less_eq_LogLevel a b \<longleftrightarrow> level_nr a \<le> level_nr b"

definition less_LogLevel :: "LogLevel \<Rightarrow> LogLevel \<Rightarrow> bool" where
  "less_LogLevel a b \<longleftrightarrow> level_nr a < level_nr b"

instance
  by standard (auto simp: less_eq_LogLevel_def less_LogLevel_def level_nr_inj)

end

definition getLogLevelEnum :: "string \<Rightarrow> LogLevel" where
  "getLogLevelEnum level =
     (case map_of [(''ALL'', LogLevelAll), (''DEBUG'', LogLevelDebug), (''INFO'', LogLevelInfo),
                   (''WARNING'', LogLevelWarning), (''ERROR'', LogLevelError), (''EXCEPTION'', LogLevelException)] level
      of None \<Rightarrow> LogLevelAll | Some l \<Rightarrow> l)"

definition LOGGER :: "string \<rightharpoonup> int" where
  "LOGGER = map_of [(''Exception'', 1), (''Error'', 2), (''Warning'', 3), (''Info'', 4), (''Debug'', 5)]"

text \<open>\<open>Fd\<close> is the path of the open file, None for the nil pointer.\<close>

record LogConfiguration =
  lc_StandardOutput :: bool
  lc_LogFile :: bool
  lc_DateFormat :: string
  lc_TimeFormat :: string
  lc_TimeLocation :: string
  lc_Fd :: "string option"
  lc_PrintException :: bool
  lc_PrintError :: bool
  lc_PrintWarning :: bool
  lc_PrintInfo :: bool
  lc_PrintDebug :: bool

definition zero_LogConf :: LogConfiguration where
  "zero_LogConf = \<lparr>lc_StandardOutput = False, lc_LogFile = False, lc_DateFormat = [], lc_TimeFormat = [],
     lc_TimeLocation = [], lc_Fd = None, lc_PrintException = False, lc_PrintError = False,
     lc_PrintWarning = False, lc_PrintInfo = False, lc_PrintDebug = False\<rparr>"

definition setLogLevel :: "string \<Rightarrow> LogConfiguration \<Rightarrow> LogConfiguration" where
  "setLogLevel logLevel lc =
     (let lc1 = (if logLevel = ''CONSOLE'' then lc\<lparr>lc_StandardOutput := True\<rparr> else lc);
          l = getLogLevelEnum (if logLevel = ''CONSOLE'' then ''ALL'' else logLevel);
          lc2 = (if l \<le> LogLevelException then lc1\<lparr>lc_PrintException := True\<rparr> else lc1);
          lc3 = (if l \<le> LogLevelError then lc2\<lparr>lc_PrintError := True\<rparr> else lc2);
          lc4 = (if l \<le> LogLevelWarning then lc3\<lparr>lc_PrintWarning := True\<rparr> else lc3);
          lc5 = (if l \<le> LogLevelInfo then lc4\<lparr>lc_PrintInfo := True\<rparr> else lc4)
      in if l \<le> LogLevelDebug then lc5\<lparr>lc_PrintDebug := True\<rparr> else lc5)"

definition InitializeLogInfo :: "string \<Rightarrow> bool \<Rightarrow> LogConfiguration \<Rightarrow> LogConfiguration" where
  "InitializeLogInfo logLevel file_log lc =
     (let lc1 = setLogLevel logLevel (lc\<lparr>lc_DateFormat := ''YY-MM-DD'', lc_TimeFormat := ''SS-MM-HH-MIC'',
            lc_TimeLocation := []\<rparr>)
      in if file_log then lc1\<lparr>lc_LogFile := True\<rparr> else lc1)"

section \<open>The log file\<close>

record log_fs =
  lf_dirs :: "string set"
  lf_files :: "string \<rightharpoonup> string list"

text \<open>\<open>strings.TrimSpace\<close> on ASCII white space.\<close>

definition is_space :: "char \<Rightarrow> bool" where
  "is_space c \<longleftrightarrow> (let n = (of_char c :: nat) in 9 \<le> n \<and> n \<le> 13 \<or> n = 32)"

definition TrimSpace :: "string \<Rightarrow> string" where
  "TrimSpace s = rev (dropWhile is_space (rev (dropWhile is_space s)))"

text \<open>The script's outcome is whether it failed and what it printed.\<close>

definition GetContainerID :: "bool \<times> string \<Rightarrow> (string \<rightharpoonup> string) \<Rightarrow> (string \<rightharpoonup> string)" where
  "GetContainerID script env =
     (let env1 = (if fst script then env(''K8S_CONTAINER_ID'' \<mapsto> ''0000'') else env)
      in env1(''K8S_CONTAINER_ID'' \<mapsto> TrimSpace (snd script)))"

definition Getenv :: "(string \<rightharpoonup> string) \<Rightarrow> string \<Rightarrow> string" where
  "Getenv env k = at [] env k"

definition log_filename :: "(string \<rightharpoonup> string) \<Rightarrow> string" where
  "log_filename env = Getenv env ''K8S_POD_ID'' @ ''_'' @ Getenv env ''K8S_NAMESPACE'' @ ''_vesgw-'' @
     Getenv env ''K8S_CONTAINER_ID'' @ ''.log''"

text \<open>A path is absent if the file system has neither a directory nor a file there; \<open>denied\<close> paths
  fail with another error.\<close>

definition absent :: "(string \<Rightarrow> bool) \<Rightarrow> log_fs \<Rightarrow> string \<Rightarrow> bool" where
  "absent denied fs p \<longleftrightarrow> \<not> denied p \<and> p \<notin> lf_dirs fs \<and> lf_files fs p = None"

definition ConfigureLogFile ::
    "(string \<Rightarrow> bool) \<Rightarrow> bool \<times> string \<Rightarrow> LogConfiguration \<Rightarrow> (string \<rightharpoonup> string) \<Rightarrow> log_fs \<Rightarrow>
     LogConfiguration \<times> (string \<rightharpoonup> string) \<times> log_fs" where
  "ConfigureLogFile denied script lc env fs =
     (let env1 = GetContainerID script env;
          path = ''/opt/logs/'' @ log_filename env1;
          fs1 = (if absent denied fs ''/opt/logs'' then fs\<lparr>lf_dirs := insert ''/opt/logs'' (lf_dirs fs)\<rparr> else fs)
      in if \<not> absent denied fs1 path then (lc, env1, fs1)
         else if ''/opt/logs'' \<in> lf_dirs fs1
           then (lc\<lparr>lc_Fd := Some path\<rparr>, env1, fs1\<lparr>lf_files := (lf_files fs1)(path \<mapsto> [])\<rparr>)
           else (lc\<lparr>lc_Fd := None\<rparr>, env1, fs1))"

section \<open>Lines\<close>

text \<open>A write to a nil file returns an error that nobody looks at.\<close>

definition PrintToFile :: "LogConfiguration \<Rightarrow> string \<Rightarrow> log_fs \<Rightarrow> log_fs" where
  "PrintToFile lc msg fs =
     (case lc_Fd lc of
        None \<Rightarrow> fs
      | Some p \<Rightarrow> fs\<lparr>lf_files := (lf_files fs)(p \<mapsto> at [] (lf_files fs) p @ [msg])\<rparr>)"

definition log_line :: "string \<Rightarrow> string \<Rightarrow> string list \<Rightarrow> string" where
  "log_line tag ts arg = ''['' @ tag @ ''] : '' @ ts @ '' -> ['' @ join_with '' '' arg @ '']''"

text \<open>\<open>stamp\<close> is the clock of the process with its time zone database. The methods look at the global
  configuration for their flag, \<open>Exception\<close> at its receiver's, and then ends the process.\<close>

type_synonym stamper = "string \<Rightarrow> string \<Rightarrow> string \<Rightarrow> string"

definition lc_stamp :: "stamper \<Rightarrow> LogConfiguration \<Rightarrow> string" where
  "lc_stamp stamp lc = stamp (lc_DateFormat lc) (lc_TimeFormat lc) (lc_TimeLocation lc)"

definition Exception :: "stamper \<Rightarrow> LogConfiguration \<Rightarrow> string list \<Rightarrow> log_fs \<Rightarrow> log_fs \<times> bool" where
  "Exception stamp lc arg fs =
     (if \<not> lc_PrintException lc then (fs, True)
      else (PrintToFile lc (log_line ''EXCEPTION'' (lc_stamp stamp lc) arg) fs, True))"

definition log_Error :: "LogConfiguration \<Rightarrow> stamper \<Rightarrow> LogConfiguration \<Rightarrow> string list \<Rightarrow> log_fs \<Rightarrow> log_fs" where
  "log_Error LogConf stamp lc arg fs =
     (if \<not> lc_PrintError LogConf then fs else PrintToFile lc (log_line ''ERROR'' (lc_stamp stamp lc) arg) fs)"

definition log_Warning :: "LogConfiguration \<Rightarrow> stamper \<Rightarrow> LogConfiguration \<Rightarrow> string list \<Rightarrow> log_fs \<Rightarrow> log_fs" where
  "log_Warning LogConf stamp lc arg fs =
     (if \<not> lc_PrintWarning LogConf then fs else PrintToFile lc (log_line ''WARNING'' (lc_stamp stamp lc) arg) fs)"

definition log_Info :: "LogConfiguration \<Rightarrow> stamper \<Rightarrow> LogConfiguration \<Rightarrow> string list \<Rightarrow> log_fs \<Rightarrow> log_fs" where
  "log_Info LogConf stamp lc arg fs =
     (if \<not> lc_PrintInfo LogConf then fs else PrintToFile lc (log_line ''INFO'' (lc_stamp stamp lc) arg) fs)"

definition log_Debug :: "LogConfiguration \<Rightarrow> stamper \<Rightarrow> LogConfiguration \<Rightarrow> string list \<Rightarrow> log_fs \<Rightarrow> log_fs" where
  "log_Debug LogConf stamp lc arg fs =
     (if \<not> lc_PrintDebug LogConf then fs else PrintToFile lc (log_line ''DEBUG'' (lc_stamp stamp lc) arg) fs)"

definition Audit :: "stamper \<Rightarrow> LogConfiguration \<Rightarrow> string list \<Rightarrow> log_fs \<Rightarrow> log_fs" where
  "Audit stamp lc arg fs = PrintToFile lc (log_line ''AUDIT'' (lc_stamp stamp lc) arg) fs"

text \<open>\<open>Println\<close> writes to the console; None is no output.\<close>

definition logs_Println :: "stamper \<Rightarrow> string \<Rightarrow> string \<Rightarrow> string list \<Rightarrow> string option" where
  "logs_Println stamp level logType arg =
     (let l = (case LOGGER level of None \<Rightarrow> 5 | Some l \<Rightarrow> l)
      in case LOGGER logType of
           None \<Rightarrow> None
         | Some lt \<Rightarrow> if lt \<le> l then Some (log_line logType (stamp [] [] []) arg) else None)"

section \<open>The stamp names the instant\<close>

lemma fields_of_bounds:
  "0 \<le> tf_nano (fields_of t)" "tf_nano (fields_of t) < 10 ^ 9" "tf_nano (fields_of t) = t mod day_ns mod second"
  "tf_year (fields_of t) = time_Year t"
  by (simp_all add: fields_of_def time_Year_def Let_def)

lemma format_stamp:
  "0 \<le> time_Year t \<Longrightarrow> format_layout ''2006-01-02T15:04:05.000000000'' (fields_of t) =
     clock_text t @ CHR ''.'' # num_text 9 (t mod day_ns mod second)"
  by (simp add: next_chunk_def layout_chunks_def HasPrefix_def year_text_def)
    (simp add: fields_of_def clock_text_def Let_def time_Year_def)

text \<open>The time stamp of a log line names its instant to the nanosecond: read as an RFC 3339 time in UTC
  it is the instant at which it was made.\<close>

theorem stamp_exact:
  assumes "0 \<le> time_Year t" "time_Year t < 10000"
    and "lc = InitializeLogInfo level file lc0"
  shows "parse_rfc3339 (fst (Get tzdb t (lc_DateFormat lc) (lc_TimeFormat lc) (lc_TimeLocation lc)) @ ''Z'') = Some t"
proof -
  have "lc_DateFormat lc = ''YY-MM-DD'' \<and> lc_TimeFormat lc = ''SS-MM-HH-MIC'' \<and> lc_TimeLocation lc = []"
    by (simp add: assms(3) InitializeLogInfo_def setLogLevel_def Let_def)
  then have "fst (Get tzdb t (lc_DateFormat lc) (lc_TimeFormat lc) (lc_TimeLocation lc)) =
      clock_text t @ CHR ''.'' # num_text 9 (t mod day_ns mod second)"
    using assms(1) by (simp add: Get_def LoadLocation_def get_layout_def format_stamp del: format_layout.simps)
  then show ?thesis
    using parse_clock_text [OF assms(1,2), of "CHR ''.'' # num_text 9 (t mod day_ns mod second)"] take_frac_full by simp
qed

section \<open>Levels and lines\<close>

lemma setLogLevel_flags:
  fixes l :: string
  defines "e \<equiv> getLogLevelEnum l"
  shows "lc_PrintException (setLogLevel l lc)"
    and "lc_PrintError (setLogLevel l lc) \<longleftrightarrow> lc_PrintError lc \<or> e \<le> LogLevelError"
    and "lc_PrintWarning (setLogLevel l lc) \<longleftrightarrow> lc_PrintWarning lc \<or> e \<le> LogLevelWarning"
    and "lc_PrintInfo (setLogLevel l lc) \<longleftrightarrow> lc_PrintInfo lc \<or> e \<le> LogLevelInfo"
    and "lc_PrintDebug (setLogLevel l lc) \<longleftrightarrow> lc_PrintDebug lc \<or> e \<le> LogLevelDebug"
proof -
  have "getLogLevelEnum ''CONSOLE'' = getLogLevelEnum ''ALL''" by (simp add: getLogLevelEnum_def)
  moreover have "x \<le> LogLevelException" for x by (cases x) (simp_all add: less_eq_LogLevel_def)
  ultimately show "lc_PrintException (setLogLevel l lc)"
    and "lc_PrintError (setLogLevel l lc) \<longleftrightarrow> lc_PrintError lc \<or> e \<le> LogLevelError"
    and "lc_PrintWarning (setLogLevel l lc) \<longleftrightarrow> lc_PrintWarning lc \<or> e \<le> LogLevelWarning"
    and "lc_PrintInfo (setLogLevel l lc) \<longleftrightarrow> lc_PrintInfo lc \<or> e \<le> LogLevelInfo"
    and "lc_PrintDebug (setLogLevel l lc) \<longleftrightarrow> lc_PrintDebug lc \<or> e \<le> LogLevelDebug"
    by (auto simp: setLogLevel_def Let_def e_def)
qed

text \<open>The level can be lowered but never raised: after a sequence of calls the flags are those of the
  lowest level that was ever set.\<close>

theorem level_only_falls:
  assumes "ls \<noteq> []" and "getLogLevelEnum l = Min (getLogLevelEnum ` set ls)"
  shows "lc_PrintError (fold setLogLevel ls zero_LogConf) = lc_PrintError (setLogLevel l zero_LogConf) \<and>
    lc_PrintWarning (fold setLogLevel ls zero_LogConf) = lc_PrintWarning (setLogLevel l zero_LogConf) \<and>
    lc_PrintInfo (fold setLogLevel ls zero_LogConf) = lc_PrintInfo (setLogLevel l zero_LogConf) \<and>
    lc_PrintDebug (fold setLogLevel ls zero_LogConf) = lc_PrintDebug (setLogLevel l zero_LogConf)"
proof -
  have "lc_PrintError (fold setLogLevel ls lc) \<longleftrightarrow> lc_PrintError lc \<or> (\<exists>x \<in> set ls. getLogLevelEnum x \<le> LogLevelError)"
    "lc_PrintWarning (fold setLogLevel ls lc) \<longleftrightarrow> lc_PrintWarning lc \<or> (\<exists>x \<in> set ls. getLogLevelEnum x \<le> LogLevelWarning)"
    "lc_PrintInfo (fold setLogLevel ls lc) \<longleftrightarrow> lc_PrintInfo lc \<or> (\<exists>x \<in> set ls. getLogLevelEnum x \<le> LogLevelInfo)"
    "lc_PrintDebug (fold setLogLevel ls lc) \<longleftrightarrow> lc_PrintDebug lc \<or> (\<exists>x \<in> set ls. getLogLevelEnum x \<le> LogLevelDebug)" for lc
    by (induction ls arbitrary: lc) (auto simp: setLogLevel_flags)
  moreover have "getLogLevelEnum l \<le> k \<longleftrightarrow> (\<exists>x \<in> set ls. getLogLevelEnum x \<le> k)" for k
    using assms by (simp add: Min_le_iff)
  ultimately show ?thesis by (simp add: setLogLevel_flags)
qed

text \<open>The gateway initialises the log but never opens its file: whatever the level, none of the
  methods writes a line, and an exception still ends the process.\<close>

theorem log_file_stays_closed:
  assumes "lc = InitializeLogInfo level file zero_LogConf"
  shows "PrintToFile lc msg fs = fs \<and> log_Error lc stamp lc arg fs = fs \<and> log_Warning lc stamp lc arg fs = fs \<and>
    log_Info lc stamp lc arg fs = fs \<and> log_Debug lc stamp lc arg fs = fs \<and> Audit stamp lc arg fs = fs \<and>
    Exception stamp lc arg fs = (fs, True)"
proof -
  have "lc_Fd lc = None"
    by (simp add: assms InitializeLogInfo_def setLogLevel_def zero_LogConf_def Let_def)
  then show ?thesis
    by (simp add: PrintToFile_def log_Error_def log_Warning_def log_Info_def log_Debug_def Audit_def Exception_def)
qed

text \<open>The identifier 0000 for a script that fails is overwritten at once by what the script printed.\<close>

theorem fallback_id_lost: "Getenv (GetContainerID (True, out) env) ''K8S_CONTAINER_ID'' = TrimSpace out"
  by (simp add: GetContainerID_def Getenv_def)

text \<open>A log file that exists is not opened again: a gateway that restarts in the same container has no
  file and drops its lines.\<close>

theorem existing_file_not_opened:
  assumes "lf_files fs (''/opt/logs/'' @ log_filename (GetContainerID script env)) = Some old"
  shows "fst (ConfigureLogFile denied script zero_LogConf env fs) = zero_LogConf"
  using assms by (simp add: ConfigureLogFile_def Let_def absent_def)

text \<open>A new file receives the lines in the order in which they are printed.\<close>

theorem lines_in_order:
  assumes "ConfigureLogFile denied script lc env fs = (lc', env', fs')" and "lc_Fd lc = None" and "lc_Fd lc' = Some p"
  shows "lf_files (fold (PrintToFile lc') msgs fs') p = Some msgs"
proof -
  have "lf_files fs' p = Some []"
    using assms by (auto simp: ConfigureLogFile_def Let_def split: if_splits)
  moreover have "lf_files fs0 p = Some old \<Longrightarrow> lf_files (fold (PrintToFile lc') msgs fs0) p = Some (old @ msgs)" for fs0 old
    by (induction msgs arbitrary: fs0 old) (simp_all add: PrintToFile_def assms(3) at_def)
  ultimately show ?thesis by fastforce
qed

theorem println_iff:
  "logs_Println stamp level logType arg \<noteq> None \<longleftrightarrow>
     logType \<in> dom LOGGER \<and> (level \<notin> dom LOGGER \<or> the (LOGGER logType) \<le> the (LOGGER level))"
proof -
  have "LOGGER k = Some n \<Longrightarrow> n \<le> 5" for k n by (auto simp: LOGGER_def split: if_splits)
  then show ?thesis by (auto simp: logs_Println_def Let_def dom_def split: option.splits)
qed

end
