(* ===== verification/Uuid.thy ===== *)
theory Uuid
  imports Go_Std
begin

text \<open>
  The repository's copy of \<open>go.uuid\<close> (VESPA/ves-agent/go.uuid): the 16-byte value with
  its version and variant bits, the text codec, and the name-based and random
  generators. \<open>md5\<close>, \<open>sha1\<close> and the random source are arguments.
\<close>

unbundle bit_operations_syntax

type_synonym byte8 = "8 word"
type_synonym UUID = "byte8 list"

definition Size :: nat where
  "Size = 16"

definition is_uuid :: "UUID \<Rightarrow> bool" where
  "is_uuid u \<longleftrightarrow> length u = Size"

definition Nil_UUID :: UUID where
  "Nil_UUID = replicate Size 0"

text \<open>The constants of the variant byte.\<close>

datatype variant = VariantNCS | VariantRFC4122 | VariantMicrosoft | VariantFuture

section \<open>Version and variant\<close>

definition Version :: "UUID \<Rightarrow> byte8" where
  "Version u = drop_bit 4 (u ! 6)"

definition Variant :: "UUID \<Rightarrow> variant" where
  "Variant u =
     (if drop_bit 7 (u ! 8) = 0 then VariantNCS
      else if drop_bit 6 (u ! 8) = 2 then VariantRFC4122
      else if drop_bit 5 (u ! 8) = 6 then VariantMicrosoft
      else VariantFuture)"

definition SetVersion :: "UUID \<Rightarrow> byte8 \<Rightarrow> UUID" where
  "SetVersion u v = u[6 := (u ! 6 AND 15) OR push_bit 4 v]"

definition SetVariant :: "UUID \<Rightarrow> variant \<Rightarrow> UUID" where
  "SetVariant u v =
     u[8 := (case v of
         VariantNCS \<Rightarrow> (u ! 8 AND 127) OR push_bit 7 0
       | VariantRFC4122 \<Rightarrow> (u ! 8 AND 63) OR push_bit 6 2
       | VariantMicrosoft \<Rightarrow> (u ! 8 AND 31) OR push_bit 5 6
       | VariantFuture \<Rightarrow> (u ! 8 AND 31) OR push_bit 5 7)]"

section \<open>Hexadecimal, from \<open>encoding/hex\<close>\<close>

definition hextable :: string where
  "hextable = ''0123456789abcdef''"

definition hex_byte :: "byte8 \<Rightarrow> string" where
  "hex_byte b = [hextable ! unat (drop_bit 4 b), hextable ! unat (b AND 15)]"

definition hex_Encode :: "byte8 list \<Rightarrow> string" where
  "hex_Encode bs = concat (map hex_byte bs)"

definition fromHexChar :: "char \<Rightarrow> byte8 option" where
  "fromHexChar c = (let n = (of_char c :: nat) in
     if 48 \<le> n \<and> n \<le> 57 then Some (word_of_nat (n - 48))
     else if 97 \<le> n \<and> n \<le> 102 then Some (word_of_nat (n - 97 + 10))
     else if 65 \<le> n \<and> n \<le> 70 then Some (word_of_nat (n - 65 + 10))
     else None)"

datatype uuid_error = InvalidByte char | HexLength | IncorrectLength | IncorrectFormat | BinaryLength nat

text \<open>\<open>hex.Decode\<close> gives the bytes decoded before the first error, and that error.\<close>

fun hex_Decode :: "string \<Rightarrow> byte8 list \<times> uuid_error option" where
  "hex_Decode [] = ([], None)"
| "hex_Decode [c] = ([], Some (case fromHexChar c of None \<Rightarrow> InvalidByte c | Some _ \<Rightarrow> HexLength))"
| "hex_Decode (c # d # s) =
     (case fromHexChar c of None \<Rightarrow> ([], Some (InvalidByte c))
      | Some a \<Rightarrow>
        (case fromHexChar d of None \<Rightarrow> ([], Some (InvalidByte d))
         | Some b \<Rightarrow> (let (bs, e) = hex_Decode s in ((push_bit 4 a OR b) # bs, e))))"

text \<open>Writing into a prefix of a slice that starts at an offset.\<close>

definition write_at :: "UUID \<Rightarrow> nat \<Rightarrow> byte8 list \<Rightarrow> UUID" where
  "write_at u off bs = take off u @ bs @ drop (off + length bs) u"

section \<open>Text codec\<close>

definition UUID_String :: "UUID \<Rightarrow> string" where
  "UUID_String u =
     hex_Encode (take 4 u) @ ''-'' @ hex_Encode (take 2 (drop 4 u)) @ ''-'' @
     hex_Encode (take 2 (drop 6 u)) @ ''-'' @ hex_Encode (take 2 (drop 8 u)) @ ''-'' @
     hex_Encode (drop 10 u)"

definition byteGroups :: "nat list" where
  "byteGroups = [8, 4, 4, 4, 12]"

text \<open>The loop of \<open>decodeCanonical\<close>: \<open>first\<close> says that no dash is skipped yet.\<close>

fun decode_groups :: "nat list \<Rightarrow> bool \<Rightarrow> string \<Rightarrow> UUID \<Rightarrow> nat \<Rightarrow> UUID \<times> uuid_error option" where
  "decode_groups [] first src u off = (u, None)"
| "decode_groups (g # gs) first src u off =
     (let src' = (if first then src else tl src);
          (bs, e) = hex_Decode (take g src');
          u' = write_at u off bs
      in case e of Some err \<Rightarrow> (u', Some err)
         | None \<Rightarrow> decode_groups gs False (drop g src') u' (off + g div 2))"

definition decodeCanonical :: "UUID \<Rightarrow> string \<Rightarrow> UUID \<times> uuid_error option" where
  "decodeCanonical u t =
     (if t ! 8 \<noteq> CHR ''-'' \<or> t ! 13 \<noteq> CHR ''-'' \<or> t ! 18 \<noteq> CHR ''-'' \<or> t ! 23 \<noteq> CHR ''-''
      then (u, Some IncorrectFormat)
      else decode_groups byteGroups True t u 0)"

definition decodeHashLike :: "UUID \<Rightarrow> string \<Rightarrow> UUID \<times> uuid_error option" where
  "decodeHashLike u t = (let (bs, e) = hex_Decode t in (write_at u 0 bs, e))"

definition decodePlain :: "UUID \<Rightarrow> string \<Rightarrow> UUID \<times> uuid_error option" where
  "decodePlain u t =
     (if length t = 32 then decodeHashLike u t
      else if length t = 36 then decodeCanonical u t
      else (u, Some IncorrectLength))"

definition decodeBraced :: "UUID \<Rightarrow> string \<Rightarrow> UUID \<times> uuid_error option" where
  "decodeBraced u t =
     (if t ! 0 \<noteq> CHR ''{'' \<or> t ! (length t - 1) \<noteq> CHR ''}'' then (u, Some IncorrectFormat)
      else decodePlain u (take (length t - 2) (drop 1 t)))"

definition urnPrefix :: string where
  "urnPrefix = ''urn:uuid:''"

definition decodeURN :: "UUID \<Rightarrow> string \<Rightarrow> UUID \<times> uuid_error option" where
  "decodeURN u t =
     (if take 9 t \<noteq> urnPrefix then (u, Some IncorrectFormat) else decodePlain u (drop 9 t))"

definition UnmarshalText :: "UUID \<Rightarrow> string \<Rightarrow> UUID \<times> uuid_error option" where
  "UnmarshalText u t =
     (if length t = 32 then decodeHashLike u t
      else if length t = 36 then decodeCanonical u t
      else if length t = 38 then decodeBraced u t
      else if length t = 41 \<or> length t = 45 then decodeURN u t
      else (u, Some IncorrectLength))"

definition FromString :: "string \<Rightarrow> UUID \<times> uuid_error option" where
  "FromString s = UnmarshalText Nil_UUID s"

definition FromStringOrNil :: "string \<Rightarrow> UUID" where
  "FromStringOrNil s = (case FromString s of (u, None) \<Rightarrow> u | (u, Some _) \<Rightarrow> Nil_UUID)"

definition MarshalText :: "UUID \<Rightarrow> string \<times> uuid_error option" where
  "MarshalText u = (UUID_String u, None)"

definition MarshalBinary :: "UUID \<Rightarrow> byte8 list \<times> uuid_error option" where
  "MarshalBinary u = (u, None)"

definition UnmarshalBinary :: "UUID \<Rightarrow> byte8 list \<Rightarrow> UUID \<times> uuid_error option" where
  "UnmarshalBinary u dat =
     (if length dat \<noteq> Size then (u, Some (BinaryLength (length dat))) else (write_at u 0 dat, None))"

definition FromBytes :: "byte8 list \<Rightarrow> UUID \<times> uuid_error option" where
  "FromBytes dat = UnmarshalBinary Nil_UUID dat"

definition FromBytesOrNil :: "byte8 list \<Rightarrow> UUID" where
  "FromBytesOrNil dat = (case FromBytes dat of (u, None) \<Rightarrow> u | (u, Some _) \<Rightarrow> Nil_UUID)"

section \<open>Generators\<close>

text \<open>\<open>copy(u[:], h.Sum(nil))\<close> copies at most sixteen bytes of the digest.\<close>

definition newFromHash :: "(byte8 list \<Rightarrow> byte8 list) \<Rightarrow> UUID \<Rightarrow> string \<Rightarrow> UUID" where
  "newFromHash h ns name = write_at Nil_UUID 0 (take Size (h (ns @ map of_char name)))"

definition newFromHashDup :: "(byte8 list \<Rightarrow> byte8 list) \<Rightarrow> string \<Rightarrow> UUID" where
  "newFromHashDup h name = write_at Nil_UUID 0 (take Size (h (map of_char name)))"

definition NewV3 :: "(byte8 list \<Rightarrow> byte8 list) \<Rightarrow> string \<Rightarrow> UUID" where
  "NewV3 md5 name = SetVariant (SetVersion (newFromHashDup md5 name) 3) VariantRFC4122"

definition NewV5 :: "(byte8 list \<Rightarrow> byte8 list) \<Rightarrow> UUID \<Rightarrow> string \<Rightarrow> UUID" where
  "NewV5 sha1 ns name = SetVariant (SetVersion (newFromHash sha1 ns name) 5) VariantRFC4122"

text \<open>\<open>NewV4\<close>: the argument is what \<open>io.ReadFull\<close> got from the random source, or its error.\<close>

definition NewV4 :: "'e + byte8 list \<Rightarrow> UUID \<times> 'e option" where
  "NewV4 rnd = (case rnd of Inl e \<Rightarrow> (Nil_UUID, Some e)
     | Inr bs \<Rightarrow> (SetVariant (SetVersion (write_at Nil_UUID 0 (take Size bs)) 4) VariantRFC4122, None))"

definition generateUUID :: "(byte8 list \<Rightarrow> byte8 list) \<Rightarrow> string \<Rightarrow> string" where
  "generateUUID md5 name = UUID_String (NewV3 md5 name)"

section \<open>Lemmas\<close>

lemma is_uuid_write_at: "is_uuid u \<Longrightarrow> off + length bs \<le> Size \<Longrightarrow> is_uuid (write_at u off bs)"
  by (simp add: is_uuid_def write_at_def)

lemma is_uuid_Nil [simp]: "is_uuid Nil_UUID"
  by (simp add: is_uuid_def Nil_UUID_def)

lemma is_uuid_Set [simp]: "is_uuid (SetVersion u v) = is_uuid u" "is_uuid (SetVariant u w) = is_uuid u"
  by (simp_all add: is_uuid_def SetVersion_def SetVariant_def)

lemma fromHexChar_hextable:
  assumes "n < 16"
  shows "fromHexChar (hextable ! n) = Some (word_of_nat n)"
proof -
  have "\<forall>n \<in> set [0..<16]. fromHexChar (hextable ! n) = Some (word_of_nat n)"
    by code_simp
  with assms show ?thesis by simp
qed

lemma and_15: "b AND 15 = take_bit 4 (b :: byte8)"
  by (simp add: take_bit_eq_mask mask_eq_exp_minus_1)

lemma and_63: "b AND 63 = take_bit 6 (b :: byte8)"
  by (simp add: take_bit_eq_mask mask_eq_exp_minus_1)

lemma nibbles: "push_bit 4 (drop_bit 4 b) OR (b AND 15) = (b :: byte8)"
  unfolding and_15 by (rule bit_eqI) (auto simp: bit_simps)

lemma nibble_bounds: "unat (drop_bit 4 (b :: byte8)) < 16" "unat (b AND 15) < 16"
proof -
  have "unat (drop_bit 4 b) = drop_bit 4 (unat b)" by (rule unat_drop_bit_eq)
  with unsigned_less [of b, where 'a = nat] show "unat (drop_bit 4 b) < 16" by (simp add: drop_bit_eq_div)
  have "b AND 15 \<le> 15" by (rule word_and_le1)
  then show "unat (b AND 15) < 16" by (simp add: word_le_nat_alt)
qed

lemma hex_Decode_byte: "hex_Decode (hex_byte b @ s) = (let (bs, e) = hex_Decode s in (b # bs, e))"
  by (simp add: hex_byte_def fromHexChar_hextable nibble_bounds nibbles)

lemma hex_Decode_Encode [simp]: "hex_Decode (hex_Encode bs) = (bs, None)"
proof (induction bs)
  case Nil
  then show ?case by (simp add: hex_Encode_def)
next
  case (Cons b bs)
  then show ?case by (simp add: hex_Encode_def hex_Decode_byte)
qed

lemma length_hex_Encode [simp]: "length (hex_Encode bs) = 2 * length bs"
  by (induction bs) (simp_all add: hex_Encode_def hex_byte_def)

lemma length_UUID_String: "is_uuid u \<Longrightarrow> length (UUID_String u) = 36"
  by (simp add: UUID_String_def is_uuid_def Size_def)

lemma hex_Decode_Encode_take [simp]: "hex_Decode (take n (hex_Encode bs @ s)) = (bs, None)"
  if "n = 2 * length bs"
  using that by simp

lemma decode_group_step:
  assumes "g = 2 * length bs"
  shows "decode_groups (g # gs) False (CHR ''-'' # hex_Encode bs @ s) u off =
           decode_groups gs False s (write_at u off bs) (off + length bs)"
  using assms by (simp add: Let_def)

lemma decode_group_first:
  assumes "g = 2 * length bs"
  shows "decode_groups (g # gs) True (hex_Encode bs @ s) u off =
           decode_groups gs False s (write_at u off bs) (off + length bs)"
  using assms by (simp add: Let_def)

lemma write_at_write_at:
  "off + length as \<le> length u \<Longrightarrow>
   write_at (write_at u off as) (off + length as) bs = write_at u off (as @ bs)"
  by (simp add: write_at_def ac_simps)

lemma write_at_all: "length bs = length u \<Longrightarrow> write_at u 0 bs = bs"
  by (simp add: write_at_def)

text \<open>A UUID in its five groups.\<close>

lemma uuid_groups:
  assumes "is_uuid u"
  obtains a b c d e where "u = a @ b @ c @ d @ e" "length a = 4" "length b = 2" "length c = 2"
    "length d = 2" "length e = 6"
proof
  have D: "drop k u = take 2 (drop k u) @ drop (k + 2) u" for k
    by (metis append_take_drop_id drop_drop add.commute)
  have "u = take 4 u @ drop 4 u" by simp
  also note D [of 4]
  also note D [of "4 + 2"]
  also note D [of "4 + 2 + 2"]
  finally show "u = take 4 u @ take 2 (drop 4 u) @ take 2 (drop 6 u) @ take 2 (drop 8 u) @ drop 10 u"
    by simp
qed (use assms in \<open>simp_all add: is_uuid_def Size_def\<close>)

lemma UUID_String_groups:
  assumes "length a = 4" "length b = 2" "length c = 2" "length d = 2"
  shows "UUID_String (a @ b @ c @ d @ e) =
    hex_Encode a @ CHR ''-'' # hex_Encode b @ CHR ''-'' # hex_Encode c @ CHR ''-'' #
    hex_Encode d @ CHR ''-'' # hex_Encode e"
  using assms by (simp add: UUID_String_def)

lemma decode_groups_UUID_String:
  assumes "is_uuid u" and "is_uuid v"
  shows "decode_groups byteGroups True (UUID_String u) v 0 = (u, None)"
proof -
  obtain a b c d e where u: "u = a @ b @ c @ d @ e" and l: "length a = 4" "length b = 2"
    "length c = 2" "length d = 2" "length e = 6"
    using assms(1) by (rule uuid_groups)
  have "decode_groups byteGroups True (UUID_String u) v 0 =
      (write_at (write_at (write_at (write_at (write_at v 0 a) 4 b) 6 c) 8 d) 10 e, None)"
    using l decode_group_step [of 12 e "[]" "[]"]
    by (simp add: u UUID_String_groups byteGroups_def decode_group_first decode_group_step
        del: decode_groups.simps(2))
  also have "write_at (write_at (write_at (write_at (write_at v 0 a) 4 b) 6 c) 8 d) 10 e = u"
    using l assms(2) write_at_write_at [of 0 a v b] write_at_write_at [of 0 "a @ b" v c]
      write_at_write_at [of 0 "a @ b @ c" v d] write_at_write_at [of 0 "a @ b @ c @ d" v e]
    by (simp add: is_uuid_def Size_def u write_at_all)
  finally show ?thesis .
qed

lemma UUID_String_dashes:
  assumes "is_uuid u"
  shows "UUID_String u ! 8 = CHR ''-''" "UUID_String u ! 13 = CHR ''-''"
    "UUID_String u ! 18 = CHR ''-''" "UUID_String u ! 23 = CHR ''-''"
proof -
  obtain a b c d e where u: "u = a @ b @ c @ d @ e" and l: "length a = 4" "length b = 2"
    "length c = 2" "length d = 2" "length e = 6"
    using assms by (rule uuid_groups)
  show "UUID_String u ! 8 = CHR ''-''" "UUID_String u ! 13 = CHR ''-''"
    "UUID_String u ! 18 = CHR ''-''" "UUID_String u ! 23 = CHR ''-''"
    using l by (simp_all add: u UUID_String_groups nth_append)
qed

lemma decodeCanonical_String:
  "is_uuid u \<Longrightarrow> is_uuid v \<Longrightarrow> decodeCanonical v (UUID_String u) = (u, None)"
  by (simp add: decodeCanonical_def UUID_String_dashes decode_groups_UUID_String)

lemma decodeHashLike_hex: "is_uuid u \<Longrightarrow> is_uuid v \<Longrightarrow> decodeHashLike v (hex_Encode u) = (u, None)"
  by (simp add: decodeHashLike_def is_uuid_def write_at_all)

lemmas uuid_codec = FromString_def UnmarshalText_def decodeBraced_def decodeURN_def decodePlain_def
  urnPrefix_def length_UUID_String decodeCanonical_String decodeHashLike_hex

lemma set_version_bits: "v < 16 \<Longrightarrow> drop_bit 4 (push_bit 4 v) = (v :: byte8)"
proof -
  assume "v < 16"
  then have "take_bit 4 v = v" by (simp add: take_bit_eq_mod mod_word_less)
  then have "bit v n \<longleftrightarrow> n < 4 \<and> bit v n" for n by (metis bit_take_bit_iff)
  then show ?thesis by (intro bit_eqI) (auto simp: bit_simps)
qed

lemma set_rfc4122_bits: "drop_bit 6 ((x AND 63) OR push_bit 6 2) = (2 :: byte8)"
  "drop_bit 7 ((x AND 63) OR push_bit 6 2) = (1 :: byte8)"
  unfolding and_63 by (rule bit_eqI, auto simp: bit_simps bit_2_iff bit_1_iff)+

lemma Version_SetVersion: "is_uuid u \<Longrightarrow> v < 16 \<Longrightarrow> Version (SetVersion u v) = v"
  by (simp add: Version_def SetVersion_def is_uuid_def Size_def set_version_bits)

lemma Version_SetVariant: "Version (SetVariant u v) = Version u"
  by (simp add: Version_def SetVariant_def)

lemma Variant_SetVariant: "is_uuid u \<Longrightarrow> Variant (SetVariant u VariantRFC4122) = VariantRFC4122"
  by (simp add: Variant_def SetVariant_def is_uuid_def Size_def set_rfc4122_bits)

section \<open>Properties\<close>

text \<open>C37: The text codec round-trips: for every 16-byte UUID, \<open>FromString\<close> accepts the canonical
  text that \<open>String\<close> prints, the same text in braces and as a URN, and the dash-free form, bare
  and as a URN, and gives the UUID back with no error.\<close>

theorem uuid_text_roundtrip:
  assumes "is_uuid u"
  shows "FromString (UUID_String u) = (u, None) \<and>
    FromString (''{'' @ UUID_String u @ ''}'') = (u, None) \<and>
    FromString (''urn:uuid:'' @ UUID_String u) = (u, None) \<and>
    FromString (hex_Encode u) = (u, None) \<and>
    FromString (''urn:uuid:'' @ hex_Encode u) = (u, None)"
proof -
  have l: "length u = 16" using assms by (simp add: is_uuid_def Size_def)
  have b: "(''{'' @ UUID_String u @ ''}'') ! 37 = CHR ''}''"
    using length_UUID_String [OF assms] by (simp add: nth_append)
  from assms b l show ?thesis by (simp add: uuid_codec)
qed

theorem uuid_text_roundtrip_witness:
  "FromString (UUID_String (replicate 16 171)) = (replicate 16 171, None)"
proof -
  have "is_uuid (replicate 16 171)" by (simp add: is_uuid_def Size_def)
  from uuid_text_roundtrip [OF this] show ?thesis by (rule conjunct1)
qed

text \<open>Whatever the digest and the name are, a name-based UUID has 16 bytes, version 3 (MD5) or
  5 (SHA-1) and the RFC 4122 variant, and its text parses back to it; a UUID from random bytes has
  version 4 and the same variant.\<close>

theorem generated_uuid_well_formed:
  "is_uuid (NewV3 md5 name) \<and> Version (NewV3 md5 name) = 3 \<and> Variant (NewV3 md5 name) = VariantRFC4122 \<and>
   FromString (generateUUID md5 name) = (NewV3 md5 name, None) \<and>
   is_uuid (NewV5 sha1 ns name) \<and> Version (NewV5 sha1 ns name) = 5 \<and>
   Variant (NewV5 sha1 ns name) = VariantRFC4122 \<and>
   (case NewV4 (Inr bs) of (u, e) \<Rightarrow> is_uuid u \<and> Version u = 4 \<and> Variant u = VariantRFC4122 \<and> e = None)"
proof -
  have w: "is_uuid (write_at Nil_UUID 0 (take Size bs))" for bs
    by (rule is_uuid_write_at) simp_all
  have v3: "is_uuid (NewV3 md5 name)" by (simp add: NewV3_def newFromHashDup_def w)
  from v3 have "FromString (UUID_String (NewV3 md5 name)) = (NewV3 md5 name, None)"
    by (simp add: uuid_codec)
  with v3 show ?thesis
    by (simp add: NewV3_def NewV5_def NewV4_def newFromHashDup_def newFromHash_def w generateUUID_def
        Version_SetVersion Version_SetVariant Variant_SetVariant)
qed

end
