(* ===== verification/Uuid_Time.thy ===== *)
theory Uuid_Time
  imports Uuid
begin

text \<open>
  The time-based generators and the database adapters of \<open>go.uuid\<close> (generator.go, sql.go). The generator's fields are
  a record; the random source, the hardware address and the reading of the clock are arguments. Times, clock sequence
  and addresses are words of the widths of the code.
\<close>

unbundle bit_operations_syntax

section \<open>The generator\<close>

text \<open>A \<open>sync.Once\<close> is whether its function has run, also when that failed.\<close>

record 'r rfc4122Generator =
  g_clockSequenceOnce :: bool
  g_hardwareAddrOnce :: bool
  g_rand :: 'r
  g_lastTime :: "64 word"
  g_clockSequence :: "16 word"
  g_hardwareAddr :: "byte8 list"

text \<open>
  \<open>ReadFull n\<close> reads \<open>n\<close> bytes from the source: the bytes it put into the buffer, and the error when they are not all.
  \<open>hwAddrFunc\<close> is what the system says.
\<close>

record ('r, 'e) gen_ext =
  gx_ReadFull :: "nat \<Rightarrow> 'r \<Rightarrow> 'r \<times> byte8 list \<times> 'e option"
  gx_hwAddrFunc :: "'e + byte8 list"
  gx_posixUID :: "32 word"
  gx_posixGID :: "32 word"

definition newRFC4122Generator :: "'r \<Rightarrow> 'r rfc4122Generator" where
  "newRFC4122Generator r = \<lparr>g_clockSequenceOnce = False, g_hardwareAddrOnce = False, g_rand = r, g_lastTime = 0, g_clockSequence = 0,
     g_hardwareAddr = replicate 6 0\<rparr>"

text \<open>The first interface with an address of at least six bytes.\<close>

definition defaultHWAddrFunc :: "'e \<Rightarrow> 'e + byte8 list list \<Rightarrow> 'e + byte8 list" where
  "defaultHWAddrFunc notFound ifaces =
     (case ifaces of Inl e \<Rightarrow> Inl e
      | Inr hws \<Rightarrow> (case find (\<lambda>hw. length hw \<ge> 6) hws of Some hw \<Rightarrow> Inr hw | None \<Rightarrow> Inl notFound))"

definition epochStart :: "64 word" where
  "epochStart = 122192928000000000"

definition getEpoch :: "time \<Rightarrow> 64 word" where
  "getEpoch now = epochStart + word_of_int (go_div (UnixNano now) 100)"

definition bigEndian_Uint16 :: "byte8 list \<Rightarrow> 16 word" where
  "bigEndian_Uint16 b = push_bit 8 (ucast (b ! 0)) OR ucast (b ! 1)"

definition PutUint32 :: "32 word \<Rightarrow> byte8 list" where
  "PutUint32 w = [ucast (drop_bit 24 w), ucast (drop_bit 16 w), ucast (drop_bit 8 w), ucast w]"

definition PutUint16 :: "16 word \<Rightarrow> byte8 list" where
  "PutUint16 w = [ucast (drop_bit 8 w), ucast w]"

definition init_clockSequence :: "('r, 'e) gen_ext \<Rightarrow> 'r rfc4122Generator \<Rightarrow> 'r rfc4122Generator \<times> 'e option" where
  "init_clockSequence X g =
     (if g_clockSequenceOnce g then (g, None)
      else (let (r, buf, err) = gx_ReadFull X 2 (g_rand g); g1 = g\<lparr>g_clockSequenceOnce := True, g_rand := r\<rparr>
            in case err of Some e \<Rightarrow> (g1, Some e) | None \<Rightarrow> (g1\<lparr>g_clockSequence := bigEndian_Uint16 buf\<rparr>, None)))"

definition getClockSequence :: "('r, 'e) gen_ext \<Rightarrow> time \<Rightarrow> 'r rfc4122Generator \<Rightarrow>
    'r rfc4122Generator \<times> ('e + 64 word \<times> 16 word)" where
  "getClockSequence X now g =
     (case init_clockSequence X g of
        (g1, Some e) \<Rightarrow> (g1, Inl e)
      | (g1, None) \<Rightarrow>
          (let timeNow = getEpoch now;
               g2 = (if timeNow \<le> g_lastTime g1 then g1\<lparr>g_clockSequence := g_clockSequence g1 + 1\<rparr> else g1);
               g3 = g2\<lparr>g_lastTime := timeNow\<rparr>
           in (g3, Inr (timeNow, g_clockSequence g3))))"

text \<open>\<open>copy\<close> into the six bytes of the field; an address that was read at random gets the multicast bit.\<close>

definition getHardwareAddr :: "('r, 'e) gen_ext \<Rightarrow> 'r rfc4122Generator \<Rightarrow> 'r rfc4122Generator \<times> ('e + byte8 list)" where
  "getHardwareAddr X g =
     (if g_hardwareAddrOnce g then (g, Inr (g_hardwareAddr g))
      else
        (let g1 = g\<lparr>g_hardwareAddrOnce := True\<rparr>
         in case gx_hwAddrFunc X of
              Inr hw \<Rightarrow>
                (let a = take 6 hw @ drop (length hw) (g_hardwareAddr g) in (g1\<lparr>g_hardwareAddr := a\<rparr>, Inr a))
            | Inl _ \<Rightarrow>
                (let (r, bs, err) = gx_ReadFull X 6 (g_rand g);
                     a = take 6 bs @ drop (length bs) (g_hardwareAddr g);
                     g2 = g1\<lparr>g_rand := r, g_hardwareAddr := a\<rparr>
                 in case err of
                      Some e \<Rightarrow> (g2, Inl e)
                    | None \<Rightarrow> (g2\<lparr>g_hardwareAddr := a[0 := a ! 0 OR 1]\<rparr>, Inr (a[0 := a ! 0 OR 1])))))"

text \<open>The sixteen bytes of the time, the clock sequence and the address.\<close>

definition time_fields :: "64 word \<Rightarrow> 16 word \<Rightarrow> byte8 list \<Rightarrow> UUID" where
  "time_fields timeNow clockSeq hardwareAddr =
     write_at (write_at (write_at (write_at (write_at Nil_UUID 0 (PutUint32 (ucast timeNow)))
       4 (PutUint16 (ucast (drop_bit 32 timeNow)))) 6 (PutUint16 (ucast (drop_bit 48 timeNow))))
       8 (PutUint16 clockSeq)) 10 (take 6 hardwareAddr)"

definition NewV1 :: "('r, 'e) gen_ext \<Rightarrow> time \<Rightarrow> 'r rfc4122Generator \<Rightarrow> 'r rfc4122Generator \<times> UUID \<times> 'e option" where
  "NewV1 X now g =
     (case getClockSequence X now g of
        (g1, Inl e) \<Rightarrow> (g1, Nil_UUID, Some e)
      | (g1, Inr (timeNow, clockSeq)) \<Rightarrow>
          (case getHardwareAddr X g1 of
             (g2, Inl e) \<Rightarrow> (g2, Nil_UUID, Some e)
           | (g2, Inr hw) \<Rightarrow> (g2, SetVariant (SetVersion (time_fields timeNow clockSeq hw) 1) VariantRFC4122, None)))"

definition NewV2 :: "('r, 'e) gen_ext \<Rightarrow> time \<Rightarrow> byte8 \<Rightarrow> 'r rfc4122Generator \<Rightarrow> 'r rfc4122Generator \<times> UUID \<times> 'e option" where
  "NewV2 X now domain g =
     (case NewV1 X now g of
        (g1, u, Some e) \<Rightarrow> (g1, Nil_UUID, Some e)
      | (g1, u, None) \<Rightarrow>
          (let u1 = (if domain = 0 then write_at u 0 (PutUint32 (gx_posixUID X))
                     else if domain = 1 then write_at u 0 (PutUint32 (gx_posixGID X)) else u)
           in (g1, SetVariant (SetVersion (u1[9 := domain]) 2) VariantRFC4122, None)))"

section \<open>Helpers of the package\<close>

definition UUID_Equal :: "UUID \<Rightarrow> UUID \<Rightarrow> bool" where
  "UUID_Equal u1 u2 \<longleftrightarrow> u1 = u2"

definition UUID_Bytes :: "UUID \<Rightarrow> byte8 list" where
  "UUID_Bytes u = u"

definition Must :: "UUID \<times> 'e option \<Rightarrow> UUID go" where
  "Must r = (case r of (u, Some e) \<Rightarrow> Crash ExplicitPanic | (u, None) \<Rightarrow> Ret u)"

definition NamespaceDNS :: "UUID go" where
  "NamespaceDNS = Must (FromString ''6ba7b810-9dad-11d1-80b4-00c04fd430c8'')"

definition NamespaceURL :: "UUID go" where
  "NamespaceURL = Must (FromString ''6ba7b811-9dad-11d1-80b4-00c04fd430c8'')"

definition NamespaceOID :: "UUID go" where
  "NamespaceOID = Must (FromString ''6ba7b812-9dad-11d1-80b4-00c04fd430c8'')"

definition NamespaceX500 :: "UUID go" where
  "NamespaceX500 = Must (FromString ''6ba7b814-9dad-11d1-80b4-00c04fd430c8'')"

section \<open>Database values\<close>

datatype sql_value = SqlNil | SqlBytes "byte8 list" | SqlString string | SqlOther

datatype scan_error = ScanError uuid_error | CannotConvert

definition UUID_Value :: "UUID \<Rightarrow> sql_value" where
  "UUID_Value u = SqlString (UUID_String u)"

definition UUID_Scan :: "UUID \<Rightarrow> sql_value \<Rightarrow> UUID \<times> scan_error option" where
  "UUID_Scan u src =
     (case src of
        SqlBytes bs \<Rightarrow>
          (if length bs = Size then map_prod (\<lambda>x. x) (map_option ScanError) (UnmarshalBinary u bs)
           else map_prod (\<lambda>x. x) (map_option ScanError) (UnmarshalText u (map (\<lambda>b. char_of (unat b)) bs)))
      | SqlString s \<Rightarrow> map_prod (\<lambda>x. x) (map_option ScanError) (UnmarshalText u s)
      | _ \<Rightarrow> (u, Some CannotConvert))"

record NullUUID =
  nu_UUID :: UUID
  nu_Valid :: bool

definition NullUUID_Value :: "NullUUID \<Rightarrow> sql_value" where
  "NullUUID_Value u = (if nu_Valid u then UUID_Value (nu_UUID u) else SqlNil)"

definition NullUUID_Scan :: "NullUUID \<Rightarrow> sql_value \<Rightarrow> NullUUID \<times> scan_error option" where
  "NullUUID_Scan u src =
     (if src = SqlNil then (\<lparr>nu_UUID = Nil_UUID, nu_Valid = False\<rparr>, None)
      else (let (v, err) = UUID_Scan (nu_UUID u) src in (\<lparr>nu_UUID = v, nu_Valid = True\<rparr>, err)))"
section \<open>What a time-based value tells\<close>

lemma first_bytes:
  "take 10 (time_fields t c hw) = PutUint32 (ucast t) @ PutUint16 (ucast (drop_bit 32 t)) @ PutUint16 (ucast (drop_bit 48 t)) @ PutUint16 c"
  by (simp add: time_fields_def write_at_def PutUint32_def PutUint16_def Nil_UUID_def Size_def eval_nat_numeral)

lemma is_uuid_time_fields [simp]: "is_uuid (time_fields t c hw)"
  by (simp add: time_fields_def is_uuid_write_at PutUint32_def PutUint16_def Size_def)

lemma byte_of_word:
  "(ucast (drop_bit k (ucast (t :: 64 word) :: 32 word)) :: byte8) = ucast (drop_bit k t)" if "k \<le> 24"
  using that by (intro bit_eqI) (auto simp: bit_simps)

lemma byte_of_half:
  "(ucast (drop_bit k (ucast (drop_bit m (t :: 64 word)) :: 16 word)) :: byte8) = ucast (drop_bit (m + k) t)" if "k \<le> 8"
  using that by (intro bit_eqI) (auto simp: bit_simps ac_simps)

lemma byte_bits:
  assumes "(ucast (drop_bit k (t :: 'a::len word)) :: byte8) = ucast (drop_bit k t')" and "k \<le> n" and "n < k + 8"
  shows "bit t n = bit t' n"
proof -
  have "n - k < 8" using assms(2,3) by simp
  moreover have "bit (ucast (drop_bit k t) :: byte8) (n - k) = bit (ucast (drop_bit k t') :: byte8) (n - k)" using assms(1) by simp
  ultimately show ?thesis using assms(2) by (simp add: bit_ucast_iff bit_drop_bit_eq)
qed

lemma low_bits:
  assumes "(ucast (drop_bit k (t :: 'a::len word)) :: byte8) AND mask m = ucast (drop_bit k t') AND mask m" and "k \<le> n" and "n < k + m" and "m \<le> 8"
  shows "bit t n = bit t' n"
proof -
  have "n - k < m" and "n - k < 8" using assms(2-4) by simp_all
  moreover have "bit ((ucast (drop_bit k t) :: byte8) AND mask m) (n - k) = bit ((ucast (drop_bit k t') :: byte8) AND mask m) (n - k)"
    using assms(1) by simp
  ultimately show ?thesis using assms(2) by (simp add: bit_ucast_iff bit_drop_bit_eq bit_and_iff bit_mask_iff)
qed

text \<open>A value of \<open>NewV1\<close>, by what it is made of.\<close>

definition v1_uuid :: "64 word \<Rightarrow> 16 word \<Rightarrow> byte8 list \<Rightarrow> UUID" where
  "v1_uuid t c hw = SetVariant (SetVersion (time_fields t c hw) 1) VariantRFC4122"

lemma take_v1_uuid:
  "take 10 (v1_uuid t c hw) =
     [ucast (drop_bit 24 t), ucast (drop_bit 16 t), ucast (drop_bit 8 t), ucast (drop_bit 0 t), ucast (drop_bit 40 t), ucast (drop_bit 32 t),
      (ucast (drop_bit 56 t) AND 15) OR push_bit 4 1, ucast (drop_bit 48 t),
      (ucast (drop_bit 8 c) AND 63) OR push_bit 6 2, ucast (drop_bit 0 c)]"
proof -
  have at: "time_fields t c hw ! i = take 10 (time_fields t c hw) ! i" if "i < 10" for i using that by simp
  have "time_fields t c hw ! 6 = ucast (drop_bit 56 t)" "time_fields t c hw ! 8 = ucast (drop_bit 8 c)"
    using at[of 6] at[of 8] by (simp_all add: first_bytes PutUint32_def PutUint16_def byte_of_half)
  then show ?thesis
    by (simp add: v1_uuid_def SetVersion_def SetVariant_def take_update_swap first_bytes PutUint32_def PutUint16_def byte_of_word byte_of_half
        byte_of_word[of 0, simplified] byte_of_half[of 0, simplified])
qed

lemma tagged_byte: "((x :: byte8) AND 15) OR push_bit 4 1 = (y AND 15) OR push_bit 4 1 \<Longrightarrow> x AND mask 4 = y AND mask 4"
  "(x AND 63) OR push_bit 6 2 = (y AND 63) OR push_bit 6 2 \<Longrightarrow> x AND mask 6 = y AND mask 6"
proof -
  have m: "mask 4 = (15 :: byte8)" "mask 6 = (63 :: byte8)" by (simp_all add: mask_eq_exp_minus_1)
  assume "(x AND 15) OR push_bit 4 1 = (y AND 15) OR push_bit 4 1"
  then have "((x AND 15) OR push_bit 4 1) AND 15 = ((y AND 15) OR push_bit 4 1) AND 15" by simp
  then show "x AND mask 4 = y AND mask 4" by (simp add: m and.assoc bit.conj_disj_distrib2)
next
  have m: "mask 4 = (15 :: byte8)" "mask 6 = (63 :: byte8)" by (simp_all add: mask_eq_exp_minus_1)
  assume "(x AND 63) OR push_bit 6 2 = (y AND 63) OR push_bit 6 2"
  then have "((x AND 63) OR push_bit 6 2) AND 63 = ((y AND 63) OR push_bit 6 2) AND 63" by simp
  then show "x AND mask 6 = y AND mask 6" by (simp add: m and.assoc bit.conj_disj_distrib2)
qed

text \<open>Equal values have the same sixty bits of the time and the same fourteen of the sequence.\<close>

lemma v1_uuid_eq:
  assumes "v1_uuid t c hw = v1_uuid t' c' hw'"
  shows "take_bit 60 t = take_bit 60 t'" and "take_bit 14 c = take_bit 14 c'"
proof -
  from assms have eq: "take 10 (v1_uuid t c hw) = take 10 (v1_uuid t' c' hw')" by simp
  define b where "b k \<longleftrightarrow> (ucast (drop_bit k t) :: byte8) = ucast (drop_bit k t')" for k
  from eq have bytes: "b 24 \<and> b 16 \<and> b 8 \<and> b 0 \<and> b 40 \<and> b 32 \<and> b 48"
    and t6: "((ucast (drop_bit 56 t) :: byte8) AND 15) OR push_bit 4 1 = (ucast (drop_bit 56 t') AND 15) OR push_bit 4 1"
    and c8: "((ucast (drop_bit 8 c) :: byte8) AND 63) OR push_bit 6 2 = (ucast (drop_bit 8 c') AND 63) OR push_bit 6 2"
    and c0: "(ucast (drop_bit 0 c) :: byte8) = ucast (drop_bit 0 c')"
    unfolding take_v1_uuid list.inject b_def by blast+
  have t: "bit t n = bit t' n" if "n < 60" for n
  proof -
    have whole: "bit t n = bit t' n" if "b k" "k \<le> n" "n < k + 8" for k using that byte_bits[of k t t' n] unfolding b_def by blast
    have "n < 8 \<or> (8 \<le> n \<and> n < 16) \<or> (16 \<le> n \<and> n < 24) \<or> (24 \<le> n \<and> n < 32) \<or> (32 \<le> n \<and> n < 40) \<or> (40 \<le> n \<and> n < 48)
      \<or> (48 \<le> n \<and> n < 56) \<or> 56 \<le> n" using that by arith
    then show ?thesis
      using bytes whole[of 0] whole[of 8] whole[of 16] whole[of 24] whole[of 32] whole[of 40] whole[of 48]
        low_bits[OF tagged_byte(1)[OF t6], of n] that by (elim disjE) simp_all
  qed
  have c: "bit c n = bit c' n" if "n < 14" for n
    using byte_bits[OF c0, of n] low_bits[OF tagged_byte(2)[OF c8], of n] that by (cases "n < 8") simp_all
  show "take_bit 60 t = take_bit 60 t'" using t by (intro bit_eqI) (auto simp: bit_take_bit_iff)
  show "take_bit 14 c = take_bit 14 c'" using c by (intro bit_eqI) (auto simp: bit_take_bit_iff)
qed

lemma low_time: "(t :: 64 word) < 2 ^ 60 \<Longrightarrow> take_bit 60 t = t"
  by (simp add: take_bit_eq_mod word_arith_nat_mod word_less_nat_alt)

lemma low_sequence:
  assumes "take_bit 14 ((c :: 16 word) + of_nat k) = take_bit 14 c" and "k < 2 ^ 14"
  shows "k = 0"
proof -
  have "unat (take_bit 14 (c + of_nat k)) = unat (take_bit 14 c)" using assms(1) by simp
  then have "(unat c + k) mod 2 ^ 16 mod 2 ^ 14 = unat c mod 2 ^ 14"
    by (simp add: take_bit_eq_mod unat_mod unat_word_ariths unat_of_nat mod_simps)
  then have "(unat c + k) mod 2 ^ 14 = unat c mod 2 ^ 14" by (simp add: mod_mod_cancel)
  then have "(2 ^ 14 :: nat) dvd k" by (metis add_diff_cancel_left' le_add1 mod_eq_dvd_iff_nat)
  with assms(2) show ?thesis using nat_dvd_not_less by blast
qed

section \<open>Runs of the generator\<close>

fun NewV1s :: "('r, 'e) gen_ext \<Rightarrow> time list \<Rightarrow> 'r rfc4122Generator \<Rightarrow> (UUID \<times> 'e option) list" where
  "NewV1s X [] g = []"
| "NewV1s X (now # nows) g = (let (g1, u, err) = NewV1 X now g in (u, err) # NewV1s X nows g1)"

definition successes :: "(UUID \<times> 'e option) list \<Rightarrow> UUID list" where
  "successes rs = map fst (filter (\<lambda>r. snd r = None) rs)"

lemma successes_simps [simp]: "successes [] = []" "successes ((u, Some e) # rs) = successes rs" "successes ((u, None) # rs) = u # successes rs"
  by (simp_all add: successes_def)

text \<open>What one call does to the clock fields.\<close>

lemma getHardwareAddr_clock:
  "getHardwareAddr X g = (g', r) \<Longrightarrow>
     g_lastTime g' = g_lastTime g \<and> g_clockSequence g' = g_clockSequence g \<and> g_clockSequenceOnce g' = g_clockSequenceOnce g"
  by (auto simp: getHardwareAddr_def Let_def split: if_splits sum.splits prod.splits option.splits)

lemma NewV1_once: "NewV1 X now g = (g', u, err) \<Longrightarrow> g_clockSequenceOnce g'"
  by (auto simp: NewV1_def getClockSequence_def init_clockSequence_def Let_def dest!: getHardwareAddr_clock
      split: if_splits sum.splits prod.splits option.splits)

lemma NewV1_success:
  "NewV1 X now g = (g', u, None) \<Longrightarrow> g_lastTime g' = getEpoch now \<and> (\<exists>hw. u = v1_uuid (getEpoch now) (g_clockSequence g') hw)"
  by (auto simp: NewV1_def getClockSequence_def v1_uuid_def Let_def dest!: getHardwareAddr_clock
      split: if_splits sum.splits prod.splits option.splits)

lemma NewV1_clock:
  "NewV1 X now g = (g', u, err) \<Longrightarrow> g_clockSequenceOnce g \<Longrightarrow>
     g_lastTime g' = getEpoch now \<and>
     g_clockSequence g' = (if getEpoch now \<le> g_lastTime g then g_clockSequence g + 1 else g_clockSequence g)"
  by (auto simp: NewV1_def getClockSequence_def init_clockSequence_def Let_def dest!: getHardwareAddr_clock
      split: if_splits sum.splits prod.splits option.splits)

lemma later_v1:
  assumes "g_clockSequenceOnce g" and "u \<in> set (successes (NewV1s X nows g))"
  shows "\<exists>k t hw. k \<le> length nows \<and> t \<in> getEpoch ` set nows \<and> u = v1_uuid t (g_clockSequence g + of_nat k) hw \<and> (k = 0 \<longrightarrow> g_lastTime g < t)"
  using assms
proof (induction nows arbitrary: g)
  case (Cons now nows)
  obtain g1 v err where n: "NewV1 X now g = (g1, v, err)" by (cases "NewV1 X now g") auto
  note clock = NewV1_clock[OF n Cons.prems(1)]
  show ?case
  proof (cases "err = None \<and> u = v")
    case True
    with NewV1_success[of X now g g1 v] n obtain hw where "u = v1_uuid (getEpoch now) (g_clockSequence g1) hw" by auto
    with clock show ?thesis
      by (intro exI[of _ "if getEpoch now \<le> g_lastTime g then 1 else 0"] exI[of _ "getEpoch now"] exI[of _ hw]) (auto simp: not_le)
  next
    case False
    with Cons.prems(2) n have "u \<in> set (successes (NewV1s X nows g1))" by (cases err) auto
    from Cons.IH[OF NewV1_once[OF n] this] obtain k t hw where
      k: "k \<le> length nows" "t \<in> getEpoch ` set nows" "u = v1_uuid t (g_clockSequence g1 + of_nat k) hw" "k = 0 \<longrightarrow> g_lastTime g1 < t"
      by blast
    show ?thesis
    proof (cases "getEpoch now \<le> g_lastTime g")
      case True
      with k clock show ?thesis by (intro exI[of _ "Suc k"] exI[of _ t] exI[of _ hw]) (auto simp: ac_simps)
    next
      case False
      with k clock show ?thesis by (intro exI[of _ k] exI[of _ t] exI[of _ hw]) auto
    qed
  qed
qed simp

lemma v1_uuid_shape: "is_uuid (v1_uuid t c hw) \<and> Version (v1_uuid t c hw) = 1 \<and> Variant (v1_uuid t c hw) = VariantRFC4122"
  by (simp add: v1_uuid_def Version_SetVariant Version_SetVersion Variant_SetVariant)

text \<open>C36: Time-based UUIDs do not repeat: out of up to \<open>2 ^ 14\<close> calls of \<open>NewV1\<close> on one generator, whatever the clock reads, also when
  it stands still or goes back, all the values that were returned without an error are different, and each is a version 1 UUID of the
  RFC 4122 variant.\<close>

theorem time_uuids_unique:
  assumes "length nows \<le> 2 ^ 14" and "\<forall>now\<in>set nows. getEpoch now < 2 ^ 60"
  shows "distinct (successes (NewV1s X nows g)) \<and>
    (\<forall>u\<in>set (successes (NewV1s X nows g)). is_uuid u \<and> Version u = 1 \<and> Variant u = VariantRFC4122)"
  using assms
proof (induction nows arbitrary: g)
  case (Cons now nows)
  obtain g1 v err where n: "NewV1 X now g = (g1, v, err)" by (cases "NewV1 X now g") auto
  from Cons.IH[of g1] Cons.prems have
    tail: "distinct (successes (NewV1s X nows g1)) \<and>
      (\<forall>u\<in>set (successes (NewV1s X nows g1)). is_uuid u \<and> Version u = 1 \<and> Variant u = VariantRFC4122)" by simp
  show ?case
  proof (cases err)
    case None
    with NewV1_success[of X now g g1 v] n obtain hw where
      v: "g_lastTime g1 = getEpoch now" "v = v1_uuid (getEpoch now) (g_clockSequence g1) hw" by auto
    have "v \<notin> set (successes (NewV1s X nows g1))"
    proof
      assume "v \<in> set (successes (NewV1s X nows g1))"
      from later_v1[OF NewV1_once[OF n] this] obtain k t hw' where
        k: "k \<le> length nows" "t \<in> getEpoch ` set nows" "v = v1_uuid t (g_clockSequence g1 + of_nat k) hw'" "k = 0 \<longrightarrow> g_lastTime g1 < t"
        by blast
      have "take_bit 60 t = take_bit 60 (getEpoch now)" "take_bit 14 (g_clockSequence g1 + of_nat k) = take_bit 14 (g_clockSequence g1)"
        using v1_uuid_eq[OF k(3)[unfolded v(2), symmetric]] by simp_all
      moreover have "t < 2 ^ 60" "getEpoch now < 2 ^ 60" "k < 2 ^ 14" using k(1,2) Cons.prems by auto
      ultimately show False using k(4) v(1) low_sequence[of "g_clockSequence g1" k] by (simp add: low_time)
    qed
    with tail n None v(2) v1_uuid_shape show ?thesis by simp
  next
    case (Some e)
    with tail n show ?thesis by simp
  qed
qed simp

definition example_source :: "(nat, string) gen_ext" where
  "example_source = \<lparr>gx_ReadFull = (\<lambda>n r. (r + 1, replicate n 7, None)), gx_hwAddrFunc = Inl ''none'', gx_posixUID = 1000, gx_posixGID = 100\<rparr>"

definition example_readings :: "time list" where
  "example_readings = [unix_epoch + 1500, unix_epoch + 1500, unix_epoch + 900]"

lemma example_readings_epoch: "now \<in> set example_readings \<Longrightarrow> getEpoch now < 2 ^ 60"
  by (auto simp: example_readings_def getEpoch_def UnixNano_def wrap64_def epochStart_def go_div_def)

theorem time_uuids_unique_witness:
  "distinct (successes (NewV1s example_source example_readings (newRFC4122Generator 0)))"
  using time_uuids_unique[of example_readings example_source "newRFC4122Generator 0"] example_readings_epoch
  by (simp add: example_readings_def)

text \<open>A value written to a database column is read back, \<open>NULL\<close> included.\<close>

lemma null_uuid_roundtrip:
  "is_uuid (nu_UUID u) \<Longrightarrow> is_uuid (nu_UUID v) \<Longrightarrow>
     NullUUID_Scan v (NullUUID_Value u) = (if nu_Valid u then u else \<lparr>nu_UUID = Nil_UUID, nu_Valid = False\<rparr>, None)"
  by (cases u) (simp add: NullUUID_Scan_def NullUUID_Value_def UUID_Value_def UUID_Scan_def UnmarshalText_def length_UUID_String uuid_codec)

text \<open>The same for the values of \<open>NewV2\<close>, whatever the domain.\<close>

lemma v2_shape:
  assumes "NewV2 X now domain g = (g', u, None)"
  shows "is_uuid u \<and> Version u = 2 \<and> Variant u = VariantRFC4122 \<and> u ! 9 = domain"
proof -
  from assms obtain v where n: "NewV1 X now g = (g', v, None)"
    by (auto simp: NewV2_def Let_def split: prod.splits option.splits)
  define w where "w = (if domain = 0 then write_at v 0 (PutUint32 (gx_posixUID X)) else if domain = 1 then write_at v 0 (PutUint32 (gx_posixGID X)) else v)"
  from NewV1_success[OF n] v1_uuid_shape have "is_uuid v" by auto
  then have "is_uuid w" by (auto simp: w_def is_uuid_write_at PutUint32_def Size_def)
  then have "is_uuid (w[9 := domain])" by (simp add: is_uuid_def)
  moreover have "u = SetVariant (SetVersion (w[9 := domain]) 2) VariantRFC4122"
    using assms n by (simp add: NewV2_def Let_def w_def)
  ultimately show ?thesis
    by (simp add: Version_SetVariant Version_SetVersion Variant_SetVariant) (simp add: SetVariant_def SetVersion_def is_uuid_def Size_def)
qed

text \<open>The name spaces of the package are parsed when it is initialised; none of them panics.\<close>

lemma namespaces_parse:
  "list_all (\<lambda>m. case m of Ret u \<Rightarrow> is_uuid u \<and> Version u = 1 \<and> Variant u = VariantRFC4122 | Crash _ \<Rightarrow> False)
     [NamespaceDNS, NamespaceURL, NamespaceOID, NamespaceX500]"
  unfolding NamespaceDNS_def NamespaceURL_def NamespaceOID_def NamespaceX500_def by code_simp

end
