(* ===== verification/Scheduler.thy ===== *)
theory Scheduler
  imports Go_Std
begin

text \<open>
  The periodic scheduler (VESPA/ves-agent/scheduler/scheduler.go) that triggers heartbeats
  and measurement collections. Its \<open>State\<close> interface is a record of operations over a state
  type \<open>'s\<close>; the contract a provider owes is the locale \<open>sched_state\<close>, interpreted here for the
  scheduler's own \<open>inMemState\<close> and in theory \<open>Ha\<close> for the replicated states.
\<close>

section \<open>The \<open>State\<close> interface\<close>

record ('s, 'e) State =
  st_NextRun :: "'s \<Rightarrow> string \<Rightarrow> time"
  st_UpdateNextRun :: "'s \<Rightarrow> string \<Rightarrow> time \<Rightarrow> 's \<times> 'e option"
  st_Interval :: "'s \<Rightarrow> string \<Rightarrow> duration"
  st_UpdateInterval :: "'s \<Rightarrow> string \<Rightarrow> duration \<Rightarrow> 's \<times> 'e option"
  st_UpdateScheduler :: "'s \<Rightarrow> string \<Rightarrow> duration \<Rightarrow> time \<Rightarrow> 's \<times> 'e option"

record inMemState =
  im_next :: time
  im_interval :: duration

definition inMem_NextRun :: "inMemState \<Rightarrow> string \<Rightarrow> time" where
  "inMem_NextRun s n = im_next s"

definition inMem_UpdateNextRun :: "inMemState \<Rightarrow> string \<Rightarrow> time \<Rightarrow> inMemState \<times> 'e option" where
  "inMem_UpdateNextRun s n t = (s\<lparr>im_next := t\<rparr>, None)"

definition inMem_Interval :: "inMemState \<Rightarrow> string \<Rightarrow> duration" where
  "inMem_Interval s n = im_interval s"

definition inMem_UpdateInterval :: "inMemState \<Rightarrow> string \<Rightarrow> duration \<Rightarrow> inMemState \<times> 'e option" where
  "inMem_UpdateInterval s n d = (s\<lparr>im_interval := d\<rparr>, None)"

definition inMem_UpdateScheduler ::
    "inMemState \<Rightarrow> string \<Rightarrow> duration \<Rightarrow> time \<Rightarrow> inMemState \<times> 'e option" where
  "inMem_UpdateScheduler s n d t = (s\<lparr>im_interval := d, im_next := t\<rparr>, None)"

definition inMemState_ops :: "(inMemState, 'e) State" where
  "inMemState_ops = \<lparr>st_NextRun = inMem_NextRun, st_UpdateNextRun = inMem_UpdateNextRun,
     st_Interval = inMem_Interval, st_UpdateInterval = inMem_UpdateInterval,
     st_UpdateScheduler = inMem_UpdateScheduler\<rparr>"

section \<open>The scheduler\<close>

text \<open>
  The state is shared with other parts of the agent, so it is threaded through a world
  together with the readings of \<open>time.Now\<close>: reading \<open>k\<close> is \<open>w_clk w k\<close>. Readings that only
  feed a log line are left out.
\<close>

record 's world =
  w_st :: 's
  w_clk :: "nat \<Rightarrow> time"
  w_tick :: nat

definition Now :: "'s world \<Rightarrow> time \<times> 's world" where
  "Now w = (w_clk w (w_tick w), w\<lparr>w_tick := Suc (w_tick w)\<rparr>)"

record Scheduler =
  sch_name :: string
  sch_defaultInterval :: duration
  sch_lastTime :: "time option"

type_synonym ('s, 'e, 'r) Job = "'s \<Rightarrow> time \<Rightarrow> time \<Rightarrow> duration \<Rightarrow> 's \<times> ('e + 'r)"

text \<open>The errors of \<open>Step\<close>: \<open>ErrNotReady\<close> or the error of the job.\<close>

datatype 'e step_error = ErrNotReady | JobError 'e

definition NewSchedulerWithState :: "string \<Rightarrow> duration \<Rightarrow> Scheduler" where
  "NewSchedulerWithState n d = \<lparr>sch_name = n, sch_defaultInterval = d, sch_lastTime = None\<rparr>"

definition GetInterval :: "('s, 'e) State \<Rightarrow> Scheduler \<Rightarrow> 's world \<Rightarrow> duration" where
  "GetInterval I sched w =
     (let interval = st_Interval I (w_st w) (sch_name sched)
      in if interval > 0 then interval else sch_defaultInterval sched)"

definition NextRun :: "('s, 'e) State \<Rightarrow> Scheduler \<Rightarrow> 's world \<Rightarrow> time \<times> 's world" where
  "NextRun I sched w =
     (let nextTime = st_NextRun I (w_st w) (sch_name sched)
      in if IsZero nextTime then
           (let (now, w1) = Now w;
                nextTime = Round now (sch_defaultInterval sched);
                (s', _) = st_UpdateNextRun I (w_st w1) (sch_name sched) nextTime
            in (nextTime, w1\<lparr>w_st := s'\<rparr>))
         else (nextTime, w))"

definition SetInterval ::
    "('s, 'e) State \<Rightarrow> Scheduler \<Rightarrow> 's world \<Rightarrow> duration \<Rightarrow> 's world \<times> 'e option" where
  "SetInterval I sched w interval =
     (if interval = GetInterval I sched w then (w, None)
      else
        (let newInterval = (if interval \<le> 0 then sch_defaultInterval sched else interval);
             (next, w1) = NextRun I sched w;
             (now, w2) = Now w1;
             (next', w3) = (if next > now
                            then (let (now2, w3) = Now w2 in (Round now2 newInterval, w3))
                            else (Round next newInterval, w2));
             (s', err) = st_UpdateScheduler I (w_st w3) (sch_name sched) newInterval next';
             w4 = w3\<lparr>w_st := s'\<rparr>
         in case err of Some e \<Rightarrow> (w4, Some e)
            | None \<Rightarrow> (let (_, w5) = NextRun I sched w4 in (w5, None))))"

definition Ready :: "('s, 'e) State \<Rightarrow> Scheduler \<Rightarrow> 's world \<Rightarrow> bool \<times> 's world" where
  "Ready I sched w =
     (let (now, w1) = Now w; (next, w2) = NextRun I sched w1 in (next < now \<or> next = now, w2))"

text \<open>The timer that \<open>WaitChan\<close> arms, as its duration.\<close>

definition WaitChan :: "('s, 'e) State \<Rightarrow> Scheduler \<Rightarrow> 's world \<Rightarrow> duration \<times> 's world" where
  "WaitChan I sched w =
     (let (ready, w1) = Ready I sched w
      in if ready then (0, w1)
         else (let (next, w2) = NextRun I sched w1; (now, w3) = Now w2 in (next - now, w3)))"

definition Ack ::
    "('s, 'e) State \<Rightarrow> Scheduler \<Rightarrow> 's world \<Rightarrow> Scheduler \<times> 's world \<times> 'e option" where
  "Ack I sched w =
     (case sch_lastTime sched of
        None \<Rightarrow> (sched, w, None)
      | Some lastT \<Rightarrow>
          (let next = Truncate lastT (GetInterval I sched w) + GetInterval I sched w;
               (_, w1) = NextRun I sched w;
               (s', err) = st_UpdateNextRun I (w_st w1) (sch_name sched) next;
               w2 = w1\<lparr>w_st := s'\<rparr>
           in case err of Some e \<Rightarrow> (sched, w2, Some e)
              | None \<Rightarrow>
                  (let sched' = sched\<lparr>sch_lastTime := None\<rparr>; (_, w3) = NextRun I sched' w2
                   in (sched', w3, None))))"

definition Step ::
    "('s, 'e) State \<Rightarrow> ('s, 'e, 'r) Job \<Rightarrow> Scheduler \<Rightarrow> 's world \<Rightarrow>
     Scheduler \<times> 's world \<times> ('e step_error + 'r)" where
  "Step I job sched w =
     (let sched0 = sched\<lparr>sch_lastTime := None\<rparr>;
          (ready, w1) = Ready I sched0 w
      in if \<not> ready then (sched0, w1, Inl ErrNotReady)
         else
           (let (now, w2) = Now w1;
                (next, w3) = NextRun I sched0 w2;
                (s', res) = job (w_st w3) next now (GetInterval I sched0 w3);
                w4 = w3\<lparr>w_st := s'\<rparr>
            in case res of Inl e \<Rightarrow> (sched0, w4, Inl (JobError e))
               | Inr r \<Rightarrow> (sched0\<lparr>sch_lastTime := Some now\<rparr>, w4, Inr r)))"

text \<open>\<open>Wait\<close> with a background context ends when the timer fires; how long that takes is what
  the later clock readings say.\<close>

definition StepWait ::
    "('s, 'e) State \<Rightarrow> ('s, 'e, 'r) Job \<Rightarrow> Scheduler \<Rightarrow> 's world \<Rightarrow>
     Scheduler \<times> 's world \<times> ('e step_error + 'r)" where
  "StepWait I job sched w =
     (let sched0 = sched\<lparr>sch_lastTime := None\<rparr>; (_, w1) = WaitChan I sched0 w
      in Step I job sched0 w1)"

lemmas sched_ops = GetInterval_def NextRun_def Ready_def WaitChan_def Ack_def Step_def Now_def
  SetInterval_def

text \<open>A job that may use the shared state, but leaves the scheduler's entry alone.\<close>

definition job_frame :: "('s, 'e) State \<Rightarrow> ('s, 'e, 'r) Job \<Rightarrow> string \<Rightarrow> bool" where
  "job_frame I job n \<longleftrightarrow> (\<forall>s f t d.
     st_NextRun I (fst (job s f t d)) n = st_NextRun I s n \<and>
     st_Interval I (fst (job s f t d)) n = st_Interval I s n)"

section \<open>The contract of a state provider\<close>

text \<open>
  \<open>norm\<close> is the precision at which a provider keeps the next run time: the identity for the
  in-memory states, whole seconds for the replicated one. A failed update of the next run may or
  may not have taken effect (a replicated write can fail after it was committed), but leaves
  the interval alone.
\<close>

locale sched_state =
  fixes I :: "('s, 'e) State"
    and norm :: "time \<Rightarrow> time"
  assumes next_update:
      "st_UpdateNextRun I s n t = (s', None) \<Longrightarrow>
         st_NextRun I s' n = norm t \<and> st_Interval I s' n = st_Interval I s n"
    and next_update_fail:
      "st_UpdateNextRun I s n t = (s', Some e) \<Longrightarrow> st_Interval I s' n = st_Interval I s n"
    and sched_update:
      "st_UpdateScheduler I s n d t = (s', None) \<Longrightarrow>
         st_NextRun I s' n = norm t \<and> st_Interval I s' n = d"
    and norm_le: "norm t \<le> t"
    and norm_gt: "t < norm t + second"
    and norm_seconds: "second dvd t \<Longrightarrow> norm t = t"
begin

abbreviation nxt :: "Scheduler \<Rightarrow> 's world \<Rightarrow> time" where
  "nxt sched w \<equiv> st_NextRun I (w_st w) (sch_name sched)"

lemma GetInterval_pos: "0 < sch_defaultInterval sched \<Longrightarrow> 0 < GetInterval I sched w"
  by (simp add: GetInterval_def Let_def)

lemma NextRun_set: "nxt sched w \<noteq> 0 \<Longrightarrow> NextRun I sched w = (nxt sched w, w)"
  by (simp add: NextRun_def IsZero_def Let_def)

lemma Ready_set:
  "nxt sched w \<noteq> 0 \<Longrightarrow>
   Ready I sched w = (nxt sched w \<le> w_clk w (w_tick w), w\<lparr>w_tick := Suc (w_tick w)\<rparr>)"
  by (auto simp: Ready_def Now_def NextRun_def IsZero_def Let_def)

lemma NextRun_Interval:
  "st_Interval I (w_st (snd (NextRun I sched w))) (sch_name sched) =
   st_Interval I (w_st w) (sch_name sched)"
proof -
  have "st_Interval I (fst (st_UpdateNextRun I s n t)) n = st_Interval I s n" for s n t
    using next_update next_update_fail by (metis not_None_eq prod.collapse)
  then show ?thesis by (simp add: NextRun_def Now_def Let_def split: prod.splits) (metis fst_conv)
qed

text \<open>Before its time the scheduler refuses to run the job and touches nothing.\<close>

lemma Step_not_ready:
  assumes "nxt sched w \<noteq> 0" and "w_clk w (w_tick w) < nxt sched w"
  shows "Step I job sched w =
    (sched\<lparr>sch_lastTime := None\<rparr>, w\<lparr>w_tick := Suc (w_tick w)\<rparr>, Inl ErrNotReady)"
proof -
  have "nxt (sched\<lparr>sch_lastTime := None\<rparr>) w = nxt sched w" by simp
  with assms Ready_set [where sched = "sched\<lparr>sch_lastTime := None\<rparr>" and w = w] show ?thesis
    by (simp add: Step_def Let_def)
qed

lemma Step_ready:
  assumes "nxt sched w \<noteq> 0" and "nxt sched w \<le> w_clk w (w_tick w)"
    and "job (w_st w) (nxt sched w) (w_clk w (Suc (w_tick w))) (GetInterval I sched w) = (s', res)"
  shows "Step I job sched w =
    (case res of
       Inl e \<Rightarrow> (sched\<lparr>sch_lastTime := None\<rparr>, w\<lparr>w_tick := w_tick w + 2, w_st := s'\<rparr>, Inl (JobError e))
     | Inr r \<Rightarrow> (sched\<lparr>sch_lastTime := Some (w_clk w (Suc (w_tick w)))\<rparr>,
                w\<lparr>w_tick := w_tick w + 2, w_st := s'\<rparr>, Inr r))"
proof -
  let ?s0 = "sched\<lparr>sch_lastTime := None\<rparr>"
  let ?w2 = "w\<lparr>w_tick := Suc (Suc (w_tick w))\<rparr>"
  have "NextRun I ?s0 ?w2 = (nxt sched w, ?w2)"
    using assms(1) NextRun_set [where sched = ?s0 and w = ?w2] by simp
  moreover have "GetInterval I ?s0 ?w2 = GetInterval I sched w" by (simp add: GetInterval_def Let_def)
  ultimately show ?thesis
    using assms Ready_set [where sched = ?s0 and w = w] by (auto simp: Step_def Now_def Let_def split: sum.splits)
qed

lemma Ack_set:
  assumes "nxt sched w \<noteq> 0" and "sch_lastTime sched = Some lastT"
    and "st_UpdateNextRun I (w_st w) (sch_name sched)
           (Truncate lastT (GetInterval I sched w) + GetInterval I sched w) = (s', None)"
    and "norm (Truncate lastT (GetInterval I sched w) + GetInterval I sched w) \<noteq> 0"
  shows "Ack I sched w = (sched\<lparr>sch_lastTime := None\<rparr>, w\<lparr>w_st := s'\<rparr>, None)"
proof -
  have "NextRun I (sched\<lparr>sch_lastTime := None\<rparr>) (w\<lparr>w_st := s'\<rparr>) =
        (norm (Truncate lastT (GetInterval I sched w) + GetInterval I sched w), w\<lparr>w_st := s'\<rparr>)"
    using assms(4) next_update [OF assms(3)] by (simp add: NextRun_def IsZero_def)
  with assms NextRun_set [OF assms(1)] show ?thesis by (simp add: Ack_def Let_def)
qed

lemma Step_success:
  assumes step: "Step I job sched w = (sched1, w1, Inr r)" and nz: "nxt sched w \<noteq> 0"
    and fr: "job_frame I job (sch_name sched)"
  shows "sched1 = sched\<lparr>sch_lastTime := Some (w_clk w (Suc (w_tick w)))\<rparr>"
    and "nxt sched w \<le> w_clk w (w_tick w)"
    and "nxt sched w1 = nxt sched w" and "GetInterval I sched1 w1 = GetInterval I sched w"
    and "w_clk w1 = w_clk w"
proof -
  obtain s' res where j: "job (w_st w) (nxt sched w) (w_clk w (Suc (w_tick w))) (GetInterval I sched w) = (s', res)"
    by fastforce
  show rdy: "nxt sched w \<le> w_clk w (w_tick w)"
    using step Step_not_ready [where job = job, OF nz] by (cases "nxt sched w \<le> w_clk w (w_tick w)") auto
  from Step_ready [where job = job, OF nz rdy j] step
  have w1: "w1 = w\<lparr>w_tick := w_tick w + 2, w_st := s'\<rparr>"
    and s1: "sched1 = sched\<lparr>sch_lastTime := Some (w_clk w (Suc (w_tick w)))\<rparr>"
    by (auto split: sum.splits)
  have f: "st_NextRun I s' (sch_name sched) = nxt sched w"
    "st_Interval I s' (sch_name sched) = st_Interval I (w_st w) (sch_name sched)"
    using fr j by (metis job_frame_def fst_conv)+
  show "sched1 = sched\<lparr>sch_lastTime := Some (w_clk w (Suc (w_tick w)))\<rparr>" by (rule s1)
  show "nxt sched w1 = nxt sched w" "w_clk w1 = w_clk w" using w1 f by simp_all
  show "GetInterval I sched1 w1 = GetInterval I sched w" using w1 s1 f by (simp add: GetInterval_def Let_def)
qed

text \<open>A run that succeeded and was acknowledged moves the next run to the end of the current
  interval; a run that failed leaves it where it was, so that the retry covers the same range.\<close>

lemma Step_Ack:
  assumes step: "Step I job sched w = (sched1, w1, Inr r)"
    and ack: "Ack I sched1 w1 = (sched2, w2, None)"
    and nz: "nxt sched w \<noteq> 0" and fr: "job_frame I job (sch_name sched)"
    and def: "0 < sch_defaultInterval sched" and clk: "second \<le> w_clk w (Suc (w_tick w))"
    and d: "d = GetInterval I sched w" and now: "now = w_clk w (Suc (w_tick w))"
  shows "sched2 = sched\<lparr>sch_lastTime := None\<rparr> \<and> nxt sched2 w2 = norm (Truncate now d + d) \<and>
    nxt sched2 w2 \<noteq> 0"
proof -
  note S = Step_success [OF step nz fr]
  have dpos: "0 < d" using def d by (simp add: GetInterval_pos)
  let ?n = "Truncate now d + d"
  from Truncate_gt [OF dpos, of now] clk now norm_gt [of ?n] have pos: "norm ?n \<noteq> 0" by simp
  have nz1: "nxt sched1 w1 \<noteq> 0" using S(1,3) nz by simp
  have last: "sch_lastTime sched1 = Some now" using S(1) now by simp
  obtain s' er where u: "st_UpdateNextRun I (w_st w1) (sch_name sched1) ?n = (s', er)" by fastforce
  have "er = None" using ack u last NextRun_set [OF nz1] S(4) d
    by (auto simp: Ack_def Let_def split: option.splits)
  with u have u: "st_UpdateNextRun I (w_st w1) (sch_name sched1) ?n = (s', None)" by simp
  have g: "GetInterval I sched1 w1 = d" using S(4) d by simp
  from Ack_set [OF nz1 last, unfolded g, OF u pos] ack
  have "sched2 = sched1\<lparr>sch_lastTime := None\<rparr>" "w2 = w1\<lparr>w_st := s'\<rparr>" by auto
  with next_update [OF u] S(1) pos show ?thesis by simp
qed

lemma Step_Ack_aligned:
  assumes step: "Step I job sched w = (sched1, w1, Inr r)"
    and ack: "Ack I sched1 w1 = (sched2, w2, None)"
    and nz: "nxt sched w \<noteq> 0" and fr: "job_frame I job (sch_name sched)"
    and def: "0 < sch_defaultInterval sched" and clk: "second \<le> w_clk w (Suc (w_tick w))"
    and d: "d = GetInterval I sched w" and now: "now = w_clk w (Suc (w_tick w))"
    and sec: "second dvd d"
  shows "d dvd nxt sched2 w2 \<and> now < nxt sched2 w2 \<and> nxt sched2 w2 \<le> now + d"
proof -
  have dpos: "0 < d" using def d by (simp add: GetInterval_pos)
  have mult: "d dvd Truncate now d + d" using Truncate_multiple [OF dpos] by simp
  then have "norm (Truncate now d + d) = Truncate now d + d"
    using sec norm_seconds dvd_trans by blast
  with Step_Ack [OF step ack nz fr def clk d now] have "nxt sched2 w2 = Truncate now d + d" by metis
  with mult Truncate_gt [OF dpos, of now] Truncate_le [of now d]
  show ?thesis by simp
qed

text \<open>The same run with every step given.\<close>

lemma Step_Ack_run:
  assumes nz: "nxt sched w \<noteq> 0" and due: "nxt sched w \<le> w_clk w (w_tick w)"
    and now: "now = w_clk w (Suc (w_tick w))" "second \<le> now"
    and d: "d = GetInterval I sched w" "second dvd d" "0 < sch_defaultInterval sched"
    and job: "job (w_st w) (nxt sched w) now d = (s', Inr r)"
    and fr: "st_NextRun I s' (sch_name sched) = nxt sched w"
      "st_Interval I s' (sch_name sched) = st_Interval I (w_st w) (sch_name sched)"
    and upd: "st_UpdateNextRun I s' (sch_name sched) (Truncate now d + d) = (s2, None)"
  shows "Step I job sched w = (sched\<lparr>sch_lastTime := Some now\<rparr>, w\<lparr>w_tick := w_tick w + 2, w_st := s'\<rparr>, Inr r)"
    and "Ack I (sched\<lparr>sch_lastTime := Some now\<rparr>) (w\<lparr>w_tick := w_tick w + 2, w_st := s'\<rparr>) =
      (sched\<lparr>sch_lastTime := None\<rparr>, w\<lparr>w_tick := w_tick w + 2, w_st := s2\<rparr>, None)"
    and "st_NextRun I s2 (sch_name sched) = Truncate now d + d" and "now < Truncate now d + d"
    and "d dvd Truncate now d + d" and "Truncate now d + d \<le> now + d"
proof -
  let ?s1 = "sched\<lparr>sch_lastTime := Some now\<rparr>" and ?w1 = "w\<lparr>w_tick := w_tick w + 2, w_st := s'\<rparr>"
  have dpos: "0 < d" using d by (simp add: GetInterval_pos)
  show "Step I job sched w = (?s1, ?w1, Inr r)" using Step_ready [OF nz due, of job s' "Inr r"] job now d by simp
  have g: "GetInterval I ?s1 ?w1 = d" using fr(2) d by (simp add: GetInterval_def Let_def)
  show gt: "now < Truncate now d + d" and le: "Truncate now d + d \<le> now + d" and mult: "d dvd Truncate now d + d"
    using Truncate_gt [OF dpos, of now] Truncate_le [of now d] Truncate_multiple [OF dpos] by simp_all
  have norm: "norm (Truncate now d + d) = Truncate now d + d"
    using norm_seconds mult d(2) dvd_trans by blast
  with gt now(2) have "norm (Truncate now d + d) \<noteq> 0" by simp
  with Ack_set [of ?w1 ?s1 now s2] nz fr(1) g upd
  show "Ack I ?s1 ?w1 = (sched\<lparr>sch_lastTime := None\<rparr>, w\<lparr>w_tick := w_tick w + 2, w_st := s2\<rparr>, None)" by simp
  show "st_NextRun I s2 (sch_name sched) = Truncate now d + d" using next_update [OF upd] norm by simp
qed

text \<open>A timer only reads the clock.\<close>

lemma WaitChan_set:
  "nxt sched w \<noteq> 0 \<Longrightarrow> WaitChan I sched w =
     (if nxt sched w \<le> w_clk w (w_tick w) then (0, w\<lparr>w_tick := Suc (w_tick w)\<rparr>)
      else (nxt sched w - w_clk w (Suc (w_tick w)), w\<lparr>w_tick := w_tick w + 2\<rparr>))"
  using NextRun_set [of "w\<lparr>w_tick := Suc (w_tick w)\<rparr>" sched] by (simp add: WaitChan_def Ready_set Now_def Let_def)

lemma Step_failed:
  assumes step: "Step I job sched w = (sched1, w1, Inl (JobError e))" and nz: "nxt sched w \<noteq> 0"
    and fr: "job_frame I job (sch_name sched)"
  shows "nxt sched1 w1 = nxt sched w \<and> Ack I sched1 w1 = (sched1, w1, None)"
proof -
  obtain s' res where j: "job (w_st w) (nxt sched w) (w_clk w (Suc (w_tick w))) (GetInterval I sched w) = (s', res)"
    by fastforce
  have rdy: "nxt sched w \<le> w_clk w (w_tick w)"
    using step Step_not_ready [where job = job, OF nz] by (cases "nxt sched w \<le> w_clk w (w_tick w)") auto
  have "st_NextRun I s' (sch_name sched) = nxt sched w"
    using fr j by (metis job_frame_def fst_conv)
  with Step_ready [where job = job, OF nz rdy j] step show ?thesis
    by (auto simp: Ack_def split: sum.splits)
qed

lemma SetInterval_ok:
  assumes set: "SetInterval I sched w d = (w', None)" and "d \<noteq> GetInterval I sched w"
    and def: "0 < sch_defaultInterval sched"
  shows "GetInterval I sched w' = (if d \<le> 0 then sch_defaultInterval sched else d)"
proof -
  let ?d = "if d \<le> 0 then sch_defaultInterval sched else d"
  from set assms(2) obtain w3 t s' where
    u: "st_UpdateScheduler I (w_st w3) (sch_name sched) ?d t = (s', None)"
    and w': "w' = snd (NextRun I sched (w3\<lparr>w_st := s'\<rparr>))"
    by (auto simp: SetInterval_def Let_def split: prod.splits option.splits if_splits)
  have "GetInterval I sched w' = GetInterval I sched (w3\<lparr>w_st := s'\<rparr>)"
    unfolding w' by (simp add: GetInterval_def NextRun_Interval)
  with sched_update [OF u] def show ?thesis by (simp add: GetInterval_def)
qed

end

section \<open>The scheduler's own state\<close>

interpretation im: sched_state inMemState_ops id
  by unfold_locales (auto simp: inMemState_ops_def inMem_NextRun_def inMem_UpdateNextRun_def
      inMem_Interval_def inMem_UpdateScheduler_def)

end
