(* ===== verification/Govel_Events.thy ===== *)
theory Govel_Events
  imports Go_Std
begin

text \<open>
  The event structures of VESPA/govel (event.go, fault.go, heartbeat.go) and their
  constructors. A Go struct is a record; an embedded struct is a field; \<open>interface{}\<close> values
  are JSON trees. Named string types (\<open>Severity\<close>, \<open>EventDomain\<close>, \<open>EventPriority\<close>,
  \<open>VfStatus\<close>) are strings, as in Go, since the code passes on values it does not know.
\<close>

section \<open>Named string types\<close>

type_synonym Severity = string
type_synonym EventDomain = string
type_synonym EventPriority = string
type_synonym VfStatus = string

text \<open>Names and identifiers.\<close>

type_synonym ident = string

abbreviation SeverityCritical :: Severity where "SeverityCritical \<equiv> ''CRITICAL''"
abbreviation SeverityMajor :: Severity where "SeverityMajor \<equiv> ''MAJOR''"
abbreviation SeverityMinor :: Severity where "SeverityMinor \<equiv> ''MINOR''"
abbreviation SeverityWarning :: Severity where "SeverityWarning \<equiv> ''WARNING''"
abbreviation SeverityNormal :: Severity where "SeverityNormal \<equiv> ''NORMAL''"

abbreviation PriorityHigh :: EventPriority where "PriorityHigh \<equiv> ''High''"
abbreviation PriorityMedium :: EventPriority where "PriorityMedium \<equiv> ''Medium''"
abbreviation PriorityNormal :: EventPriority where "PriorityNormal \<equiv> ''Normal''"
abbreviation PriorityLow :: EventPriority where "PriorityLow \<equiv> ''Low''"

abbreviation DomainFault :: EventDomain where "DomainFault \<equiv> ''fault''"
abbreviation DomainHeartbeat :: EventDomain where "DomainHeartbeat \<equiv> ''heartbeat''"
abbreviation DomainNotification :: EventDomain where "DomainNotification \<equiv> ''notification''"
abbreviation DomainThresholdCrossingAlert :: EventDomain where
  "DomainThresholdCrossingAlert \<equiv> ''thresholdCrossingAlert''"

abbreviation StatusActive :: VfStatus where "StatusActive \<equiv> ''Active''"

section \<open>Event headers\<close>

record EventHeader =
  h_Domain :: EventDomain
  h_EventID :: string
  h_EventName :: string
  h_EventType :: string
  h_InternalHeaderFields :: json
  h_LastEpochMicrosec :: int
  h_NfNamingCode :: string
  h_NfcNamingCode :: string
  h_NfVendorName :: string
  h_Priority :: EventPriority
  h_ReportingEntityID :: string
  h_ReportingEntityName :: string
  h_Sequence :: int
  h_SourceID :: string
  h_SourceName :: string
  h_StartEpochMicrosec :: int
  h_TimeZoneOffset :: string
  h_Version :: string
  h_VesEventListenerVersion :: string

definition zero_EventHeader :: EventHeader where
  "zero_EventHeader = \<lparr>h_Domain = [], h_EventID = [], h_EventName = [], h_EventType = [],
     h_InternalHeaderFields = JNull, h_LastEpochMicrosec = 0, h_NfNamingCode = [],
     h_NfcNamingCode = [], h_NfVendorName = [], h_Priority = [], h_ReportingEntityID = [],
     h_ReportingEntityName = [], h_Sequence = 0, h_SourceID = [], h_SourceName = [],
     h_StartEpochMicrosec = 0, h_TimeZoneOffset = [], h_Version = [], h_VesEventListenerVersion = []\<rparr>"

record RCPEventHeader =
  r_Sequence :: int
  r_EventTime :: int
  r_AlarmId :: string
  r_ManagedObject :: string
  r_AlarmName :: string
  r_Severity :: string
  r_AlarmCode :: string
  r_Uhn :: string
  r_Cnfc_uui :: string
  r_Pod_uuid :: string

record NewEventHeader =
  n_Domain :: EventDomain
  n_EventID :: string
  n_EventName :: string
  n_EventType :: string
  n_InternalHeaderFields :: json
  n_LastEpochMillis :: int
  n_NfNamingCode :: string
  n_NfcNamingCode :: string
  n_NfVendorName :: string
  n_Priority :: EventPriority
  n_ReportingEntityID :: string
  n_ReportingEntityName :: string
  n_Sequence :: int
  n_SourceID :: string
  n_SourceName :: string
  n_StartEpochMillis :: int
  n_TimeZoneOffset :: string
  n_Version :: string
  n_VesEventListenerVersion :: string
  n_LocalEventName :: string

record Counter =
  ctr_Criticality :: string
  ctr_HashMap :: json
  ctr_ThresholdCrossed :: string

section \<open>Field blocks\<close>

text \<open>\<open>faultFields\<close> and \<open>RcpFaultFields\<close> have the same fields; so do the other two pairs, up to
  the fields that only one side has.\<close>

record faultFields =
  ff_AlarmAdditionalInformation :: json
  ff_AlarmCondition :: string
  ff_AlarmInterfaceA :: string
  ff_EventCategory :: string
  ff_EventFaultSeverity :: Severity
  ff_EventSourceType :: string
  ff_FaultFieldsVersion :: string
  ff_SpecificProblem :: string
  ff_VfStatus :: VfStatus

type_synonym RcpFaultFields = faultFields

record faultFieldSeverity =
  fs_AlarmAdditionalInformation :: json
  fs_AlarmCondition :: string
  fs_AlarmInterfaceA :: string
  fs_EventCategory :: string
  fs_EventSeverity :: Severity
  fs_EventSourceType :: string
  fs_FaultFieldsVersion :: string
  fs_SpecificProblem :: string
  fs_VfStatus :: VfStatus

record thresholdCrossingAlertFields =
  tc_AdditionalFields :: json
  tc_AdditionalParameters :: "Counter list"
  tc_AlertAction :: string
  tc_AlertDescription :: string
  tc_AlertType :: string
  tc_CollectionTimestamp :: string
  tc_EventSeverity :: string
  tc_EventStartTimestamp :: string
  tc_ThresholdCrossingFieldsVersion :: string

record RcpThresholdCrossingAlertFields =
  rt_AdditionalFields :: json
  rt_AlertAction :: string
  rt_AlertDescription :: string
  rt_AlertType :: string
  rt_CollectionTimestamp :: string
  rt_EventSeverity :: string
  rt_EventStartTimestamp :: string
  rt_ThresholdCrossingFieldsVersion :: string

record notificationFields =
  nf_AdditionalFields :: json
  nf_ChangeContact :: string
  nf_ChangeIdentifier :: string
  nf_ChangeType :: string
  nf_NotificationFieldsVersion :: string
  nf_NewState :: string
  nf_OldState :: string
  nf_StateInterface :: string

record RcpnotificationFields = notificationFields +
  rn_ProductType :: string

section \<open>Events received and sent\<close>

record EventType =
  et_hdr :: NewEventHeader
  et_fault :: faultFields
  et_tca :: thresholdCrossingAlertFields
  et_NotificationFields :: notificationFields

record RCPEventType =
  re_hdr :: NewEventHeader
  re_fault :: RcpFaultFields
  re_tca :: RcpThresholdCrossingAlertFields
  re_NotificationFields :: RcpnotificationFields

text \<open>Of \<open>Data\<close> and \<open>RCPData\<close> the gateway uses the event only.\<close>

record Data =
  d_MavData :: EventType

record RCPData =
  rd_MavData :: RCPEventType

record EventFault =
  fault_hdr :: EventHeader
  fault_fields :: faultFieldSeverity

record EventTCA =
  tca_hdr :: EventHeader
  tca_fields :: thresholdCrossingAlertFields

record EventNotification =
  notif_hdr :: EventHeader
  notif_fields :: notificationFields

text \<open>\<open>RCPEventFault\<close>, \<open>RCPEventTCA\<close> and \<open>RCPEventNotification\<close> have the same two parts.\<close>

record RCPEvent =
  rcp_hdr :: RCPEventHeader
  rcp_Body :: json

record RCPEnhancedAdditionalFields =
  ra_Uhn :: string
  ra_Cnfc_uui :: string
  ra_Pod_uuid :: string
  ra_CorrelationId :: string

record AdditionalFields =
  af_ME_ID :: string
  af_MGMT_IP :: string
  af_CMAAS_NETCONF_PORT :: string
  af_APIGW_PORT :: string
  af_FMAAS_HTTP_PORT :: string
  af_APIGW_USERNAME :: string
  af_APIGW_PASSWORD :: string
  af_APIGW_AUTH_TYPE :: string
  af_COLLECTOR_ID :: string

record HeartbeatEvent =
  hb_hdr :: EventHeader
  hb_AdditionalFields :: AdditionalFields
  hb_HeartbeatFieldsVersion :: string
  hb_HeartbeatInterval :: int

record ReplayCollectorInfo =
  ri_InitReplay :: bool
  ri_ReplayCollectorId :: int
  ri_LastEventId :: int
  ri_ReplayOnGoing :: bool
  ri_StartIndex :: int

section \<open>Constructors\<close>

definition clear_severity :: "Severity \<Rightarrow> Severity" where
  "clear_severity sev = (if sev = ''CLEAR'' then ''NORMAL'' else sev)"

definition rcp_severity :: "Severity \<Rightarrow> string" where
  "rcp_severity sev = (if sev = ''CLEAR'' then ''Clear'' else Title (ToLower sev))"

definition NewFault ::
    "ident \<Rightarrow> ident \<Rightarrow> ident \<Rightarrow> string \<Rightarrow> string \<Rightarrow> ident \<Rightarrow> ident \<Rightarrow> int \<Rightarrow> ident \<Rightarrow> string \<Rightarrow> EventPriority \<Rightarrow>
     Severity \<Rightarrow> VfStatus \<Rightarrow> ident \<Rightarrow> int \<Rightarrow> int \<Rightarrow> string \<Rightarrow> string \<Rightarrow> ident \<Rightarrow> ident \<Rightarrow> EventFault" where
  "NewFault name publisherName eid condition eventType reportingEnId reportingEnintyName sequence
      sourceId specificProblem priority severity status sourceName lastEpochMicrosec
      startEpochMicrosec eventCategory eventSourceType nfNamingcode nfcNamingcode =
   \<lparr>fault_hdr = \<lparr>h_Domain = DomainFault, h_EventID = eid, h_EventName = name, h_EventType = eventType,
       h_InternalHeaderFields = JNull, h_LastEpochMicrosec = wrap64 (lastEpochMicrosec * 1000),
       h_NfNamingCode = nfNamingcode, h_NfcNamingCode = nfcNamingcode, h_NfVendorName = [],
       h_Priority = priority, h_ReportingEntityID = reportingEnId,
       h_ReportingEntityName = reportingEnintyName, h_Sequence = sequence, h_SourceID = sourceId,
       h_SourceName = sourceName, h_StartEpochMicrosec = wrap64 (startEpochMicrosec * 1000),
       h_TimeZoneOffset = [], h_Version = ''4.1'', h_VesEventListenerVersion = ''7.1''\<rparr>,
     fault_fields = \<lparr>fs_AlarmAdditionalInformation = JNull, fs_AlarmCondition = condition,
       fs_AlarmInterfaceA = [], fs_EventCategory = eventCategory,
       fs_EventSeverity = clear_severity severity, fs_EventSourceType = eventSourceType,
       fs_FaultFieldsVersion = ''4.0'', fs_SpecificProblem = specificProblem, fs_VfStatus = status\<rparr>\<rparr>"

definition NewTCA ::
    "Counter list \<Rightarrow> string \<Rightarrow> string \<Rightarrow> string \<Rightarrow> string \<Rightarrow> string \<Rightarrow> string \<Rightarrow> string \<Rightarrow> ident \<Rightarrow> ident \<Rightarrow> ident \<Rightarrow> string \<Rightarrow> string \<Rightarrow>
     ident \<Rightarrow> ident \<Rightarrow> int \<Rightarrow> ident \<Rightarrow> EventPriority \<Rightarrow> ident \<Rightarrow> VfStatus \<Rightarrow> int \<Rightarrow> int \<Rightarrow> ident \<Rightarrow> ident \<Rightarrow> EventTCA" where
  "NewTCA AdditionalP alertA alertD alertT collectionT eventS eventStartT thresholdC name publisherName
      eid condition eventType reportingEnId reportingEnintyName sequence sourceId priority sourceName
      status lastEpochMicrosec startEpochMicrosec nfNamingcode nfcNamingcode =
   \<lparr>tca_hdr = \<lparr>h_Domain = DomainThresholdCrossingAlert, h_EventID = eid, h_EventName = name,
       h_EventType = eventType, h_InternalHeaderFields = JNull,
       h_LastEpochMicrosec = wrap64 (lastEpochMicrosec * 1000), h_NfNamingCode = nfNamingcode,
       h_NfcNamingCode = nfcNamingcode, h_NfVendorName = [], h_Priority = priority,
       h_ReportingEntityID = reportingEnId, h_ReportingEntityName = reportingEnintyName,
       h_Sequence = sequence, h_SourceID = sourceId, h_SourceName = sourceName,
       h_StartEpochMicrosec = wrap64 (startEpochMicrosec * 1000), h_TimeZoneOffset = [],
       h_Version = ''4.1'', h_VesEventListenerVersion = ''7.1''\<rparr>,
     tca_fields = \<lparr>tc_AdditionalFields = JNull, tc_AdditionalParameters = AdditionalP,
       tc_AlertAction = alertA, tc_AlertDescription = alertD, tc_AlertType = alertT,
       tc_CollectionTimestamp = collectionT, tc_EventSeverity = clear_severity eventS,
       tc_EventStartTimestamp = eventStartT, tc_ThresholdCrossingFieldsVersion = thresholdC\<rparr>\<rparr>"

definition NewNotification ::
    "string \<Rightarrow> string \<Rightarrow> string \<Rightarrow> string \<Rightarrow> string \<Rightarrow> string \<Rightarrow> string \<Rightarrow> ident \<Rightarrow> ident \<Rightarrow> string \<Rightarrow>
     ident \<Rightarrow> ident \<Rightarrow> int \<Rightarrow> ident \<Rightarrow> EventPriority \<Rightarrow> ident \<Rightarrow> VfStatus \<Rightarrow> int \<Rightarrow> int \<Rightarrow> ident \<Rightarrow> ident \<Rightarrow> EventNotification" where
  "NewNotification ChangeContact changeIdentifier changeType notificationFieldsVersion newState oldState
      stateInterface name eid eventType reportingEnId reportingEnintyName sequence sourceId priority
      sourceName status lastEpochMicrosec startEpochMicrosec nfNamingcode nfcNamingcode =
   \<lparr>notif_hdr = \<lparr>h_Domain = DomainNotification, h_EventID = eid, h_EventName = name,
       h_EventType = eventType, h_InternalHeaderFields = JNull,
       h_LastEpochMicrosec = wrap64 (lastEpochMicrosec * 1000), h_NfNamingCode = nfNamingcode,
       h_NfcNamingCode = nfcNamingcode, h_NfVendorName = [], h_Priority = priority,
       h_ReportingEntityID = reportingEnId, h_ReportingEntityName = reportingEnintyName,
       h_Sequence = sequence, h_SourceID = sourceId, h_SourceName = sourceName,
       h_StartEpochMicrosec = wrap64 (startEpochMicrosec * 1000), h_TimeZoneOffset = [],
       h_Version = ''4.1'', h_VesEventListenerVersion = ''7.1''\<rparr>,
     notif_fields = \<lparr>nf_AdditionalFields = JNull, nf_ChangeContact = ChangeContact,
       nf_ChangeIdentifier = changeIdentifier, nf_ChangeType = changeType,
       nf_NotificationFieldsVersion = notificationFieldsVersion, nf_NewState = newState,
       nf_OldState = oldState, nf_StateInterface = stateInterface\<rparr>\<rparr>"

definition NewFaultForRCP ::
    "int \<Rightarrow> int \<Rightarrow> int \<Rightarrow> string \<Rightarrow> string \<Rightarrow> string \<Rightarrow> Severity \<Rightarrow> string \<Rightarrow> RCPEvent" where
  "NewFaultForRCP sequence startEpochMicrosec lastEpochMicrosec eid reportingEnintyName name severity
      localEventName =
   \<lparr>rcp_hdr = \<lparr>r_Sequence = sequence, r_EventTime = go_div startEpochMicrosec 1000000, r_AlarmId = eid,
       r_ManagedObject = reportingEnintyName, r_AlarmName = name, r_Severity = rcp_severity severity,
       r_AlarmCode = localEventName, r_Uhn = [], r_Cnfc_uui = [], r_Pod_uuid = []\<rparr>,
     rcp_Body = JNull\<rparr>"

definition NewTCAForRCP ::
    "int \<Rightarrow> int \<Rightarrow> int \<Rightarrow> string \<Rightarrow> string \<Rightarrow> string \<Rightarrow> string \<Rightarrow> string \<Rightarrow> RCPEvent" where
  "NewTCAForRCP sequence startEpochMicrosec lastEpochMicrosec eid reportingEnintyName name severity
      localEventName =
   \<lparr>rcp_hdr = \<lparr>r_Sequence = sequence, r_EventTime = go_div startEpochMicrosec 1000000, r_AlarmId = eid,
       r_ManagedObject = reportingEnintyName, r_AlarmName = name, r_Severity = rcp_severity severity,
       r_AlarmCode = localEventName, r_Uhn = [], r_Cnfc_uui = [], r_Pod_uuid = []\<rparr>,
     rcp_Body = JNull\<rparr>"

definition NewNotificationForRCP ::
    "int \<Rightarrow> int \<Rightarrow> int \<Rightarrow> string \<Rightarrow> string \<Rightarrow> string \<Rightarrow> EventPriority \<Rightarrow> string \<Rightarrow> RCPEvent" where
  "NewNotificationForRCP sequence startEpochMicrosec lastEpochMicrosec eid reportingEnintyName name
      priority localEventName =
   \<lparr>rcp_hdr = \<lparr>r_Sequence = sequence, r_EventTime = go_div startEpochMicrosec 1000000, r_AlarmId = eid,
       r_ManagedObject = reportingEnintyName, r_AlarmName = name, r_Severity = ''Notification'',
       r_AlarmCode = localEventName, r_Uhn = [], r_Cnfc_uui = [], r_Pod_uuid = []\<rparr>,
     rcp_Body = JNull\<rparr>"

definition zero_AdditionalFields :: AdditionalFields where
  "zero_AdditionalFields = \<lparr>af_ME_ID = [], af_MGMT_IP = [], af_CMAAS_NETCONF_PORT = [], af_APIGW_PORT = [],
     af_FMAAS_HTTP_PORT = [], af_APIGW_USERNAME = [], af_APIGW_PASSWORD = [], af_APIGW_AUTH_TYPE = [],
     af_COLLECTOR_ID = []\<rparr>"

text \<open>\<open>now\<close> is the reading of \<open>time.Now\<close>; the source name and the second event type are unused.\<close>

definition NewHeartbeatCollector ::
    "time \<Rightarrow> string \<Rightarrow> string \<Rightarrow> string \<Rightarrow> string \<Rightarrow> int \<Rightarrow> HeartbeatEvent" where
  "NewHeartbeatCollector now eid name eType sourceName interval =
   \<lparr>hb_hdr = zero_EventHeader\<lparr>h_Domain := DomainHeartbeat, h_Priority := PriorityNormal,
       h_Version := ''4.1'', h_EventID := eid, h_EventName := name, h_EventType := eType,
       h_StartEpochMicrosec := go_div (UnixNano now) 1000,
       h_LastEpochMicrosec := go_div (UnixNano now) 1000, h_VesEventListenerVersion := ''7.1''\<rparr>,
     hb_AdditionalFields = zero_AdditionalFields, hb_HeartbeatFieldsVersion = ''3.0'',
     hb_HeartbeatInterval = interval\<rparr>"

definition NewHeartbeat ::
    "time \<Rightarrow> string \<Rightarrow> string \<Rightarrow> string \<Rightarrow> string \<Rightarrow> int \<Rightarrow> string \<Rightarrow> HeartbeatEvent" where
  "NewHeartbeat now eid name eType sourceName interval eventType =
   \<lparr>hb_hdr = zero_EventHeader\<lparr>h_Domain := DomainHeartbeat, h_Priority := PriorityNormal,
       h_Version := ''4.1'', h_EventID := eid, h_EventName := name, h_EventType := eType,
       h_StartEpochMicrosec := go_div (UnixNano now) 1000,
       h_LastEpochMicrosec := go_div (UnixNano now) 1000, h_VesEventListenerVersion := ''7.1''\<rparr>,
     hb_AdditionalFields = zero_AdditionalFields, hb_HeartbeatFieldsVersion = ''3.0'',
     hb_HeartbeatInterval = interval\<rparr>"

definition NewReplayObject :: "bool \<Rightarrow> int \<Rightarrow> int \<Rightarrow> bool \<Rightarrow> int \<Rightarrow> ReplayCollectorInfo" where
  "NewReplayObject initReplay collectorId lastSequence replayOngoing startSequence =
   \<lparr>ri_InitReplay = initReplay, ri_ReplayCollectorId = collectorId, ri_LastEventId = lastSequence,
     ri_ReplayOnGoing = replayOngoing, ri_StartIndex = startSequence\<rparr>"

section \<open>The \<open>Event\<close> interface and batches\<close>

datatype Event =
    EvFault EventFault
  | EvTCA EventTCA
  | EvNotification EventNotification
  | EvHeartbeat HeartbeatEvent
  | EvOther EventHeader json

primrec Header :: "Event \<Rightarrow> EventHeader" where
  "Header (EvFault e) = fault_hdr e"
| "Header (EvTCA e) = tca_hdr e"
| "Header (EvNotification e) = notif_hdr e"
| "Header (EvHeartbeat e) = hb_hdr e"
| "Header (EvOther h p) = h"

text \<open>Writing through the header reference.\<close>

primrec set_Header :: "EventHeader \<Rightarrow> Event \<Rightarrow> Event" where
  "set_Header h (EvFault e) = EvFault (e\<lparr>fault_hdr := h\<rparr>)"
| "set_Header h (EvTCA e) = EvTCA (e\<lparr>tca_hdr := h\<rparr>)"
| "set_Header h (EvNotification e) = EvNotification (e\<lparr>notif_hdr := h\<rparr>)"
| "set_Header h (EvHeartbeat e) = EvHeartbeat (e\<lparr>hb_hdr := h\<rparr>)"
| "set_Header h (EvOther h' p) = EvOther h p"

type_synonym Batch = "Event list"

definition batch_Split :: "Batch \<Rightarrow> Batch \<times> Batch" where
  "batch_Split batch = (let i = length batch div 2 in (take i batch, drop i batch))"

definition set_entity_name :: "string \<Rightarrow> Event \<Rightarrow> Event" where
  "set_entity_name name evt =
     (if h_ReportingEntityName (Header evt) = []
      then set_Header ((Header evt)\<lparr>h_ReportingEntityName := name\<rparr>) evt else evt)"

definition set_entity_id :: "string \<Rightarrow> Event \<Rightarrow> Event" where
  "set_entity_id eid evt =
     (if h_ReportingEntityID (Header evt) = []
      then set_Header ((Header evt)\<lparr>h_ReportingEntityID := eid\<rparr>) evt else evt)"

definition UpdateReportingEntityName :: "Batch \<Rightarrow> string \<Rightarrow> Batch" where
  "UpdateReportingEntityName batch name = map (set_entity_name name) batch"

definition UpdateReportingEntityID :: "Batch \<Rightarrow> string \<Rightarrow> Batch" where
  "UpdateReportingEntityID batch eid = map (set_entity_id eid) batch"

lemma Header_set_Header [simp]: "Header (set_Header h e) = h"
  by (cases e) simp_all

lemma set_Header_Header [simp]: "set_Header (Header e) e = e"
  by (cases e) simp_all

lemma set_Header_set_Header [simp]: "set_Header h (set_Header h' e) = set_Header h e"
  by (cases e) simp_all

lemma set_entity_name_idem [simp]: "set_entity_name n (set_entity_name n e) = set_entity_name n e"
  by (cases "n = []") (auto simp: set_entity_name_def)

lemma set_entity_id_idem [simp]: "set_entity_id n (set_entity_id n e) = set_entity_id n e"
  by (cases "n = []") (auto simp: set_entity_id_def)

lemma header_entity_swap:
  "(h :: EventHeader)\<lparr>h_ReportingEntityName := n, h_ReportingEntityID := i\<rparr> =
   h\<lparr>h_ReportingEntityID := i, h_ReportingEntityName := n\<rparr>"
  by (cases h) simp

lemma set_entity_commute: "set_entity_id i (set_entity_name n e) = set_entity_name n (set_entity_id i e)"
  by (auto simp: set_entity_id_def set_entity_name_def header_entity_swap)

lemma batch_Split_append: "batch_Split b = (b1, b2) \<Longrightarrow> b1 @ b2 = b"
  by (auto simp: batch_Split_def Let_def)

lemma batch_Split_length:
  assumes "batch_Split b = (b1, b2)" and "b1 \<noteq> []" and "b2 \<noteq> []"
  shows "length b1 < length b" and "length b2 < length b"
proof -
  have "b1 @ b2 = b" using assms(1) by (rule batch_Split_append)
  with assms(2,3) show "length b1 < length b" "length b2 < length b" by auto
qed

lemma batch_Split_balanced: "batch_Split b = (b1, b2) \<Longrightarrow>
    length b1 \<le> length b2 \<and> length b2 \<le> length b1 + 1"
  by (auto simp: batch_Split_def Let_def)

lemma batch_Split_stuck: "batch_Split b = (b1, b2) \<Longrightarrow> (b1 = [] \<or> b2 = []) \<longleftrightarrow> length b \<le> 1"
  by (auto simp: batch_Split_def Let_def)

end
