(* ===== verification/Govel_Config.thy ===== *)
theory Govel_Config
  imports Go_Std
begin

text \<open>
  The configuration structures of VESPA/govel/config.go and the command structures of
  VESPA/govel/commands.go.
\<close>

record CollectorConfiguration =
  cc_ServerRoot :: string
  cc_FQDN :: string
  cc_Port :: int
  cc_Secure :: bool
  cc_User :: string
  cc_Password :: string
  cc_PassPhrase :: string
  cc_NbiType :: string
  cc_Brokers :: "string list"
  cc_Topic :: string
  cc_KafkaTopic :: string
  cc_NbiFormat :: string
  cc_HeartBeat :: bool

record TmaaSAnnotations =
  tm_VendorID :: string
  tm_XGVelaID :: string
  tm_NfClass :: string
  tm_NfType :: string
  tm_NfID :: string
  tm_NfServiceID :: string
  tm_NfServiceType :: string

record EventConfigurationWithoutNfc =
  ec_VNFName :: string
  ec_ReportingEntityName :: string
  ec_ReportingEntityID :: string
  ec_MaxSize :: int
  ec_NfNamingCode :: string
  ec_RetryInterval :: duration
  ec_MaxMissed :: int
  ec_Tmaas :: "TmaaSAnnotations option"
  ec_DnPrefix :: string
  ec_SourceName :: string

text \<open>\<open>EventConfiguration\<close> has the same fields and the naming codes.\<close>

record EventConfiguration = EventConfigurationWithoutNfc +
  ec_NfcNamingCodes :: string

abbreviation CommandHeartbeatIntervalChange :: string where
  "CommandHeartbeatIntervalChange \<equiv> ''heartbeatIntervalChange''"

abbreviation CommandMeasurementIntervalChange :: string where
  "CommandMeasurementIntervalChange \<equiv> ''measurementIntervalChange''"

text \<open>The throttling specification of a command is read by nobody.\<close>

record Command =
  cmd_CommandType :: string
  cmd_HeartbeatInterval :: int
  cmd_MeasurementInterval :: int

end
