(* ===== verification/Fault_Manager.thy ===== *)
theory Fault_Manager
  imports Govel_Events Govel_Config
begin

text \<open>
  The alert-to-fault converter (VESPA/ves-agent/convert: store.go, converter.go). Its
  \<open>FaultManagerState\<close> interface is a record of operations; the contract of a provider is the
  locale \<open>fault_state\<close>, interpreted here for the package's own \<open>inMemState\<close> and in theory \<open>Ha\<close>
  for the replicated state. The mutex of the manager makes \<open>storeFault\<close> and \<open>clearFault\<close>
  atomic, so they are single steps of the threaded state.
\<close>

section \<open>The \<open>FaultManagerState\<close> interface\<close>

record AlertInfos =
  ai_Sequence :: int
  ai_StartEpoch :: int

record ('s, 'e) FaultManagerState =
  fm_NextFaultIndex :: "'s \<Rightarrow> ('s \<times> int \<times> 'e option) go"
  fm_IncrementFaultSn :: "'s \<Rightarrow> int \<Rightarrow> ('s \<times> 'e option) go"
  fm_GetFaultSn :: "'s \<Rightarrow> int \<Rightarrow> int go"
  fm_GetFaultStartEpoch :: "'s \<Rightarrow> int \<Rightarrow> int go"
  fm_SetFaultStartEpoch :: "'s \<Rightarrow> int \<Rightarrow> int \<Rightarrow> ('s \<times> 'e option) go"
  fm_InitAlertInfos :: "'s \<Rightarrow> int \<Rightarrow> ('s \<times> 'e option) go"
  fm_GetFaultInStorage :: "'s \<Rightarrow> string \<Rightarrow> int"
  fm_StoreFaultInStorage :: "'s \<Rightarrow> string \<Rightarrow> int \<Rightarrow> ('s \<times> 'e option) go"
  fm_DeleteFaultInStorage :: "'s \<Rightarrow> string \<Rightarrow> ('s \<times> 'e option) go"

section \<open>The package's own in-memory state\<close>

record cv_inMemState =
  cv_index :: int
  cv_storage :: "string \<rightharpoonup> int"
  cv_alertInfos :: "int \<rightharpoonup> AlertInfos"

definition cv_NextFaultIndex :: "cv_inMemState \<Rightarrow> (cv_inMemState \<times> int \<times> 'e option) go" where
  "cv_NextFaultIndex mem = Ret (mem\<lparr>cv_index := wrap32 (cv_index mem + 1)\<rparr>, cv_index mem, None)"

definition cv_GetFaultInStorage :: "cv_inMemState \<Rightarrow> string \<Rightarrow> int" where
  "cv_GetFaultInStorage mem n = (case cv_storage mem n of Some val \<Rightarrow> val | None \<Rightarrow> 0)"

definition cv_StoreFaultInStorage ::
    "cv_inMemState \<Rightarrow> string \<Rightarrow> int \<Rightarrow> (cv_inMemState \<times> 'e option) go" where
  "cv_StoreFaultInStorage mem n i = Ret (mem\<lparr>cv_storage := (cv_storage mem)(n \<mapsto> i)\<rparr>, None)"

definition cv_DeleteFaultInStorage ::
    "cv_inMemState \<Rightarrow> string \<Rightarrow> (cv_inMemState \<times> 'e option) go" where
  "cv_DeleteFaultInStorage mem n = Ret (mem\<lparr>cv_storage := (cv_storage mem)(n := None)\<rparr>, None)"

definition cv_GetFaultSn :: "cv_inMemState \<Rightarrow> int \<Rightarrow> int go" where
  "cv_GetFaultSn mem i =
     (case cv_alertInfos mem i of None \<Rightarrow> Crash NilDeref | Some a \<Rightarrow> Ret (ai_Sequence a))"

definition cv_IncrementFaultSn :: "cv_inMemState \<Rightarrow> int \<Rightarrow> (cv_inMemState \<times> 'e option) go" where
  "cv_IncrementFaultSn mem i =
     (case cv_alertInfos mem i of None \<Rightarrow> Crash NilDeref
      | Some a \<Rightarrow> Ret (mem\<lparr>cv_alertInfos :=
          (cv_alertInfos mem)(i \<mapsto> a\<lparr>ai_Sequence := wrap64 (ai_Sequence a + 1)\<rparr>)\<rparr>, None))"

definition cv_GetFaultStartEpoch :: "cv_inMemState \<Rightarrow> int \<Rightarrow> int go" where
  "cv_GetFaultStartEpoch mem i =
     (case cv_alertInfos mem i of None \<Rightarrow> Crash NilDeref | Some a \<Rightarrow> Ret (ai_StartEpoch a))"

definition cv_InitAlertInfos :: "cv_inMemState \<Rightarrow> int \<Rightarrow> (cv_inMemState \<times> 'e option) go" where
  "cv_InitAlertInfos mem i = Ret (mem\<lparr>cv_alertInfos :=
     (cv_alertInfos mem)(i \<mapsto> \<lparr>ai_Sequence = 1, ai_StartEpoch = 0\<rparr>)\<rparr>, None)"

definition cv_SetFaultStartEpoch ::
    "cv_inMemState \<Rightarrow> int \<Rightarrow> int \<Rightarrow> (cv_inMemState \<times> 'e option) go" where
  "cv_SetFaultStartEpoch mem i epoch =
     (case cv_alertInfos mem i of None \<Rightarrow> Crash NilDeref
      | Some a \<Rightarrow> Ret (mem\<lparr>cv_alertInfos := (cv_alertInfos mem)(i \<mapsto> a\<lparr>ai_StartEpoch := epoch\<rparr>)\<rparr>, None))"

definition cv_ops :: "(cv_inMemState, 'e) FaultManagerState" where
  "cv_ops = \<lparr>fm_NextFaultIndex = cv_NextFaultIndex, fm_IncrementFaultSn = cv_IncrementFaultSn,
     fm_GetFaultSn = cv_GetFaultSn, fm_GetFaultStartEpoch = cv_GetFaultStartEpoch,
     fm_SetFaultStartEpoch = cv_SetFaultStartEpoch, fm_InitAlertInfos = cv_InitAlertInfos,
     fm_GetFaultInStorage = cv_GetFaultInStorage, fm_StoreFaultInStorage = cv_StoreFaultInStorage,
     fm_DeleteFaultInStorage = cv_DeleteFaultInStorage\<rparr>"

text \<open>The state that \<open>NewFaultManager\<close> starts from: identifiers begin at 1, since 0 means absent.\<close>

definition NewFaultManager_state :: cv_inMemState where
  "NewFaultManager_state = \<lparr>cv_index = 1, cv_storage = Map.empty, cv_alertInfos = Map.empty\<rparr>"

lemmas cv_defs = cv_ops_def cv_NextFaultIndex_def cv_GetFaultInStorage_def cv_StoreFaultInStorage_def
  cv_DeleteFaultInStorage_def cv_GetFaultSn_def cv_IncrementFaultSn_def cv_GetFaultStartEpoch_def
  cv_InitAlertInfos_def cv_SetFaultStartEpoch_def

section \<open>The fault manager\<close>

datatype StatusResult = InError | AlreadyExist | Stored | Cleared | NotExist

definition storeFault ::
    "('s, 'e) FaultManagerState \<Rightarrow> 's \<Rightarrow> string \<Rightarrow> ('s \<times> StatusResult \<times> int) go" where
  "storeFault F s faultName =
     (let val = fm_GetFaultInStorage F s faultName
      in if val \<noteq> 0 then Ret (s, AlreadyExist, val)
         else go_bind (fm_NextFaultIndex F s) (\<lambda>(s1, faultID, err).
           if err \<noteq> None then Ret (s1, InError, 0)
           else go_bind (fm_StoreFaultInStorage F s1 faultName faultID) (\<lambda>(s2, err).
             if err \<noteq> None then Ret (s2, InError, 0)
             else go_bind (fm_InitAlertInfos F s2 faultID) (\<lambda>(s3, err).
               if err \<noteq> None then Ret (s3, InError, 0) else Ret (s3, Stored, faultID)))))"

definition clearFault ::
    "('s, 'e) FaultManagerState \<Rightarrow> 's \<Rightarrow> string \<Rightarrow> 's \<times> StatusResult \<times> int" where
  "clearFault F s faultName =
     (let i = fm_GetFaultInStorage F s faultName
      in if i = 0 then (s, NotExist, i) else (s, Cleared, i))"

section \<open>The converter\<close>

text \<open>Of \<open>template.Alert\<close> the converter reads the status, the labels and the annotations.\<close>

record Alert =
  al_Status :: string
  al_Labels :: "string \<rightharpoonup> string"
  al_Annotations :: "string \<rightharpoonup> string"

definition severityToPriority :: "Severity \<rightharpoonup> EventPriority" where
  "severityToPriority = [SeverityCritical \<mapsto> PriorityHigh, SeverityMajor \<mapsto> PriorityMedium,
     SeverityMinor \<mapsto> PriorityLow, SeverityWarning \<mapsto> PriorityLow, SeverityNormal \<mapsto> PriorityNormal]"

text \<open>The closures that \<open>AlertToFault\<close> returns as its commit function; \<open>CommitNil\<close> is Go's nil.\<close>

datatype CommitFunc = MustNotCall | CommitNil | CommitDelete string | CommitIncrement int

definition run_commit ::
    "('s, 'e) FaultManagerState \<Rightarrow> 's \<Rightarrow> CommitFunc \<Rightarrow> ('s \<times> 'e option) go" where
  "run_commit F s c =
     (case c of
        MustNotCall \<Rightarrow> Crash ProcessExit
      | CommitNil \<Rightarrow> Crash NilDeref
      | CommitDelete faultName \<Rightarrow> fm_DeleteFaultInStorage F s faultName
      | CommitIncrement i \<Rightarrow> fm_IncrementFaultSn F s i)"

definition buildFaultName :: "string \<Rightarrow> string \<Rightarrow> string \<Rightarrow> string" where
  "buildFaultName i service sourceName =
     (let serv = (if Contains service ''='' then takeWhile (\<lambda>c. c \<noteq> CHR ''='') service else service)
      in i @ ''_'' @ serv @ ''_'' @ sourceName)"

definition vesID_of :: "int \<Rightarrow> string" where
  "vesID_of i = ''fault'' @ fmt_010d i"

definition GetFaultID :: "string \<Rightarrow> int go" where
  "GetFaultID vesID =
     (if length vesID < 5 then Crash OutOfRange
      else case Atoi (drop 5 vesID) of
             (i, None) \<Rightarrow> Ret (wrap32 i)
           | (_, Some _) \<Rightarrow> Ret 0)"

text \<open>\<open>govel.EventField\<close> values are all empty, so the list is a count of units.\<close>

definition buildAdditionalInfos :: "string \<Rightarrow> string \<Rightarrow> unit list" where
  "buildAdditionalInfos service aaiMapping =
     (let service1 = Replace1 service (CHR ''_'') (CHR ''*'');
          service2 = Replace1 service1 (CHR ''='') (CHR ''*'');
          alaInfos = Split service2 (CHR ''*'');
          eventNames = Split aaiMapping (CHR ''_'')
      in if length alaInfos = 0 \<or> length alaInfos \<noteq> length eventNames + 1 then []
         else replicate (length alaInfos - 1) ())"

definition sourceName_of :: "Alert \<Rightarrow> string" where
  "sourceName_of alert =
     (let n = at [] (al_Labels alert) ''VNFC''
      in if n = [] then at [] (al_Labels alert) ''system_name'' else n)"

definition faultName_of :: "Alert \<Rightarrow> string" where
  "faultName_of alert = buildFaultName (at [] (al_Labels alert) ''id'')
     (at [] (al_Annotations alert) ''service'') (sourceName_of alert)"

definition fault_event ::
    "EventConfiguration \<Rightarrow> (string \<rightharpoonup> string) \<Rightarrow> string \<Rightarrow> string \<Rightarrow> string \<Rightarrow> EventPriority \<Rightarrow> Severity \<Rightarrow>
     int \<Rightarrow> EventFault" where
  "fault_event conf namingCodes sourceName alertName specificProblem priority severity i =
     (let eventName = ''Fault_'' @ ec_NfNamingCode conf @ ''_'' @ alertName;
          ef = NewFault eventName (vesID_of i) alertName specificProblem ''string'' ''string'' ''string''
            1234 ''string'' ''string'' priority severity StatusActive sourceName 1234 1234
            ''string'' ''string'' ''string'' ''string''
      in ef\<lparr>fault_hdr := (fault_hdr ef)\<lparr>h_NfNamingCode := ec_NfNamingCode conf,
           h_NfcNamingCode := at [] namingCodes sourceName\<rparr>\<rparr>)"

text \<open>The second half of \<open>AlertToFault\<close>, from the call of \<open>govel.NewFault\<close> on.\<close>

definition AlertToFault_build ::
    "('s, 'e) FaultManagerState \<Rightarrow> 's \<Rightarrow> StatusResult \<Rightarrow> string \<Rightarrow> int \<Rightarrow> EventFault \<Rightarrow>
     ('s \<times> StatusResult \<times> EventFault option \<times> CommitFunc) go" where
  "AlertToFault_build F s storeStatus faultName i ef0 =
     go_bind (fm_GetFaultSn F s i) (\<lambda>sn.
       let ef = ef0\<lparr>fault_hdr := (fault_hdr ef0)\<lparr>h_Sequence := sn\<rparr>\<rparr>
       in if storeStatus = Stored then
            go_bind (fm_SetFaultStartEpoch F s i (h_StartEpochMicrosec (fault_hdr ef))) (\<lambda>(s1, err).
              if err \<noteq> None then Ret (s1, InError, None, CommitNil)
              else Ret (s1, storeStatus, Some ef, CommitIncrement i))
          else go_bind (fm_GetFaultStartEpoch F s i) (\<lambda>epoch.
            Ret (s, storeStatus,
              Some (ef\<lparr>fault_hdr := (fault_hdr ef)\<lparr>h_StartEpochMicrosec := epoch\<rparr>\<rparr>),
              if storeStatus = Cleared then CommitDelete faultName else CommitIncrement i)))"

text \<open>The additional informations that the code builds are dropped there (the assignment is a
  comment), so they do not occur here.\<close>

definition AlertToFault ::
    "('s, 'e) FaultManagerState \<Rightarrow> EventConfiguration \<Rightarrow> (string \<rightharpoonup> string) \<Rightarrow> 's \<Rightarrow> Alert \<Rightarrow>
     ('s \<times> StatusResult \<times> EventFault option \<times> CommitFunc) go" where
  "AlertToFault F conf namingCodes s alert =
     (let label = at [] (al_Labels alert);
          annotations = at [] (al_Annotations alert);
          severity = ToUpper (label ''severity'')
      in case severityToPriority severity of
           None \<Rightarrow> Ret (s, InError, None, MustNotCall)
         | Some priority \<Rightarrow>
             (let sourceName = sourceName_of alert; faultName = faultName_of alert
              in if al_Status alert = ''resolved'' then
                   (let (s1, storeStatus, i) = clearFault F s faultName
                    in if storeStatus = InError \<or> storeStatus = NotExist
                       then Ret (s1, storeStatus, None, MustNotCall)
                       else AlertToFault_build F s1 storeStatus faultName i
                              (fault_event conf namingCodes sourceName (annotations ''clearAlertName'')
                                (annotations ''clearDescription'') priority ''NORMAL'' i))
                 else
                   go_bind (storeFault F s faultName) (\<lambda>(s1, storeStatus, i).
                     if storeStatus = InError \<or> storeStatus = NotExist
                     then Ret (s1, storeStatus, None, MustNotCall)
                     else AlertToFault_build F s1 storeStatus faultName i
                            (fault_event conf namingCodes sourceName (label ''alertname'')
                              (annotations ''description'') priority severity i))))"

lemma GetFaultID_vesID:
  assumes "is_int32 i"
  shows "GetFaultID (vesID_of i) = Ret i"
proof -
  have "is_int64 i" using assms by (simp add: is_int32_def is_int64_def)
  with assms show ?thesis by (simp add: GetFaultID_def vesID_of_def Atoi_fmt_010d)
qed

text \<open>The constant epoch that the converter passes for every new fault, in microseconds.\<close>

lemma wrap64_epoch [simp]: "wrap64 1234000 = 1234000"
  by (simp add: wrap64_def)

lemma faultName_nonempty [simp]: "faultName_of a \<noteq> []"
  by (simp add: faultName_of_def buildFaultName_def Let_def)

text \<open>How a converted alert came about.\<close>

lemma AlertToFault_fireE:
  assumes "AlertToFault F conf codes s alert = Ret (s', st, Some ef, c)"
    and "al_Status alert \<noteq> ''resolved''"
  obtains s1 i prio where "storeFault F s (faultName_of alert) = Ret (s1, st, i)" and "st \<noteq> InError"
    and "st \<noteq> NotExist"
    and "AlertToFault_build F s1 st (faultName_of alert) i (fault_event conf codes (sourceName_of alert)
          (at [] (al_Labels alert) ''alertname'') (at [] (al_Annotations alert) ''description'') prio
          (ToUpper (at [] (al_Labels alert) ''severity'')) i) = Ret (s', st, Some ef, c)"
proof -
  from assms obtain prio s1 st1 i where
    s: "storeFault F s (faultName_of alert) = Ret (s1, st1, i)" "st1 \<noteq> InError" "st1 \<noteq> NotExist"
    and b: "AlertToFault_build F s1 st1 (faultName_of alert) i (fault_event conf codes (sourceName_of alert)
          (at [] (al_Labels alert) ''alertname'') (at [] (al_Annotations alert) ''description'') prio
          (ToUpper (at [] (al_Labels alert) ''severity'')) i) = Ret (s', st, Some ef, c)"
    by (auto simp: AlertToFault_def Let_def go_simps split: option.splits if_splits prod.splits)
  from b have "st = st1" by (auto simp: AlertToFault_build_def Let_def go_simps split: if_splits prod.splits)
  with s b that show ?thesis by blast
qed

lemma AlertToFault_resolved_same:
  assumes "AlertToFault F conf codes s alert = Ret (s', st, Some ef, c)"
    and "al_Status alert = ''resolved''"
  shows "s' = s \<and> st = Cleared \<and> c = CommitDelete (faultName_of alert)"
  using assms by (simp add: AlertToFault_def Let_def clearFault_def split: option.splits if_splits)
    (auto simp: AlertToFault_build_def Let_def go_simps)

section \<open>The alarm table: what a fault store promises\<close>

text \<open>
  Abstractly the store is a table from fault names to an identifier and the alarm's sequence
  number and start epoch, with the next identifier to hand out.
\<close>

record alarm_table =
  at_next :: int
  at_alarms :: "string \<rightharpoonup> int \<times> AlertInfos"

definition table_fire :: "int \<Rightarrow> string \<Rightarrow> alarm_table \<Rightarrow> alarm_table" where
  "table_fire epoch n T =
     (case at_alarms T n of
        Some _ \<Rightarrow> T
      | None \<Rightarrow> \<lparr>at_next = at_next T + 1,
          at_alarms = (at_alarms T)(n \<mapsto> (at_next T, \<lparr>ai_Sequence = 1, ai_StartEpoch = epoch\<rparr>))\<rparr>)"

definition table_reported :: "string \<Rightarrow> alarm_table \<Rightarrow> alarm_table" where
  "table_reported n T =
     (case at_alarms T n of
        None \<Rightarrow> T
      | Some (i, a) \<Rightarrow> T\<lparr>at_alarms := (at_alarms T)(n \<mapsto> (i, a\<lparr>ai_Sequence := wrap64 (ai_Sequence a + 1)\<rparr>))\<rparr>)"

definition table_clear :: "string \<Rightarrow> alarm_table \<Rightarrow> alarm_table" where
  "table_clear n T = T\<lparr>at_alarms := (at_alarms T)(n := None)\<rparr>"

definition table_ok :: "alarm_table \<Rightarrow> bool" where
  "table_ok T \<longleftrightarrow> 1 \<le> at_next T \<and>
     (\<forall>n i a. at_alarms T n = Some (i, a) \<longrightarrow> 1 \<le> i \<and> i < at_next T) \<and>
     (\<forall>n m i a b. at_alarms T n = Some (i, a) \<longrightarrow> at_alarms T m = Some (i, b) \<longrightarrow> n = m)"

lemma table_ok_fire: "table_ok T \<Longrightarrow> table_ok (table_fire e n T)"
  unfolding table_ok_def table_fire_def
  by (auto split: option.splits if_splits) force+

lemma table_ok_reported: "table_ok T \<Longrightarrow> table_ok (table_reported n T)"
  unfolding table_ok_def table_reported_def by (auto split: option.splits if_splits)

lemma table_ok_clear: "table_ok T \<Longrightarrow> table_ok (table_clear n T)"
  unfolding table_ok_def table_clear_def by (auto split: if_splits)

text \<open>The table that a store represents, and its invariant: every stored fault has its infos, and the
  table is well formed.\<close>

definition alarm_view :: "int \<Rightarrow> (string \<rightharpoonup> int) \<Rightarrow> (int \<rightharpoonup> AlertInfos) \<Rightarrow> alarm_table" where
  "alarm_view nx st infs = \<lparr>at_next = nx, at_alarms = (\<lambda>n. case st n of None \<Rightarrow> None
     | Some i \<Rightarrow> map_option (\<lambda>a. (i, a)) (infs i))\<rparr>"

definition store_inv :: "int \<Rightarrow> (string \<rightharpoonup> int) \<Rightarrow> (int \<rightharpoonup> AlertInfos) \<Rightarrow> bool" where
  "store_inv nx st infs \<longleftrightarrow> table_ok (alarm_view nx st infs) \<and> (\<forall>n i. st n = Some i \<longrightarrow> infs i \<noteq> None)"

text \<open>
  A provider exposes three views: the next identifier, the name storage and the alert
  infos. An operation that fails promises nothing here.
\<close>

locale fault_state =
  fixes F :: "('s, 'e) FaultManagerState"
    and nxt :: "'s \<Rightarrow> int"
    and stor :: "'s \<Rightarrow> string \<rightharpoonup> int"
    and infos :: "'s \<Rightarrow> int \<rightharpoonup> AlertInfos"
  assumes get_storage: "fm_GetFaultInStorage F s n = at 0 (stor s) n"
    and next_index:
      "fm_NextFaultIndex F s = Ret (s', i, None) \<Longrightarrow>
         i = nxt s \<and> nxt s' = wrap32 (nxt s + 1) \<and> stor s' = stor s \<and> infos s' = infos s"
    and store:
      "fm_StoreFaultInStorage F s n i = Ret (s', None) \<Longrightarrow> n \<noteq> [] \<Longrightarrow>
         stor s' = (stor s)(n \<mapsto> i) \<and> nxt s' = nxt s \<and> infos s' = infos s"
    and delete:
      "fm_DeleteFaultInStorage F s n = Ret (s', None) \<Longrightarrow>
         stor s' = (stor s)(n := None) \<and> nxt s' = nxt s \<and> (\<forall>j. stor s n \<noteq> Some j \<longrightarrow> infos s' j = infos s j)"
    and init:
      "fm_InitAlertInfos F s i = Ret (s', None) \<Longrightarrow>
         stor s' = stor s \<and> nxt s' = nxt s \<and>
         infos s' = (infos s)(i \<mapsto> \<lparr>ai_Sequence = 1, ai_StartEpoch = 0\<rparr>)"
    and get_sn: "infos s i = Some a \<Longrightarrow> fm_GetFaultSn F s i = Ret (ai_Sequence a)"
    and get_epoch: "infos s i = Some a \<Longrightarrow> fm_GetFaultStartEpoch F s i = Ret (ai_StartEpoch a)"
    and inc_sn:
      "fm_IncrementFaultSn F s i = Ret (s', None) \<Longrightarrow> infos s i = Some a \<Longrightarrow>
         stor s' = stor s \<and> nxt s' = nxt s \<and>
         infos s' = (infos s)(i \<mapsto> a\<lparr>ai_Sequence := wrap64 (ai_Sequence a + 1)\<rparr>)"
    and set_epoch:
      "fm_SetFaultStartEpoch F s i e = Ret (s', None) \<Longrightarrow> infos s i = Some a \<Longrightarrow>
         stor s' = stor s \<and> nxt s' = nxt s \<and> infos s' = (infos s)(i \<mapsto> a\<lparr>ai_StartEpoch := e\<rparr>)"
begin

abbreviation table :: "'s \<Rightarrow> alarm_table" where
  "table s \<equiv> alarm_view (nxt s) (stor s) (infos s)"

abbreviation inv :: "'s \<Rightarrow> bool" where
  "inv s \<equiv> store_inv (nxt s) (stor s) (infos s)"

lemma inv_storedE:
  assumes "inv s" and "stor s n = Some i"
  obtains a where "infos s i = Some a" and "1 \<le> i" and "i < nxt s"
    and "at_alarms (table s) n = Some (i, a)"
proof -
  from assms obtain a where a: "infos s i = Some a" unfolding store_inv_def by blast
  with assms(2) have t: "at_alarms (table s) n = Some (i, a)" by (simp add: alarm_view_def)
  have "at_next (table s) = nxt s" by (simp add: alarm_view_def)
  with assms(1) t have "1 \<le> i" "i < nxt s" unfolding store_inv_def table_ok_def by force+
  with a t that show ?thesis by blast
qed

lemma inv_inj: "inv s \<Longrightarrow> stor s n = Some i \<Longrightarrow> stor s m = Some i \<Longrightarrow> n = m"
  by (metis store_inv_def inv_storedE table_ok_def)

lemma inv_fresh: "inv s \<Longrightarrow> stor s n \<noteq> Some (nxt s)"
  by (metis inv_storedE order_less_irrefl)

lemma stored_nonzero: "inv s \<Longrightarrow> at 0 (stor s) n = 0 \<longleftrightarrow> stor s n = None"
  by (cases "stor s n") (auto simp: at_def elim: inv_storedE)

lemma table_absent: "stor s n = None \<Longrightarrow> at_alarms (table s) n = None"
  by (simp add: alarm_view_def)

lemma storeFault_known:
  "inv s \<Longrightarrow> stor s n = Some i \<Longrightarrow> storeFault F s n = Ret (s, AlreadyExist, i)"
  using stored_nonzero [of s n] by (simp add: storeFault_def get_storage at_def Let_def)

lemma storeFault_new:
  assumes "inv s" and "stor s n = None" and "n \<noteq> []"
    and "storeFault F s n = Ret (s', st, i)" and "st \<noteq> InError"
  shows "st = Stored \<and> i = nxt s \<and> nxt s' = wrap32 (nxt s + 1) \<and> stor s' = (stor s)(n \<mapsto> i) \<and>
    infos s' = (infos s)(i \<mapsto> \<lparr>ai_Sequence = 1, ai_StartEpoch = 0\<rparr>)"
proof -
  from assms obtain s1 s2 where
    n: "fm_NextFaultIndex F s = Ret (s1, i, None)" and st: "st = Stored"
    and s: "fm_StoreFaultInStorage F s1 n i = Ret (s2, None)"
    and i: "fm_InitAlertInfos F s2 i = Ret (s', None)"
    by (auto simp: storeFault_def get_storage at_def Let_def go_simps split: if_splits prod.splits)
  from next_index [OF n] store [OF s assms(3)] init [OF i] st show ?thesis by simp
qed

lemma clearFault_eq:
  "inv s \<Longrightarrow> clearFault F s n = (case stor s n of None \<Rightarrow> (s, NotExist, 0) | Some i \<Rightarrow> (s, Cleared, i))"
  using stored_nonzero [of s n] by (auto simp: clearFault_def get_storage at_def Let_def split: option.splits)

lemma table_new:
  assumes "inv s" and "stor s n = None" and "nxt s' = nxt s + 1"
    and "stor s' = (stor s)(n \<mapsto> nxt s)"
    and "infos s' = (infos s)(nxt s \<mapsto> \<lparr>ai_Sequence = 1, ai_StartEpoch = e\<rparr>)"
  shows "table s' = table_fire e n (table s)" and "inv s'"
proof -
  have "at_alarms (table s') m = at_alarms (table_fire e n (table s)) m" for m
    using assms inv_fresh [OF assms(1), of m]
    by (auto simp: alarm_view_def table_fire_def split: option.splits)
  moreover have "at_next (table s') = at_next (table_fire e n (table s))"
    using assms by (simp add: alarm_view_def table_fire_def)
  ultimately show t: "table s' = table_fire e n (table s)"
    by (intro alarm_table.equality) (auto intro: ext)
  have "infos s' j \<noteq> None" if "stor s' m = Some j" for m j
    using that assms(1,4,5) by (auto simp: store_inv_def split: if_splits)
  then show "inv s'" using assms(1) t table_ok_fire [of "table s" e n] by (simp add: store_inv_def)
qed

lemma table_touch:
  assumes "inv s" and "stor s n = Some i" and "nxt s' = nxt s" and "stor s' = stor s"
    and "infos s' = (infos s)(i \<mapsto> b)"
  shows "table s' = (table s)\<lparr>at_alarms := (at_alarms (table s))(n \<mapsto> (i, b))\<rparr>"
proof -
  have "at_alarms (table s') m = ((at_alarms (table s))(n \<mapsto> (i, b))) m" for m
  proof (cases "m = n")
    case False
    then have "stor s m \<noteq> Some i" using inv_inj [OF assms(1,2)] by blast
    with False assms(4,5) show ?thesis by (auto simp: alarm_view_def split: option.splits)
  qed (use assms(2,4,5) in \<open>simp add: alarm_view_def\<close>)
  then show ?thesis using assms(3) by (intro alarm_table.equality) (auto simp: alarm_view_def)
qed

lemma commit_increment:
  assumes "inv s" and "stor s n = Some i"
    and "run_commit F s (CommitIncrement i) = Ret (s', None)"
  shows "table s' = table_reported n (table s) \<and> inv s'"
proof -
  from assms(1,2) obtain a where a: "infos s i = Some a" "at_alarms (table s) n = Some (i, a)"
    by (rule inv_storedE)
  note u = inc_sn [OF assms(3) [unfolded run_commit_def, simplified] a(1)]
  have t: "table s' = table_reported n (table s)"
    using table_touch [OF assms(1,2), of s' "a\<lparr>ai_Sequence := wrap64 (ai_Sequence a + 1)\<rparr>"] u a(2)
    by (simp add: table_reported_def)
  moreover have "inv s'" using assms(1) t u table_ok_reported [of "table s" n] unfolding store_inv_def by auto
  ultimately show ?thesis by simp
qed

lemma commit_delete:
  assumes "inv s" and "run_commit F s (CommitDelete n) = Ret (s', None)"
  shows "table s' = table_clear n (table s) \<and> inv s'"
proof -
  from delete [OF assms(2) [unfolded run_commit_def, simplified]]
  have u: "stor s' = (stor s)(n := None)" "nxt s' = nxt s"
    "\<And>j. stor s n \<noteq> Some j \<Longrightarrow> infos s' j = infos s j" by auto
  have k: "infos s' j = infos s j" if "stor s m = Some j" "m \<noteq> n" for m j
    using u(3) inv_inj [OF assms(1) that(1), of n] that(2) by auto
  have "at_alarms (table s') m = at_alarms (table_clear n (table s)) m" for m
    using u k by (auto simp: alarm_view_def table_clear_def split: option.splits)
  then have t: "table s' = table_clear n (table s)" using u(2)
    by (intro alarm_table.equality) (auto simp: alarm_view_def table_clear_def)
  have "inv s'" using assms(1) t u(1) k table_ok_clear [of "table s" n]
    unfolding store_inv_def by (auto split: if_splits)
  with t show ?thesis by simp
qed

text \<open>A firing alert: the table has the alarm afterwards, under a new identifier exactly when it
  was absent, and the event carries its sequence number and the epoch of the first event.\<close>

lemma AlertToFault_fire:
  assumes inv: "inv s" and room: "nxt s < 2 ^ 31 - 1" and "al_Status alert \<noteq> ''resolved''"
    and res: "AlertToFault F conf codes s alert = Ret (s', st, Some ef, c)"
  shows "\<exists>i a. inv s' \<and> table s' = table_fire 1234000 (faultName_of alert) (table s) \<and>
    stor s' (faultName_of alert) = Some i \<and> at_alarms (table s') (faultName_of alert) = Some (i, a) \<and>
    c = CommitIncrement i \<and> h_Sequence (fault_hdr ef) = ai_Sequence a \<and>
    h_StartEpochMicrosec (fault_hdr ef) = ai_StartEpoch a \<and>
    st = (if stor s (faultName_of alert) = None then Stored else AlreadyExist)"
proof -
  let ?n = "faultName_of alert"
  obtain s1 i prio where
    st: "storeFault F s ?n = Ret (s1, st, i)" "st \<noteq> InError" and
    b: "AlertToFault_build F s1 st ?n i (fault_event conf codes (sourceName_of alert)
          (at [] (al_Labels alert) ''alertname'') (at [] (al_Annotations alert) ''description'') prio
          (ToUpper (at [] (al_Labels alert) ''severity'')) i) = Ret (s', st, Some ef, c)"
    by (rule AlertToFault_fireE [OF res assms(3)])
  show ?thesis
  proof (cases "stor s ?n")
    case (Some j)
    then obtain a where a: "infos s j = Some a" "at_alarms (table s) ?n = Some (j, a)"
      using inv inv_storedE by blast
    have "s1 = s" "st = AlreadyExist" "i = j" using storeFault_known [OF inv Some] st by auto
    with b a Some inv show ?thesis
      by (auto simp: AlertToFault_build_def Let_def get_sn get_epoch table_fire_def)
  next
    case None
    note N = storeFault_new [OF inv None faultName_nonempty st(1,2)]
    have i: "i = nxt s" and S: "st = Stored" and w: "nxt s1 = nxt s + 1"
      using N room inv by (auto simp: is_int32_def store_inv_def table_ok_def alarm_view_def)
    let ?a0 = "\<lparr>ai_Sequence = 1, ai_StartEpoch = 0\<rparr> :: AlertInfos"
    have a0: "infos s1 i = Some ?a0" using N by simp
    from b a0 obtain e where
      set: "fm_SetFaultStartEpoch F s1 i 1234000 = Ret (s', None)" and c: "c = CommitIncrement i"
      and ef: "h_Sequence (fault_hdr ef) = 1" "h_StartEpochMicrosec (fault_hdr ef) = 1234000"
      by (auto simp: AlertToFault_build_def S get_sn go_simps Let_def fault_event_def NewFault_def
          split: prod.splits if_splits)
    note U = set_epoch [OF set a0]
    have X: "nxt s' = nxt s + 1" "stor s' = (stor s)(?n \<mapsto> nxt s)"
      "infos s' = (infos s)(nxt s \<mapsto> \<lparr>ai_Sequence = 1, ai_StartEpoch = 1234000\<rparr>)"
      using U N w i by auto
    note T = table_new [OF inv None X]
    from T have "at_alarms (table s') ?n = Some (i, \<lparr>ai_Sequence = 1, ai_StartEpoch = 1234000\<rparr>)"
      using None i by (simp add: table_fire_def alarm_view_def)
    with T c ef S X i None show ?thesis by auto
  qed
qed

text \<open>A resolved alert reports the alarm with the numbers it has and leaves the store alone until
  the commit; a resolved alert that is not in the store is not reported.\<close>

lemma AlertToFault_resolve:
  assumes inv: "inv s" and "al_Status alert = ''resolved''"
    and sev: "severityToPriority (ToUpper (at [] (al_Labels alert) ''severity'')) = Some prio"
    and i: "stor s (faultName_of alert) = Some i" "infos s i = Some a"
  shows "\<exists>ef. AlertToFault F conf codes s alert =
      Ret (s, Cleared, Some ef, CommitDelete (faultName_of alert)) \<and>
    h_Sequence (fault_hdr ef) = ai_Sequence a \<and> h_StartEpochMicrosec (fault_hdr ef) = ai_StartEpoch a \<and>
    fs_EventSeverity (fault_fields ef) = ''NORMAL''"
  using assms clearFault_eq [OF inv, of "faultName_of alert"]
  by (simp add: AlertToFault_def AlertToFault_build_def Let_def get_sn get_epoch fault_event_def
      NewFault_def clear_severity_def)

lemma AlertToFault_resolve_unknown:
  assumes inv: "inv s" and "al_Status alert = ''resolved''"
    and sev: "severityToPriority (ToUpper (at [] (al_Labels alert) ''severity'')) = Some prio"
    and i: "stor s (faultName_of alert) = None"
  shows "AlertToFault F conf codes s alert = Ret (s, NotExist, None, MustNotCall)"
  using assms clearFault_eq [OF inv, of "faultName_of alert"]
  by (simp add: AlertToFault_def Let_def)

end

interpretation cv: fault_state cv_ops cv_index cv_storage cv_alertInfos
  by unfold_locales (auto simp: cv_defs at_def split: option.splits)

end
