(* ===== verification/Ha.thy ===== *)
theory Ha
  imports Scheduler Fault_Manager
begin

text \<open>
  The replicated agent state (VESPA/ves-agent/ha): the commands of the commit log with their
  JSON form (commands.go), the state kept by each node (state.go), the finite state machine
  that applies the log (fsm.go), snapshots (snapshot.go) and the \<open>Cluster\<close> through which the
  leader writes (raft.go). The Raft library is a parameter: \<open>raftApply\<close> takes the library's
  state and an entry and says whether the entry was committed. Log entries are JSON trees, the
  byte level of encoding/json is left out.
\<close>

section \<open>Commands\<close>

abbreviation (input) IncrementAlarmIdx :: int where "IncrementAlarmIdx \<equiv> 0"
abbreviation (input) IncrementMeasIdx :: int where "IncrementMeasIdx \<equiv> 1"
abbreviation (input) IncrementHeartbeatIdx :: int where "IncrementHeartbeatIdx \<equiv> 2"
abbreviation (input) UpdateScheduler :: int where "UpdateScheduler \<equiv> 3"
abbreviation (input) IncrementFaultIdx :: int where "IncrementFaultIdx \<equiv> 4"
abbreviation (input) UpdateFault :: int where "UpdateFault \<equiv> 5"
abbreviation (input) DeleteFault :: int where "DeleteFault \<equiv> 6"

record UpdateSchedulerFields =
  usf_Name :: string
  usf_Interval :: "duration option"
  usf_Next :: "int option"

record UpdateFaultFields =
  uff_FaultID :: "int option"
  uff_FaultName :: string
  uff_SequenceNumber :: "int option"
  uff_StartEpoch :: "int option"

record DeleteFaultFields =
  dff_FaultName :: string

record StateCmd =
  sc_Type :: int
  sc_UpdateScheduler :: "UpdateSchedulerFields option"
  sc_UpdateFault :: "UpdateFaultFields option"
  sc_DeleteFault :: "DeleteFaultFields option"

definition plain_cmd :: "int \<Rightarrow> StateCmd" where
  "plain_cmd ty = \<lparr>sc_Type = ty, sc_UpdateScheduler = None, sc_UpdateFault = None, sc_DeleteFault = None\<rparr>"

text \<open>The log lines of the commands. \<open>ds\<close> and \<open>ts\<close> render durations and times.\<close>

definition ptr_string :: "('a \<Rightarrow> string) \<Rightarrow> 'a option \<Rightarrow> string" where
  "ptr_string f p = (case p of None \<Rightarrow> ''<nil>'' | Some x \<Rightarrow> f x)"

definition UpdateSchedulerFields_String ::
    "(duration \<Rightarrow> string) \<Rightarrow> (time \<Rightarrow> string) \<Rightarrow> UpdateSchedulerFields option \<Rightarrow> string" where
  "UpdateSchedulerFields_String ds ts flds =
     (case flds of None \<Rightarrow> ''<null>''
      | Some f \<Rightarrow> ''name: '' @ usf_Name f @ '', interval: '' @ ptr_string ds (usf_Interval f) @
          '', next: '' @ ptr_string ts (map_option time_Unix (usf_Next f)))"

definition UpdateFaultFields_String :: "UpdateFaultFields option \<Rightarrow> string go" where
  "UpdateFaultFields_String flds =
     (case flds of None \<Rightarrow> Ret ''<null>''
      | Some f \<Rightarrow>
          (let sn = (case uff_SequenceNumber f of Some v \<Rightarrow> v | None \<Rightarrow> 0);
               epoch = (case uff_StartEpoch f of Some v \<Rightarrow> v | None \<Rightarrow> 0)
           in case uff_FaultID f of
                None \<Rightarrow> Crash NilDeref
              | Some i \<Rightarrow>
                  (let d = FormatInt i
                   in Ret (''faultId: '' @ replicate (10 - length d) (CHR '' '') @ d @ '', faultName: '' @
                        uff_FaultName f @ '', sn: '' @ FormatInt sn @ '', epoch: '' @ FormatInt epoch))))"

definition DeleteFaultFields_String :: "DeleteFaultFields option \<Rightarrow> string" where
  "DeleteFaultFields_String flds =
     (case flds of None \<Rightarrow> ''<null>'' | Some f \<Rightarrow> ''faultName: '' @ dff_FaultName f)"

definition StateCmd_String :: "(duration \<Rightarrow> string) \<Rightarrow> (time \<Rightarrow> string) \<Rightarrow> StateCmd \<Rightarrow> string go" where
  "StateCmd_String ds ts cmd =
     (if sc_Type cmd = IncrementAlarmIdx then Ret ''IncrementAlarmIdx''
      else if sc_Type cmd = IncrementMeasIdx then Ret ''IncrementMeasIdx''
      else if sc_Type cmd = IncrementHeartbeatIdx then Ret ''IncrementHeartbeatIdx''
      else if sc_Type cmd = UpdateScheduler
        then Ret (''UpdateScheduler => '' @ UpdateSchedulerFields_String ds ts (sc_UpdateScheduler cmd))
      else if sc_Type cmd = IncrementFaultIdx then Ret ''IncrementFaultIdx''
      else if sc_Type cmd = UpdateFault
        then go_bind (UpdateFaultFields_String (sc_UpdateFault cmd)) (\<lambda>t. Ret (''UpdateFault => '' @ t))
      else if sc_Type cmd = DeleteFault
        then Ret (''DeleteFault => '' @ DeleteFaultFields_String (sc_DeleteFault cmd))
      else Ret (''Unknown command type: '' @ FormatInt (sc_Type cmd)))"

section \<open>The JSON form of a command\<close>

text \<open>The struct tags: \<open>omitempty\<close> drops a nil pointer and an empty string; \<open>faultId\<close> has no
  \<open>omitempty\<close>, a nil identifier is written as null.\<close>

definition omitempty :: "string \<Rightarrow> ('a \<Rightarrow> json) \<Rightarrow> 'a option \<Rightarrow> (string \<times> json) list" where
  "omitempty k f p = (case p of None \<Rightarrow> [] | Some x \<Rightarrow> [(k, f x)])"

definition marshal_sched :: "UpdateSchedulerFields \<Rightarrow> json" where
  "marshal_sched f = JObj ([(''name'', JStr (usf_Name f))] @ omitempty ''intv'' JNum (usf_Interval f) @
     omitempty ''nxt'' JNum (usf_Next f))"

definition marshal_fault :: "UpdateFaultFields \<Rightarrow> json" where
  "marshal_fault f = JObj ([(''faultId'', case uff_FaultID f of None \<Rightarrow> JNull | Some i \<Rightarrow> JNum i)] @
     (if uff_FaultName f = [] then [] else [(''faultName'', JStr (uff_FaultName f))]) @
     omitempty ''sn'' JNum (uff_SequenceNumber f) @ omitempty ''epoch'' JNum (uff_StartEpoch f))"

definition marshal_delete :: "DeleteFaultFields \<Rightarrow> json" where
  "marshal_delete f = JObj [(''faultName'', JStr (dff_FaultName f))]"

definition Marshal :: "StateCmd \<Rightarrow> json" where
  "Marshal cmd = JObj ([(''ty'', JNum (sc_Type cmd))] @
     omitempty ''sched'' marshal_sched (sc_UpdateScheduler cmd) @
     omitempty ''updatefault'' marshal_fault (sc_UpdateFault cmd) @
     omitempty ''deletefault'' marshal_delete (sc_DeleteFault cmd))"

text \<open>Decoding: null and an absent key leave the zero value, another kind of value or a number
  outside the width is an error. Keys are matched exactly, as the encoder writes them.\<close>

definition dec_str :: "json option \<Rightarrow> string option" where
  "dec_str j = (case j of None \<Rightarrow> Some [] | Some JNull \<Rightarrow> Some [] | Some (JStr s) \<Rightarrow> Some s | _ \<Rightarrow> None)"

definition dec_ptr :: "(int \<Rightarrow> bool) \<Rightarrow> json option \<Rightarrow> int option option" where
  "dec_ptr ok j = (case j of None \<Rightarrow> Some None | Some JNull \<Rightarrow> Some None
     | Some (JNum n) \<Rightarrow> if ok n then Some (Some n) else None | _ \<Rightarrow> None)"

definition dec_sub :: "((string \<times> json) list \<Rightarrow> 'a option) \<Rightarrow> json option \<Rightarrow> 'a option option" where
  "dec_sub f j = (case j of None \<Rightarrow> Some None | Some JNull \<Rightarrow> Some None
     | Some (JObj kvs) \<Rightarrow> map_option Some (f kvs) | _ \<Rightarrow> None)"

definition unmarshal_sched :: "(string \<times> json) list \<Rightarrow> UpdateSchedulerFields option" where
  "unmarshal_sched kvs =
     (case (dec_str (jget kvs ''name''), dec_ptr is_int64 (jget kvs ''intv''), dec_ptr is_int64 (jget kvs ''nxt''))
      of (Some n, Some i, Some x) \<Rightarrow> Some \<lparr>usf_Name = n, usf_Interval = i, usf_Next = x\<rparr> | _ \<Rightarrow> None)"

definition unmarshal_fault :: "(string \<times> json) list \<Rightarrow> UpdateFaultFields option" where
  "unmarshal_fault kvs =
     (case (dec_ptr is_int32 (jget kvs ''faultId''), dec_str (jget kvs ''faultName''),
            dec_ptr is_int64 (jget kvs ''sn''), dec_ptr is_int64 (jget kvs ''epoch''))
      of (Some i, Some n, Some s, Some e) \<Rightarrow>
           Some \<lparr>uff_FaultID = i, uff_FaultName = n, uff_SequenceNumber = s, uff_StartEpoch = e\<rparr>
       | _ \<Rightarrow> None)"

definition unmarshal_delete :: "(string \<times> json) list \<Rightarrow> DeleteFaultFields option" where
  "unmarshal_delete kvs = map_option (\<lambda>n. \<lparr>dff_FaultName = n\<rparr>) (dec_str (jget kvs ''faultName''))"

definition Unmarshal :: "json \<Rightarrow> StateCmd option" where
  "Unmarshal j =
     (case j of
        JNull \<Rightarrow> Some (plain_cmd 0)
      | JObj kvs \<Rightarrow>
          (case (dec_ptr is_int64 (jget kvs ''ty''), dec_sub unmarshal_sched (jget kvs ''sched''),
                 dec_sub unmarshal_fault (jget kvs ''updatefault''),
                 dec_sub unmarshal_delete (jget kvs ''deletefault''))
           of (Some t, Some s, Some f, Some d) \<Rightarrow>
                Some \<lparr>sc_Type = (case t of None \<Rightarrow> 0 | Some v \<Rightarrow> v), sc_UpdateScheduler = s,
                  sc_UpdateFault = f, sc_DeleteFault = d\<rparr>
            | _ \<Rightarrow> None)
      | _ \<Rightarrow> None)"

text \<open>The commands whose numbers fit their Go types, which every value of the Go struct does.\<close>

definition StateCmd_wf :: "StateCmd \<Rightarrow> bool" where
  "StateCmd_wf cmd \<longleftrightarrow> is_int64 (sc_Type cmd) \<and>
     (case sc_UpdateScheduler cmd of None \<Rightarrow> True
      | Some f \<Rightarrow> pred_option is_int64 (usf_Interval f) \<and> pred_option is_int64 (usf_Next f)) \<and>
     (case sc_UpdateFault cmd of None \<Rightarrow> True
      | Some f \<Rightarrow> pred_option is_int32 (uff_FaultID f) \<and> pred_option is_int64 (uff_SequenceNumber f) \<and>
          pred_option is_int64 (uff_StartEpoch f))"

lemmas codec_defs = jget_def omitempty_def dec_str_def dec_ptr_def

definition sched_wf :: "UpdateSchedulerFields \<Rightarrow> bool" where
  "sched_wf f \<longleftrightarrow> pred_option is_int64 (usf_Interval f) \<and> pred_option is_int64 (usf_Next f)"

definition fault_wf :: "UpdateFaultFields \<Rightarrow> bool" where
  "fault_wf f \<longleftrightarrow> pred_option is_int32 (uff_FaultID f) \<and> pred_option is_int64 (uff_SequenceNumber f) \<and>
     pred_option is_int64 (uff_StartEpoch f)"

lemma StateCmd_wf_alt:
  "StateCmd_wf cmd \<longleftrightarrow> is_int64 (sc_Type cmd) \<and> pred_option sched_wf (sc_UpdateScheduler cmd) \<and>
     pred_option fault_wf (sc_UpdateFault cmd)"
  by (simp add: StateCmd_wf_def sched_wf_def fault_wf_def pred_option_def split: option.splits)

lemma unmarshal_marshal_sched:
  "dec_sub unmarshal_sched (Some (marshal_sched f)) = (if sched_wf f then Some (Some f) else None)"
  by (cases f; cases "usf_Interval f"; cases "usf_Next f")
    (simp_all add: dec_sub_def marshal_sched_def unmarshal_sched_def sched_wf_def codec_defs)

lemma unmarshal_marshal_fault:
  "dec_sub unmarshal_fault (Some (marshal_fault f)) = (if fault_wf f then Some (Some f) else None)"
  by (cases f; cases "uff_FaultID f"; cases "uff_SequenceNumber f"; cases "uff_StartEpoch f")
    (simp_all add: dec_sub_def marshal_fault_def unmarshal_fault_def fault_wf_def codec_defs)

lemma unmarshal_marshal_delete: "dec_sub unmarshal_delete (Some (marshal_delete f)) = Some (Some f)"
  by (cases f) (simp add: dec_sub_def marshal_delete_def unmarshal_delete_def codec_defs)

lemma jget_Marshal:
  "Marshal cmd = JObj kvs \<Longrightarrow> jget kvs ''ty'' = Some (JNum (sc_Type cmd)) \<and>
     jget kvs ''sched'' = map_option marshal_sched (sc_UpdateScheduler cmd) \<and>
     jget kvs ''updatefault'' = map_option marshal_fault (sc_UpdateFault cmd) \<and>
     jget kvs ''deletefault'' = map_option marshal_delete (sc_DeleteFault cmd)"
  by (cases "sc_UpdateScheduler cmd"; cases "sc_UpdateFault cmd"; cases "sc_DeleteFault cmd")
    (auto simp: Marshal_def jget_def omitempty_def)

lemma Unmarshal_Marshal:
  "Unmarshal (Marshal cmd) = (if StateCmd_wf cmd then Some cmd else None)"
proof -
  obtain kvs where k: "Marshal cmd = JObj kvs" by (simp add: Marshal_def)
  note J = jget_Marshal [OF k]
  have "dec_ptr is_int64 (jget kvs ''ty'') =
      (if is_int64 (sc_Type cmd) then Some (Some (sc_Type cmd)) else None)"
    using J by (simp add: dec_ptr_def)
  moreover have "dec_sub unmarshal_sched (jget kvs ''sched'') =
      (if pred_option sched_wf (sc_UpdateScheduler cmd) then Some (sc_UpdateScheduler cmd) else None)"
    using J unmarshal_marshal_sched by (cases "sc_UpdateScheduler cmd") (auto simp: dec_sub_def)
  moreover have "dec_sub unmarshal_fault (jget kvs ''updatefault'') =
      (if pred_option fault_wf (sc_UpdateFault cmd) then Some (sc_UpdateFault cmd) else None)"
    using J unmarshal_marshal_fault by (cases "sc_UpdateFault cmd") (auto simp: dec_sub_def)
  moreover have "dec_sub unmarshal_delete (jget kvs ''deletefault'') = Some (sc_DeleteFault cmd)"
    using J unmarshal_marshal_delete by (cases "sc_DeleteFault cmd") (auto simp: dec_sub_def)
  ultimately show ?thesis by (simp add: Unmarshal_def k StateCmd_wf_alt)
qed

section \<open>The state of a node\<close>

record schedulerState =
  ss_interval :: duration
  ss_next :: time

record ha_inMemState =
  hs_measIdx :: int
  hs_hbIdx :: int
  hs_schedulers :: "string \<rightharpoonup> schedulerState"
  hs_faultIdx :: int
  hs_alertInfos :: "int \<rightharpoonup> AlertInfos"
  hs_storage :: "string \<rightharpoonup> int"

datatype ha_error =
    FaultDoesNotExist | SchedulerFieldAbsent | FaultFieldAbsent | UnknownCommand int
  | DecodeError | RaftError string | Crashed crash

definition NewInMemState :: ha_inMemState where
  "NewInMemState = \<lparr>hs_measIdx = 0, hs_hbIdx = 0, hs_schedulers = Map.empty, hs_faultIdx = 0,
     hs_alertInfos = Map.empty, hs_storage = Map.empty\<rparr>"

definition getOrCreateScheduler :: "ha_inMemState \<Rightarrow> string \<Rightarrow> schedulerState" where
  "getOrCreateScheduler st n =
     (case hs_schedulers st n of Some sch \<Rightarrow> sch | None \<Rightarrow> \<lparr>ss_interval = 0, ss_next = 0\<rparr>)"

definition hs_NextMeasurementIndex :: "ha_inMemState \<Rightarrow> ha_inMemState \<times> int" where
  "hs_NextMeasurementIndex st = (st\<lparr>hs_measIdx := wrap64 (hs_measIdx st + 1)\<rparr>, hs_measIdx st)"

definition hs_NextHeartbeatIndex :: "ha_inMemState \<Rightarrow> ha_inMemState \<times> int" where
  "hs_NextHeartbeatIndex st = (st\<lparr>hs_hbIdx := wrap64 (hs_hbIdx st + 1)\<rparr>, hs_hbIdx st)"

definition hs_NextRun :: "ha_inMemState \<Rightarrow> string \<Rightarrow> time" where
  "hs_NextRun st n = (case hs_schedulers st n of None \<Rightarrow> 0 | Some sch \<Rightarrow> ss_next sch)"

definition hs_UpdateNextRun :: "ha_inMemState \<Rightarrow> string \<Rightarrow> time \<Rightarrow> ha_inMemState" where
  "hs_UpdateNextRun st n next =
     st\<lparr>hs_schedulers := (hs_schedulers st)(n \<mapsto> (getOrCreateScheduler st n)\<lparr>ss_next := next\<rparr>)\<rparr>"

definition hs_Interval :: "ha_inMemState \<Rightarrow> string \<Rightarrow> duration" where
  "hs_Interval st n = (case hs_schedulers st n of None \<Rightarrow> 0 | Some sch \<Rightarrow> ss_interval sch)"

definition hs_UpdateInterval :: "ha_inMemState \<Rightarrow> string \<Rightarrow> duration \<Rightarrow> ha_inMemState" where
  "hs_UpdateInterval st n interval =
     st\<lparr>hs_schedulers := (hs_schedulers st)(n \<mapsto> (getOrCreateScheduler st n)\<lparr>ss_interval := interval\<rparr>)\<rparr>"

definition hs_UpdateScheduler :: "ha_inMemState \<Rightarrow> string \<Rightarrow> duration \<Rightarrow> time \<Rightarrow> ha_inMemState" where
  "hs_UpdateScheduler st n interval next =
     st\<lparr>hs_schedulers := (hs_schedulers st)
       (n \<mapsto> (getOrCreateScheduler st n)\<lparr>ss_interval := interval, ss_next := next\<rparr>)\<rparr>"

definition hs_NextFaultIndex :: "ha_inMemState \<Rightarrow> ha_inMemState \<times> int" where
  "hs_NextFaultIndex st =
     (let idx = wrap32 (hs_faultIdx st + 1) in (st\<lparr>hs_faultIdx := idx\<rparr>, idx))"

definition hs_InitAlertInfos :: "ha_inMemState \<Rightarrow> int \<Rightarrow> ha_inMemState" where
  "hs_InitAlertInfos st i =
     st\<lparr>hs_alertInfos := (hs_alertInfos st)(i \<mapsto> \<lparr>ai_Sequence = 1, ai_StartEpoch = 0\<rparr>)\<rparr>"

definition hs_GetFaultInStorage :: "ha_inMemState \<Rightarrow> string \<Rightarrow> int" where
  "hs_GetFaultInStorage st n = (case hs_storage st n of Some val \<Rightarrow> val | None \<Rightarrow> 0)"

definition hs_StoreFaultInStorage :: "ha_inMemState \<Rightarrow> string \<Rightarrow> int \<Rightarrow> ha_inMemState" where
  "hs_StoreFaultInStorage st n i = st\<lparr>hs_storage := (hs_storage st)(n \<mapsto> i)\<rparr>"

definition hs_DeleteFaultInStorage :: "ha_inMemState \<Rightarrow> string \<Rightarrow> ha_inMemState" where
  "hs_DeleteFaultInStorage st n =
     (let st1 = (case hs_storage st n of
                   Some i \<Rightarrow> st\<lparr>hs_alertInfos := (hs_alertInfos st)(i := None)\<rparr> | None \<Rightarrow> st)
      in st1\<lparr>hs_storage := (hs_storage st1)(n := None)\<rparr>)"

definition hs_GetFaultSn :: "ha_inMemState \<Rightarrow> int \<Rightarrow> int" where
  "hs_GetFaultSn st i = (case hs_alertInfos st i of Some a \<Rightarrow> ai_Sequence a | None \<Rightarrow> 0)"

definition hs_IncrementFaultSn :: "ha_inMemState \<Rightarrow> int \<Rightarrow> ha_inMemState \<times> ha_error option" where
  "hs_IncrementFaultSn st i =
     (case hs_alertInfos st i of
        Some a \<Rightarrow> (st\<lparr>hs_alertInfos :=
            (hs_alertInfos st)(i \<mapsto> a\<lparr>ai_Sequence := wrap64 (ai_Sequence a + 1)\<rparr>)\<rparr>, None)
      | None \<Rightarrow> (st, Some FaultDoesNotExist))"

definition hs_GetFaultStartEpoch :: "ha_inMemState \<Rightarrow> int \<Rightarrow> int" where
  "hs_GetFaultStartEpoch st i = (case hs_alertInfos st i of Some a \<Rightarrow> ai_StartEpoch a | None \<Rightarrow> 0)"

definition hs_SetFaultStartEpoch :: "ha_inMemState \<Rightarrow> int \<Rightarrow> int \<Rightarrow> ha_inMemState go" where
  "hs_SetFaultStartEpoch st i epoch =
     (let st1 = (case hs_alertInfos st i of None \<Rightarrow> hs_InitAlertInfos st i | Some _ \<Rightarrow> st)
      in case hs_alertInfos st1 i of
           None \<Rightarrow> Crash NilDeref
         | Some a \<Rightarrow> Ret (st1\<lparr>hs_alertInfos := (hs_alertInfos st1)(i \<mapsto> a\<lparr>ai_StartEpoch := epoch\<rparr>)\<rparr>))"

section \<open>Snapshots\<close>

text \<open>The UTC and local forms of a time are the same instant.\<close>

record SchedulerStateSnapshot =
  sss_Interval :: duration
  sss_Next :: time

record AlertInfosStateSnapShot =
  ais_Sn :: int
  ais_Epoch :: int

record AgentStateSnapshot =
  snap_MeasIdx :: int
  snap_HbIdx :: int
  snap_Schedulers :: "string \<rightharpoonup> SchedulerStateSnapshot"
  snap_FaultIdx :: int
  snap_AlertInfos :: "int \<rightharpoonup> AlertInfosStateSnapShot"
  snap_StorageFault :: "string \<rightharpoonup> int"

definition Snapshot :: "ha_inMemState \<Rightarrow> AgentStateSnapshot" where
  "Snapshot st = \<lparr>snap_MeasIdx = hs_measIdx st, snap_HbIdx = hs_hbIdx st,
     snap_Schedulers = (\<lambda>k. map_option (\<lambda>v. \<lparr>sss_Interval = ss_interval v, sss_Next = ss_next v\<rparr>)
                                       (hs_schedulers st k)),
     snap_FaultIdx = hs_faultIdx st,
     snap_AlertInfos = (\<lambda>k. map_option (\<lambda>v. \<lparr>ais_Sn = ai_Sequence v, ais_Epoch = ai_StartEpoch v\<rparr>)
                                       (hs_alertInfos st k)),
     snap_StorageFault = hs_storage st\<rparr>"

text \<open>Only the scheduler map is replaced; the entries of the two fault maps are written over what
  the node has.\<close>

definition Restore :: "ha_inMemState \<Rightarrow> AgentStateSnapshot \<Rightarrow> ha_inMemState" where
  "Restore st snap = \<lparr>hs_measIdx = snap_MeasIdx snap, hs_hbIdx = snap_HbIdx snap,
     hs_schedulers = (\<lambda>k. map_option (\<lambda>v. \<lparr>ss_interval = sss_Interval v, ss_next = sss_Next v\<rparr>)
                                     (snap_Schedulers snap k)),
     hs_faultIdx = snap_FaultIdx snap,
     hs_alertInfos = hs_alertInfos st ++
       (\<lambda>k. map_option (\<lambda>v. \<lparr>ai_Sequence = ais_Sn v, ai_StartEpoch = ais_Epoch v\<rparr>) (snap_AlertInfos snap k)),
     hs_storage = hs_storage st ++ snap_StorageFault snap\<rparr>"

section \<open>The finite state machine\<close>

text \<open>The result of \<open>Apply\<close> is an \<open>interface{}\<close>: nil, an index, or an error.\<close>

datatype response = RNil | RInt64 int | RInt32 int | RErr ha_error

definition handleSchedulerUpdate ::
    "ha_inMemState \<Rightarrow> UpdateSchedulerFields option \<Rightarrow> ha_inMemState \<times> ha_error option" where
  "handleSchedulerUpdate st flds =
     (case flds of
        None \<Rightarrow> (st, Some SchedulerFieldAbsent)
      | Some f \<Rightarrow>
          (let st1 = (case usf_Interval f of None \<Rightarrow> st | Some d \<Rightarrow> hs_UpdateInterval st (usf_Name f) d);
               st2 = (case usf_Next f of None \<Rightarrow> st1
                      | Some n \<Rightarrow> hs_UpdateNextRun st1 (usf_Name f) (time_Unix n))
           in (st2, None)))"

definition handleFaultUpdate ::
    "ha_inMemState \<Rightarrow> UpdateFaultFields option \<Rightarrow> (ha_inMemState \<times> ha_error option) go" where
  "handleFaultUpdate st flds =
     (case flds of
        None \<Rightarrow> Ret (st, Some FaultFieldAbsent)
      | Some f \<Rightarrow>
          (case uff_FaultID f of
             None \<Rightarrow> Ret (st, None)
           | Some i \<Rightarrow>
               (let st1 = (if uff_FaultName f \<noteq> [] then hs_StoreFaultInStorage st (uff_FaultName f) i else st);
                    (st2, err) = (case uff_SequenceNumber f of None \<Rightarrow> (st1, None)
                                  | Some _ \<Rightarrow> hs_IncrementFaultSn st1 i)
                in if err \<noteq> None then Ret (st2, err)
                   else case uff_StartEpoch f of
                          None \<Rightarrow> Ret (st2, None)
                        | Some e \<Rightarrow> go_bind (hs_SetFaultStartEpoch st2 i e) (\<lambda>st3. Ret (st3, None)))))"

definition err_response :: "ha_error option \<Rightarrow> response" where
  "err_response err = (case err of None \<Rightarrow> RNil | Some e \<Rightarrow> RErr e)"

definition processCmd :: "ha_inMemState \<Rightarrow> StateCmd \<Rightarrow> (ha_inMemState \<times> response) go" where
  "processCmd st cmd =
     (if sc_Type cmd = IncrementMeasIdx
        then (let (st1, i) = hs_NextMeasurementIndex st in Ret (st1, RInt64 i))
      else if sc_Type cmd = IncrementHeartbeatIdx
        then (let (st1, i) = hs_NextHeartbeatIndex st in Ret (st1, RInt64 i))
      else if sc_Type cmd = UpdateScheduler
        then (let (st1, err) = handleSchedulerUpdate st (sc_UpdateScheduler cmd)
              in Ret (st1, err_response err))
      else if sc_Type cmd = IncrementFaultIdx
        then (let (st1, i) = hs_NextFaultIndex st in Ret (st1, RInt32 i))
      else if sc_Type cmd = UpdateFault
        then go_bind (handleFaultUpdate st (sc_UpdateFault cmd)) (\<lambda>(st1, err). Ret (st1, err_response err))
      else if sc_Type cmd = DeleteFault
        then (case sc_DeleteFault cmd of
                None \<Rightarrow> Crash NilDeref
              | Some f \<Rightarrow> Ret (hs_DeleteFaultInStorage st (dff_FaultName f), RNil))
      else Ret (st, RErr (UnknownCommand (sc_Type cmd))))"

text \<open>With \<open>debug\<close> the command is rendered for the log before it is processed.\<close>

definition fsm_Apply :: "bool \<Rightarrow> ha_inMemState \<Rightarrow> json \<Rightarrow> (ha_inMemState \<times> response) go" where
  "fsm_Apply debug st data =
     (case Unmarshal data of
        None \<Rightarrow> Ret (st, RErr DecodeError)
      | Some cmd \<Rightarrow>
          go_bind (if debug then StateCmd_String (\<lambda>_. []) (\<lambda>_. []) cmd else Ret [])
            (\<lambda>_. processCmd st cmd))"

section \<open>The cluster\<close>

datatype raft_outcome = Committed | RaftFailed string bool

text \<open>\<open>RaftFailed msg applied\<close>: the future of \<open>raft.Apply\<close> failed; a lost leadership or a timeout
  can leave the entry committed all the same (\<open>applied\<close>).\<close>

type_synonym 'r raft = "'r \<Rightarrow> json \<Rightarrow> 'r \<times> raft_outcome"

record 'r Cluster =
  cl_raft :: 'r
  cl_fsm :: ha_inMemState
  cl_debug :: bool

definition cluster_apply ::
    "'r raft \<Rightarrow> 'r Cluster \<Rightarrow> StateCmd \<Rightarrow> ('r Cluster \<times> (ha_error + response)) go" where
  "cluster_apply raftApply cl cmd =
     (let data = Marshal cmd;
          (r, out) = raftApply (cl_raft cl) data;
          cl1 = cl\<lparr>cl_raft := r\<rparr>
      in case out of
           RaftFailed msg applied \<Rightarrow>
             if applied
             then go_bind (fsm_Apply (cl_debug cl) (cl_fsm cl) data)
                    (\<lambda>(st, _). Ret (cl1\<lparr>cl_fsm := st\<rparr>, Inl (RaftError msg)))
             else Ret (cl1, Inl (RaftError msg))
         | Committed \<Rightarrow>
             go_bind (fsm_Apply (cl_debug cl) (cl_fsm cl) data)
               (\<lambda>(st, resp). Ret (cl1\<lparr>cl_fsm := st\<rparr>, case resp of RErr e \<Rightarrow> Inl e | _ \<Rightarrow> Inr resp)))"

definition apply_err ::
    "'r raft \<Rightarrow> 'r Cluster \<Rightarrow> StateCmd \<Rightarrow> ('r Cluster \<times> ha_error option) go" where
  "apply_err raftApply cl cmd =
     go_bind (cluster_apply raftApply cl cmd)
       (\<lambda>(cl1, res). Ret (cl1, case res of Inl e \<Rightarrow> Some e | Inr _ \<Rightarrow> None))"

definition cl_NextMeasurementIndex ::
    "'r raft \<Rightarrow> 'r Cluster \<Rightarrow> ('r Cluster \<times> int \<times> ha_error option) go" where
  "cl_NextMeasurementIndex raftApply cl =
     go_bind (cluster_apply raftApply cl (plain_cmd IncrementMeasIdx)) (\<lambda>(cl1, res).
       case res of Inl e \<Rightarrow> Ret (cl1, 0, Some e)
       | Inr resp \<Rightarrow> (case resp of RInt64 i \<Rightarrow> Ret (cl1, i, None) | _ \<Rightarrow> Crash ExplicitPanic))"

definition cl_NextHeartbeatIndex ::
    "'r raft \<Rightarrow> 'r Cluster \<Rightarrow> ('r Cluster \<times> int \<times> ha_error option) go" where
  "cl_NextHeartbeatIndex raftApply cl =
     go_bind (cluster_apply raftApply cl (plain_cmd IncrementHeartbeatIdx)) (\<lambda>(cl1, res).
       case res of Inl e \<Rightarrow> Ret (cl1, 0, Some e)
       | Inr resp \<Rightarrow> (case resp of RInt64 i \<Rightarrow> Ret (cl1, i, None) | _ \<Rightarrow> Crash ExplicitPanic))"

definition cl_NextRun :: "'r Cluster \<Rightarrow> string \<Rightarrow> time" where
  "cl_NextRun cl sched = hs_NextRun (cl_fsm cl) sched"

definition sched_cmd :: "UpdateSchedulerFields \<Rightarrow> StateCmd" where
  "sched_cmd f = (plain_cmd UpdateScheduler)\<lparr>sc_UpdateScheduler := Some f\<rparr>"

definition cl_UpdateNextRun ::
    "'r raft \<Rightarrow> 'r Cluster \<Rightarrow> string \<Rightarrow> time \<Rightarrow> ('r Cluster \<times> ha_error option) go" where
  "cl_UpdateNextRun raftApply cl sched next =
     apply_err raftApply cl (sched_cmd \<lparr>usf_Name = sched, usf_Interval = None, usf_Next = Some (Unix next)\<rparr>)"

definition cl_Interval :: "'r Cluster \<Rightarrow> string \<Rightarrow> duration" where
  "cl_Interval cl sched = hs_Interval (cl_fsm cl) sched"

definition cl_UpdateInterval ::
    "'r raft \<Rightarrow> 'r Cluster \<Rightarrow> string \<Rightarrow> duration \<Rightarrow> ('r Cluster \<times> ha_error option) go" where
  "cl_UpdateInterval raftApply cl sched interval =
     apply_err raftApply cl (sched_cmd \<lparr>usf_Name = sched, usf_Interval = Some interval, usf_Next = None\<rparr>)"

definition cl_UpdateScheduler ::
    "'r raft \<Rightarrow> 'r Cluster \<Rightarrow> string \<Rightarrow> duration \<Rightarrow> time \<Rightarrow> ('r Cluster \<times> ha_error option) go" where
  "cl_UpdateScheduler raftApply cl sched interval next =
     apply_err raftApply cl
       (sched_cmd \<lparr>usf_Name = sched, usf_Interval = Some interval, usf_Next = Some (Unix next)\<rparr>)"

definition cl_GetFaultSn :: "'r Cluster \<Rightarrow> int \<Rightarrow> int go" where
  "cl_GetFaultSn cl i = Ret (hs_GetFaultSn (cl_fsm cl) i)"

definition cl_GetFaultStartEpoch :: "'r Cluster \<Rightarrow> int \<Rightarrow> int go" where
  "cl_GetFaultStartEpoch cl i = Ret (hs_GetFaultStartEpoch (cl_fsm cl) i)"

definition fault_cmd :: "UpdateFaultFields \<Rightarrow> StateCmd" where
  "fault_cmd f = (plain_cmd UpdateFault)\<lparr>sc_UpdateFault := Some f\<rparr>"

definition cl_IncrementFaultSn ::
    "'r raft \<Rightarrow> 'r Cluster \<Rightarrow> int \<Rightarrow> ('r Cluster \<times> ha_error option) go" where
  "cl_IncrementFaultSn raftApply cl i =
     apply_err raftApply cl (fault_cmd \<lparr>uff_FaultID = Some i, uff_FaultName = [],
       uff_SequenceNumber = Some 1, uff_StartEpoch = None\<rparr>)"

definition cl_SetFaultStartEpoch ::
    "'r raft \<Rightarrow> 'r Cluster \<Rightarrow> int \<Rightarrow> int \<Rightarrow> ('r Cluster \<times> ha_error option) go" where
  "cl_SetFaultStartEpoch raftApply cl i epoch =
     apply_err raftApply cl (fault_cmd \<lparr>uff_FaultID = Some i, uff_FaultName = [],
       uff_SequenceNumber = None, uff_StartEpoch = Some epoch\<rparr>)"

text \<open>The one write that does not go through the log.\<close>

definition cl_InitAlertInfos :: "'r Cluster \<Rightarrow> int \<Rightarrow> ('r Cluster \<times> ha_error option) go" where
  "cl_InitAlertInfos cl i = Ret (cl\<lparr>cl_fsm := hs_InitAlertInfos (cl_fsm cl) i\<rparr>, None)"

definition cl_NextFaultIndex ::
    "'r raft \<Rightarrow> 'r Cluster \<Rightarrow> ('r Cluster \<times> int \<times> ha_error option) go" where
  "cl_NextFaultIndex raftApply cl =
     go_bind (cluster_apply raftApply cl (plain_cmd IncrementFaultIdx)) (\<lambda>(cl1, res).
       case res of Inl e \<Rightarrow> Ret (cl1, 0, Some e)
       | Inr resp \<Rightarrow> (case resp of RInt32 i \<Rightarrow> Ret (cl1, i, None) | _ \<Rightarrow> Crash ExplicitPanic))"

definition cl_GetFaultInStorage :: "'r Cluster \<Rightarrow> string \<Rightarrow> int" where
  "cl_GetFaultInStorage cl n = hs_GetFaultInStorage (cl_fsm cl) n"

definition cl_StoreFaultInStorage ::
    "'r raft \<Rightarrow> 'r Cluster \<Rightarrow> string \<Rightarrow> int \<Rightarrow> ('r Cluster \<times> ha_error option) go" where
  "cl_StoreFaultInStorage raftApply cl n i =
     apply_err raftApply cl (fault_cmd \<lparr>uff_FaultID = Some i, uff_FaultName = n,
       uff_SequenceNumber = None, uff_StartEpoch = None\<rparr>)"

definition cl_DeleteFaultInStorage ::
    "'r raft \<Rightarrow> 'r Cluster \<Rightarrow> string \<Rightarrow> ('r Cluster \<times> ha_error option) go" where
  "cl_DeleteFaultInStorage raftApply cl n =
     apply_err raftApply cl ((plain_cmd DeleteFault)\<lparr>sc_DeleteFault := Some \<lparr>dff_FaultName = n\<rparr>\<rparr>)"

section \<open>What a committed command does\<close>

lemma fsm_Apply_Marshal:
  "fsm_Apply debug st (Marshal cmd) =
     (if StateCmd_wf cmd
      then go_bind (if debug then StateCmd_String (\<lambda>_. []) (\<lambda>_. []) cmd else Ret []) (\<lambda>_. processCmd st cmd)
      else Ret (st, RErr DecodeError))"
  by (simp add: fsm_Apply_def Unmarshal_Marshal)

lemma fsm_Apply_Ret:
  "fsm_Apply debug st (Marshal cmd) = Ret (st', resp) \<Longrightarrow>
     (StateCmd_wf cmd \<and> processCmd st cmd = Ret (st', resp)) \<or>
     (\<not> StateCmd_wf cmd \<and> st' = st \<and> resp = RErr DecodeError)"
  by (auto simp: fsm_Apply_Marshal go_simps split: if_splits)

lemma response_Inr [go_simps]:
  "(case resp of RErr e \<Rightarrow> Inl e | _ \<Rightarrow> Inr resp) = Inr r \<longleftrightarrow> resp = r \<and> (\<forall>e. r \<noteq> RErr e)"
  by (cases resp) auto

lemma index_response [go_simps]:
  "(case res of Inl e \<Rightarrow> Ret (cl, 0, Some e)
     | Inr resp \<Rightarrow> (case resp of RInt32 i \<Rightarrow> Ret (cl, i, None) | _ \<Rightarrow> Crash c)) = Ret (cl', i, None) \<longleftrightarrow>
   res = Inr (RInt32 i) \<and> cl' = cl"
  by (auto split: sum.splits response.splits)

lemma cluster_apply_ok:
  assumes "cluster_apply ra cl cmd = Ret (cl', Inr resp)"
  shows "StateCmd_wf cmd \<and> processCmd (cl_fsm cl) cmd = Ret (cl_fsm cl', resp) \<and> (\<forall>e. resp \<noteq> RErr e) \<and>
    cl_debug cl' = cl_debug cl"
  using assms by (auto simp: cluster_apply_def Let_def go_simps split: prod.splits raft_outcome.splits
      if_splits dest!: fsm_Apply_Ret)

lemma cluster_apply_fail:
  assumes "cluster_apply ra cl cmd = Ret (cl', Inl e)"
  shows "cl_fsm cl' = cl_fsm cl \<or> (\<exists>resp. processCmd (cl_fsm cl) cmd = Ret (cl_fsm cl', resp))"
proof -
  from assms have "cl_fsm cl' = cl_fsm cl \<or>
      (\<exists>resp. fsm_Apply (cl_debug cl) (cl_fsm cl) (Marshal cmd) = Ret (cl_fsm cl', resp))"
    by (auto simp: cluster_apply_def Let_def go_simps split: prod.splits raft_outcome.splits if_splits)
  then show ?thesis by (auto dest!: fsm_Apply_Ret)
qed

lemma apply_err_Ret:
  "apply_err ra cl cmd = Ret (cl', err) \<Longrightarrow>
     \<exists>res. cluster_apply ra cl cmd = Ret (cl', res) \<and> err = (case res of Inl e \<Rightarrow> Some e | Inr _ \<Rightarrow> None)"
  by (auto simp: apply_err_def go_simps)

lemma apply_err_ok:
  assumes "apply_err ra cl cmd = Ret (cl', None)"
  shows "StateCmd_wf cmd \<and> (\<exists>resp. processCmd (cl_fsm cl) cmd = Ret (cl_fsm cl', resp) \<and> (\<forall>e. resp \<noteq> RErr e))"
proof -
  from apply_err_Ret [OF assms] obtain res where
    r: "cluster_apply ra cl cmd = Ret (cl', res)" "(case res of Inl e \<Rightarrow> Some e | Inr _ \<Rightarrow> None) = None" by metis
  then obtain resp where "res = Inr resp" by (cases res) simp_all
  with r cluster_apply_ok show ?thesis by blast
qed

lemma apply_err_fail:
  assumes "apply_err ra cl cmd = Ret (cl', Some e)"
  shows "cl_fsm cl' = cl_fsm cl \<or> (\<exists>resp. processCmd (cl_fsm cl) cmd = Ret (cl_fsm cl', resp))"
proof -
  from apply_err_Ret [OF assms] obtain res where
    r: "cluster_apply ra cl cmd = Ret (cl', res)" "(case res of Inl e \<Rightarrow> Some e | Inr _ \<Rightarrow> None) = Some e" by metis
  then obtain e' where "res = Inl e'" by (cases res) simp_all
  with r cluster_apply_fail show ?thesis by blast
qed

lemma processCmd_sched:
  "processCmd st (sched_cmd f) = Ret (fst (handleSchedulerUpdate st (Some f)), RNil)"
  by (simp add: processCmd_def sched_cmd_def plain_cmd_def handleSchedulerUpdate_def err_response_def Let_def)

lemma processCmd_fault:
  "processCmd st (fault_cmd f) =
     go_bind (handleFaultUpdate st (Some f)) (\<lambda>(st1, err). Ret (st1, err_response err))"
  by (simp add: processCmd_def fault_cmd_def plain_cmd_def)

lemma fsm_Apply_sched:
  "fsm_Apply debug st (Marshal (sched_cmd f)) =
     (if StateCmd_wf (sched_cmd f) then Ret (fst (handleSchedulerUpdate st (Some f)), RNil)
      else Ret (st, RErr DecodeError))"
  by (simp add: fsm_Apply_Marshal processCmd_sched StateCmd_String_def)
    (simp add: sched_cmd_def plain_cmd_def)

lemma apply_err_sched_total: "\<exists>cl' err. apply_err ra cl (sched_cmd f) = Ret (cl', err)"
  by (cases "ra (cl_raft cl) (Marshal (sched_cmd f))")
    (auto simp: apply_err_def cluster_apply_def Let_def fsm_Apply_sched split: raft_outcome.splits)

section \<open>The cluster as a scheduler state\<close>

text \<open>The scheduler's interface has no crash; that none is lost here is \<open>apply_err_sched_total\<close>.\<close>

definition no_crash :: "'s \<Rightarrow> ('s \<times> ha_error option) go \<Rightarrow> 's \<times> ha_error option" where
  "no_crash s m = (case m of Ret x \<Rightarrow> x | Crash c \<Rightarrow> (s, Some (Crashed c)))"

definition cl_sched_ops :: "'r raft \<Rightarrow> ('r Cluster, ha_error) State" where
  "cl_sched_ops ra = \<lparr>st_NextRun = cl_NextRun,
     st_UpdateNextRun = (\<lambda>cl n t. no_crash cl (cl_UpdateNextRun ra cl n t)),
     st_Interval = cl_Interval,
     st_UpdateInterval = (\<lambda>cl n d. no_crash cl (cl_UpdateInterval ra cl n d)),
     st_UpdateScheduler = (\<lambda>cl n d t. no_crash cl (cl_UpdateScheduler ra cl n d t))\<rparr>"

lemma no_crash_sched:
  "no_crash cl (apply_err ra cl (sched_cmd f)) = (cl', err) \<longleftrightarrow> apply_err ra cl (sched_cmd f) = Ret (cl', err)"
  using apply_err_sched_total [of ra cl f] by (auto simp: no_crash_def)

lemmas cl_sched_defs = cl_sched_ops_def cl_NextRun_def cl_UpdateNextRun_def cl_Interval_def
  cl_UpdateScheduler_def no_crash_sched processCmd_sched handleSchedulerUpdate_def hs_NextRun_def
  hs_UpdateNextRun_def hs_Interval_def hs_UpdateInterval_def getOrCreateScheduler_def Let_def

text \<open>The scheduler entry that a command leaves.\<close>

lemma sched_entry_next:
  assumes "fst (handleSchedulerUpdate st (Some \<lparr>usf_Name = n, usf_Interval = None, usf_Next = Some x\<rparr>)) = st'"
  shows "hs_NextRun st' n = time_Unix x \<and> hs_Interval st' n = hs_Interval st n"
  using assms by (auto simp: cl_sched_defs split: option.splits)

lemma sched_entry_both:
  assumes "fst (handleSchedulerUpdate st (Some \<lparr>usf_Name = n, usf_Interval = Some d, usf_Next = Some x\<rparr>)) = st'"
  shows "hs_NextRun st' n = time_Unix x \<and> hs_Interval st' n = d"
  using assms by (auto simp: cl_sched_defs split: option.splits)

lemmas cl_sched_iface = cl_sched_ops_def cl_NextRun_def cl_UpdateNextRun_def cl_Interval_def
  cl_UpdateScheduler_def no_crash_sched processCmd_sched

interpretation cs: sched_state "cl_sched_ops ra" "\<lambda>t. Truncate t second"
proof unfold_locales
  fix s n t s'
  show "st_UpdateNextRun (cl_sched_ops ra) s n t = (s', None) \<Longrightarrow>
      st_NextRun (cl_sched_ops ra) s' n = Truncate t second \<and>
      st_Interval (cl_sched_ops ra) s' n = st_Interval (cl_sched_ops ra) s n"
    by (auto simp: cl_sched_iface time_Unix_Unix dest!: apply_err_ok sched_entry_next sched_entry_both)
  show "st_UpdateNextRun (cl_sched_ops ra) s n t = (s', Some e) \<Longrightarrow>
      st_Interval (cl_sched_ops ra) s' n = st_Interval (cl_sched_ops ra) s n" for e
    by (auto simp: cl_sched_iface dest!: apply_err_fail sched_entry_next)
  show "st_UpdateScheduler (cl_sched_ops ra) s n d t = (s', None) \<Longrightarrow>
      st_NextRun (cl_sched_ops ra) s' n = Truncate t second \<and> st_Interval (cl_sched_ops ra) s' n = d" for d
    by (auto simp: cl_sched_iface time_Unix_Unix dest!: apply_err_ok sched_entry_next sched_entry_both)
next
  show "Truncate t second \<le> t" for t by (rule Truncate_le)
  show "t < Truncate t second + second" for t by (rule Truncate_gt) simp
  show "second dvd t \<Longrightarrow> Truncate t second = t" for t by (simp add: Truncate_def)
qed

section \<open>The cluster as a fault store\<close>

definition cl_fault_ops :: "'r raft \<Rightarrow> ('r Cluster, ha_error) FaultManagerState" where
  "cl_fault_ops ra = \<lparr>fm_NextFaultIndex = cl_NextFaultIndex ra, fm_IncrementFaultSn = cl_IncrementFaultSn ra,
     fm_GetFaultSn = cl_GetFaultSn, fm_GetFaultStartEpoch = cl_GetFaultStartEpoch,
     fm_SetFaultStartEpoch = cl_SetFaultStartEpoch ra, fm_InitAlertInfos = cl_InitAlertInfos,
     fm_GetFaultInStorage = cl_GetFaultInStorage, fm_StoreFaultInStorage = cl_StoreFaultInStorage ra,
     fm_DeleteFaultInStorage = cl_DeleteFaultInStorage ra\<rparr>"

abbreviation cl_next :: "'r Cluster \<Rightarrow> int" where
  "cl_next cl \<equiv> wrap32 (hs_faultIdx (cl_fsm cl) + 1)"

abbreviation cl_storage :: "'r Cluster \<Rightarrow> string \<rightharpoonup> int" where
  "cl_storage cl \<equiv> hs_storage (cl_fsm cl)"

abbreviation cl_infos :: "'r Cluster \<Rightarrow> int \<rightharpoonup> AlertInfos" where
  "cl_infos cl \<equiv> hs_alertInfos (cl_fsm cl)"

abbreviation cl_table :: "'r Cluster \<Rightarrow> alarm_table" where
  "cl_table cl \<equiv> alarm_view (cl_next cl) (cl_storage cl) (cl_infos cl)"

abbreviation cl_inv :: "'r Cluster \<Rightarrow> bool" where
  "cl_inv cl \<equiv> store_inv (cl_next cl) (cl_storage cl) (cl_infos cl)"

lemmas cl_fault_defs = cl_fault_ops_def processCmd_fault handleFaultUpdate_def err_response_def
  hs_StoreFaultInStorage_def hs_IncrementFaultSn_def hs_SetFaultStartEpoch_def hs_InitAlertInfos_def
  hs_DeleteFaultInStorage_def Let_def

interpretation cf: fault_state "cl_fault_ops ra" cl_next cl_storage cl_infos
proof unfold_locales
  fix s n i s' e
  show "fm_GetFaultInStorage (cl_fault_ops ra) s n = at 0 (cl_storage s) n"
    by (simp add: cl_fault_ops_def cl_GetFaultInStorage_def hs_GetFaultInStorage_def at_def split: option.splits)
  show "fm_NextFaultIndex (cl_fault_ops ra) s = Ret (s', i, None) \<Longrightarrow>
      i = cl_next s \<and> cl_next s' = wrap32 (cl_next s + 1) \<and> cl_storage s' = cl_storage s \<and>
      cl_infos s' = cl_infos s"
    by (auto simp: cl_fault_ops_def cl_NextFaultIndex_def go_simps processCmd_def plain_cmd_def
        hs_NextFaultIndex_def Let_def split: prod.splits
        dest!: cluster_apply_ok sym [where t = "cl_fsm s'"])
  show "fm_StoreFaultInStorage (cl_fault_ops ra) s n i = Ret (s', None) \<Longrightarrow> n \<noteq> [] \<Longrightarrow>
      cl_storage s' = (cl_storage s)(n \<mapsto> i) \<and> cl_next s' = cl_next s \<and> cl_infos s' = cl_infos s"
    by (auto simp: cl_fault_defs cl_StoreFaultInStorage_def dest!: apply_err_ok sym [where t = "cl_fsm s'"])
  show "fm_DeleteFaultInStorage (cl_fault_ops ra) s n = Ret (s', None) \<Longrightarrow>
      cl_storage s' = (cl_storage s)(n := None) \<and> cl_next s' = cl_next s \<and>
      (\<forall>j. cl_storage s n \<noteq> Some j \<longrightarrow> cl_infos s' j = cl_infos s j)"
    by (auto simp: cl_fault_defs cl_DeleteFaultInStorage_def processCmd_def plain_cmd_def
        dest!: apply_err_ok sym [where t = "cl_fsm s'"] split: option.splits)
  show "fm_InitAlertInfos (cl_fault_ops ra) s i = Ret (s', None) \<Longrightarrow>
      cl_storage s' = cl_storage s \<and> cl_next s' = cl_next s \<and>
      cl_infos s' = (cl_infos s)(i \<mapsto> \<lparr>ai_Sequence = 1, ai_StartEpoch = 0\<rparr>)"
    by (auto simp: cl_fault_ops_def cl_InitAlertInfos_def hs_InitAlertInfos_def)
next
  fix s i a
  show "cl_infos s i = Some a \<Longrightarrow> fm_GetFaultSn (cl_fault_ops ra) s i = Ret (ai_Sequence a)"
    by (simp add: cl_fault_ops_def cl_GetFaultSn_def hs_GetFaultSn_def)
  show "cl_infos s i = Some a \<Longrightarrow> fm_GetFaultStartEpoch (cl_fault_ops ra) s i = Ret (ai_StartEpoch a)"
    by (simp add: cl_fault_ops_def cl_GetFaultStartEpoch_def hs_GetFaultStartEpoch_def)
  show "fm_IncrementFaultSn (cl_fault_ops ra) s i = Ret (s', None) \<Longrightarrow> cl_infos s i = Some a \<Longrightarrow>
      cl_storage s' = cl_storage s \<and> cl_next s' = cl_next s \<and>
      cl_infos s' = (cl_infos s)(i \<mapsto> a\<lparr>ai_Sequence := wrap64 (ai_Sequence a + 1)\<rparr>)" for s'
    by (auto simp: cl_fault_defs cl_IncrementFaultSn_def dest!: apply_err_ok sym [where t = "cl_fsm s'"])
  show "fm_SetFaultStartEpoch (cl_fault_ops ra) s i e = Ret (s', None) \<Longrightarrow> cl_infos s i = Some a \<Longrightarrow>
      cl_storage s' = cl_storage s \<and> cl_next s' = cl_next s \<and>
      cl_infos s' = (cl_infos s)(i \<mapsto> a\<lparr>ai_StartEpoch := e\<rparr>)" for s' e
    by (auto simp: cl_fault_defs cl_SetFaultStartEpoch_def dest!: apply_err_ok sym [where t = "cl_fsm s'"])
qed

section \<open>Replicas\<close>

text \<open>
  A follower applies the committed log to its own state; what an entry answers is dropped there.
\<close>

definition replay :: "bool \<Rightarrow> ha_inMemState \<Rightarrow> json list \<Rightarrow> ha_inMemState go" where
  "replay debug st log = go_foldl (\<lambda>s d. go_bind (fsm_Apply debug s d) (\<lambda>(s', _). Ret s')) st log"

text \<open>The library's promise: an entry is in the log exactly if it is applied. \<open>lg\<close> reads the
  committed log off the library's state.\<close>

definition raft_logs :: "'r raft \<Rightarrow> ('r \<Rightarrow> json list) \<Rightarrow> bool" where
  "raft_logs ra lg \<longleftrightarrow> (\<forall>r d. case ra r d of
     (r', Committed) \<Rightarrow> lg r' = lg r @ [d]
   | (r', RaftFailed m applied) \<Rightarrow> lg r' = (if applied then lg r @ [d] else lg r))"

text \<open>The follower's view of a leader.\<close>

definition in_sync :: "('r \<Rightarrow> json list) \<Rightarrow> 'r Cluster \<Rightarrow> bool" where
  "in_sync lg cl \<longleftrightarrow> replay (cl_debug cl) NewInMemState (lg (cl_raft cl)) = Ret (cl_fsm cl)"

lemma replay_append: "replay dbg st (l1 @ l2) = go_bind (replay dbg st l1) (\<lambda>s. replay dbg s l2)"
  by (simp add: replay_def go_foldl_append)

lemma record_eta [simp]:
  "\<lparr>ss_interval = ss_interval x, ss_next = ss_next x\<rparr> = x"
  "\<lparr>ai_Sequence = ai_Sequence y, ai_StartEpoch = ai_StartEpoch y\<rparr> = y"
  by simp_all

lemma Restore_Snapshot_fresh: "Restore NewInMemState (Snapshot st) = st"
  by (rule ha_inMemState.equality)
    (auto simp: Restore_def Snapshot_def NewInMemState_def option.map_comp comp_def option.map_ident)

text \<open>A write that goes through the log keeps the replicas in step, failed or not.\<close>

lemma cluster_apply_sync:
  assumes "raft_logs ra lg" and "in_sync lg cl" and "cluster_apply ra cl cmd = Ret (cl', res)"
  shows "in_sync lg cl' \<and> cl_debug cl' = cl_debug cl"
proof -
  obtain r out where r: "ra (cl_raft cl) (Marshal cmd) = (r, out)" by fastforce
  have L: "case out of Committed \<Rightarrow> lg r = lg (cl_raft cl) @ [Marshal cmd]
     | RaftFailed m ap \<Rightarrow> lg r = (if ap then lg (cl_raft cl) @ [Marshal cmd] else lg (cl_raft cl))"
    using assms(1) [unfolded raft_logs_def, THEN spec, of "cl_raft cl", THEN spec, of "Marshal cmd"] r by simp
  have R: "replay (cl_debug cl) NewInMemState (lg (cl_raft cl) @ [Marshal cmd]) = Ret st'"
    if "fsm_Apply (cl_debug cl) (cl_fsm cl) (Marshal cmd) = Ret (st', resp)" for st' resp
    using assms(2) that by (simp add: in_sync_def replay_append) (simp add: replay_def)
  show ?thesis using assms(2,3) L r R
    by (auto simp: cluster_apply_def Let_def go_simps in_sync_def split: raft_outcome.splits if_splits)
qed

lemma apply_err_sync:
  "raft_logs ra lg \<Longrightarrow> in_sync lg cl \<Longrightarrow> apply_err ra cl cmd = Ret (cl', err) \<Longrightarrow>
     in_sync lg cl' \<and> cl_debug cl' = cl_debug cl"
  by (auto dest!: apply_err_Ret cluster_apply_sync)

lemma cl_NextFaultIndex_sync:
  assumes "raft_logs ra lg" and "in_sync lg cl" and "cl_NextFaultIndex ra cl = Ret (cl', i, err)"
  shows "in_sync lg cl' \<and> cl_debug cl' = cl_debug cl"
proof -
  from assms(3) obtain c res where r: "cluster_apply ra cl (plain_cmd 4) = Ret (c, res)" and
    k: "(case res of Inl e \<Rightarrow> Ret (c, 0, Some e)
        | Inr resp \<Rightarrow> (case resp of RInt32 i \<Rightarrow> Ret (c, i, None) | _ \<Rightarrow> Crash ExplicitPanic)) = Ret (cl', i, err)"
    by (auto simp: cl_NextFaultIndex_def go_simps)
  from k have "c = cl'" by (auto split: sum.split_asm response.split_asm)
  with cluster_apply_sync [OF assms(1,2) r] show ?thesis by simp
qed

text \<open>Between storing a new fault and setting its epoch the leader is ahead of its followers by
  the alert infos that it created locally; setting the epoch creates them on the followers.\<close>

lemma storeFault_sync:
  assumes log: "raft_logs ra lg" and sync: "in_sync lg cl"
    and st: "storeFault (cl_fault_ops ra) cl n = Ret (cl1, st, i)" "st = Stored" "n \<noteq> []"
  shows "\<exists>f. replay (cl_debug cl1) NewInMemState (lg (cl_raft cl1)) = Ret f \<and>
    cl_fsm cl1 = hs_InitAlertInfos f i \<and> hs_alertInfos f = cl_infos cl"
proof -
  from st obtain a b where
    1: "cl_NextFaultIndex ra cl = Ret (a, i, None)" and
    2: "cl_StoreFaultInStorage ra a n i = Ret (b, None)" and
    3: "cl_InitAlertInfos b i = Ret (cl1, None)"
    by (auto simp: storeFault_def Let_def go_simps cl_fault_ops_def split: if_splits prod.splits)
  have "in_sync lg b"
    using apply_err_sync [OF log _ 2 [unfolded cl_StoreFaultInStorage_def]]
      cl_NextFaultIndex_sync [OF log sync 1] by simp
  moreover have "cl_infos b = cl_infos cl"
    using cf.next_index [of ra cl a i] cf.store [of ra a n i b] 1 2 st(3) by (simp add: cl_fault_ops_def)
  ultimately show ?thesis using 3 by (auto simp: cl_InitAlertInfos_def in_sync_def)
qed

lemma SetFaultStartEpoch_creates:
  "hs_alertInfos f i = None \<Longrightarrow> hs_SetFaultStartEpoch (hs_InitAlertInfos f i) i e = hs_SetFaultStartEpoch f i e"
  by (simp add: hs_SetFaultStartEpoch_def hs_InitAlertInfos_def)

lemma set_epoch_resync:
  assumes log: "raft_logs ra lg"
    and f: "replay (cl_debug cl) NewInMemState (lg (cl_raft cl)) = Ret f"
      "cl_fsm cl = hs_InitAlertInfos f i" "hs_alertInfos f i = None"
    and set: "cl_SetFaultStartEpoch ra cl i e = Ret (cl', None)"
  shows "in_sync lg cl'"
proof -
  let ?cmd = "fault_cmd \<lparr>uff_FaultID = Some i, uff_FaultName = [], uff_SequenceNumber = None,
    uff_StartEpoch = Some e\<rparr>"
  have P: "processCmd (cl_fsm cl) ?cmd = processCmd f ?cmd"
    by (simp add: processCmd_fault handleFaultUpdate_def f(2) SetFaultStartEpoch_creates [OF f(3)])
  have D: "fsm_Apply (cl_debug cl) (cl_fsm cl) (Marshal ?cmd) = fsm_Apply (cl_debug cl) f (Marshal ?cmd)"
    if "StateCmd_wf ?cmd" using that P by (simp add: fsm_Apply_Marshal)
  have wf: "StateCmd_wf ?cmd" using apply_err_ok [OF set [unfolded cl_SetFaultStartEpoch_def]] by simp
  let ?f = "cl\<lparr>cl_fsm := f\<rparr>"
  have "in_sync lg ?f" using f(1) by (simp add: in_sync_def)
  moreover have "apply_err ra ?f ?cmd = Ret (cl', None)"
    using set [unfolded cl_SetFaultStartEpoch_def]
    by (cases "ra (cl_raft cl) (Marshal ?cmd)")
      (auto simp: apply_err_def cluster_apply_def Let_def D [OF wf] go_simps split: raft_outcome.splits if_splits)
  ultimately show ?thesis using apply_err_sync [OF log] by blast
qed

lemma AlertToFault_sync:
  assumes log: "raft_logs ra lg" and sync: "in_sync lg cl" and inv: "cl_inv cl"
    and fresh: "cl_infos cl (cl_next cl) = None"
    and res: "AlertToFault (cl_fault_ops ra) conf codes cl alert = Ret (cl', st, Some ef, c)"
  shows "in_sync lg cl'"
proof (cases "al_Status alert = ''resolved''")
  case True
  with AlertToFault_resolved_same [OF res] sync show ?thesis by simp
next
  case False
  let ?n = "faultName_of alert"
  obtain c1 i prio where
    st: "storeFault (cl_fault_ops ra) cl ?n = Ret (c1, st, i)" "st \<noteq> InError" and
    b: "AlertToFault_build (cl_fault_ops ra) c1 st ?n i (fault_event conf codes (sourceName_of alert)
          (at [] (al_Labels alert) ''alertname'') (at [] (al_Annotations alert) ''description'') prio
          (ToUpper (at [] (al_Labels alert) ''severity'')) i) = Ret (cl', st, Some ef, c)"
    by (rule AlertToFault_fireE [OF res False])
  show ?thesis
  proof (cases "cl_storage cl ?n")
    case (Some j)
    with cf.storeFault_known [OF inv Some] st have "c1 = cl" "st = AlreadyExist" by auto
    with b sync show ?thesis by (auto simp: AlertToFault_build_def Let_def go_simps)
  next
    case None
    note N = cf.storeFault_new [OF inv None faultName_nonempty st]
    from storeFault_sync [OF log sync st(1) _ faultName_nonempty] N obtain f where
      f: "replay (cl_debug c1) NewInMemState (lg (cl_raft c1)) = Ret f" "cl_fsm c1 = hs_InitAlertInfos f i"
        "hs_alertInfos f = cl_infos cl" by blast
    have fi: "hs_alertInfos f i = None" using f(3) fresh N by simp
    from b N have "\<exists>e. cl_SetFaultStartEpoch ra c1 i e = Ret (cl', None)"
      by (auto simp: AlertToFault_build_def Let_def go_simps cl_fault_ops_def split: prod.splits if_splits)
    then show ?thesis using set_epoch_resync [OF log f(1,2) fi] by blast
  qed
qed

end
