(* ===== verification/Ha_Properties.thy ===== *)
theory Ha_Properties
  imports Ha
begin

text \<open>
  The properties of the replicated agent state: the fault life cycle over the cluster, the
  replication of the state, and the scheduler on top of it. The witnesses run the model on a
  single-node cluster whose library commits every entry.
\<close>

section \<open>A sample cluster\<close>

definition log_raft :: "json list raft" where
  "log_raft r d = (r @ [d], Committed)"

definition sample_cluster :: "json list Cluster" where
  "sample_cluster = \<lparr>cl_raft = [], cl_fsm = NewInMemState, cl_debug = True\<rparr>"

definition sample_alert :: "string \<Rightarrow> Alert" where
  "sample_alert status = \<lparr>al_Status = status,
     al_Labels = [''severity'' \<mapsto> ''major'', ''id'' \<mapsto> ''42'', ''alertname'' \<mapsto> ''LinkDown'', ''VNFC'' \<mapsto> ''vm1''],
     al_Annotations = [''service'' \<mapsto> ''eth=0'', ''description'' \<mapsto> ''link is down'']\<rparr>"

lemma sample_status [simp]: "al_Status (sample_alert st) = st"
  by (simp add: sample_alert_def)

definition sample_conf :: EventConfiguration where
  "sample_conf = \<lparr>ec_VNFName = [], ec_ReportingEntityName = [], ec_ReportingEntityID = [], ec_MaxSize = 0,
     ec_NfNamingCode = ''hspx'', ec_RetryInterval = 0, ec_MaxMissed = 0, ec_Tmaas = None, ec_DnPrefix = [],
     ec_SourceName = [], ec_NfcNamingCodes = []\<rparr>"

lemma raft_logs_log_raft: "raft_logs log_raft id"
  by (simp add: raft_logs_def log_raft_def)

lemma in_sync_sample: "in_sync id sample_cluster"
  by (simp add: in_sync_def sample_cluster_def replay_def)

lemma wrap32_one [simp]: "wrap32 1 = 1"
  by (simp add: wrap32_def)

lemma cl_inv_sample: "cl_inv sample_cluster"
  by (simp add: store_inv_def alarm_view_def table_ok_def sample_cluster_def NewInMemState_def)

definition sample_active :: "json list Cluster" where
  "sample_active = \<lparr>cl_raft = [], cl_fsm = NewInMemState\<lparr>hs_faultIdx := 1, hs_storage := [''42_eth_vm1'' \<mapsto> 1],
     hs_alertInfos := [1 \<mapsto> \<lparr>ai_Sequence = 3, ai_StartEpoch = 1234000\<rparr>]\<rparr>, cl_debug = False\<rparr>"

lemma cl_inv_active: "cl_inv sample_active"
  by (auto simp: store_inv_def alarm_view_def table_ok_def sample_active_def NewInMemState_def wrap32_def
      split: if_splits option.splits)

lemma sample_name [simp]: "faultName_of (sample_alert st) = ''42_eth_vm1''"
  by (simp add: faultName_of_def sample_alert_def buildFaultName_def sourceName_of_def Contains_char Let_def)

lemma sample_severity [simp]: "severityToPriority (ToUpper (at [] (al_Labels (sample_alert st)) ''severity'')) = Some ''Medium''"
proof -
  have "ToUpper ''major'' = ''MAJOR''" by code_simp
  then show ?thesis by (simp add: sample_alert_def severityToPriority_def)
qed

section \<open>A library that commits\<close>

definition raft_commits :: "'r raft \<Rightarrow> bool" where
  "raft_commits ra \<longleftrightarrow> (\<forall>r d. snd (ra r d) = Committed)"

lemma raft_commits_log_raft: "raft_commits log_raft"
  by (simp add: raft_commits_def log_raft_def)

lemma cluster_apply_commits:
  assumes "raft_commits ra" and "StateCmd_wf cmd" and "StateCmd_String (\<lambda>_. []) (\<lambda>_. []) cmd = Ret t"
    and "processCmd (cl_fsm cl) cmd = Ret (st, resp)" and "\<And>e. resp \<noteq> RErr e"
  shows "\<exists>cl'. cluster_apply ra cl cmd = Ret (cl', Inr resp)"
proof -
  obtain r where "ra (cl_raft cl) (Marshal cmd) = (r, Committed)"
    using assms(1) [unfolded raft_commits_def] by (metis prod.collapse)
  with assms(2-5) show ?thesis
    by (cases resp) (auto simp: cluster_apply_def Let_def fsm_Apply_Marshal)
qed

lemma apply_err_commits:
  assumes "raft_commits ra" and "StateCmd_wf cmd" and "StateCmd_String (\<lambda>_. []) (\<lambda>_. []) cmd = Ret t"
    and "processCmd (cl_fsm cl) cmd = Ret (st, RNil)"
  shows "\<exists>cl'. apply_err ra cl cmd = Ret (cl', None)"
  using cluster_apply_commits [OF assms] by (auto simp: apply_err_def)

lemma is_int64_one [simp]: "is_int64 1"
  by (simp add: is_int64_def)

lemma fault_cmd_commits:
  assumes "raft_commits ra" and "is_int32 i" and "pred_option is_int64 ep" and "sn \<in> {None, Some 1}"
    and "handleFaultUpdate (cl_fsm cl) (Some \<lparr>uff_FaultID = Some i, uff_FaultName = n,
       uff_SequenceNumber = sn, uff_StartEpoch = ep\<rparr>) = Ret (st, None)"
  shows "\<exists>cl'. apply_err ra cl (fault_cmd \<lparr>uff_FaultID = Some i, uff_FaultName = n,
       uff_SequenceNumber = sn, uff_StartEpoch = ep\<rparr>) = Ret (cl', None)"
  using assms by (intro apply_err_commits)
    (auto simp: StateCmd_wf_def fault_cmd_def plain_cmd_def StateCmd_String_def is_int64_def [of 5]
      UpdateFaultFields_String_def processCmd_def err_response_def Let_def)

lemma NextFaultIndex_commits:
  assumes "raft_commits ra"
  shows "\<exists>cl'. cl_NextFaultIndex ra cl = Ret (cl', cl_next cl, None)"
proof -
  have "processCmd (cl_fsm cl) (plain_cmd 4) =
      Ret ((cl_fsm cl)\<lparr>hs_faultIdx := cl_next cl\<rparr>, RInt32 (cl_next cl))"
    by (simp add: processCmd_def plain_cmd_def hs_NextFaultIndex_def Let_def)
  moreover have "StateCmd_wf (plain_cmd 4)" by (simp add: StateCmd_wf_def plain_cmd_def is_int64_def)
  moreover have "StateCmd_String (\<lambda>_. []) (\<lambda>_. []) (plain_cmd 4) = Ret ''IncrementFaultIdx''"
    by (simp add: StateCmd_String_def plain_cmd_def)
  ultimately obtain c where "cluster_apply ra cl (plain_cmd 4) = Ret (c, Inr (RInt32 (cl_next cl)))"
    using cluster_apply_commits [OF assms] by blast
  then show ?thesis by (simp add: cl_NextFaultIndex_def)
qed

lemma storeFault_commits:
  assumes ra: "raft_commits ra" and inv: "cl_inv cl" and new: "cl_storage cl n = None" and n: "n \<noteq> []"
  shows "\<exists>cl'. storeFault (cl_fault_ops ra) cl n = Ret (cl', Stored, cl_next cl)"
proof -
  obtain a where a: "cl_NextFaultIndex ra cl = Ret (a, cl_next cl, None)"
    using NextFaultIndex_commits [OF ra] by blast
  have "\<exists>b. cl_StoreFaultInStorage ra a n (cl_next cl) = Ret (b, None)"
    unfolding cl_StoreFaultInStorage_def
    by (rule fault_cmd_commits [OF ra]) (auto simp: handleFaultUpdate_def n Let_def)
  then obtain b where "cl_StoreFaultInStorage ra a n (cl_next cl) = Ret (b, None)" by blast
  with a new show ?thesis
    by (simp add: storeFault_def cl_fault_ops_def cl_GetFaultInStorage_def hs_GetFaultInStorage_def
        cl_InitAlertInfos_def Let_def)
qed

lemma SetFaultStartEpoch_commits:
  assumes "raft_commits ra" and "is_int32 i" and "is_int64 e" and "cl_infos cl i = Some a"
  shows "\<exists>cl'. cl_SetFaultStartEpoch ra cl i e = Ret (cl', None)"
  unfolding cl_SetFaultStartEpoch_def
  by (rule fault_cmd_commits [OF assms(1,2)])
    (use assms(3,4) in \<open>auto simp: handleFaultUpdate_def hs_SetFaultStartEpoch_def Let_def\<close>)

lemma IncrementFaultSn_commits:
  assumes "raft_commits ra" and "is_int32 i" and "cl_infos cl i = Some a"
  shows "\<exists>cl'. cl_IncrementFaultSn ra cl i = Ret (cl', None)"
  unfolding cl_IncrementFaultSn_def
  by (rule fault_cmd_commits [OF assms(1,2)])
    (use assms(3) in \<open>auto simp: handleFaultUpdate_def hs_IncrementFaultSn_def Let_def\<close>)

lemma DeleteFaultInStorage_commits:
  assumes "raft_commits ra"
  shows "\<exists>cl'. cl_DeleteFaultInStorage ra cl n = Ret (cl', None)"
  unfolding cl_DeleteFaultInStorage_def
  by (rule apply_err_commits [OF assms])
    (simp_all add: StateCmd_wf_def plain_cmd_def is_int64_def StateCmd_String_def processCmd_def)

lemma cl_inv_int32: "cl_inv cl \<Longrightarrow> cl_storage cl n = Some i \<Longrightarrow> is_int32 i"
  using is_int32_wrap32 [of "hs_faultIdx (cl_fsm cl) + 1"]
  by (auto simp: is_int32_def elim!: cf.inv_storedE)

lemma AlertToFault_commits:
  assumes ra: "raft_commits ra" and inv: "cl_inv cl" and fire: "al_Status alert \<noteq> ''resolved''"
    and sev: "severityToPriority (ToUpper (at [] (al_Labels alert) ''severity'')) = Some prio"
  shows "\<exists>cl' st ef c. AlertToFault (cl_fault_ops ra) conf codes cl alert = Ret (cl', st, Some ef, c)"
proof (cases "cl_storage cl (faultName_of alert)")
  case (Some i)
  then obtain a where "cl_infos cl i = Some a" using inv cf.inv_storedE by blast
  with cf.storeFault_known [OF inv Some] sev fire show ?thesis
    by (simp add: AlertToFault_def AlertToFault_build_def Let_def cf.get_sn cf.get_epoch)
next
  case None
  obtain c1 where c1: "storeFault (cl_fault_ops ra) cl (faultName_of alert) = Ret (c1, Stored, cl_next cl)"
    using storeFault_commits [OF ra inv None] by auto
  have inf: "cl_infos c1 (cl_next cl) = Some \<lparr>ai_Sequence = 1, ai_StartEpoch = 0\<rparr>"
    using cf.storeFault_new [OF inv None _ c1] by simp
  obtain c2 where "cl_SetFaultStartEpoch ra c1 (cl_next cl) 1234000 = Ret (c2, None)"
    using SetFaultStartEpoch_commits [OF ra _ _ inf, of 1234000] by (auto simp: is_int64_def)
  with c1 inf sev fire cf.get_sn [OF inf] show ?thesis
    by (simp add: AlertToFault_def AlertToFault_build_def Let_def fault_event_def NewFault_def)
      (simp add: cl_fault_ops_def)
qed

section \<open>The life of a fault\<close>

lemma fire_step:
  assumes ra: "raft_commits ra" and inv: "cl_inv cl" and room: "cl_next cl < 2 ^ 31 - 1"
    and fire: "al_Status alert \<noteq> ''resolved''"
    and sev: "severityToPriority (ToUpper (at [] (al_Labels alert) ''severity'')) = Some prio"
  shows "\<exists>cl' st ef i a cl2.
    AlertToFault (cl_fault_ops ra) conf codes cl alert = Ret (cl', st, Some ef, CommitIncrement i) \<and>
    run_commit (cl_fault_ops ra) cl' (CommitIncrement i) = Ret (cl2, None) \<and>
    at_alarms (table_fire 1234000 (faultName_of alert) (cl_table cl)) (faultName_of alert) = Some (i, a) \<and>
    h_Sequence (fault_hdr ef) = ai_Sequence a \<and> h_StartEpochMicrosec (fault_hdr ef) = ai_StartEpoch a \<and>
    st = (if cl_storage cl (faultName_of alert) = None then Stored else AlreadyExist) \<and>
    cl_table cl2 = table_reported (faultName_of alert) (table_fire 1234000 (faultName_of alert) (cl_table cl)) \<and>
    cl_inv cl2"
proof -
  obtain cl' st ef c where
    r: "AlertToFault (cl_fault_ops ra) conf codes cl alert = Ret (cl', st, Some ef, c)"
    using AlertToFault_commits [OF ra inv fire sev] by blast
  from cf.AlertToFault_fire [OF inv room fire r] obtain i a where
    f: "cl_inv cl'" "cl_table cl' = table_fire 1234000 (faultName_of alert) (cl_table cl)"
      "cl_storage cl' (faultName_of alert) = Some i" "at_alarms (cl_table cl') (faultName_of alert) = Some (i, a)"
      "c = CommitIncrement i" "h_Sequence (fault_hdr ef) = ai_Sequence a"
      "h_StartEpochMicrosec (fault_hdr ef) = ai_StartEpoch a"
      "st = (if cl_storage cl (faultName_of alert) = None then Stored else AlreadyExist)" by blast
  obtain b where "cl_infos cl' i = Some b" using f(1,3) cf.inv_storedE by blast
  then obtain cl2 where c: "run_commit (cl_fault_ops ra) cl' (CommitIncrement i) = Ret (cl2, None)"
    using IncrementFaultSn_commits [OF ra cl_inv_int32 [OF f(1,3)]] by (auto simp: run_commit_def cl_fault_ops_def)
  with cf.commit_increment [OF f(1,3) c] r f show ?thesis by metis
qed

text \<open>C6: A firing alert with a known severity, on a cluster whose library commits: the conversion
  returns an event, its commit function succeeds, and together they refine the abstract alarm table.
  The fault gets the next identifier exactly when it was not in the table, the event carries
  the alarm's current sequence number and first epoch, the number is incremented once, and the
  store invariant holds again.\<close>

theorem alert_fire_refines:
  assumes ra: "raft_commits ra" and inv: "cl_inv cl" and room: "cl_next cl < 2 ^ 31 - 1"
    and fire: "al_Status alert \<noteq> ''resolved''"
    and sev: "severityToPriority (ToUpper (at [] (al_Labels alert) ''severity'')) = Some prio"
  shows "\<exists>cl' st ef i a cl2.
    AlertToFault (cl_fault_ops ra) conf codes cl alert = Ret (cl', st, Some ef, CommitIncrement i) \<and>
    run_commit (cl_fault_ops ra) cl' (CommitIncrement i) = Ret (cl2, None) \<and>
    at_alarms (table_fire 1234000 (faultName_of alert) (cl_table cl)) (faultName_of alert) = Some (i, a) \<and>
    h_Sequence (fault_hdr ef) = ai_Sequence a \<and> h_StartEpochMicrosec (fault_hdr ef) = ai_StartEpoch a \<and>
    st = (if cl_storage cl (faultName_of alert) = None then Stored else AlreadyExist) \<and>
    cl_table cl2 = table_reported (faultName_of alert) (table_fire 1234000 (faultName_of alert) (cl_table cl)) \<and>
    cl_inv cl2"
  using assms by (rule fire_step)

theorem alert_fire_refines_witness:
  "\<exists>cl' ef i a cl2.
    AlertToFault (cl_fault_ops log_raft) sample_conf Map.empty sample_cluster (sample_alert ''firing'') =
      Ret (cl', Stored, Some ef, CommitIncrement i) \<and>
    run_commit (cl_fault_ops log_raft) cl' (CommitIncrement i) = Ret (cl2, None) \<and>
    at_alarms (table_fire 1234000 ''42_eth_vm1'' (cl_table sample_cluster)) ''42_eth_vm1'' = Some (i, a) \<and>
    h_Sequence (fault_hdr ef) = ai_Sequence a \<and>
    cl_table cl2 = table_reported ''42_eth_vm1'' (table_fire 1234000 ''42_eth_vm1'' (cl_table sample_cluster))"
proof -
  have "cl_next sample_cluster < 2 ^ 31 - 1" "cl_storage sample_cluster ''42_eth_vm1'' = None"
    by (simp_all add: sample_cluster_def NewInMemState_def)
  then show ?thesis
    using alert_fire_refines [OF raft_commits_log_raft cl_inv_sample _ _ sample_severity,
        of "''firing''" sample_conf Map.empty]
    by auto
qed

lemma resolve_step:
  assumes ra: "raft_commits ra" and inv: "cl_inv cl" and res: "al_Status alert = ''resolved''"
    and sev: "severityToPriority (ToUpper (at [] (al_Labels alert) ''severity'')) = Some prio"
  shows "case at_alarms (cl_table cl) (faultName_of alert) of
      None \<Rightarrow> AlertToFault (cl_fault_ops ra) conf codes cl alert = Ret (cl, NotExist, None, MustNotCall)
    | Some (i, a) \<Rightarrow> (\<exists>ef cl2.
        AlertToFault (cl_fault_ops ra) conf codes cl alert =
          Ret (cl, Cleared, Some ef, CommitDelete (faultName_of alert)) \<and>
        h_Sequence (fault_hdr ef) = ai_Sequence a \<and> h_StartEpochMicrosec (fault_hdr ef) = ai_StartEpoch a \<and>
        fs_EventSeverity (fault_fields ef) = ''NORMAL'' \<and>
        run_commit (cl_fault_ops ra) cl (CommitDelete (faultName_of alert)) = Ret (cl2, None) \<and>
        cl_table cl2 = table_clear (faultName_of alert) (cl_table cl) \<and> cl_inv cl2)"
proof (cases "cl_storage cl (faultName_of alert)")
  case None
  with cf.AlertToFault_resolve_unknown [OF inv res sev None] show ?thesis by (simp add: alarm_view_def)
next
  case (Some i)
  then obtain a where a: "cl_infos cl i = Some a" "at_alarms (cl_table cl) (faultName_of alert) = Some (i, a)"
    using inv cf.inv_storedE by blast
  obtain cl2 where c: "run_commit (cl_fault_ops ra) cl (CommitDelete (faultName_of alert)) = Ret (cl2, None)"
    using DeleteFaultInStorage_commits [OF ra] by (auto simp: run_commit_def cl_fault_ops_def)
  from cf.AlertToFault_resolve [OF inv res sev Some a(1)] cf.commit_delete [OF inv c] c a(2)
  show ?thesis by auto
qed

text \<open>C7: A resolved alert of a fault that is in the table: the conversion leaves the state alone and
  returns a NORMAL event with the alarm's numbers; its commit succeeds and removes the alarm, and
  nothing else, from the table. Resolved alerts of unknown faults are not reported.\<close>

theorem alert_resolve_refines:
  assumes ra: "raft_commits ra" and inv: "cl_inv cl" and res: "al_Status alert = ''resolved''"
    and sev: "severityToPriority (ToUpper (at [] (al_Labels alert) ''severity'')) = Some prio"
  shows "case at_alarms (cl_table cl) (faultName_of alert) of
      None \<Rightarrow> AlertToFault (cl_fault_ops ra) conf codes cl alert = Ret (cl, NotExist, None, MustNotCall)
    | Some (i, a) \<Rightarrow> (\<exists>ef cl2.
        AlertToFault (cl_fault_ops ra) conf codes cl alert =
          Ret (cl, Cleared, Some ef, CommitDelete (faultName_of alert)) \<and>
        h_Sequence (fault_hdr ef) = ai_Sequence a \<and> h_StartEpochMicrosec (fault_hdr ef) = ai_StartEpoch a \<and>
        fs_EventSeverity (fault_fields ef) = ''NORMAL'' \<and>
        run_commit (cl_fault_ops ra) cl (CommitDelete (faultName_of alert)) = Ret (cl2, None) \<and>
        cl_table cl2 = table_clear (faultName_of alert) (cl_table cl) \<and> cl_inv cl2)"
  using assms by (rule resolve_step)

theorem alert_resolve_refines_witness:
  "\<exists>ef cl2. AlertToFault (cl_fault_ops log_raft) sample_conf Map.empty sample_active (sample_alert ''resolved'') =
     Ret (sample_active, Cleared, Some ef, CommitDelete ''42_eth_vm1'') \<and> h_Sequence (fault_hdr ef) = 3 \<and>
     run_commit (cl_fault_ops log_raft) sample_active (CommitDelete ''42_eth_vm1'') = Ret (cl2, None) \<and>
     cl_table cl2 = table_clear ''42_eth_vm1'' (cl_table sample_active)"
proof -
  have "at_alarms (cl_table sample_active) ''42_eth_vm1'' = Some (1, \<lparr>ai_Sequence = 3, ai_StartEpoch = 1234000\<rparr>)"
    by (simp add: sample_active_def alarm_view_def)
  then show ?thesis
    using alert_resolve_refines [OF raft_commits_log_raft cl_inv_active _ sample_severity,
        of "''resolved''" sample_conf Map.empty] by auto
qed

section \<open>Histories of alerts\<close>

text \<open>An alert is reported by converting it and, if there is an event, running the commit function
  that came with it.\<close>

definition report_alert ::
    "'r raft \<Rightarrow> EventConfiguration \<Rightarrow> (string \<rightharpoonup> string) \<Rightarrow> 'r Cluster \<Rightarrow> Alert \<Rightarrow> 'r Cluster go" where
  "report_alert ra conf codes cl alert =
     go_bind (AlertToFault (cl_fault_ops ra) conf codes cl alert) (\<lambda>(cl1, _, ev, c).
       case ev of None \<Rightarrow> Ret cl1
       | Some _ \<Rightarrow> go_bind (run_commit (cl_fault_ops ra) cl1 c) (\<lambda>(cl2, _). Ret cl2))"

text \<open>What an alert does to the abstract table.\<close>

definition table_alert :: "alarm_table \<Rightarrow> Alert \<Rightarrow> alarm_table" where
  "table_alert T alert =
     (case severityToPriority (ToUpper (at [] (al_Labels alert) ''severity'')) of
        None \<Rightarrow> T
      | Some _ \<Rightarrow>
          if al_Status alert = ''resolved'' then table_clear (faultName_of alert) T
          else table_reported (faultName_of alert) (table_fire 1234000 (faultName_of alert) T))"

text \<open>No alert infos are kept for identifiers that have not been handed out.\<close>

definition infos_used :: "int \<Rightarrow> (int \<rightharpoonup> AlertInfos) \<Rightarrow> bool" where
  "infos_used nx infs \<longleftrightarrow> (\<forall>i. infs i \<noteq> None \<longrightarrow> i < nx)"

abbreviation cl_used :: "'r Cluster \<Rightarrow> bool" where
  "cl_used cl \<equiv> infos_used (cl_next cl) (cl_infos cl)"

lemma infos_used_mono: "infos_used nx f \<Longrightarrow> nx \<le> nx' \<Longrightarrow> dom g \<subseteq> dom f \<Longrightarrow> infos_used nx' g"
  by (force simp: infos_used_def dom_def)

lemma fire_used:
  assumes inv: "cl_inv cl" and room: "cl_next cl < 2 ^ 31 - 1" and fire: "al_Status alert \<noteq> ''resolved''"
    and used: "cl_used cl"
    and res: "AlertToFault (cl_fault_ops ra) conf codes cl alert = Ret (cl', st, Some ef, c)"
  shows "cl_used cl' \<and> cl_next cl' \<le> cl_next cl + 1"
proof -
  let ?n = "faultName_of alert"
  obtain c1 i prio where
    st: "storeFault (cl_fault_ops ra) cl ?n = Ret (c1, st, i)" "st \<noteq> InError" and
    b: "AlertToFault_build (cl_fault_ops ra) c1 st ?n i (fault_event conf codes (sourceName_of alert)
          (at [] (al_Labels alert) ''alertname'') (at [] (al_Annotations alert) ''description'') prio
          (ToUpper (at [] (al_Labels alert) ''severity'')) i) = Ret (cl', st, Some ef, c)"
    by (rule AlertToFault_fireE [OF res fire])
  show ?thesis
  proof (cases "cl_storage cl ?n")
    case (Some j)
    with cf.storeFault_known [OF inv Some] st have "c1 = cl" "st = AlreadyExist" by auto
    with b used show ?thesis by (auto simp: AlertToFault_build_def Let_def go_simps)
  next
    case None
    note N = cf.storeFault_new [OF inv None faultName_nonempty st]
    have w: "cl_next c1 = cl_next cl + 1"
      using N room inv by (simp add: is_int32_def store_inv_def table_ok_def alarm_view_def)
    from b N obtain e where "cl_SetFaultStartEpoch ra c1 i e = Ret (cl', None)"
      by (auto simp: AlertToFault_build_def Let_def go_simps cl_fault_ops_def split: prod.splits if_splits)
    with N have "cl_next cl' = cl_next c1" "cl_infos cl' = (cl_infos c1)(i \<mapsto> \<lparr>ai_Sequence = 1, ai_StartEpoch = e\<rparr>)"
      using cf.set_epoch [of ra c1 i e cl'] by (auto simp: cl_fault_ops_def)
    with N w used show ?thesis by (auto simp: infos_used_def)
  qed
qed

lemma increment_used:
  assumes "cl_used cl" and "cl_infos cl i = Some a"
    and "run_commit (cl_fault_ops ra) cl (CommitIncrement i) = Ret (cl2, None)"
  shows "cl_used cl2 \<and> cl_next cl2 \<le> cl_next cl"
  using cf.inc_sn [OF assms(3) [unfolded run_commit_def, simplified] assms(2)] assms(1,2)
  by (auto simp: infos_used_def)

lemma delete_used:
  assumes "cl_used cl" and "run_commit (cl_fault_ops ra) cl (CommitDelete n) = Ret (cl2, None)"
  shows "cl_used cl2 \<and> cl_next cl2 \<le> cl_next cl"
proof -
  from assms(2) have "cl_DeleteFaultInStorage ra cl n = Ret (cl2, None)"
    by (simp add: run_commit_def cl_fault_ops_def)
  from apply_err_ok [OF this [unfolded cl_DeleteFaultInStorage_def]]
  have "cl_fsm cl2 = hs_DeleteFaultInStorage (cl_fsm cl) n" by (simp add: processCmd_def plain_cmd_def)
  with assms(1) show ?thesis by (auto simp: hs_DeleteFaultInStorage_def infos_used_def Let_def split: option.splits if_splits)
qed

lemma run_commit_sync:
  assumes "raft_logs ra lg" and "in_sync lg cl" and "run_commit (cl_fault_ops ra) cl c = Ret (cl2, e)"
  shows "in_sync lg cl2"
  using assms(3) apply_err_sync [OF assms(1,2)]
  by (auto simp: run_commit_def cl_fault_ops_def cl_IncrementFaultSn_def cl_DeleteFaultInStorage_def
      split: CommitFunc.splits)

lemma table_clear_absent: "at_alarms T n = None \<Longrightarrow> table_clear n T = T"
  by (simp add: table_clear_def fun_upd_idem)

definition cl_good :: "('r \<Rightarrow> json list) \<Rightarrow> 'r Cluster \<Rightarrow> bool" where
  "cl_good lg cl \<longleftrightarrow> cl_inv cl \<and> cl_used cl \<and> in_sync lg cl"

lemma cl_used_fresh: "cl_used cl \<Longrightarrow> cl_infos cl (cl_next cl) = None"
  by (auto simp: infos_used_def)

lemma report_step:
  assumes ra: "raft_commits ra" "raft_logs ra lg" and good: "cl_good lg cl" and room: "cl_next cl < 2 ^ 31 - 1"
  shows "\<exists>cl'. report_alert ra conf codes cl alert = Ret cl' \<and> cl_table cl' = table_alert (cl_table cl) alert \<and>
    cl_good lg cl' \<and> cl_next cl' \<le> cl_next cl + 1"
proof (cases "severityToPriority (ToUpper (at [] (al_Labels alert) ''severity''))")
  case None
  with good show ?thesis by (simp add: report_alert_def AlertToFault_def table_alert_def)
next
  case (Some prio)
  have inv: "cl_inv cl" and used: "cl_used cl" and sync: "in_sync lg cl" using good by (simp_all add: cl_good_def)
  show ?thesis
  proof (cases "al_Status alert = ''resolved''")
    case True
    note R = resolve_step [OF ra(1) inv True Some, of conf codes]
    show ?thesis
    proof (cases "at_alarms (cl_table cl) (faultName_of alert)")
      case None
      with R True Some good show ?thesis by (simp add: report_alert_def table_alert_def table_clear_absent)
    next
      case (Some p)
      with R obtain ef cl2 where
        r: "AlertToFault (cl_fault_ops ra) conf codes cl alert =
              Ret (cl, Cleared, Some ef, CommitDelete (faultName_of alert))"
        and c: "run_commit (cl_fault_ops ra) cl (CommitDelete (faultName_of alert)) = Ret (cl2, None)"
        and t: "cl_table cl2 = table_clear (faultName_of alert) (cl_table cl)" "cl_inv cl2"
        by (auto split: prod.splits)
      with delete_used [OF used c] run_commit_sync [OF ra(2) sync c] True
        \<open>severityToPriority (ToUpper (at [] (al_Labels alert) ''severity'')) = Some prio\<close>
      show ?thesis by (simp add: report_alert_def table_alert_def cl_good_def)
    qed
  next
    case False
    from fire_step [OF ra(1) inv room False Some, of conf codes] obtain cl1 st ef i a cl2 where
      r: "AlertToFault (cl_fault_ops ra) conf codes cl alert = Ret (cl1, st, Some ef, CommitIncrement i)"
      and c: "run_commit (cl_fault_ops ra) cl1 (CommitIncrement i) = Ret (cl2, None)"
      and t: "cl_table cl2 = table_reported (faultName_of alert)
                (table_fire 1234000 (faultName_of alert) (cl_table cl))" "cl_inv cl2" by blast
    note F = cf.AlertToFault_fire [OF inv room False r]
    obtain b where b: "cl_infos cl1 i = Some b" using F cf.inv_storedE by blast
    have "cl_used cl2 \<and> cl_next cl2 \<le> cl_next cl + 1"
      using fire_used [OF inv room False used r] increment_used [OF _ b c] by simp
    moreover have "in_sync lg cl2"
      using run_commit_sync [OF ra(2) _ c] AlertToFault_sync [OF ra(2) sync inv cl_used_fresh [OF used] r] by blast
    ultimately show ?thesis using r c t False Some by (simp add: report_alert_def table_alert_def cl_good_def)
  qed
qed

text \<open>C1: Whatever sequence of alerts a leader handles, on a library that commits and logs: every alert
  is handled without a crash, the store is at the end exactly the abstract alarm table run over the same
  sequence, its invariant holds, and a follower that replays the committed log from scratch
  reaches the leader's state.\<close>

theorem alert_history_refines:
  assumes "raft_commits ra" and "raft_logs ra lg" and "cl_good lg cl"
    and "cl_next cl + int (length alerts) < 2 ^ 31"
  shows "\<exists>cl'. go_foldl (report_alert ra conf codes) cl alerts = Ret cl' \<and>
    cl_table cl' = foldl table_alert (cl_table cl) alerts \<and> cl_inv cl' \<and>
    replay (cl_debug cl') NewInMemState (lg (cl_raft cl')) = Ret (cl_fsm cl')"
  using assms(3,4)
proof (induction alerts arbitrary: cl)
  case Nil
  then show ?case by (simp add: cl_good_def in_sync_def)
next
  case (Cons al alerts)
  from report_step [OF assms(1,2) Cons.prems(1), of conf codes al] Cons.prems(2) obtain c1 where
    s: "report_alert ra conf codes cl al = Ret c1" "cl_table c1 = table_alert (cl_table cl) al"
      "cl_good lg c1" "cl_next c1 \<le> cl_next cl + 1" by auto
  with Cons.IH [OF s(3)] Cons.prems(2) show ?case by simp
qed

lemma cl_good_sample: "cl_good id sample_cluster"
  using cl_inv_sample in_sync_sample
  by (simp add: cl_good_def infos_used_def) (simp add: sample_cluster_def NewInMemState_def)

theorem alert_history_refines_witness:
  "\<exists>cl'. go_foldl (report_alert log_raft sample_conf Map.empty) sample_cluster
      [sample_alert ''firing'', sample_alert ''firing'', sample_alert ''resolved''] = Ret cl' \<and>
    cl_table cl' = foldl table_alert (cl_table sample_cluster)
      [sample_alert ''firing'', sample_alert ''firing'', sample_alert ''resolved''] \<and>
    replay (cl_debug cl') NewInMemState (cl_raft cl') = Ret (cl_fsm cl')"
proof -
  have "cl_next sample_cluster + int (length [sample_alert ''firing'', sample_alert ''firing'',
      sample_alert ''resolved'']) < 2 ^ 31" by (simp add: sample_cluster_def NewInMemState_def)
  from alert_history_refines [OF raft_commits_log_raft raft_logs_log_raft cl_good_sample this,
      of sample_conf Map.empty] show ?thesis by auto
qed

section \<open>Replication\<close>

text \<open>Log compaction is sound for a node that starts empty: restoring a snapshot taken after a
  prefix of the log and applying the rest gives exactly the outcome (state or crash) of applying
  the whole log.\<close>

theorem snapshot_then_replay:
  "replay debug NewInMemState (prefix @ suffix) =
     go_bind (replay debug NewInMemState prefix)
       (\<lambda>st. replay debug (Restore NewInMemState (Snapshot st)) suffix)"
  by (simp add: replay_append Restore_Snapshot_fresh)

lemma Restore_fault_maps:
  "hs_storage (Restore st (Snapshot s)) = hs_storage st ++ hs_storage s"
  "hs_alertInfos (Restore st (Snapshot s)) = hs_alertInfos st ++ hs_alertInfos s"
  by (simp_all add: Restore_def Snapshot_def option.map_comp comp_def option.map_ident)

lemma map_add_eq_right: "m ++ n = n \<longleftrightarrow> dom m \<subseteq> dom n"
proof
  assume "m ++ n = n"
  then have "dom (m ++ n) = dom n" by simp
  then show "dom m \<subseteq> dom n" by auto
next
  assume d: "dom m \<subseteq> dom n"
  show "m ++ n = n"
  proof
    show "(m ++ n) k = n k" for k using d by (cases "n k") (auto simp: map_add_def)
  qed
qed

text \<open>C9: A node that already has state becomes the state of the snapshot exactly if it holds no fault
  name and no alert infos that the snapshot lacks; otherwise they survive the restore.\<close>

theorem restore_exact_iff:
  "Restore st (Snapshot s) = s \<longleftrightarrow>
     dom (hs_storage st) \<subseteq> dom (hs_storage s) \<and> dom (hs_alertInfos st) \<subseteq> dom (hs_alertInfos s)"
proof -
  have "Restore st (Snapshot s) = s\<lparr>hs_storage := hs_storage st ++ hs_storage s,
      hs_alertInfos := hs_alertInfos st ++ hs_alertInfos s\<rparr>"
    by (rule ha_inMemState.equality)
      (auto simp: Restore_fault_maps, auto simp: Restore_def Snapshot_def option.map_comp comp_def option.map_ident)
  then have "Restore st (Snapshot s) = s \<longleftrightarrow>
      hs_storage st ++ hs_storage s = hs_storage s \<and> hs_alertInfos st ++ hs_alertInfos s = hs_alertInfos s"
    by (cases s) auto
  then show ?thesis by (simp only: map_add_eq_right)
qed

text \<open>A log entry decodes to the command it was made from exactly if the numbers of the command fit
  the widths of its fields; otherwise decoding fails.\<close>

theorem command_roundtrip: "Unmarshal (Marshal cmd) = (if StateCmd_wf cmd then Some cmd else None)"
  by (rule Unmarshal_Marshal)

section \<open>The scheduler over the cluster\<close>

lemma cl_UpdateNextRun_commits:
  assumes "raft_commits ra" and "is_int64 (Unix t)"
  shows "\<exists>s'. st_UpdateNextRun (cl_sched_ops ra) cl n t = (s', None)"
proof -
  have "\<exists>cl'. apply_err ra cl (sched_cmd \<lparr>usf_Name = n, usf_Interval = None, usf_Next = Some (Unix t)\<rparr>) = Ret (cl', None)"
    using assms by (intro apply_err_commits [where t = "''UpdateScheduler => '' @ UpdateSchedulerFields_String (\<lambda>_. []) (\<lambda>_. []) (Some \<lparr>usf_Name = n, usf_Interval = None, usf_Next = Some (Unix t)\<rparr>)"])
      (auto simp: processCmd_sched, simp_all add: StateCmd_wf_def sched_cmd_def plain_cmd_def is_int64_def StateCmd_String_def)
  then show ?thesis by (auto simp: cl_sched_ops_def cl_UpdateNextRun_def no_crash_def)
qed

text \<open>C11: A due job that succeeds, on a cluster that commits: \<open>Step\<close> runs it over the range from the planned
  run to now, the acknowledgment succeeds, and the next run is the first multiple of the interval
  after now, so that at most one interval passes.\<close>

theorem scheduler_step_ack:
  assumes ra: "raft_commits ra" and nz: "cl_NextRun (w_st w) (sch_name sched) \<noteq> 0"
    and due: "cl_NextRun (w_st w) (sch_name sched) \<le> w_clk w (w_tick w)"
    and now: "now = w_clk w (Suc (w_tick w))" "second \<le> now"
    and d: "d = GetInterval (cl_sched_ops ra) sched w" "second dvd d" "0 < sch_defaultInterval sched"
    and job: "job (w_st w) (cl_NextRun (w_st w) (sch_name sched)) now d = (s', Inr r)"
    and fr: "job_frame (cl_sched_ops ra) job (sch_name sched)"
    and fits: "is_int64 (Unix (Truncate now d + d))"
  shows "\<exists>sched1 w1 sched2 w2. Step (cl_sched_ops ra) job sched w = (sched1, w1, Inr r) \<and>
    Ack (cl_sched_ops ra) sched1 w1 = (sched2, w2, None) \<and>
    d dvd cl_NextRun (w_st w2) (sch_name sched2) \<and>
    now < cl_NextRun (w_st w2) (sch_name sched2) \<and> cl_NextRun (w_st w2) (sch_name sched2) \<le> now + d"
proof -
  let ?I = "cl_sched_ops ra"
  have N: "st_NextRun ?I = cl_NextRun" by (simp add: cl_sched_ops_def)
  obtain s2 where u: "st_UpdateNextRun ?I s' (sch_name sched) (Truncate now d + d) = (s2, None)"
    using cl_UpdateNextRun_commits [OF ra fits] by blast
  have f: "cl_NextRun s' (sch_name sched) = cl_NextRun (w_st w) (sch_name sched)"
    "st_Interval ?I s' (sch_name sched) = st_Interval ?I (w_st w) (sch_name sched)"
    using fr job by (metis N job_frame_def fst_conv)+
  from cs.Step_Ack_run [of ra w sched now d job s' r s2, unfolded N, OF nz due now d job f u] show ?thesis by auto
qed

definition sample_hb :: Scheduler where
  "sample_hb = NewSchedulerWithState ''hb'' (60 * second)"

definition sample_hb_world :: "json list Cluster world" where
  "sample_hb_world = \<lparr>w_st = sample_cluster\<lparr>cl_fsm := NewInMemState\<lparr>hs_schedulers :=
       [''hb'' \<mapsto> \<lparr>ss_interval = 0, ss_next = unix_epoch + 600 * second\<rparr>]\<rparr>\<rparr>,
     w_clk = (\<lambda>n. unix_epoch + (605 + int n) * second), w_tick = 0\<rparr>"

lemmas sample_hb_defs = sample_hb_def sample_hb_world_def NewSchedulerWithState_def cl_NextRun_def
  hs_NextRun_def unix_epoch_def

lemma sample_hb_interval: "GetInterval (cl_sched_ops log_raft) sample_hb sample_hb_world = 60 * second"
  by (simp add: GetInterval_def sample_hb_defs cl_sched_ops_def cl_Interval_def hs_Interval_def)

theorem scheduler_step_ack_witness:
  "\<exists>sched1 w1 sched2 w2.
    Step (cl_sched_ops log_raft) (\<lambda>s f t d. (s, Inr ())) sample_hb sample_hb_world = (sched1, w1, Inr ()) \<and>
    Ack (cl_sched_ops log_raft) sched1 w1 = (sched2, w2, None) \<and>
    60 * second dvd cl_NextRun (w_st w2) (sch_name sched2) \<and>
    unix_epoch + 606 * second < cl_NextRun (w_st w2) (sch_name sched2) \<and>
    cl_NextRun (w_st w2) (sch_name sched2) \<le> unix_epoch + 666 * second"
proof -
  have "is_int64 (Unix (Truncate (unix_epoch + 606 * second) (60 * second) + 60 * second))"
    by (simp add: is_int64_def Unix_def Truncate_def unix_epoch_def)
  then show ?thesis
    using scheduler_step_ack [OF raft_commits_log_raft, of sample_hb_world sample_hb
        "unix_epoch + 606 * second" "60 * second" "\<lambda>s f t d. (s, Inr ())" "w_st sample_hb_world" "()"]
      sample_hb_interval
    by (simp add: job_frame_def) (simp add: sample_hb_defs)
qed

text \<open>A due job that fails leaves the planned run where it was, so that the next attempt covers the
  same range, and an acknowledgment after it changes nothing.\<close>

theorem scheduler_step_failed:
  assumes nz: "cl_NextRun (w_st w) (sch_name sched) \<noteq> 0"
    and due: "cl_NextRun (w_st w) (sch_name sched) \<le> w_clk w (w_tick w)"
    and job: "job (w_st w) (cl_NextRun (w_st w) (sch_name sched)) (w_clk w (Suc (w_tick w)))
                (GetInterval (cl_sched_ops ra) sched w) = (s', Inl e)"
    and fr: "job_frame (cl_sched_ops ra) job (sch_name sched)"
  shows "\<exists>sched1 w1. Step (cl_sched_ops ra) job sched w = (sched1, w1, Inl (JobError e)) \<and>
    cl_NextRun (w_st w1) (sch_name sched1) = cl_NextRun (w_st w) (sch_name sched) \<and>
    Ack (cl_sched_ops ra) sched1 w1 = (sched1, w1, None)"
proof -
  have N: "st_NextRun (cl_sched_ops ra) = cl_NextRun" by (simp add: cl_sched_ops_def)
  have step: "Step (cl_sched_ops ra) job sched w =
      (sched\<lparr>sch_lastTime := None\<rparr>, w\<lparr>w_tick := w_tick w + 2, w_st := s'\<rparr>, Inl (JobError e))"
    using cs.Step_ready [of ra w sched job s' "Inl e"] nz due job by (simp add: N)
  with cs.Step_failed [OF step _ fr] nz show ?thesis by (simp add: N)
qed

theorem scheduler_step_failed_witness:
  "\<exists>sched1 w1. Step (cl_sched_ops log_raft) (\<lambda>s f t d. (s, Inl (RaftError ''down'') :: ha_error + unit)) sample_hb sample_hb_world =
      (sched1, w1, Inl (JobError (RaftError ''down''))) \<and>
    cl_NextRun (w_st w1) (sch_name sched1) = unix_epoch + 600 * second \<and>
    Ack (cl_sched_ops log_raft) sched1 w1 = (sched1, w1, None)"
  using scheduler_step_failed [of sample_hb_world sample_hb
      "\<lambda>s f t d. (s, Inl (RaftError ''down'') :: ha_error + unit)" log_raft "w_st sample_hb_world" "RaftError ''down''"]
  by (simp add: job_frame_def) (simp add: sample_hb_defs)

end
