(* ===== verification/Ha_Snapshot.thy ===== *)
theory Ha_Snapshot
  imports Ha Go_Date "HOL-Library.Char_ord" "HOL-Library.List_Lexorder"
begin

text \<open>
  The snapshots of a node as files: the JSON form of \<open>AgentStateSnapshot\<close> with its maps and times,
  \<open>Persist\<close> to the sink that the Raft library provides, and \<open>FSM.Restore\<close> from such a file. The
  lemmas show which states a log can lead to, and that a node restored from a persisted file of such
  a state has exactly that state.
\<close>

section \<open>Maps as JSON objects\<close>

text \<open>\<open>encoding/json\<close> writes the entries of a Go map in the order of the texts of their keys. A map is
  written only if all its values can be.\<close>

definition map_entries :: "('k :: linorder \<Rightarrow> string) \<Rightarrow> ('k \<rightharpoonup> 'v) \<Rightarrow> ('k \<times> 'v) list" where
  "map_entries ks m = map (\<lambda>k. (k, the (m k))) (sort_key ks (sorted_list_of_set (dom m)))"

definition marshal_map ::
    "('k :: linorder \<Rightarrow> string) \<Rightarrow> ('v \<Rightarrow> json option) \<Rightarrow> ('k \<rightharpoonup> 'v) \<Rightarrow> json option" where
  "marshal_map ks enc m =
     map_option JObj (those (map (\<lambda>(k, v). map_option (Pair (ks k)) (enc v)) (map_entries ks m)))"

text \<open>Reading an object adds its entries in order to a new map; null leaves the map empty.\<close>

definition dec_map ::
    "(string \<Rightarrow> 'k option) \<Rightarrow> (json \<Rightarrow> 'v option) \<Rightarrow> json option \<Rightarrow> ('k \<rightharpoonup> 'v) option" where
  "dec_map pk dec j =
     (case j of
        None \<Rightarrow> Some Map.empty
      | Some JNull \<Rightarrow> Some Map.empty
      | Some (JObj kvs) \<Rightarrow>
          map_option (\<lambda>l. map_of (rev l))
            (those (map (\<lambda>(k, v). Option.bind (pk k) (\<lambda>k. map_option (Pair k) (dec v))) kvs))
      | _ \<Rightarrow> None)"

text \<open>The text of an \<open>int32\<close> key, \<open>strconv.ParseInt\<close> followed by the check of the width.\<close>

definition parse_key32 :: "string \<Rightarrow> int option" where
  "parse_key32 s = (case Atoi s of (n, None) \<Rightarrow> if is_int32 n then Some n else None | _ \<Rightarrow> None)"

lemma map_of_map_entries:
  assumes "finite (dom m)"
  shows "map_of (rev (map_entries ks m)) = m" and "set (map_entries ks m) = {(k, v). m k = Some v}"
proof -
  let ?ks = "sort_key ks (sorted_list_of_set (dom m))"
  have keys: "set ?ks = dom m" using assms by simp
  have "map_of (map (\<lambda>k. (k, the (m k))) (rev ?ks)) = m"
    using keys by (intro map_of_map_keys) simp
  then show "map_of (rev (map_entries ks m)) = m"
    by (simp add: map_entries_def rev_map)
  show "set (map_entries ks m) = {(k, v). m k = Some v}"
    using keys by (force simp: map_entries_def)
qed

lemma those_inverse:
  "those (map f l) = Some r \<Longrightarrow> (\<And>x y. x \<in> set l \<Longrightarrow> f x = Some y \<Longrightarrow> g y = Some x) \<Longrightarrow> those (map g r) = Some l"
proof (induction l arbitrary: r)
  case (Cons x l)
  from Cons.prems(1) obtain y ys where y: "f x = Some y" "those (map f l) = Some ys" "r = y # ys"
    by (auto split: option.splits)
  have "those (map g ys) = Some l" by (rule Cons.IH [OF y(2)]) (simp add: Cons.prems(2))
  moreover have "g y = Some x" using y(1) by (simp add: Cons.prems(2))
  ultimately show ?case using y(3) by simp
qed simp

lemma those_None: "those (map f l) = None \<longleftrightarrow> (\<exists>x \<in> set l. f x = None)"
  by (induction l) (auto split: option.splits)

lemma dec_map_marshal_map:
  assumes "marshal_map ks enc m = Some j" and "finite (dom m)"
    and "\<And>k. k \<in> dom m \<Longrightarrow> pk (ks k) = Some k"
    and "\<And>k v j. m k = Some v \<Longrightarrow> enc v = Some j \<Longrightarrow> dec j = Some v"
  shows "dec_map pk dec (Some j) = Some m"
proof -
  obtain kvs where kvs: "those (map (\<lambda>(k, v). map_option (Pair (ks k)) (enc v)) (map_entries ks m)) = Some kvs"
    and j: "j = JObj kvs" using assms(1) by (auto simp: marshal_map_def)
  have "those (map (\<lambda>(k, v). Option.bind (pk k) (\<lambda>k. map_option (Pair k) (dec v))) kvs) = Some (map_entries ks m)"
    using assms(3,4) by (intro those_inverse [OF kvs])
      (auto simp: map_of_map_entries(2) [OF assms(2)] domI)
  then show ?thesis by (simp add: dec_map_def j map_of_map_entries(1) [OF assms(2)])
qed

lemma marshal_map_None:
  "finite (dom m) \<Longrightarrow> marshal_map ks enc m = None \<longleftrightarrow> (\<exists>v \<in> ran m. enc v = None)"
  by (fastforce simp: marshal_map_def those_None map_of_map_entries(2) ran_def)

section \<open>The JSON form of a snapshot\<close>

definition marshal_sched_snapshot :: "SchedulerStateSnapshot \<Rightarrow> json option" where
  "marshal_sched_snapshot s = map_option
     (\<lambda>t. JObj [(''interval'', JNum (sss_Interval s)), (''time'', JStr t)]) (time_MarshalJSON (sss_Next s))"

definition marshal_alert_snapshot :: "AlertInfosStateSnapShot \<Rightarrow> json option" where
  "marshal_alert_snapshot a = Some (JObj [(''sn'', JNum (ais_Sn a)), (''epoch'', JNum (ais_Epoch a))])"

definition marshal_snapshot :: "AgentStateSnapshot \<Rightarrow> json option" where
  "marshal_snapshot snap =
     (case (marshal_map id marshal_sched_snapshot (snap_Schedulers snap),
            marshal_map FormatInt marshal_alert_snapshot (snap_AlertInfos snap),
            marshal_map id (\<lambda>i. Some (JNum i)) (snap_StorageFault snap))
      of (Some scheds, Some infos, Some names) \<Rightarrow>
           Some (JObj [(''meas_idx'', JNum (snap_MeasIdx snap)), (''hb_idx'', JNum (snap_HbIdx snap)),
             (''schedulers'', scheds), (''fault_idx'', JNum (snap_FaultIdx snap)),
             (''alertInfos'', infos), (''storageFault'', names)])
       | _ \<Rightarrow> None)"

definition dec_int :: "(int \<Rightarrow> bool) \<Rightarrow> json option \<Rightarrow> int option" where
  "dec_int ok j = map_option (\<lambda>p. case p of None \<Rightarrow> 0 | Some n \<Rightarrow> n) (dec_ptr ok j)"

definition dec_time :: "json option \<Rightarrow> time option" where
  "dec_time j = (case j of None \<Rightarrow> Some 0 | Some JNull \<Rightarrow> Some 0 | Some (JStr s) \<Rightarrow> parse_rfc3339 s | _ \<Rightarrow> None)"

text \<open>A struct is read from an object; null leaves it zero, as an object without its keys does.\<close>

definition dec_struct :: "((string \<times> json) list \<Rightarrow> 'a option) \<Rightarrow> json \<Rightarrow> 'a option" where
  "dec_struct f j = (case j of JNull \<Rightarrow> f [] | JObj kvs \<Rightarrow> f kvs | _ \<Rightarrow> None)"

definition unmarshal_sched_snapshot :: "(string \<times> json) list \<Rightarrow> SchedulerStateSnapshot option" where
  "unmarshal_sched_snapshot kvs =
     (case (dec_int is_int64 (jget kvs ''interval''), dec_time (jget kvs ''time''))
      of (Some i, Some t) \<Rightarrow> Some \<lparr>sss_Interval = i, sss_Next = t\<rparr> | _ \<Rightarrow> None)"

definition unmarshal_alert_snapshot :: "(string \<times> json) list \<Rightarrow> AlertInfosStateSnapShot option" where
  "unmarshal_alert_snapshot kvs =
     (case (dec_int is_int64 (jget kvs ''sn''), dec_int is_int64 (jget kvs ''epoch''))
      of (Some s, Some e) \<Rightarrow> Some \<lparr>ais_Sn = s, ais_Epoch = e\<rparr> | _ \<Rightarrow> None)"

definition unmarshal_snapshot :: "(string \<times> json) list \<Rightarrow> AgentStateSnapshot option" where
  "unmarshal_snapshot kvs =
     (case (dec_int is_int64 (jget kvs ''meas_idx''), dec_int is_int64 (jget kvs ''hb_idx''),
            dec_map Some (dec_struct unmarshal_sched_snapshot) (jget kvs ''schedulers''),
            dec_int is_int32 (jget kvs ''fault_idx''),
            dec_map parse_key32 (dec_struct unmarshal_alert_snapshot) (jget kvs ''alertInfos''),
            dec_map Some (\<lambda>j. dec_int is_int32 (Some j)) (jget kvs ''storageFault''))
      of (Some m, Some h, Some scheds, Some f, Some infos, Some names) \<Rightarrow>
           Some \<lparr>snap_MeasIdx = m, snap_HbIdx = h, snap_Schedulers = scheds, snap_FaultIdx = f,
             snap_AlertInfos = infos, snap_StorageFault = names\<rparr>
       | _ \<Rightarrow> None)"

section \<open>Persist and Restore\<close>

text \<open>The sink of the Raft library: whether a write, \<open>Cancel\<close> and \<open>Close\<close> fail. What is left of it is
  a cancelled sink or one closed over the document that was written.\<close>

record snapshot_sink =
  snk_Write :: "string option"
  snk_Cancel :: "string option"
  snk_Close :: "string option"

datatype sink_state = SinkCancelled | SinkClosed json

datatype persist_error = UnsupportedTime | SinkError string

definition persist_cancel :: "snapshot_sink \<Rightarrow> persist_error \<Rightarrow> (sink_state \<times> persist_error option) go" where
  "persist_cancel sink err =
     (case snk_Cancel sink of Some _ \<Rightarrow> Crash ExplicitPanic | None \<Rightarrow> Ret (SinkCancelled, Some err))"

definition Persist :: "AgentStateSnapshot \<Rightarrow> snapshot_sink \<Rightarrow> (sink_state \<times> persist_error option) go" where
  "Persist snap sink =
     (case marshal_snapshot snap of
        None \<Rightarrow> persist_cancel sink UnsupportedTime
      | Some j \<Rightarrow>
          (case snk_Write sink of
             Some e \<Rightarrow> persist_cancel sink (SinkError e)
           | None \<Rightarrow> Ret (SinkClosed j, map_option SinkError (snk_Close sink))))"

definition fsm_Snapshot :: "ha_inMemState \<Rightarrow> AgentStateSnapshot" where
  "fsm_Snapshot st = Snapshot st"

text \<open>The input is the document that the library hands over, None if it is not JSON.\<close>

definition fsm_Restore :: "ha_inMemState \<Rightarrow> json option \<Rightarrow> ha_inMemState \<times> ha_error option" where
  "fsm_Restore st input =
     (case Option.bind input (dec_struct unmarshal_snapshot) of
        None \<Rightarrow> (st, Some DecodeError)
      | Some snap \<Rightarrow> (Restore st snap, None))"

section \<open>The states that a log can lead to\<close>

definition snap_range :: "ha_inMemState \<Rightarrow> bool" where
  "snap_range st \<longleftrightarrow> is_int64 (hs_measIdx st) \<and> is_int64 (hs_hbIdx st) \<and> is_int32 (hs_faultIdx st)"

definition snap_scheds :: "ha_inMemState \<Rightarrow> bool" where
  "snap_scheds st \<longleftrightarrow> finite (dom (hs_schedulers st)) \<and>
     (\<forall>n s. hs_schedulers st n = Some s \<longrightarrow> is_int64 (ss_interval s))"

definition snap_infos :: "ha_inMemState \<Rightarrow> bool" where
  "snap_infos st \<longleftrightarrow> finite (dom (hs_alertInfos st)) \<and>
     (\<forall>i a. hs_alertInfos st i = Some a \<longrightarrow> is_int32 i \<and> is_int64 (ai_Sequence a) \<and> is_int64 (ai_StartEpoch a))"

definition snap_names :: "ha_inMemState \<Rightarrow> bool" where
  "snap_names st \<longleftrightarrow> finite (dom (hs_storage st)) \<and> (\<forall>n i. hs_storage st n = Some i \<longrightarrow> is_int32 i)"

definition node_ok :: "ha_inMemState \<Rightarrow> bool" where
  "node_ok st \<longleftrightarrow> snap_range st \<and> snap_scheds st \<and> snap_infos st \<and> snap_names st"

lemmas node_ok_defs = node_ok_def snap_range_def snap_scheds_def snap_infos_def snap_names_def

lemma dec_ptr_range: "dec_ptr ok j = Some p \<Longrightarrow> pred_option ok p"
  by (auto simp: dec_ptr_def split: option.splits json.splits if_splits)

lemma dec_sub_range: "dec_sub f j = Some p \<Longrightarrow> (\<And>kvs x. f kvs = Some x \<Longrightarrow> P x) \<Longrightarrow> pred_option P p"
  by (auto simp: dec_sub_def split: option.splits json.splits)

lemma unmarshal_sched_wf: "unmarshal_sched kvs = Some f \<Longrightarrow> sched_wf f"
  by (auto simp: unmarshal_sched_def sched_wf_def dest: dec_ptr_range split: option.splits)

lemma unmarshal_fault_wf: "unmarshal_fault kvs = Some f \<Longrightarrow> fault_wf f"
  by (auto simp: unmarshal_fault_def fault_wf_def dest: dec_ptr_range split: option.splits)

lemma Unmarshal_wf:
  assumes "Unmarshal j = Some cmd"
  shows "pred_option sched_wf (sc_UpdateScheduler cmd) \<and> pred_option fault_wf (sc_UpdateFault cmd)"
  using assms
  by (auto simp: Unmarshal_def plain_cmd_def split: json.splits option.splits
      dest!: dec_sub_range [where P = sched_wf, OF _ unmarshal_sched_wf]
        dec_sub_range [where P = fault_wf, OF _ unmarshal_fault_wf])

lemma is_int64_zero [simp]: "is_int64 0"
  by (simp add: is_int64_def)

lemma node_ok_sched:
  "node_ok st \<Longrightarrow> pred_option sched_wf flds \<Longrightarrow> node_ok (fst (handleSchedulerUpdate st flds))"
  by (auto simp: node_ok_defs handleSchedulerUpdate_def sched_wf_def hs_UpdateInterval_def
      hs_UpdateNextRun_def getOrCreateScheduler_def split: option.splits)

lemma node_ok_store: "node_ok st \<Longrightarrow> is_int32 i \<Longrightarrow> node_ok (hs_StoreFaultInStorage st n i)"
  by (auto simp: node_ok_defs hs_StoreFaultInStorage_def)

lemma node_ok_increment: "node_ok st \<Longrightarrow> node_ok (fst (hs_IncrementFaultSn st i))"
  by (auto simp: node_ok_defs hs_IncrementFaultSn_def split: option.splits)

lemma node_ok_epoch:
  "node_ok st \<Longrightarrow> is_int32 i \<Longrightarrow> is_int64 e \<Longrightarrow> hs_SetFaultStartEpoch st i e = Ret st' \<Longrightarrow> node_ok st'"
  by (auto simp: node_ok_defs hs_SetFaultStartEpoch_def hs_InitAlertInfos_def is_int64_def
      split: option.splits if_splits)

lemma node_ok_delete: "node_ok st \<Longrightarrow> node_ok (hs_DeleteFaultInStorage st n)"
  by (auto simp: node_ok_defs hs_DeleteFaultInStorage_def Let_def split: option.splits if_splits)

lemma node_ok_fault:
  assumes "node_ok st" "pred_option fault_wf flds" "handleFaultUpdate st flds = Ret (st', err)"
  shows "node_ok st'"
proof (cases flds)
  case None
  with assms show ?thesis by (simp add: handleFaultUpdate_def)
next
  case (Some f)
  show ?thesis
  proof (cases "uff_FaultID f")
    case None
    with Some assms show ?thesis by (simp add: handleFaultUpdate_def)
  next
    case i: (Some i)
    have wf: "is_int32 i" "pred_option is_int64 (uff_StartEpoch f)"
      using assms(2) Some i by (simp_all add: fault_wf_def)
    define st1 where "st1 = (if uff_FaultName f \<noteq> [] then hs_StoreFaultInStorage st (uff_FaultName f) i else st)"
    have 1: "node_ok st1" using assms(1) wf by (simp add: st1_def node_ok_store)
    obtain st2 e where 2: "(case uff_SequenceNumber f of None \<Rightarrow> (st1, None) | Some _ \<Rightarrow> hs_IncrementFaultSn st1 i) = (st2, e)"
      by force
    have "node_ok st2"
      using 2 1 node_ok_increment [OF 1, of i] by (auto split: option.splits)
    with assms(3) wf show ?thesis
      by (auto simp: handleFaultUpdate_def Some i st1_def [symmetric] 2 go_simps intro: node_ok_epoch
          split: if_splits option.splits)
  qed
qed

lemma node_ok_processCmd:
  assumes "node_ok st" "pred_option sched_wf (sc_UpdateScheduler cmd)" "pred_option fault_wf (sc_UpdateFault cmd)"
    and "processCmd st cmd = Ret (st', r)"
  shows "node_ok st'"
proof -
  have idx: "node_ok (fst (hs_NextMeasurementIndex st))" "node_ok (fst (hs_NextHeartbeatIndex st))"
    "node_ok (fst (hs_NextFaultIndex st))"
    using assms(1)
    by (simp_all add: node_ok_defs hs_NextMeasurementIndex_def hs_NextHeartbeatIndex_def hs_NextFaultIndex_def Let_def)
  then show ?thesis
    using assms(1,4) node_ok_sched [OF assms(1,2)]
    by (auto simp: processCmd_def go_simps node_ok_delete
        intro: node_ok_fault [OF assms(1,3)] split: if_splits prod.splits option.splits)
qed

lemma node_ok_Apply: "node_ok st \<Longrightarrow> fsm_Apply dbg st j = Ret (st', r) \<Longrightarrow> node_ok st'"
  using Unmarshal_wf
  by (fastforce simp: fsm_Apply_def go_simps split: option.splits intro: node_ok_processCmd)

lemma node_ok_new: "node_ok NewInMemState"
  by (simp add: node_ok_defs NewInMemState_def is_int64_def is_int32_def)

lemma node_ok_replay: "node_ok st \<Longrightarrow> replay dbg st l = Ret st' \<Longrightarrow> node_ok st'"
  unfolding replay_def by (erule (1) go_foldl_invariant [where P = node_ok, rotated])
    (auto simp: go_simps intro: node_ok_Apply)

section \<open>A persisted snapshot is read back\<close>

lemma parse_key32_FormatInt: "is_int32 i \<Longrightarrow> parse_key32 (FormatInt i) = Some i"
proof -
  assume i: "is_int32 i"
  then have "is_int64 i" by (simp add: is_int32_def is_int64_def)
  with i show ?thesis by (simp add: parse_key32_def Atoi_FormatInt)
qed

lemma dec_int_JNum [simp]: "dec_int ok (Some (JNum n)) = (if ok n then Some n else None)"
  by (simp add: dec_int_def dec_ptr_def)

lemma dec_struct_JObj [simp]: "dec_struct f (JObj kvs) = f kvs"
  by (simp add: dec_struct_def)

lemma sched_snapshot_roundtrip:
  "marshal_sched_snapshot s = Some j \<Longrightarrow> is_int64 (sss_Interval s) \<Longrightarrow>
     dec_struct unmarshal_sched_snapshot j = Some s"
  by (cases s) (auto simp: marshal_sched_snapshot_def unmarshal_sched_snapshot_def jget_def
      dec_time_def time_MarshalJSON_roundtrip)

lemma alert_snapshot_roundtrip:
  "marshal_alert_snapshot a = Some j \<Longrightarrow> is_int64 (ais_Sn a) \<Longrightarrow> is_int64 (ais_Epoch a) \<Longrightarrow>
     dec_struct unmarshal_alert_snapshot j = Some a"
  by (cases a) (auto simp: marshal_alert_snapshot_def unmarshal_alert_snapshot_def jget_def)

lemma dom_map_option_comp [simp]: "dom (\<lambda>k. map_option f (m k)) = dom m"
  by (auto simp: dom_def)

lemma snapshot_maps:
  assumes "node_ok st"
  shows "marshal_map id marshal_sched_snapshot (snap_Schedulers (Snapshot st)) = Some j1 \<Longrightarrow>
      dec_map Some (dec_struct unmarshal_sched_snapshot) (Some j1) = Some (snap_Schedulers (Snapshot st))"
    and "marshal_map FormatInt marshal_alert_snapshot (snap_AlertInfos (Snapshot st)) = Some j2 \<Longrightarrow>
      dec_map parse_key32 (dec_struct unmarshal_alert_snapshot) (Some j2) = Some (snap_AlertInfos (Snapshot st))"
    and "marshal_map id (\<lambda>i. Some (JNum i)) (snap_StorageFault (Snapshot st)) = Some j3 \<Longrightarrow>
      dec_map Some (\<lambda>j. dec_int is_int32 (Some j)) (Some j3) = Some (snap_StorageFault (Snapshot st))"
  using assms
  by (auto intro!: dec_map_marshal_map sched_snapshot_roundtrip alert_snapshot_roundtrip
      simp: node_ok_defs Snapshot_def parse_key32_FormatInt)

lemma unmarshal_marshal_snapshot:
  assumes "node_ok st" and "marshal_snapshot (Snapshot st) = Some j"
  shows "dec_struct unmarshal_snapshot j = Some (Snapshot st)"
proof -
  from assms(2) obtain j1 j2 j3 where
    m: "marshal_map id marshal_sched_snapshot (snap_Schedulers (Snapshot st)) = Some j1"
      "marshal_map FormatInt marshal_alert_snapshot (snap_AlertInfos (Snapshot st)) = Some j2"
      "marshal_map id (\<lambda>i. Some (JNum i)) (snap_StorageFault (Snapshot st)) = Some j3"
    and j: "j = JObj [(''meas_idx'', JNum (snap_MeasIdx (Snapshot st))), (''hb_idx'', JNum (snap_HbIdx (Snapshot st))),
      (''schedulers'', j1), (''fault_idx'', JNum (snap_FaultIdx (Snapshot st))), (''alertInfos'', j2), (''storageFault'', j3)]"
    by (auto simp: marshal_snapshot_def split: option.splits)
  have "snap_range st" using assms(1) by (simp add: node_ok_def)
  then have r: "is_int64 (snap_MeasIdx (Snapshot st))" "is_int64 (snap_HbIdx (Snapshot st))"
    "is_int32 (snap_FaultIdx (Snapshot st))" by (simp_all add: snap_range_def Snapshot_def)
  show ?thesis
    unfolding j dec_struct_JObj unmarshal_snapshot_def
    using r snapshot_maps(1) [OF assms(1) m(1)] snapshot_maps(2) [OF assms(1) m(2)] snapshot_maps(3) [OF assms(1) m(3)]
    by (simp add: jget_def)
qed

text \<open>The years that a time has in JSON.\<close>

definition json_time :: "time \<Rightarrow> bool" where
  "json_time t \<longleftrightarrow> 0 \<le> time_Year t \<and> time_Year t < 10000"

lemma marshal_snapshot_None:
  assumes "node_ok st"
  shows "marshal_snapshot (Snapshot st) = None \<longleftrightarrow> (\<exists>s \<in> ran (hs_schedulers st). \<not> json_time (ss_next s))"
proof -
  have "marshal_map FormatInt marshal_alert_snapshot (snap_AlertInfos (Snapshot st)) \<noteq> None"
    "marshal_map id (\<lambda>i. Some (JNum i)) (snap_StorageFault (Snapshot st)) \<noteq> None"
    using assms by (simp_all add: marshal_map_None Snapshot_def node_ok_defs marshal_alert_snapshot_def)
  moreover have "marshal_map id marshal_sched_snapshot (snap_Schedulers (Snapshot st)) = None \<longleftrightarrow>
      (\<exists>s \<in> ran (hs_schedulers st). \<not> json_time (ss_next s))"
    using assms by (fastforce simp: marshal_map_None Snapshot_def node_ok_defs marshal_sched_snapshot_def
        time_MarshalJSON_def json_time_def ran_def split: if_splits)
  ultimately show ?thesis by (auto simp: marshal_snapshot_def split: option.splits)
qed

lemma Persist_closed: "Persist snap sink = Ret (SinkClosed j, err) \<Longrightarrow> marshal_snapshot snap = Some j"
  by (auto simp: Persist_def persist_cancel_def split: option.splits)

lemma fsm_Restore_fresh:
  "node_ok st \<Longrightarrow> marshal_snapshot (Snapshot st) = Some j \<Longrightarrow> fsm_Restore NewInMemState (Some j) = (st, None)"
  by (simp add: fsm_Restore_def unmarshal_marshal_snapshot Restore_Snapshot_fresh)

text \<open>C8: Log compaction over files is sound: if a node that has applied a prefix of the log writes its
  snapshot to a sink, then a node that starts empty and restores that document has exactly the same
  state, without an error, and applying the rest of the log there gives exactly the outcome (state
  or crash) of applying the whole log.\<close>

theorem compaction_sound:
  assumes "replay debug NewInMemState prefix = Ret st"
    and "Persist (fsm_Snapshot st) sink = Ret (SinkClosed file, err)"
  shows "fsm_Restore NewInMemState (Some file) = (st, None) \<and>
    replay debug (fst (fsm_Restore NewInMemState (Some file))) suffix =
      replay debug NewInMemState (prefix @ suffix)"
proof -
  have "node_ok st" by (rule node_ok_replay [OF node_ok_new assms(1)])
  with Persist_closed [OF assms(2)] have "fsm_Restore NewInMemState (Some file) = (st, None)"
    by (simp add: fsm_Snapshot_def fsm_Restore_fresh)
  with assms(1) show ?thesis by (simp add: replay_append)
qed

text \<open>A log that plans a heartbeat and takes a measurement index, and the document of its snapshot.\<close>

definition hb_log :: "json list" where
  "hb_log = [Marshal (sched_cmd \<lparr>usf_Name = ''hb'', usf_Interval = Some (60 * second), usf_Next = Some 1600000000\<rparr>),
     Marshal (plain_cmd IncrementMeasIdx)]"

definition hb_node :: ha_inMemState where
  "hb_node = NewInMemState\<lparr>hs_measIdx := 1,
     hs_schedulers := [''hb'' \<mapsto> \<lparr>ss_interval = 60 * second, ss_next = time_Unix 1600000000\<rparr>]\<rparr>"

definition open_sink :: snapshot_sink where
  "open_sink = \<lparr>snk_Write = None, snk_Cancel = None, snk_Close = None\<rparr>"

definition hb_file :: json where
  "hb_file = JObj [(''meas_idx'', JNum 1), (''hb_idx'', JNum 0),
     (''schedulers'', JObj [(''hb'', JObj [(''interval'', JNum 60000000000), (''time'', JStr ''2020-09-13T12:26:40Z'')])]),
     (''fault_idx'', JNum 0), (''alertInfos'', JObj []), (''storageFault'', JObj [])]"

lemma sample_replay: "replay False NewInMemState hb_log = Ret hb_node"
proof -
  have "StateCmd_wf (sched_cmd \<lparr>usf_Name = ''hb'', usf_Interval = Some (60 * second), usf_Next = Some 1600000000\<rparr>)"
    "StateCmd_wf (plain_cmd IncrementMeasIdx)"
    by (simp_all add: StateCmd_wf_def sched_cmd_def plain_cmd_def is_int64_def)
  moreover have "wrap64 1 = 1" by (simp add: wrap64_def)
  ultimately show ?thesis
    by (simp add: replay_def hb_log_def fsm_Apply_def Unmarshal_Marshal processCmd_def sched_cmd_def plain_cmd_def
        handleSchedulerUpdate_def hs_UpdateInterval_def hs_UpdateNextRun_def hs_NextMeasurementIndex_def
        getOrCreateScheduler_def hb_node_def NewInMemState_def)
qed

lemma sample_persist: "Persist (fsm_Snapshot hb_node) open_sink = Ret (SinkClosed hb_file, None)"
proof -
  have t: "time_MarshalJSON (time_Unix 1600000000) = Some ''2020-09-13T12:26:40Z''" by code_simp
  have "snap_Schedulers (Snapshot hb_node) = [''hb'' \<mapsto> \<lparr>sss_Interval = 60 * second, sss_Next = time_Unix 1600000000\<rparr>]"
    by (rule ext) (simp add: Snapshot_def hb_node_def)
  then show ?thesis
    by (simp add: Persist_def fsm_Snapshot_def marshal_snapshot_def marshal_map_def map_entries_def
        marshal_sched_snapshot_def t open_sink_def hb_file_def)
      (simp add: Snapshot_def hb_node_def NewInMemState_def)
qed

theorem compaction_sound_witness:
  "fsm_Restore NewInMemState (Some hb_file) = (hb_node, None) \<and>
    replay False (fst (fsm_Restore NewInMemState (Some hb_file))) hb_log =
      replay False NewInMemState (hb_log @ hb_log)"
  using compaction_sound [OF sample_replay sample_persist] .

text \<open>The outcome of \<open>Persist\<close> for every state that a log leads to: the snapshot is written unless some
  scheduler's next run is outside the years 0 to 9999 or the write fails; then the sink is
  cancelled and the error returned, and a cancel that fails is a panic.\<close>

theorem persist_outcome:
  assumes "replay debug NewInMemState log = Ret st"
  shows "Persist (fsm_Snapshot st) sink =
     (if \<exists>s \<in> ran (hs_schedulers st). \<not> json_time (ss_next s) then persist_cancel sink UnsupportedTime
      else case snk_Write sink of
             Some e \<Rightarrow> persist_cancel sink (SinkError e)
           | None \<Rightarrow> Ret (SinkClosed (the (marshal_snapshot (Snapshot st))), map_option SinkError (snk_Close sink)))"
  using marshal_snapshot_None [OF node_ok_replay [OF node_ok_new assms]]
  by (cases "marshal_snapshot (Snapshot st)") (auto simp: Persist_def fsm_Snapshot_def split: option.splits)

end
