(* ===== verification/Evel.thy ===== *)
theory Evel
  imports Govel_Events Govel_Config
begin

text \<open>
  One connection to a VES collector (VESPA/govel/client.go and evel.go): building and sending
  the HTTP request, decoding the answer, posting events and batches, and the commands that a
  collector sends back to change the heartbeat and measurement intervals. The HTTP transport,
  the JSON schema validator and the JSON text encoder are parameters (record \<open>params\<close>). The
  requests handed to the transport are kept in \<open>env_sent\<close>, so that what was sent can be stated.
\<close>

section \<open>The HTTP client\<close>

record RequestError =
  rqe_MessageID :: string
  rqe_Text :: string
  rqe_URL :: string
  rqe_Variables :: "string list"

definition RequestError_Error :: "RequestError \<Rightarrow> string" where
  "RequestError_Error e =
     (let text = fold (\<lambda>i text. ReplaceAll text (CHR ''$'' # FormatInt (int i + 1)) (rqe_Variables e ! i))
                   [0 ..< length (rqe_Variables e)] (rqe_Text e)
      in rqe_MessageID e @ '': '' @ text)"

text \<open>The map of request errors is a list of its entries in the order in which a range over it
  visits them, which Go leaves open; its pointers are taken to be non-nil.\<close>

record VESResponse =
  vr_CommandList :: "Command list"
  vr_RequestError :: "(string \<times> RequestError) list"

definition IsError :: "VESResponse \<Rightarrow> bool" where
  "IsError r \<longleftrightarrow> length (vr_RequestError r) > 0"

definition GetError :: "VESResponse \<Rightarrow> RequestError option" where
  "GetError r = (case vr_RequestError r of [] \<Rightarrow> None | (k, e) # _ \<Rightarrow> Some e)"

record URL =
  url_Scheme :: string
  url_Host :: string
  url_Path :: string
  url_User :: "(string \<times> string) option"

record VESClient =
  cli_baseURL :: URL
  cli_schema :: bool
  cli_maxBodySize :: int

record Request =
  rq_URL :: URL
  rq_Body :: string
  rq_BasicAuth :: "(string \<times> string) option"
  rq_ContentLength :: int
  rq_Header :: "string \<rightharpoonup> string"

datatype payload = EventReq Event | BatchReq Batch

datatype ves_error =
    ErrBodyTooLarge
  | SchemaError string
  | EncodeError string
  | BadRequest string
  | NetError string
  | ServerError RequestError
  | HttpStatus int
  | PasswordError string

text \<open>The answer of a server: the status, the content type and what the JSON decoder leaves in a
  fresh \<open>VESResponse\<close> (a decoding error is only logged).\<close>

record Response =
  rs_StatusCode :: int
  rs_ContentType :: string
  rs_decoded :: VESResponse

text \<open>The parameters: the schema validator, the JSON encoder (its error, if it has one, as for a number
  that JSON cannot express, and the text otherwise), the error of building a request, the transport.\<close>

record 'n params =
  pr_validate :: "payload \<Rightarrow> string option"
  pr_encode_error :: "payload \<Rightarrow> string option"
  pr_encode :: "payload \<Rightarrow> string"
  pr_newreq :: "URL \<Rightarrow> string option"
  pr_send :: "'n \<Rightarrow> Request \<Rightarrow> 'n \<times> (string + Response)"

definition ValidateWithSchema :: "'n params \<Rightarrow> VESClient \<Rightarrow> payload \<Rightarrow> ves_error option" where
  "ValidateWithSchema P ves data =
     (if cli_schema ves then map_option SchemaError (pr_validate P data) else None)"

definition CreateJSONPostRequest ::
    "'n params \<Rightarrow> VESClient \<Rightarrow> string \<Rightarrow> payload \<Rightarrow> ves_error + Request" where
  "CreateJSONPostRequest P ves queryPath data =
     (case ValidateWithSchema P ves data of
        Some e \<Rightarrow> Inl e
      | None \<Rightarrow>
          (let url = (cli_baseURL ves)\<lparr>url_Path := path_Join (url_Path (cli_baseURL ves)) queryPath\<rparr>;
               buf = pr_encode P data
           in if pr_encode_error P data \<noteq> None then Inl (EncodeError (the (pr_encode_error P data)))
              else if cli_maxBodySize ves > 0 \<and> int (length buf) > cli_maxBodySize ves then Inl ErrBodyTooLarge
              else case pr_newreq P url of
                     Some e \<Rightarrow> Inl (BadRequest e)
                   | None \<Rightarrow> Inr \<lparr>rq_URL = url, rq_Body = buf, rq_BasicAuth = url_User url,
                       rq_ContentLength = int (length buf),
                       rq_Header = [''Content-Type'' \<mapsto> ''application/json'', ''Accept'' \<mapsto> ''application/json'']\<rparr>))"

definition DecodeVESResponse :: "Response \<Rightarrow> ves_error + VESResponse" where
  "DecodeVESResponse resp =
     (let vesResp = (if rs_ContentType resp = ''application/json'' then rs_decoded resp
                     else \<lparr>vr_CommandList = [], vr_RequestError = []\<rparr>)
      in if rs_StatusCode resp < 200 \<or> rs_StatusCode resp \<ge> 300 then
           (if IsError vesResp then
              (case GetError vesResp of Some e \<Rightarrow> Inl (ServerError e) | None \<Rightarrow> Inr vesResp)
            else Inl (HttpStatus (rs_StatusCode resp)))
         else Inr vesResp)"

section \<open>Channels and the environment\<close>

text \<open>A channel of durations with its buffer; the channels live in a store, since the agent and
  several connections share them.\<close>

record chan =
  ch_cap :: nat
  ch_buf :: "duration list"

record 'n env =
  env_chans :: "nat \<Rightarrow> chan"
  env_net :: 'n
  env_sent :: "Request list"

text \<open>\<open>select { case ch <- v: default: }\<close> on a buffered channel.\<close>

definition try_send :: "duration \<Rightarrow> (nat \<Rightarrow> chan) \<Rightarrow> nat \<Rightarrow> (nat \<Rightarrow> chan)" where
  "try_send v cs c =
     (if length (ch_buf (cs c)) < ch_cap (cs c)
      then cs(c := (cs c)\<lparr>ch_buf := ch_buf (cs c) @ [v]\<rparr>) else cs)"

definition SendRequest :: "'n params \<Rightarrow> 'n env \<Rightarrow> Request \<Rightarrow> 'n env \<times> (ves_error + VESResponse)" where
  "SendRequest P env req =
     (let (n, res) = pr_send P (env_net env) req;
          env1 = env\<lparr>env_net := n, env_sent := env_sent env @ [req]\<rparr>
      in case res of Inl e \<Rightarrow> (env1, Inl (NetError e)) | Inr resp \<Rightarrow> (env1, DecodeVESResponse resp))"

definition PostJSON ::
    "'n params \<Rightarrow> VESClient \<Rightarrow> 'n env \<Rightarrow> string \<Rightarrow> payload \<Rightarrow> 'n env \<times> (ves_error + VESResponse)" where
  "PostJSON P ves env queryPath data =
     (case CreateJSONPostRequest P ves queryPath data of
        Inl e \<Rightarrow> (env, Inl e) | Inr req \<Rightarrow> SendRequest P env req)"

section \<open>The connection\<close>

record Evel =
  ev_baseURL :: URL
  ev_topic :: string
  ev_heartbeatInterval :: duration
  ev_measurementInterval :: duration
  ev_reportingEntityName :: string
  ev_reportingEntityID :: string
  ev_client :: VESClient
  ev_measIntCh :: "nat list"
  ev_hbIntCh :: "nat list"

text \<open>\<open>fpm\<close> is the decryption tool, if it is installed.\<close>

definition slash_path :: "string \<Rightarrow> string" where
  "slash_path s =
     (let t = TrimLeft s (CHR ''/'')
      in if t \<noteq> [] \<and> \<not> HasPrefix t ''/'' then CHR ''/'' # t else t)"

definition NewEvel ::
    "(string \<Rightarrow> string \<Rightarrow> string + string) option \<Rightarrow> CollectorConfiguration \<Rightarrow> EventConfiguration \<Rightarrow>
     ves_error + Evel" where
  "NewEvel fpm collector event =
     (let topic = slash_path (cc_Topic collector);
          httpScheme = (if cc_Secure collector then ''https'' else ''http'');
          passwd =
            (case fpm of
               None \<Rightarrow> Inr (cc_Password collector)
             | Some run \<Rightarrow>
                 (case run (cc_Password collector) (cc_PassPhrase collector) of
                    Inl e \<Rightarrow> Inl (PasswordError e)
                  | Inr out \<Rightarrow>
                      (let p = TrimSuffix out [CHR 0x0A]
                       in if p = [] then Inl (PasswordError ''Failed to decrypt ves password'') else Inr p)))
      in case passwd of
           Inl e \<Rightarrow> Inl e
         | Inr vesPassword \<Rightarrow>
             (let path = TrimRight (slash_path (cc_ServerRoot collector)) (CHR ''/'') @ ''/eventListener/v7'';
                  baseURL = \<lparr>url_Scheme = httpScheme,
                    url_Host = cc_FQDN collector @ '':'' @ FormatInt (cc_Port collector),
                    url_Path = path, url_User = Some (cc_User collector, vesPassword)\<rparr>
              in Inr \<lparr>ev_baseURL = baseURL, ev_topic = topic, ev_heartbeatInterval = 0,
                   ev_measurementInterval = 0, ev_reportingEntityName = ec_ReportingEntityName event,
                   ev_reportingEntityID = ec_ReportingEntityID event,
                   ev_client = \<lparr>cli_baseURL = baseURL, cli_schema = True, cli_maxBodySize = ec_MaxSize event\<rparr>,
                   ev_measIntCh = [], ev_hbIntCh = []\<rparr>))"

definition evel_NotifyMeasurementIntervalChanged :: "Evel \<Rightarrow> nat \<Rightarrow> Evel" where
  "evel_NotifyMeasurementIntervalChanged evel ch = evel\<lparr>ev_measIntCh := ev_measIntCh evel @ [ch]\<rparr>"

definition evel_NotifyHeartbeatIntervalChanged :: "Evel \<Rightarrow> nat \<Rightarrow> Evel" where
  "evel_NotifyHeartbeatIntervalChanged evel ch = evel\<lparr>ev_hbIntCh := ev_hbIntCh evel @ [ch]\<rparr>"

section \<open>Commands of the collector\<close>

definition processCommand :: "Evel \<times> (nat \<Rightarrow> chan) \<Rightarrow> Command \<Rightarrow> Evel \<times> (nat \<Rightarrow> chan)" where
  "processCommand st command =
     (let (evel, cs) = st
      in if cmd_CommandType command = CommandHeartbeatIntervalChange then
           (let hb = wrap64 (cmd_HeartbeatInterval command * second)
            in if hb \<noteq> ev_heartbeatInterval evel
               then (evel\<lparr>ev_heartbeatInterval := hb\<rparr>, foldl (try_send hb) cs (ev_hbIntCh evel)) else (evel, cs))
         else if cmd_CommandType command = CommandMeasurementIntervalChange then
           (let meas = wrap64 (cmd_MeasurementInterval command * second)
            in if meas \<noteq> ev_measurementInterval evel
               then (evel\<lparr>ev_measurementInterval := meas\<rparr>, foldl (try_send meas) cs (ev_measIntCh evel)) else (evel, cs))
         else (evel, cs))"

definition processCommands :: "Evel \<Rightarrow> (nat \<Rightarrow> chan) \<Rightarrow> Command list \<Rightarrow> Evel \<times> (nat \<Rightarrow> chan)" where
  "processCommands evel cs commandList =
     (if commandList = [] then (evel, cs) else foldl processCommand (evel, cs) commandList)"

section \<open>Posting\<close>

definition doPost ::
    "'n params \<Rightarrow> Evel \<Rightarrow> 'n env \<Rightarrow> string \<Rightarrow> payload \<Rightarrow> Evel \<times> 'n env \<times> ves_error option" where
  "doPost P evel env queryPath req =
     (let (env1, res) = PostJSON P (ev_client evel) env queryPath req
      in case res of
           Inl e \<Rightarrow> (evel, env1, Some e)
         | Inr vesResp \<Rightarrow>
             (let (evel1, cs) = processCommands evel (env_chans env1) (vr_CommandList vesResp)
              in (evel1, env1\<lparr>env_chans := cs\<rparr>, None)))"

text \<open>The event is passed by reference; the updated event is returned.\<close>

definition evel_PostEvent ::
    "'n params \<Rightarrow> Evel \<Rightarrow> 'n env \<Rightarrow> Event \<Rightarrow> Evel \<times> 'n env \<times> Event \<times> ves_error option" where
  "evel_PostEvent P evel env evt =
     (let evt1 = set_entity_id (ev_reportingEntityID evel) (set_entity_name (ev_reportingEntityName evel) evt);
          (evel1, env1, err) = doPost P evel env (ev_topic evel) (EventReq evt1)
      in (evel1, env1, evt1, err))"

definition evel_update_batch :: "Evel \<Rightarrow> Batch \<Rightarrow> Batch" where
  "evel_update_batch evel batch =
     UpdateReportingEntityID (UpdateReportingEntityName batch (ev_reportingEntityName evel))
       (ev_reportingEntityID evel)"

lemma length_evel_update_batch [simp]: "length (evel_update_batch evel b) = length b"
  by (simp add: evel_update_batch_def UpdateReportingEntityID_def UpdateReportingEntityName_def)

function evel_PostBatch ::
    "'n params \<Rightarrow> Evel \<Rightarrow> 'n env \<Rightarrow> Batch \<Rightarrow> (Evel \<times> 'n env \<times> Batch \<times> ves_error option) go" where
  "evel_PostBatch P evel env batch =
     (if batch = [] then Ret (evel, env, batch, None)
      else
        (let b = evel_update_batch evel batch;
             (evel1, env1, err) = doPost P evel env ''eventBatch'' (BatchReq b)
         in if err = Some ErrBodyTooLarge then
              (let (b1, b2) = batch_Split b
               in if b1 = [] \<or> b2 = [] then Crash ExplicitPanic
                  else go_bind (evel_PostBatch P evel1 env1 b1) (\<lambda>(evel2, env2, b1', err1).
                    if err1 \<noteq> None then Ret (evel2, env2, b1' @ b2, err1)
                    else go_bind (evel_PostBatch P evel2 env2 b2) (\<lambda>(evel3, env3, b2', err2).
                      Ret (evel3, env3, b1' @ b2', err2))))
            else Ret (evel1, env1, b, err)))"
  by pat_completeness auto
termination
  by (relation "measure (\<lambda>(_, _, _, b). length b)")
    (auto, (metis batch_Split_length length_evel_update_batch)+)

declare evel_PostBatch.simps [simp del]

section \<open>What is sent\<close>

lemma processCommand_frame:
  "processCommand (evel, cs) c = (evel', cs') \<Longrightarrow>
     ev_client evel' = ev_client evel \<and> ev_reportingEntityName evel' = ev_reportingEntityName evel \<and>
     ev_reportingEntityID evel' = ev_reportingEntityID evel \<and> ev_topic evel' = ev_topic evel \<and>
     ev_hbIntCh evel' = ev_hbIntCh evel \<and> ev_measIntCh evel' = ev_measIntCh evel"
  by (auto simp: processCommand_def Let_def split: if_splits)

lemma foldl_processCommand_frame:
  "foldl processCommand (evel, cs) l = (evel', cs') \<Longrightarrow>
     ev_client evel' = ev_client evel \<and> ev_reportingEntityName evel' = ev_reportingEntityName evel \<and>
     ev_reportingEntityID evel' = ev_reportingEntityID evel \<and> ev_topic evel' = ev_topic evel \<and>
     ev_hbIntCh evel' = ev_hbIntCh evel \<and> ev_measIntCh evel' = ev_measIntCh evel"
proof (induction l arbitrary: evel cs)
  case (Cons c l)
  obtain e1 c1 where p: "processCommand (evel, cs) c = (e1, c1)" by fastforce
  with Cons.prems have "foldl processCommand (e1, c1) l = (evel', cs')" by simp
  from Cons.IH [OF this] processCommand_frame [OF p] show ?case by simp
qed simp

lemma doPost_frame:
  assumes "doPost P evel env path req = (evel', env', err)"
  shows "ev_client evel' = ev_client evel \<and> ev_reportingEntityName evel' = ev_reportingEntityName evel \<and>
    ev_reportingEntityID evel' = ev_reportingEntityID evel"
  using assms foldl_processCommand_frame
  by (fastforce simp: doPost_def processCommands_def Let_def split: prod.splits sum.splits if_splits)

text \<open>A post either fails before anything is sent, or hands exactly one request over.\<close>

lemma doPost_sent:
  assumes "doPost P evel env path req = (evel', env', err)"
  shows "case CreateJSONPostRequest P (ev_client evel) path req of
      Inl e \<Rightarrow> env' = env \<and> err = Some e \<and> evel' = evel
    | Inr r \<Rightarrow> env_sent env' = env_sent env @ [r] \<and> err \<noteq> Some ErrBodyTooLarge"
  using assms by (auto simp: doPost_def PostJSON_def SendRequest_def DecodeVESResponse_def Let_def
      split: sum.splits prod.splits if_splits option.splits)

lemma CreateJSONPostRequest_size:
  "CreateJSONPostRequest P ves path d = Inr r \<Longrightarrow>
     rq_Body r = pr_encode P d \<and> rq_ContentLength r = int (length (pr_encode P d)) \<and>
     url_Path (rq_URL r) = path_Join (url_Path (cli_baseURL ves)) path \<and>
     (cli_maxBodySize ves > 0 \<longrightarrow> int (length (rq_Body r)) \<le> cli_maxBodySize ves)"
  by (auto simp: CreateJSONPostRequest_def Let_def split: option.splits if_splits)

lemma CreateJSONPostRequest_too_large:
  "CreateJSONPostRequest P ves path d = Inl ErrBodyTooLarge \<Longrightarrow>
     cli_maxBodySize ves > 0 \<and> int (length (pr_encode P d)) > cli_maxBodySize ves"
  by (auto simp: CreateJSONPostRequest_def ValidateWithSchema_def Let_def split: option.splits if_splits)

definition same_conn :: "Evel \<Rightarrow> Evel \<Rightarrow> bool" where
  "same_conn a b \<longleftrightarrow> ev_client a = ev_client b \<and> ev_reportingEntityName a = ev_reportingEntityName b \<and>
     ev_reportingEntityID a = ev_reportingEntityID b"

lemma evel_update_batch_eq:
  "evel_update_batch evel b =
     map (set_entity_id (ev_reportingEntityID evel) \<circ> set_entity_name (ev_reportingEntityName evel)) b"
  by (simp add: evel_update_batch_def UpdateReportingEntityID_def UpdateReportingEntityName_def)

lemma evel_update_batch_append [simp]:
  "evel_update_batch evel (b1 @ b2) = evel_update_batch evel b1 @ evel_update_batch evel b2"
  by (simp add: evel_update_batch_eq)

lemma evel_update_batch_idem [simp]: "evel_update_batch evel (evel_update_batch evel b) = evel_update_batch evel b"
  by (simp add: evel_update_batch_eq set_entity_commute)

lemma evel_update_batch_conn: "same_conn a b \<Longrightarrow> evel_update_batch a x = evel_update_batch b x"
  by (simp add: same_conn_def evel_update_batch_def)

text \<open>The requests of a batch: one per part, in order.\<close>

definition sent_parts :: "'n params \<Rightarrow> VESClient \<Rightarrow> Batch list \<Rightarrow> Request list \<Rightarrow> bool" where
  "sent_parts P ves parts reqs \<longleftrightarrow>
     list_all2 (\<lambda>part r. CreateJSONPostRequest P ves ''eventBatch'' (BatchReq part) = Inr r) parts reqs"

lemma sent_parts_append:
  "sent_parts P ves p1 r1 \<Longrightarrow> sent_parts P ves p2 r2 \<Longrightarrow> sent_parts P ves (p1 @ p2) (r1 @ r2)"
  by (simp add: sent_parts_def list_all2_appendI)

text \<open>The outcome of a batch post: the parts sent are a prefix of the updated batch, the whole of it
  if there was no error.\<close>

definition batch_outcome ::
    "'n params \<Rightarrow> Evel \<Rightarrow> 'n env \<Rightarrow> Batch \<Rightarrow> Evel \<times> 'n env \<times> Batch \<times> ves_error option \<Rightarrow> bool" where
  "batch_outcome P evel env batch out \<longleftrightarrow>
     (case out of (evel', env', b', err) \<Rightarrow>
        same_conn evel evel' \<and> b' = evel_update_batch evel batch \<and> err \<noteq> Some ErrBodyTooLarge \<and>
        (\<exists>parts reqs rest. env_sent env' = env_sent env @ reqs \<and> sent_parts P (ev_client evel) parts reqs \<and>
           concat parts @ rest = b' \<and> (err = None \<longrightarrow> rest = [])))"

lemma batch_outcomeI:
  assumes "same_conn evel evel'" and "b' = evel_update_batch evel batch" and "err \<noteq> Some ErrBodyTooLarge"
    and "env_sent env' = env_sent env @ reqs" and "sent_parts P (ev_client evel) parts reqs"
    and "concat parts @ rest = b'" and "err = None \<Longrightarrow> rest = []"
  shows "batch_outcome P evel env batch (evel', env', b', err)"
  using assms unfolding batch_outcome_def by blast

lemma batch_outcome_split:
  assumes "batch_outcome P evel env b1 (evel2, env2, b1', None)"
    and "batch_outcome P evel2 env2 b2 (evel3, env3, b2', err)"
    and "b1 @ b2 = evel_update_batch evel batch"
  shows "batch_outcome P evel env batch (evel3, env3, b1' @ b2', err)"
proof -
  from assms(1) obtain p1 r1 where
    1: "same_conn evel evel2" "b1' = evel_update_batch evel b1" "env_sent env2 = env_sent env @ r1"
      "sent_parts P (ev_client evel) p1 r1" "concat p1 = b1'" by (auto simp: batch_outcome_def)
  from assms(2) obtain p2 r2 rest where
    2: "same_conn evel2 evel3" "b2' = evel_update_batch evel2 b2" "env_sent env3 = env_sent env2 @ r2"
      "sent_parts P (ev_client evel2) p2 r2" "concat p2 @ rest = b2'" "err = None \<longrightarrow> rest = []"
      "err \<noteq> Some ErrBodyTooLarge" by (auto simp: batch_outcome_def)
  have "b1' @ b2' = evel_update_batch evel (b1 @ b2)"
    using 1(1,2) 2(2) evel_update_batch_conn [of evel evel2] by simp
  then have "b1' @ b2' = evel_update_batch evel batch" by (simp add: assms(3))
  moreover have "same_conn evel evel3" using 1(1) 2(1) by (simp add: same_conn_def)
  moreover have "sent_parts P (ev_client evel) (p1 @ p2) (r1 @ r2)"
    using 1(1,4) 2(4) by (simp add: same_conn_def sent_parts_append)
  ultimately show ?thesis using 1(3,5) 2(3,5,6,7)
    by (intro batch_outcomeI [where parts = "p1 @ p2" and reqs = "r1 @ r2" and rest = rest]) auto
qed

lemma batch_outcome_first:
  assumes "batch_outcome P evel env b1 (evel2, env2, b1', Some e)"
    and "b1 @ b2 = evel_update_batch evel batch"
  shows "batch_outcome P evel env batch (evel2, env2, b1' @ b2, Some e)"
proof -
  from assms(1) obtain p1 r1 rest where
    1: "same_conn evel evel2" "b1' = evel_update_batch evel b1" "env_sent env2 = env_sent env @ r1"
      "sent_parts P (ev_client evel) p1 r1" "concat p1 @ rest = b1'" "e \<noteq> ErrBodyTooLarge"
    by (auto simp: batch_outcome_def)
  have "evel_update_batch evel (b1 @ b2) = b1 @ b2" by (simp add: assms(2))
  then have "b1' @ b2 = b1 @ b2" using 1(2) by (simp del: length_evel_update_batch)
      (metis append_eq_append_conv length_evel_update_batch)
  moreover have "concat p1 @ rest @ b2 = b1' @ b2" using 1(5) by (simp flip: append_assoc)
  ultimately show ?thesis using 1(1,3,4,6) assms(2)
    by (intro batch_outcomeI [where parts = p1 and reqs = r1 and rest = "rest @ b2"]) auto
qed

lemma batch_outcome_whole:
  assumes d: "doPost P evel env ''eventBatch'' (BatchReq (evel_update_batch evel batch)) = (evel1, env1, err)"
    and "err \<noteq> Some ErrBodyTooLarge"
  shows "batch_outcome P evel env batch (evel1, env1, evel_update_batch evel batch, err)"
proof (cases "CreateJSONPostRequest P (ev_client evel) ''eventBatch'' (BatchReq (evel_update_batch evel batch))")
  case (Inl e)
  with doPost_sent [OF d] assms(2) show ?thesis
    by (intro batch_outcomeI [where parts = "[]" and reqs = "[]" and rest = "evel_update_batch evel batch"])
      (auto simp: same_conn_def sent_parts_def)
next
  case (Inr r)
  with doPost_sent [OF d] assms(2) doPost_frame [OF d] show ?thesis
    by (intro batch_outcomeI [where parts = "[evel_update_batch evel batch]" and reqs = "[r]" and rest = "[]"])
      (auto simp: same_conn_def sent_parts_def)
qed

lemma evel_PostBatch_outcome:
  "evel_PostBatch P evel env batch = Ret out \<Longrightarrow> batch_outcome P evel env batch out"
proof (induction P evel env batch arbitrary: out rule: evel_PostBatch.induct)
  case (1 P evel env batch)
  let ?b = "evel_update_batch evel batch"
  obtain evel1 env1 err where d: "doPost P evel env ''eventBatch'' (BatchReq ?b) = (evel1, env1, err)"
    by (metis prod_cases3)
  obtain b1 b2 where sp: "batch_Split ?b = (b1, b2)" by fastforce
  note app = batch_Split_append [OF sp]
  consider "batch = []" | "batch \<noteq> []" "err \<noteq> Some ErrBodyTooLarge" | "batch \<noteq> []" "err = Some ErrBodyTooLarge"
    by blast
  then show ?case
  proof cases
    case 1
    with "1.prems" have "out = (evel, env, [], None)" by (simp add: evel_PostBatch.simps)
    with \<open>batch = []\<close> show ?thesis
      by (auto simp: batch_outcome_def same_conn_def evel_update_batch_eq sent_parts_def)
  next
    case 2
    with "1.prems" d have "out = (evel1, env1, ?b, err)" by (simp add: evel_PostBatch.simps [of P evel env batch])
    with batch_outcome_whole [OF d 2(2)] show ?thesis by simp
  next
    case 3
    have ee: "env1 = env" "evel1 = evel" using doPost_sent [OF d] 3(2) by (auto split: sum.splits)
    have ne: "\<not> (b1 = [] \<or> b2 = [])"
      using "1.prems" 3 d sp by (auto simp: evel_PostBatch.simps [of P evel env batch])
    note IH = "1.IH" [OF 3(1) refl refl d [symmetric] refl 3(2) refl sp [symmetric] ne]
    from "1.prems" 3 d sp ne ee obtain evel2 env2 b1' err1 where
      p1: "evel_PostBatch P evel env b1 = Ret (evel2, env2, b1', err1)"
      and rest: "if err1 \<noteq> None then out = (evel2, env2, b1' @ b2, err1)
        else \<exists>evel3 env3 b2' err2. evel_PostBatch P evel2 env2 b2 = Ret (evel3, env3, b2', err2) \<and>
          out = (evel3, env3, b1' @ b2', err2)"
      by (auto simp: evel_PostBatch.simps [of P evel env batch] go_simps split: if_splits)
    note IH1 = IH(1) [unfolded ee, OF p1]
    show ?thesis
    proof (cases err1)
      case (Some e)
      with rest batch_outcome_first [OF _ app, of P env evel2 env2 b1' e] IH1 show ?thesis by simp
    next
      case None
      with rest obtain evel3 env3 b2' err2 where
        p2: "evel_PostBatch P evel2 env2 b2 = Ret (evel3, env3, b2', err2)"
        and out: "out = (evel3, env3, b1' @ b2', err2)" by auto
      have "batch_outcome P evel2 env2 b2 (evel3, env3, b2', err2)" using IH(2) p2 None by blast
      with IH1 None out app show ?thesis using batch_outcome_split by metis
    qed
  qed
qed

text \<open>A batch post crashes only if a single event of the batch is too large.\<close>

lemma evel_PostBatch_crash:
  "evel_PostBatch P evel env batch = Crash p \<Longrightarrow> p = ExplicitPanic \<and>
     (\<exists>e \<in> set (evel_update_batch evel batch).
        CreateJSONPostRequest P (ev_client evel) ''eventBatch'' (BatchReq [e]) = Inl ErrBodyTooLarge)"
proof (induction P evel env batch rule: evel_PostBatch.induct)
  case (1 P evel env batch)
  let ?b = "evel_update_batch evel batch"
  obtain evel1 env1 err where d: "doPost P evel env ''eventBatch'' (BatchReq ?b) = (evel1, env1, err)"
    by (metis prod_cases3)
  obtain b1 b2 where sp: "batch_Split ?b = (b1, b2)" by fastforce
  have T: "batch \<noteq> []" "err = Some ErrBodyTooLarge"
    using "1.prems" d by (auto simp: evel_PostBatch.simps [of P evel env batch] Let_def split: if_splits)
  have ee: "env1 = env" "evel1 = evel" using doPost_sent [OF d] T(2) by (auto split: sum.splits)
  have big: "CreateJSONPostRequest P (ev_client evel) ''eventBatch'' (BatchReq ?b) = Inl ErrBodyTooLarge"
    using doPost_sent [OF d] T(2) by (auto split: sum.splits)
  show ?case
  proof (cases "b1 = [] \<or> b2 = []")
    case True
    then have "length ?b \<le> 1" using batch_Split_stuck [OF sp] by blast
    moreover have "?b \<noteq> []" using T(1) by (simp add: evel_update_batch_eq)
    ultimately obtain e where "?b = [e]"
      by (cases ?b) (simp_all del: length_evel_update_batch)
    with big True T d sp "1.prems" show ?thesis by (simp add: evel_PostBatch.simps [of P evel env batch])
  next
    case ne: False
    note IH = "1.IH" [OF T(1) refl refl d [symmetric] refl T(2) refl sp [symmetric] ne]
    have app: "evel_update_batch evel b1 @ evel_update_batch evel b2 = ?b"
      using arg_cong [OF batch_Split_append [OF sp], of "evel_update_batch evel"] by simp
    then have sub: "set (evel_update_batch evel b1) \<subseteq> set ?b" "set (evel_update_batch evel b2) \<subseteq> set ?b"
      by (metis Un_upper1 Un_upper2 set_append)+
    show ?thesis
    proof (cases "evel_PostBatch P evel env b1")
      case (Crash q)
      with IH(1) "1.prems" T d sp ne ee sub(1) show ?thesis
        by (auto simp: evel_PostBatch.simps [of P evel env batch])
    next
      case (Ret out)
      then obtain evel2 env2 b1' err1 where p1: "evel_PostBatch P evel env b1 = Ret (evel2, env2, b1', err1)"
        by (metis prod_cases4)
      from evel_PostBatch_outcome [OF p1] have c: "same_conn evel evel2" by (simp add: batch_outcome_def)
      from "1.prems" T d sp ne ee p1 have "err1 = None" "evel_PostBatch P evel2 env2 b2 = Crash p"
        by (auto simp: evel_PostBatch.simps [of P evel env batch] go_bind_Crash_iff split: if_splits)
      with IH(2) have "p = ExplicitPanic \<and> (\<exists>e \<in> set (evel_update_batch evel2 b2).
          CreateJSONPostRequest P (ev_client evel2) ''eventBatch'' (BatchReq [e]) = Inl ErrBodyTooLarge)" by blast
      with sub(2) c evel_update_batch_conn [OF c] show ?thesis by (auto simp: same_conn_def)
    qed
  qed
qed

end
