(* ===== verification/Collector_Cluster.thy ===== *)
theory Collector_Cluster
  imports Evel
begin

text \<open>
  The pair of a primary and a backup collector (VESPA/govel/cluster.go): creation, the post with
  retries and the switch between the two. Connections and clusters are heap objects, since the
  code compares and shares pointers: an address is a \<open>nat\<close>, a nil pointer is \<open>None\<close>. The package
  variable \<open>VesCollectorObjects\<close> is \<open>cw_objects\<close>. Sleeping and logging are left out; the lookup in
  \<open>CollectorUrl\<close> feeds a variable that nobody reads and is kept for its nil dereference.
\<close>

record VCluster =
  vc_activVES :: "nat option"
  vc_primaryVES :: "nat option"
  vc_backupVES :: "nat option"
  vc_maxMissed :: int
  vc_retryInterval :: duration

record 'n cworld =
  cw_env :: "'n env"
  cw_evels :: "nat \<Rightarrow> Evel"
  cw_nevels :: nat
  cw_clusters :: "nat \<Rightarrow> VCluster"
  cw_nclusters :: nat
  cw_objects :: "int \<rightharpoonup> nat"

definition alloc_evel :: "'n cworld \<Rightarrow> Evel \<Rightarrow> 'n cworld \<times> nat" where
  "alloc_evel w e = (w\<lparr>cw_evels := (cw_evels w)(cw_nevels w := e), cw_nevels := Suc (cw_nevels w)\<rparr>, cw_nevels w)"

definition alloc_cluster :: "'n cworld \<Rightarrow> VCluster \<Rightarrow> 'n cworld \<times> nat" where
  "alloc_cluster w c =
     (w\<lparr>cw_clusters := (cw_clusters w)(cw_nclusters w := c), cw_nclusters := Suc (cw_nclusters w)\<rparr>, cw_nclusters w)"

section \<open>Creation\<close>

definition CreateCluster ::
    "'n cworld \<Rightarrow> nat option \<Rightarrow> nat option \<Rightarrow> nat option \<Rightarrow> int \<Rightarrow> duration \<Rightarrow> 'n cworld \<times> nat" where
  "CreateCluster w activ primary backup maxm retry =
     alloc_cluster w \<lparr>vc_activVES = activ, vc_primaryVES = primary, vc_backupVES = backup,
       vc_maxMissed = maxm, vc_retryInterval = retry\<rparr>"

definition zero_VCluster :: VCluster where
  "zero_VCluster = \<lparr>vc_activVES = None, vc_primaryVES = None, vc_backupVES = None, vc_maxMissed = 0,
     vc_retryInterval = 0\<rparr>"

text \<open>\<open>NewEvel\<close> on the heap: the connection or a nil pointer with the error.\<close>

definition new_evel ::
    "(string \<Rightarrow> string \<Rightarrow> string + string) option \<Rightarrow> 'n cworld \<Rightarrow> CollectorConfiguration \<Rightarrow> EventConfiguration \<Rightarrow>
     'n cworld \<times> nat option \<times> ves_error option" where
  "new_evel fpm w conf event =
     (case NewEvel fpm conf event of
        Inl e \<Rightarrow> (w, None, Some e)
      | Inr ev \<Rightarrow> (let (w1, a) = alloc_evel w ev in (w1, Some a, None)))"

datatype cluster_error = CannotInitialize

definition NewCluster ::
    "(string \<Rightarrow> string \<Rightarrow> string + string) option \<Rightarrow> 'n cworld \<Rightarrow> CollectorConfiguration \<Rightarrow>
     CollectorConfiguration \<Rightarrow> EventConfiguration \<Rightarrow> ('n cworld \<times> nat \<times> cluster_error option) go" where
  "NewCluster fpm w prim back event =
     (let (w1, primary, errP) = new_evel fpm w prim event
      in if primary = None then Crash NilDeref
         else
           (let (w2, backup, errB) = (if cc_FQDN back \<noteq> [] then new_evel fpm w1 back event else (w1, None, None))
            in if errP \<noteq> None \<or> primary = None then
                 (if errB \<noteq> None \<or> backup = None
                  then (let (w3, c) = alloc_cluster w2 zero_VCluster in Ret (w3, c, Some CannotInitialize))
                  else (let (w3, c) = CreateCluster w2 backup primary backup (ec_MaxMissed event)
                              (ec_RetryInterval event) in Ret (w3, c, None)))
               else (let (w3, c) = CreateCluster w2 primary primary backup (ec_MaxMissed event)
                           (ec_RetryInterval event) in Ret (w3, c, None))))"

section \<open>Intervals\<close>

definition cluster_GetMeasurementInterval :: "'n cworld \<Rightarrow> nat \<Rightarrow> duration go" where
  "cluster_GetMeasurementInterval w c =
     (case vc_activVES (cw_clusters w c) of
        None \<Rightarrow> Crash NilDeref | Some a \<Rightarrow> Ret (ev_measurementInterval (cw_evels w a)))"

definition cluster_GetHeartbeatInterval :: "'n cworld \<Rightarrow> nat \<Rightarrow> duration go" where
  "cluster_GetHeartbeatInterval w c =
     (case vc_activVES (cw_clusters w c) of
        None \<Rightarrow> Crash NilDeref | Some a \<Rightarrow> Ret (ev_heartbeatInterval (cw_evels w a)))"

definition on_evel :: "(Evel \<Rightarrow> Evel) \<Rightarrow> nat option \<Rightarrow> 'n cworld \<Rightarrow> 'n cworld" where
  "on_evel f p w = (case p of None \<Rightarrow> w | Some a \<Rightarrow> w\<lparr>cw_evels := (cw_evels w)(a := f (cw_evels w a))\<rparr>)"

definition cluster_NotifyMeasurementIntervalChanged :: "'n cworld \<Rightarrow> nat \<Rightarrow> nat \<Rightarrow> 'n cworld" where
  "cluster_NotifyMeasurementIntervalChanged w c ch =
     (let cl = cw_clusters w c;
          reg = (\<lambda>e. evel_NotifyMeasurementIntervalChanged e ch)
      in on_evel reg (vc_backupVES cl) (on_evel reg (vc_activVES cl) w))"

definition cluster_NotifyHeartbeatIntervalChanged :: "'n cworld \<Rightarrow> nat \<Rightarrow> nat \<Rightarrow> 'n cworld" where
  "cluster_NotifyHeartbeatIntervalChanged w c ch =
     (let cl = cw_clusters w c;
          reg = (\<lambda>e. evel_NotifyHeartbeatIntervalChanged e ch)
      in on_evel reg (vc_backupVES cl) (on_evel reg (vc_activVES cl) w))"

section \<open>Posting with retries\<close>

definition isPrimaryActive :: "VCluster \<Rightarrow> bool" where
  "isPrimaryActive cl \<longleftrightarrow> vc_activVES cl = vc_primaryVES cl"

definition switchCollector :: "VCluster \<Rightarrow> VCluster" where
  "switchCollector cl =
     (if isPrimaryActive cl \<or> vc_primaryVES cl = None then
        (if vc_backupVES cl \<noteq> None then cl\<lparr>vc_activVES := vc_backupVES cl\<rparr> else cl)
      else cl\<lparr>vc_activVES := vc_primaryVES cl\<rparr>)"

definition switch_at :: "'n cworld \<Rightarrow> nat \<Rightarrow> 'n cworld" where
  "switch_at w c = w\<lparr>cw_clusters := (cw_clusters w)(c := switchCollector (cw_clusters w c))\<rparr>"

text \<open>
  The closure that \<open>perform\<close> retries captures a variable of type \<open>'x\<close> (the event or the batch).
  The loop may run for ever, so it is a partial function: \<open>None\<close> means that it does not return.
\<close>

type_synonym ('x, 'n) post = "'x \<Rightarrow> 'n cworld \<Rightarrow> nat option \<Rightarrow> ('x \<times> 'n cworld \<times> ves_error option) go"

definition perform_switch :: "'n cworld \<Rightarrow> nat \<Rightarrow> 'n cworld go" where
  "perform_switch w c =
     (if vc_activVES (cw_clusters w c) = None then Crash NilDeref else Ret (switch_at w c))"

partial_function (option) perform_loop ::
    "('x, 'n) post \<Rightarrow> nat \<Rightarrow> int \<Rightarrow> int \<Rightarrow> ves_error option \<Rightarrow> 'x \<Rightarrow> 'n cworld \<Rightarrow>
     ('x \<times> 'n cworld \<times> ves_error option) go option" where
  "perform_loop f c cid nbRetry err x w =
     (if nbRetry > vc_maxMissed (cw_clusters w c) then Some (Ret (x, w, err))
      else
        (case cw_objects w cid of
           None \<Rightarrow> Some (Crash NilDeref)
         | Some d \<Rightarrow>
             (case f x w (vc_activVES (cw_clusters w d)) of
                Crash e \<Rightarrow> Some (Crash e)
              | Ret r \<Rightarrow>
                  (case snd (snd r) of
                     None \<Rightarrow> Some (Ret r)
                   | Some e \<Rightarrow>
                       if nbRetry = vc_maxMissed (cw_clusters w c)
                       then (case perform_switch (fst (snd r)) c of
                               Crash e' \<Rightarrow> Some (Crash e')
                             | Ret w2 \<Rightarrow> perform_loop f c cid 1 (Some e) (fst r) w2)
                       else perform_loop f c cid (nbRetry + 1) (Some e) (fst r) (fst (snd r))))))"

definition perform ::
    "('x, 'n) post \<Rightarrow> nat \<Rightarrow> int \<Rightarrow> 'x \<Rightarrow> 'n cworld \<Rightarrow> ('x \<times> 'n cworld \<times> ves_error option) go option" where
  "perform f c cid x w =
     (if vc_activVES (cw_clusters w c) = None then Some (Crash NilDeref)
      else perform_loop f c cid 0 None x w)"

definition post_event_at :: "'n params \<Rightarrow> (Event, 'n) post" where
  "post_event_at P evt w p =
     (case p of
        None \<Rightarrow> Crash NilDeref
      | Some a \<Rightarrow>
          (let (ev, env, evt1, err) = evel_PostEvent P (cw_evels w a) (cw_env w) evt
           in Ret (evt1, w\<lparr>cw_env := env, cw_evels := (cw_evels w)(a := ev)\<rparr>, err)))"

definition post_batch_at :: "'n params \<Rightarrow> (Batch, 'n) post" where
  "post_batch_at P batch w p =
     (if batch = [] then Ret (batch, w, None)
      else case p of
             None \<Rightarrow> Crash NilDeref
           | Some a \<Rightarrow>
               go_bind (evel_PostBatch P (cw_evels w a) (cw_env w) batch) (\<lambda>(ev, env, batch1, err).
                 Ret (batch1, w\<lparr>cw_env := env, cw_evels := (cw_evels w)(a := ev)\<rparr>, err)))"

definition cluster_PostEvent ::
    "'n params \<Rightarrow> nat \<Rightarrow> Event \<Rightarrow> int \<Rightarrow> 'n cworld \<Rightarrow> (Event \<times> 'n cworld \<times> ves_error option) go option" where
  "cluster_PostEvent P c evt cid w = perform (post_event_at P) c cid evt w"

definition cluster_PostBatch ::
    "'n params \<Rightarrow> nat \<Rightarrow> Batch \<Rightarrow> int \<Rightarrow> 'n cworld \<Rightarrow> (Batch \<times> 'n cworld \<times> ves_error option) go option" where
  "cluster_PostBatch P c batch cid w = perform (post_batch_at P) c cid batch w"

section \<open>Switching\<close>

text \<open>The active collector is always one of the two.\<close>

definition cluster_ok :: "VCluster \<Rightarrow> bool" where
  "cluster_ok cl \<longleftrightarrow> vc_activVES cl \<noteq> None \<and>
     (vc_activVES cl = vc_primaryVES cl \<or> vc_activVES cl = vc_backupVES cl)"

lemma switchCollector_frame [simp]:
  "vc_maxMissed (switchCollector cl) = vc_maxMissed cl"
  "vc_primaryVES (switchCollector cl) = vc_primaryVES cl"
  "vc_backupVES (switchCollector cl) = vc_backupVES cl"
  "vc_retryInterval (switchCollector cl) = vc_retryInterval cl"
  by (simp_all add: switchCollector_def)

lemma switchCollector_ok: "cluster_ok cl \<Longrightarrow> cluster_ok (switchCollector cl)"
  by (auto simp: cluster_ok_def switchCollector_def isPrimaryActive_def)

lemma switchCollector_other:
  assumes "cluster_ok cl" and "vc_primaryVES cl \<noteq> None" and "vc_backupVES cl \<noteq> None"
    and "vc_primaryVES cl \<noteq> vc_backupVES cl"
  shows "vc_activVES (switchCollector cl) =
    (if vc_activVES cl = vc_primaryVES cl then vc_backupVES cl else vc_primaryVES cl)"
    and "switchCollector (switchCollector cl) = cl"
  using assms by (auto simp: cluster_ok_def switchCollector_def isPrimaryActive_def)

lemma switchCollector_alone:
  "cluster_ok cl \<Longrightarrow> vc_backupVES cl = None \<Longrightarrow> switchCollector cl = cl"
  by (auto simp: cluster_ok_def switchCollector_def isPrimaryActive_def)

text \<open>A row of failing posts at one address: \<open>n\<close> of them lead from the first value and world to the last.\<close>

primrec failed_posts :: "('x, 'n) post \<Rightarrow> nat \<Rightarrow> nat \<Rightarrow> 'x \<Rightarrow> 'n cworld \<Rightarrow> 'x \<Rightarrow> 'n cworld \<Rightarrow> bool" where
  "failed_posts f a 0 x w x' w' \<longleftrightarrow> x' = x \<and> w' = w"
| "failed_posts f a (Suc n) x w x' w' \<longleftrightarrow>
     (\<exists>x1 w1 e. f x w (Some a) = Ret (x1, w1, Some e) \<and> failed_posts f a n x1 w1 x' w')"

lemma failed_posts_snoc:
  "failed_posts f a n x w x1 w1 \<Longrightarrow> f x1 w1 (Some a) = Ret (x', w', Some e) \<Longrightarrow> failed_posts f a (Suc n) x w x' w'"
  by (induction n arbitrary: x w) auto

section \<open>Posting: the laws of the retried operation\<close>

text \<open>
  The laws that make the retry loop work, whatever is posted: a post touches no cluster and
  keeps the collector objects, and it can be told from the address alone whether it succeeds.
\<close>

locale post_op =
  fixes f :: "('x, 'n) post"
    and good :: "nat \<Rightarrow> bool"
    and ok :: "'x \<Rightarrow> 'n cworld \<Rightarrow> bool"
  assumes post_frame:
      "ok x w \<Longrightarrow> f x w (Some a) = Ret (x', w', err) \<Longrightarrow>
         cw_clusters w' = cw_clusters w \<and> cw_objects w' = cw_objects w \<and> ok x' w'"
    and post_returns: "ok x w \<Longrightarrow> \<exists>r. f x w (Some a) = Ret r"
    and post_good: "ok x w \<Longrightarrow> f x w (Some a) = Ret (x', w', err) \<Longrightarrow> err = None \<longleftrightarrow> good a"
    and ok_switch: "ok x w \<Longrightarrow> ok x (switch_at w c)"
begin

lemma loop_good:
  assumes "ok x w" and "cw_objects w cid = Some d" and "vc_activVES (cw_clusters w d) = Some a" and "good a"
    and "nb \<le> vc_maxMissed (cw_clusters w c)"
  shows "\<exists>x' w'. perform_loop f c cid nb er x w = Some (Ret (x', w', None)) \<and>
    f x w (Some a) = Ret (x', w', None)"
proof -
  obtain x' w' err where r: "f x w (Some a) = Ret (x', w', err)"
    using post_returns [OF assms(1), of a] by (metis prod_cases3)
  with post_good [OF assms(1) r] assms(4) have "err = None" by simp
  with assms r show ?thesis by (simp add: perform_loop.simps [of f c cid nb er x w])
qed

text \<open>One failed try before the last one: the same collector is tried again.\<close>

lemma loop_retry:
  assumes "ok x w" and "cw_objects w cid = Some d" and "vc_activVES (cw_clusters w d) = Some a"
    and "\<not> good a" and "nb < vc_maxMissed (cw_clusters w c)"
  shows "\<exists>x' w' e. perform_loop f c cid nb er x w = perform_loop f c cid (nb + 1) (Some e) x' w' \<and>
    f x w (Some a) = Ret (x', w', Some e) \<and> ok x' w' \<and> cw_clusters w' = cw_clusters w \<and> cw_objects w' = cw_objects w"
proof -
  obtain x' w' err where r: "f x w (Some a) = Ret (x', w', err)"
    using post_returns [OF assms(1), of a] by (metis prod_cases3)
  with post_good [OF assms(1) r] assms(4) obtain e where "err = Some e" by auto
  with assms r post_frame [OF assms(1) r] show ?thesis
    by (intro exI [of _ x'] exI [of _ w'] exI [of _ e]) (simp add: perform_loop.simps [of f c cid nb er x w])
qed

lemma loop_retries:
  assumes "ok x w" and "cw_objects w cid = Some d" and "vc_activVES (cw_clusters w d) = Some a"
    and "\<not> good a" and "nb \<le> vc_maxMissed (cw_clusters w c)"
  shows "\<exists>x' w' er'. perform_loop f c cid nb er x w =
      perform_loop f c cid (vc_maxMissed (cw_clusters w c)) er' x' w' \<and>
    failed_posts f a (nat (vc_maxMissed (cw_clusters w c) - nb)) x w x' w' \<and>
    ok x' w' \<and> cw_clusters w' = cw_clusters w \<and> cw_objects w' = cw_objects w"
  using assms
proof (induction k \<equiv> "nat (vc_maxMissed (cw_clusters w c) - nb)" arbitrary: nb er x w)
  case 0
  then have "nb = vc_maxMissed (cw_clusters w c)" by simp
  with 0 show ?case by (intro exI [of _ x] exI [of _ w] exI [of _ er]) simp
next
  case (Suc k)
  then have lt: "nb < vc_maxMissed (cw_clusters w c)" by simp
  from loop_retry [OF Suc.prems(1-4) lt] obtain x1 w1 e where
    1: "perform_loop f c cid nb er x w = perform_loop f c cid (nb + 1) (Some e) x1 w1"
      "f x w (Some a) = Ret (x1, w1, Some e)" "ok x1 w1"
      "cw_clusters w1 = cw_clusters w" "cw_objects w1 = cw_objects w" by blast
  have k: "k = nat (vc_maxMissed (cw_clusters w1 c) - (nb + 1))" using Suc.hyps(2) lt 1(4) by simp
  from Suc.hyps(1) [OF k 1(3)] Suc.prems(2-4) lt 1(4,5) k obtain x' w' er' where
    "perform_loop f c cid (nb + 1) (Some e) x1 w1 =
       perform_loop f c cid (vc_maxMissed (cw_clusters w1 c)) er' x' w'"
    "failed_posts f a k x1 w1 x' w'" "ok x' w'" "cw_clusters w' = cw_clusters w1" "cw_objects w' = cw_objects w1" by fastforce
  with 1 Suc.hyps(2) [symmetric] show ?case by auto
qed

lemma loop_last:
  assumes "ok x w" and "cw_objects w cid = Some d" and "vc_activVES (cw_clusters w d) = Some a"
    and "\<not> good a" and "vc_activVES (cw_clusters w c) \<noteq> None"
  shows "\<exists>x' w1 w' e. perform_loop f c cid (vc_maxMissed (cw_clusters w c)) er x w =
      perform_loop f c cid 1 (Some e) x' w' \<and> f x w (Some a) = Ret (x', w1, Some e) \<and>
    w' = switch_at w1 c \<and> ok x' w' \<and>
    cw_clusters w' = (cw_clusters w)(c := switchCollector (cw_clusters w c)) \<and> cw_objects w' = cw_objects w"
proof -
  obtain x' w' err where r: "f x w (Some a) = Ret (x', w', err)"
    using post_returns [OF assms(1), of a] by (metis prod_cases3)
  with post_good [OF assms(1) r] assms(4) obtain e where "err = Some e" by auto
  with assms r post_frame [OF assms(1) r] ok_switch [of x' w' c] show ?thesis
    by (intro exI [of _ x'] exI [of _ w'] exI [of _ "switch_at w' c"] exI [of _ e])
      (auto simp: perform_loop.simps [of f c cid "vc_maxMissed (cw_clusters w c)" er x w] perform_switch_def switch_at_def)
qed

text \<open>The first post goes to the active collector; if it succeeds nothing is switched.\<close>

lemma perform_good:
  assumes "ok x w" and "cw_objects w cid = Some c" and "vc_activVES (cw_clusters w c) = Some a" and "good a"
    and "0 \<le> vc_maxMissed (cw_clusters w c)"
  shows "\<exists>x' w'. perform f c cid x w = Some (Ret (x', w', None)) \<and> f x w (Some a) = Ret (x', w', None)"
  using loop_good [OF assms] assms(3) by (simp add: perform_def)

text \<open>A dead active collector with a live second one: after the first try and the retries the loop
  switches, and posts what the tries have left at the other collector, where it succeeds.\<close>

lemma perform_failover:
  assumes ok: "ok x w" and obj: "cw_objects w cid = Some c" and cl: "cluster_ok (cw_clusters w c)"
    and pb: "vc_primaryVES (cw_clusters w c) = Some p" "vc_backupVES (cw_clusters w c) = Some b" "p \<noteq> b"
    and a: "vc_activVES (cw_clusters w c) = Some a" and o: "o' = (if a = p then b else p)"
    and bad: "\<not> good a" and good: "good o'" and mm: "1 \<le> vc_maxMissed (cw_clusters w c)"
  shows "\<exists>x1 w1 x' w'. perform f c cid x w = Some (Ret (x', w', None)) \<and>
    failed_posts f a (Suc (nat (vc_maxMissed (cw_clusters w c)))) x w x1 w1 \<and> ok x1 (switch_at w1 c) \<and>
    f x1 (switch_at w1 c) (Some o') = Ret (x', w', None) \<and>
    cw_clusters w' = (cw_clusters w)(c := (cw_clusters w c)\<lparr>vc_activVES := Some o'\<rparr>) \<and>
    cw_objects w' = cw_objects w"
proof -
  from loop_retries [OF ok obj a bad, of 0 c None] mm obtain x1 w1 er1 where
    1: "perform_loop f c cid 0 None x w = perform_loop f c cid (vc_maxMissed (cw_clusters w c)) er1 x1 w1"
      "failed_posts f a (nat (vc_maxMissed (cw_clusters w c))) x w x1 w1"
      "ok x1 w1" "cw_clusters w1 = cw_clusters w" "cw_objects w1 = cw_objects w" by auto
  from loop_last [OF 1(3), where c = c and cid = cid and d = c and a = a and er = er1] 1(4,5) obj a bad
  obtain x2 w2 e where
    2: "perform_loop f c cid (vc_maxMissed (cw_clusters w c)) er1 x1 w1 = perform_loop f c cid 1 (Some e) x2 (switch_at w2 c)"
      "f x1 w1 (Some a) = Ret (x2, w2, Some e)" "ok x2 (switch_at w2 c)"
      "cw_clusters (switch_at w2 c) = (cw_clusters w)(c := switchCollector (cw_clusters w c))"
      "cw_objects (switch_at w2 c) = cw_objects w" by auto
  note tries = failed_posts_snoc [OF 1(2) 2(2)]
  have sw: "switchCollector (cw_clusters w c) = (cw_clusters w c)\<lparr>vc_activVES := Some o'\<rparr>"
    using cl pb a o by (auto simp: switchCollector_def isPrimaryActive_def cluster_ok_def)
  obtain x3 w3 where
    3: "perform_loop f c cid 1 (Some e) x2 (switch_at w2 c) = Some (Ret (x3, w3, None))"
      "f x2 (switch_at w2 c) (Some o') = Ret (x3, w3, None)"
    using loop_good [OF 2(3), where c = c and cid = cid and d = c and a = o' and er = "Some e" and nb = 1]
      2(4,5) sw obj good mm by auto
  have "perform f c cid x w = Some (Ret (x3, w3, None))" using 1(1) 2(1) 3(1) a by (simp add: perform_def)
  with post_frame [OF 2(3) 3(2)] tries 2(3-5) 3(2) sw show ?thesis
    by (intro exI [of _ x2] exI [of _ w2] exI [of _ x3] exI [of _ w3]) simp
qed

text \<open>With no live collector and at least one retry configured the loop does not return.\<close>

definition hopeless :: "nat \<Rightarrow> int \<Rightarrow> int \<Rightarrow> 'x \<Rightarrow> 'n cworld \<Rightarrow> bool" where
  "hopeless c cid nb x w \<longleftrightarrow> ok x w \<and> cw_objects w cid = Some c \<and> cluster_ok (cw_clusters w c) \<and>
     1 \<le> vc_maxMissed (cw_clusters w c) \<and> nb \<le> vc_maxMissed (cw_clusters w c) \<and> (\<forall>a. \<not> good a)"

text \<open>One pass of the loop leads from a hopeless state to a hopeless state.\<close>

lemma hopeless_step:
  assumes "hopeless c cid nb x w"
  obtains a x' w' e where "vc_activVES (cw_clusters w c) = Some a" and "f x w (Some a) = Ret (x', w', Some e)"
    and "nb < vc_maxMissed (cw_clusters w c) \<longrightarrow> hopeless c cid (nb + 1) x' w'"
    and "perform_switch w' c = Ret (switch_at w' c)" and "hopeless c cid 1 x' (switch_at w' c)"
proof -
  from assms obtain a where a: "vc_activVES (cw_clusters w c) = Some a" and ok: "ok x w"
    by (auto simp: hopeless_def cluster_ok_def)
  obtain x' w' err where r: "f x w (Some a) = Ret (x', w', err)"
    using post_returns [OF ok, of a] by (metis prod_cases3)
  with post_good [OF ok r] assms obtain e where e: "err = Some e" by (auto simp: hopeless_def)
  note fr = post_frame [OF ok r]
  show ?thesis
  proof (rule that [OF a])
    show "f x w (Some a) = Ret (x', w', Some e)" using r e by simp
    show "nb < vc_maxMissed (cw_clusters w c) \<longrightarrow> hopeless c cid (nb + 1) x' w'"
      using assms fr by (simp add: hopeless_def)
    show "perform_switch w' c = Ret (switch_at w' c)" using a fr by (simp add: perform_switch_def)
    show "hopeless c cid 1 x' (switch_at w' c)"
      using assms fr ok_switch [of x' w' c] switchCollector_ok [of "cw_clusters w c"]
      by (simp add: hopeless_def switch_at_def)
  qed
qed

lemma loop_diverges:
  assumes "perform_loop f c cid nb er x w = Some r"
  shows "\<not> hopeless c cid nb x w"
proof -
  define P where "P = (\<lambda>g c cid nb (er :: ves_error option) x w
      (r :: ('x \<times> 'n cworld \<times> ves_error option) go). g = f \<longrightarrow> \<not> hopeless c cid nb x w)"
  have "P f c cid nb er x w r"
  proof (rule perform_loop.raw_induct [of P "((((((f, c), cid), nb), er), x), w)" r, unfolded split_conv], goal_cases)
    case (1 L g c cid nb er x w r)
    show ?case unfolding P_def
    proof (intro impI notI)
      assume g: "g = f" and h: "hopeless c cid nb x w"
      from h obtain a x' w' e where s: "vc_activVES (cw_clusters w c) = Some a" "f x w (Some a) = Ret (x', w', Some e)"
        "nb < vc_maxMissed (cw_clusters w c) \<longrightarrow> hopeless c cid (nb + 1) x' w'"
        "perform_switch w' c = Ret (switch_at w' c)" "hopeless c cid 1 x' (switch_at w' c)"
        by (rule hopeless_step)
      have "nb \<le> vc_maxMissed (cw_clusters w c)" "cw_objects w cid = Some c" using h by (auto simp: hopeless_def)
      then show False using 1 s g by (cases "nb = vc_maxMissed (cw_clusters w c)") (auto simp: P_def)
    qed
  qed (rule assms)
  then show ?thesis by (simp add: P_def)
qed

lemma perform_diverges:
  assumes "ok x w" and "cw_objects w cid = Some c" and "cluster_ok (cw_clusters w c)"
    and "1 \<le> vc_maxMissed (cw_clusters w c)" and "\<forall>a. \<not> good a"
  shows "perform f c cid x w = None"
proof (cases "perform f c cid x w")
  case (Some r)
  with assms(3) have "perform_loop f c cid 0 None x w = Some r" by (auto simp: perform_def cluster_ok_def)
  from loop_diverges [OF this] assms show ?thesis by (auto simp: hopeless_def)
qed

text \<open>With no retry configured the first failure switches and is returned.\<close>

lemma perform_no_retry:
  assumes ok: "ok x w" and obj: "cw_objects w cid = Some c"
    and a: "vc_activVES (cw_clusters w c) = Some a" and bad: "\<not> good a"
    and mm: "vc_maxMissed (cw_clusters w c) = 0"
  shows "\<exists>x' w' e. perform f c cid x w = Some (Ret (x', w', Some e)) \<and>
    cw_clusters w' = (cw_clusters w)(c := switchCollector (cw_clusters w c))"
proof -
  from loop_last [OF ok obj a bad, of c None] a mm obtain x' w' e where
    1: "perform_loop f c cid 0 None x w = perform_loop f c cid 1 (Some e) x' w'"
      "cw_clusters w' = (cw_clusters w)(c := switchCollector (cw_clusters w c))" by auto
  have "perform_loop f c cid 1 (Some e) x' w' = Some (Ret (x', w', Some e))"
    using 1(2) mm by (simp add: perform_loop.simps [of f c cid 1 "Some e" x' w'])
  with 1 a show ?thesis by (auto simp: perform_def)
qed

end

section \<open>Events over a network\<close>

text \<open>
  The network seen by the client: a host either answers every request with a 2xx status or
  none (\<open>up\<close>), and the request for the event can be built at every connection. The event is posted
  with a reporting entity of one of the connections filled in: \<open>stamped\<close>.
\<close>

definition reply_ok :: "string + Response \<Rightarrow> bool" where
  "reply_ok r = (case r of Inl _ \<Rightarrow> False | Inr resp \<Rightarrow> 200 \<le> rs_StatusCode resp \<and> rs_StatusCode resp < 300)"

definition net_up :: "'n params \<Rightarrow> (string \<Rightarrow> bool) \<Rightarrow> bool" where
  "net_up P up \<longleftrightarrow> (\<forall>n r. reply_ok (snd (pr_send P n r)) \<longleftrightarrow> up (url_Host (rq_URL r)))"

definition evel_host :: "Evel \<Rightarrow> string" where
  "evel_host e = url_Host (cli_baseURL (ev_client e))"

definition evel_stamp :: "Evel \<Rightarrow> Event \<Rightarrow> Event" where
  "evel_stamp e x = set_entity_id (ev_reportingEntityID e) (set_entity_name (ev_reportingEntityName e) x)"

definition stamped :: "(nat \<Rightarrow> Evel) \<Rightarrow> Event set \<Rightarrow> Event set" where
  "stamped evels S = {set_entity_id (ev_reportingEntityID (evels a)) (set_entity_name (ev_reportingEntityName (evels b)) x) |
     a b x. x \<in> S}"

definition event_link ::
    "'n params \<Rightarrow> (string \<Rightarrow> bool) \<Rightarrow> (nat \<Rightarrow> bool) \<Rightarrow> Event \<Rightarrow> 'n cworld \<Rightarrow> bool" where
  "event_link P up good x w \<longleftrightarrow> net_up P up \<and> (\<forall>a. good a = up (evel_host (cw_evels w a))) \<and>
     (\<forall>a. \<forall>y \<in> stamped (cw_evels w) {x}.
        \<exists>rq. CreateJSONPostRequest P (ev_client (cw_evels w a)) (ev_topic (cw_evels w a)) (EventReq y) = Inr rq)"

lemma DecodeVESResponse_ok: "isl (DecodeVESResponse resp) \<longleftrightarrow> \<not> reply_ok (Inr resp)"
  by (auto simp: DecodeVESResponse_def reply_ok_def IsError_def GetError_def Let_def split: list.splits)

lemma CreateJSONPostRequest_host:
  "CreateJSONPostRequest P ves path d = Inr r \<Longrightarrow> url_Host (rq_URL r) = url_Host (cli_baseURL ves)"
  by (auto simp: CreateJSONPostRequest_def Let_def split: option.splits if_splits)

lemma doPost_up:
  assumes "net_up P up" and "CreateJSONPostRequest P (ev_client e) path d = Inr rq"
    and "doPost P e env path d = (e', env', err)"
  shows "err = None \<longleftrightarrow> up (evel_host e)"
proof -
  obtain n res where s: "pr_send P (env_net env) rq = (n, res)" by fastforce
  have "reply_ok res \<longleftrightarrow> up (evel_host e)"
    using assms(1) s CreateJSONPostRequest_host [OF assms(2)] unfolding net_up_def evel_host_def by (metis snd_conv)
  moreover have "err = None \<longleftrightarrow> reply_ok res"
  proof (cases res)
    case (Inl m)
    with assms(2,3) s show ?thesis by (auto simp: doPost_def PostJSON_def SendRequest_def Let_def reply_ok_def)
  next
    case (Inr resp)
    with assms(2,3) s DecodeVESResponse_ok [of resp] show ?thesis
      by (cases "DecodeVESResponse resp") (auto simp: doPost_def PostJSON_def SendRequest_def Let_def split: prod.splits)
  qed
  ultimately show ?thesis by simp
qed

lemma doPost_frame2:
  "doPost P evel env path req = (evel', env', err) \<Longrightarrow> ev_topic evel' = ev_topic evel"
  using foldl_processCommand_frame
  by (fastforce simp: doPost_def processCommands_def Let_def split: prod.splits sum.splits if_splits)

lemma set_entity_twice:
  "set_entity_id i2 (set_entity_name n2 (set_entity_id i1 (set_entity_name n1 x))) =
     set_entity_id (if i1 = [] then i2 else i1) (set_entity_name (if n1 = [] then n2 else n1) x)"
  by (auto simp: set_entity_id_def set_entity_name_def header_entity_swap)

text \<open>Filling in twice is filling in once, with what one of the connections has.\<close>

lemma evel_stamp_stamped: "x \<in> S \<Longrightarrow> evel_stamp (evels a) x \<in> stamped evels S"
  by (auto simp: stamped_def evel_stamp_def)

lemma stamped_again:
  assumes "x \<in> stamped evels S"
  shows "set_entity_id (ev_reportingEntityID (evels c)) (set_entity_name (ev_reportingEntityName (evels d)) x) \<in> stamped evels S"
proof -
  from assms obtain a b y where "y \<in> S"
    "x = set_entity_id (ev_reportingEntityID (evels a)) (set_entity_name (ev_reportingEntityName (evels b)) y)"
    by (auto simp: stamped_def)
  then have "set_entity_id (ev_reportingEntityID (evels c)) (set_entity_name (ev_reportingEntityName (evels d)) x) =
      set_entity_id (ev_reportingEntityID (evels (if ev_reportingEntityID (evels a) = [] then c else a)))
        (set_entity_name (ev_reportingEntityName (evels (if ev_reportingEntityName (evels b) = [] then d else b))) y)"
    by (simp add: set_entity_twice)
  with \<open>y \<in> S\<close> show ?thesis unfolding stamped_def by blast
qed

lemma evel_stamp_closed: "x \<in> stamped evels S \<Longrightarrow> evel_stamp (evels a) x \<in> stamped evels S"
  unfolding evel_stamp_def by (rule stamped_again)

lemma evel_stamp_idem [simp]: "evel_stamp e (evel_stamp e x) = evel_stamp e x"
  by (simp add: evel_stamp_def set_entity_twice)

lemma stamped_twice: "stamped evels (stamped evels S) \<subseteq> stamped evels S"
proof
  fix x
  assume "x \<in> stamped evels (stamped evels S)"
  then obtain c d y where "y \<in> stamped evels S"
    "x = set_entity_id (ev_reportingEntityID (evels c)) (set_entity_name (ev_reportingEntityName (evels d)) y)"
    unfolding stamped_def by blast
  then show "x \<in> stamped evels S" using stamped_again by blast
qed

lemma stamped_mono: "S \<subseteq> T \<Longrightarrow> stamped evels S \<subseteq> stamped evels T"
  by (auto simp: stamped_def)

lemma stamped_conn: "(\<And>a. same_conn (e1 a) (e2 a)) \<Longrightarrow> stamped e1 S = stamped e2 S"
  by (simp add: stamped_def same_conn_def)

lemma evel_stamp_conn: "same_conn a b \<Longrightarrow> evel_stamp a = evel_stamp b"
  by (rule ext) (simp add: same_conn_def evel_stamp_def)

lemma same_conn_refl [simp]: "same_conn a a"
  by (simp add: same_conn_def)

lemma evel_update_batch_stamp: "evel_update_batch evel = map (evel_stamp evel)"
  by (rule ext) (simp add: evel_update_batch_eq evel_stamp_def comp_def)

text \<open>The connections of two worlds that may differ in their intervals only.\<close>

definition same_evels :: "'n cworld \<Rightarrow> 'n cworld \<Rightarrow> bool" where
  "same_evels w w' \<longleftrightarrow> (\<forall>a. same_conn (cw_evels w a) (cw_evels w' a) \<and> ev_topic (cw_evels w a) = ev_topic (cw_evels w' a))"

lemma same_evels_trans: "same_evels u v \<Longrightarrow> same_evels v w \<Longrightarrow> same_evels u w"
  by (simp add: same_evels_def same_conn_def)

lemma same_evels_switch [simp]: "same_evels w (switch_at w c)"
  by (simp add: same_evels_def switch_at_def)

text \<open>One post at a connection: the event is stamped and exactly one request is sent, which carries it.\<close>

lemma post_event_at_Some:
  assumes "event_link P up good x w" and "post_event_at P x w (Some a) = Ret (x', w', err)"
  shows "cw_clusters w' = cw_clusters w \<and> cw_objects w' = cw_objects w \<and> event_link P up good x' w' \<and>
      (err = None \<longleftrightarrow> good a)"
    and "same_evels w w' \<and> x' = evel_stamp (cw_evels w a) x \<and>
      (\<exists>rq. CreateJSONPostRequest P (ev_client (cw_evels w a)) (ev_topic (cw_evels w a)) (EventReq x') = Inr rq \<and>
        env_sent (cw_env w') = env_sent (cw_env w) @ [rq])"
proof -
  let ?e = "cw_evels w a"
  let ?x = "evel_stamp ?e x"
  obtain ev env er where d: "doPost P ?e (cw_env w) (ev_topic ?e) (EventReq ?x) = (ev, env, er)"
    by (metis prod_cases3)
  have w': "w' = w\<lparr>cw_env := env, cw_evels := (cw_evels w)(a := ev)\<rparr>" "x' = ?x" "err = er"
    using assms(2) d by (auto simp: post_event_at_def evel_PostEvent_def evel_stamp_def Let_def)
  have ev: "same_conn ?e ev" "ev_topic ev = ev_topic ?e"
    using doPost_frame [OF d] doPost_frame2 [OF d] by (auto simp: same_conn_def)
  then have same: "same_evels w w'" by (simp add: same_evels_def w')
  obtain rq where rq: "CreateJSONPostRequest P (ev_client ?e) (ev_topic ?e) (EventReq ?x) = Inr rq"
    using assms(1) evel_stamp_stamped [of x "{x}" "cw_evels w" a] unfolding event_link_def by blast
  from doPost_up [OF _ rq d] assms(1) have err: "err = None \<longleftrightarrow> good a" by (simp add: event_link_def w')
  have "stamped (cw_evels w') {x'} = stamped (cw_evels w) {x'}"
    by (rule stamped_conn) (use same in \<open>auto simp: same_evels_def same_conn_def\<close>)
  moreover have "x' \<in> stamped (cw_evels w) {x}" unfolding w' by (rule evel_stamp_stamped) simp
  ultimately have "stamped (cw_evels w') {x'} \<subseteq> stamped (cw_evels w) {x}"
    using stamped_mono [of "{x'}" "stamped (cw_evels w) {x}" "cw_evels w"] stamped_twice [of "cw_evels w" "{x}"] by auto
  moreover have "evel_host (cw_evels w' b) = evel_host (cw_evels w b) \<and> ev_client (cw_evels w' b) = ev_client (cw_evels w b) \<and>
      ev_topic (cw_evels w' b) = ev_topic (cw_evels w b)" for b
    using same by (simp add: same_evels_def same_conn_def evel_host_def)
  ultimately have "event_link P up good x' w'" using assms(1) unfolding event_link_def by (simp add: subset_iff)
  with err show "cw_clusters w' = cw_clusters w \<and> cw_objects w' = cw_objects w \<and> event_link P up good x' w' \<and>
      (err = None \<longleftrightarrow> good a)" by (simp add: w')
  show "same_evels w w' \<and> x' = ?x \<and> (\<exists>rq. CreateJSONPostRequest P (ev_client ?e) (ev_topic ?e) (EventReq x') = Inr rq \<and>
        env_sent (cw_env w') = env_sent (cw_env w) @ [rq])"
    using same rq doPost_sent [OF d] by (simp add: w')
qed

interpretation pe: post_op "post_event_at P" good "event_link P up good"
proof unfold_locales
  fix x w a x' w' err
  assume l: "event_link P up good x w"
  show "\<exists>r. post_event_at P x w (Some a) = Ret r" by (simp add: post_event_at_def split: prod.splits)
  assume p: "post_event_at P x w (Some a) = Ret (x', w', err)"
  from post_event_at_Some(1) [OF l p]
  show "cw_clusters w' = cw_clusters w \<and> cw_objects w' = cw_objects w \<and> event_link P up good x' w'"
    and "err = None \<longleftrightarrow> good a" by simp_all
next
  show "event_link P up good x w \<Longrightarrow> event_link P up good x (switch_at w c)" for x w c
    by (simp add: event_link_def switch_at_def)
qed

text \<open>A row of failed posts of an event: one request each to the host of the connection.\<close>

lemma failed_event_posts:
  assumes "failed_posts (post_event_at P) a n x w x' w'" and "event_link P up good x w"
  shows "same_evels w w' \<and> (n > 0 \<longrightarrow> x' = evel_stamp (cw_evels w a) x) \<and>
    (\<exists>reqs. env_sent (cw_env w') = env_sent (cw_env w) @ reqs \<and> length reqs = n \<and>
      (\<forall>q \<in> set reqs. CreateJSONPostRequest P (ev_client (cw_evels w a)) (ev_topic (cw_evels w a))
         (EventReq (evel_stamp (cw_evels w a) x)) = Inr q))"
  using assms
proof (induction n arbitrary: x w)
  case 0
  then show ?case by (simp add: same_evels_def)
next
  case (Suc n)
  let ?e = "cw_evels w a"
  from Suc.prems(1) obtain x1 w1 e where
    p: "post_event_at P x w (Some a) = Ret (x1, w1, Some e)" "failed_posts (post_event_at P) a n x1 w1 x' w'" by auto
  have l: "event_link P up good x1 w1" using post_event_at_Some(1) [OF Suc.prems(2) p(1)] by simp
  from post_event_at_Some(2) [OF Suc.prems(2) p(1)] obtain rq where
    1: "same_evels w w1" "x1 = evel_stamp ?e x" "env_sent (cw_env w1) = env_sent (cw_env w) @ [rq]"
      "CreateJSONPostRequest P (ev_client ?e) (ev_topic ?e) (EventReq (evel_stamp ?e x)) = Inr rq" by auto
  have c: "ev_client (cw_evels w1 a) = ev_client ?e" "ev_topic (cw_evels w1 a) = ev_topic ?e"
    "evel_stamp (cw_evels w1 a) = evel_stamp ?e"
    using 1(1) evel_stamp_conn [of "cw_evels w1 a" ?e] by (simp_all add: same_evels_def same_conn_def)
  from Suc.IH [OF p(2) l] obtain reqs where
    2: "same_evels w1 w'" "n > 0 \<longrightarrow> x' = x1" "env_sent (cw_env w') = env_sent (cw_env w1) @ reqs" "length reqs = n"
      "\<forall>q \<in> set reqs. CreateJSONPostRequest P (ev_client ?e) (ev_topic ?e) (EventReq (evel_stamp ?e x)) = Inr q"
    unfolding c 1(2) by auto
  have "x' = x1" using 2(2) p(2) by (cases n) auto
  with 1 2 same_evels_trans [OF 1(1) 2(1)] show ?case by (auto intro!: exI [of _ "rq # reqs"])
qed

end
