(* ===== verification/Collector_Properties.thy ===== *)
theory Collector_Properties
  imports Collector_Cluster
begin

text \<open>
  The properties of the connection to the collectors: batches are cut to the size limit without
  losing or repeating an event, a dead collector is replaced by the other one, when a post returns,
  and how the commands in an answer change the intervals.
\<close>

section \<open>A sample network\<close>

text \<open>Hosts whose name starts with ''up'' answer 200; every event of a batch costs ten bytes.\<close>

definition sample_params :: "unit params" where
  "sample_params = \<lparr>pr_validate = (\<lambda>_. None), pr_encode_error = (\<lambda>_. None),
     pr_encode = (\<lambda>d. replicate (10 * (case d of EventReq _ \<Rightarrow> 1 | BatchReq b \<Rightarrow> length b)) (CHR ''x'')),
     pr_newreq = (\<lambda>_. None),
     pr_send = (\<lambda>n r. (n, if HasPrefix (url_Host (rq_URL r)) ''up''
       then Inr \<lparr>rs_StatusCode = 200, rs_ContentType = [], rs_decoded = \<lparr>vr_CommandList = [], vr_RequestError = []\<rparr>\<rparr>
       else Inl ''connection refused''))\<rparr>"

definition sample_url :: "string \<Rightarrow> URL" where
  "sample_url h = \<lparr>url_Scheme = ''http'', url_Host = h, url_Path = ''/eventListener/v7'', url_User = None\<rparr>"

definition sample_evel :: "string \<Rightarrow> int \<Rightarrow> Evel" where
  "sample_evel h mx = \<lparr>ev_baseURL = sample_url h, ev_topic = [], ev_heartbeatInterval = 0, ev_measurementInterval = 0,
     ev_reportingEntityName = ''re'', ev_reportingEntityID = ''1'',
     ev_client = \<lparr>cli_baseURL = sample_url h, cli_schema = True, cli_maxBodySize = mx\<rparr>,
     ev_measIntCh = [], ev_hbIntCh = []\<rparr>"

definition sample_env :: "unit env" where
  "sample_env = \<lparr>env_chans = (\<lambda>_. \<lparr>ch_cap = 1, ch_buf = []\<rparr>), env_net = (), env_sent = []\<rparr>"

definition sample_world :: "string \<Rightarrow> string \<Rightarrow> int \<Rightarrow> unit cworld" where
  "sample_world h1 h2 mx = \<lparr>cw_env = sample_env,
     cw_evels = (\<lambda>a. if a = 0 then sample_evel h1 15 else sample_evel h2 15), cw_nevels = 2,
     cw_clusters = (\<lambda>_. \<lparr>vc_activVES = Some 0, vc_primaryVES = Some 0, vc_backupVES = Some 1,
       vc_maxMissed = mx, vc_retryInterval = 0\<rparr>), cw_nclusters = 1, cw_objects = [7 \<mapsto> 0]\<rparr>"

lemma sample_create:
  "CreateJSONPostRequest sample_params ves path (BatchReq b) =
     (if 0 < cli_maxBodySize ves \<and> cli_maxBodySize ves < 10 * int (length b) then Inl ErrBodyTooLarge
      else Inr \<lparr>rq_URL = (cli_baseURL ves)\<lparr>url_Path := path_Join (url_Path (cli_baseURL ves)) path\<rparr>,
        rq_Body = replicate (10 * length b) (CHR ''x''), rq_BasicAuth = url_User (cli_baseURL ves),
        rq_ContentLength = 10 * int (length b),
        rq_Header = [''Content-Type'' \<mapsto> ''application/json'', ''Accept'' \<mapsto> ''application/json'']\<rparr>)"
  by (simp add: CreateJSONPostRequest_def ValidateWithSchema_def sample_params_def Let_def)

definition sample_event :: Event where
  "sample_event = EvHeartbeat (NewHeartbeat 0 ''id'' ''name'' [] ''vm'' 60 [])"

section \<open>Batches over a network\<close>

text \<open>Every batch of the given events can be built or is too large, and a single event is never too large.\<close>

definition batch_buildable :: "'n params \<Rightarrow> VESClient \<Rightarrow> Event set \<Rightarrow> bool" where
  "batch_buildable P ves E \<longleftrightarrow> (\<forall>b. b \<noteq> [] \<longrightarrow> set b \<subseteq> E \<longrightarrow>
     (case CreateJSONPostRequest P ves ''eventBatch'' (BatchReq b) of
        Inr _ \<Rightarrow> True | Inl e \<Rightarrow> e = ErrBodyTooLarge \<and> 1 < length b))"

lemma evel_update_batch_Nil [simp]: "evel_update_batch evel b = [] \<longleftrightarrow> b = []"
  by (simp add: evel_update_batch_eq)

lemma evel_PostBatch_up:
  assumes "net_up P up" and "batch_buildable P (ev_client evel) E" and "batch \<noteq> []"
    and "set (evel_update_batch evel batch) \<subseteq> E"
  shows "\<exists>evel' env' b' err. evel_PostBatch P evel env batch = Ret (evel', env', b', err) \<and>
    (err = None \<longleftrightarrow> up (evel_host evel))"
  using assms
proof (induction P evel env batch rule: evel_PostBatch.induct)
  case (1 P evel env batch)
  let ?b = "evel_update_batch evel batch"
  obtain evel1 env1 err where d: "doPost P evel env ''eventBatch'' (BatchReq ?b) = (evel1, env1, err)"
    by (metis prod_cases3)
  obtain b1 b2 where sp: "batch_Split ?b = (b1, b2)" by fastforce
  have bne: "?b \<noteq> []" using "1.prems"(3) by simp
  show ?case
  proof (cases "CreateJSONPostRequest P (ev_client evel) ''eventBatch'' (BatchReq ?b)")
    case (Inr rq)
    have "err = None \<longleftrightarrow> up (evel_host evel)" using doPost_up [OF "1.prems"(1) Inr d] .
    moreover have "err \<noteq> Some ErrBodyTooLarge" using doPost_sent [OF d] Inr by simp
    ultimately show ?thesis using "1.prems"(3) d by (simp add: evel_PostBatch.simps [of P evel env batch])
  next
    case (Inl e)
    then have e: "e = ErrBodyTooLarge" "1 < length ?b"
      using "1.prems"(2,4) bne unfolding batch_buildable_def by (force split: sum.splits)+
    have ee: "env1 = env" "evel1 = evel" "err = Some ErrBodyTooLarge" using doPost_sent [OF d] Inl e by auto
    have ne: "\<not> (b1 = [] \<or> b2 = [])" using batch_Split_stuck [OF sp] e(2) by auto
    note IH = "1.IH" [OF "1.prems"(3) refl refl d [symmetric] refl ee(3) refl sp [symmetric] ne]
    have "evel_update_batch evel b1 @ evel_update_batch evel b2 = ?b"
      using arg_cong [OF batch_Split_append [OF sp], of "evel_update_batch evel"] by simp
    then have sub: "set (evel_update_batch evel b1) \<subseteq> E" "set (evel_update_batch evel b2) \<subseteq> E"
      using "1.prems"(4) by (metis Un_subset_iff set_append)+
    obtain evel2 env2 b1' err1 where p1: "evel_PostBatch P evel env b1 = Ret (evel2, env2, b1', err1)"
      "err1 = None \<longleftrightarrow> up (evel_host evel)" using IH(1) "1.prems" sub ee ne by auto
    have sc: "same_conn evel evel2" using evel_PostBatch_outcome [OF p1(1)] by (simp add: batch_outcome_def)
    then have "batch_buildable P (ev_client evel2) E" "b2 \<noteq> []" "evel_host evel2 = evel_host evel"
      "set (evel_update_batch evel2 b2) \<subseteq> E"
      using "1.prems"(2) ne sub(2) evel_update_batch_conn [OF sc] by (simp_all add: evel_host_def same_conn_def)
    then have "err1 = None \<Longrightarrow> \<exists>evel3 env3 b2' err2. evel_PostBatch P evel2 env2 b2 = Ret (evel3, env3, b2', err2) \<and>
        (err2 = None \<longleftrightarrow> up (evel_host evel))"
      using IH(2) "1.prems"(1) by metis
    then show ?thesis using "1.prems"(3) d sp ne p1 ee
      by (cases err1) (auto simp: evel_PostBatch.simps [of P evel env batch])
  qed
qed

definition batch_link ::
    "'n params \<Rightarrow> (string \<Rightarrow> bool) \<Rightarrow> (nat \<Rightarrow> bool) \<Rightarrow> Batch \<Rightarrow> 'n cworld \<Rightarrow> bool" where
  "batch_link P up good x w \<longleftrightarrow> x \<noteq> [] \<and> net_up P up \<and> (\<forall>a. good a = up (evel_host (cw_evels w a))) \<and>
     (\<forall>a. batch_buildable P (ev_client (cw_evels w a)) (stamped (cw_evels w) (set x)))"

lemma batch_link_post:
  assumes "batch_link P up good x w"
  obtains ev env b er where "evel_PostBatch P (cw_evels w a) (cw_env w) x = Ret (ev, env, b, er)"
    and "er = None \<longleftrightarrow> up (evel_host (cw_evels w a))" and "x \<noteq> []"
proof -
  have x: "x \<noteq> []" "net_up P up" "batch_buildable P (ev_client (cw_evels w a)) (stamped (cw_evels w) (set x))"
    using assms by (simp_all add: batch_link_def)
  have "set (evel_update_batch (cw_evels w a) x) \<subseteq> stamped (cw_evels w) (set x)"
    using evel_stamp_stamped [of _ "set x" "cw_evels w" a] by (auto simp: evel_update_batch_stamp)
  from evel_PostBatch_up [OF x(2,3,1) this, of "cw_env w"] x(1) that show thesis by blast
qed

lemma post_batch_at_Some:
  assumes l: "batch_link P up good x w" and p: "post_batch_at P x w (Some a) = Ret (x', w', err)"
  shows "cw_clusters w' = cw_clusters w \<and> cw_objects w' = cw_objects w \<and> batch_link P up good x' w' \<and>
    (err = None \<longleftrightarrow> good a)"
proof -
  from l obtain ev env b er where
    r: "evel_PostBatch P (cw_evels w a) (cw_env w) x = Ret (ev, env, b, er)"
      "er = None \<longleftrightarrow> up (evel_host (cw_evels w a))" "x \<noteq> []" by (rule batch_link_post)
  have w': "w' = w\<lparr>cw_env := env, cw_evels := (cw_evels w)(a := ev)\<rparr>" "x' = b" "err = er"
    using p r by (auto simp: post_batch_at_def)
  have b: "same_conn (cw_evels w a) ev" "b = map (evel_stamp (cw_evels w a)) x"
    using evel_PostBatch_outcome [OF r(1)] by (auto simp: batch_outcome_def evel_update_batch_stamp)
  have "stamped (cw_evels w') (set x') = stamped (cw_evels w) (set x')"
    by (rule stamped_conn) (use b(1) in \<open>simp add: w' same_conn_def\<close>)
  moreover have "set x' \<subseteq> stamped (cw_evels w) (set x)"
    using evel_stamp_stamped [of _ "set x" "cw_evels w" a] by (auto simp: w' b(2))
  ultimately have sub: "stamped (cw_evels w') (set x') \<subseteq> stamped (cw_evels w) (set x)"
    using stamped_mono [of "set x'" "stamped (cw_evels w) (set x)" "cw_evels w"]
      stamped_twice [of "cw_evels w" "set x"] by (metis order_trans)
  have "b \<noteq> []" "\<And>c. ev_client (cw_evels w' c) = ev_client (cw_evels w c)"
    using r(3) b by (simp_all add: w' same_conn_def)
  with l sub have "batch_link P up good x' w'"
    unfolding batch_link_def evel_host_def batch_buildable_def by (simp add: w'(2) subset_iff)
  with l r(2) show ?thesis by (simp add: w' batch_link_def)
qed

interpretation pb: post_op "post_batch_at P" good "batch_link P up good"
proof unfold_locales
  fix x w a x' w' err
  assume l: "batch_link P up good x w"
  then obtain ev env b er where
    "evel_PostBatch P (cw_evels w a) (cw_env w) x = Ret (ev, env, b, er)" "x \<noteq> []" by (rule batch_link_post)
  then show "\<exists>r. post_batch_at P x w (Some a) = Ret r" by (simp add: post_batch_at_def)
  assume p: "post_batch_at P x w (Some a) = Ret (x', w', err)"
  from post_batch_at_Some [OF l p]
  show "cw_clusters w' = cw_clusters w \<and> cw_objects w' = cw_objects w \<and> batch_link P up good x' w'"
    and "err = None \<longleftrightarrow> good a" by simp_all
next
  show "batch_link P up good x w \<Longrightarrow> batch_link P up good x (switch_at w c)" for x w c
    by (simp add: batch_link_def switch_at_def)
qed

section \<open>Batches\<close>

lemma sent_parts_size:
  assumes "sent_parts P ves parts reqs" and "cli_maxBodySize ves > 0" and "r \<in> set reqs"
  shows "int (length (rq_Body r)) \<le> cli_maxBodySize ves"
  using assms CreateJSONPostRequest_size [of P ves "''eventBatch''"]
  by (fastforce simp: sent_parts_def list_all2_conv_all_nth in_set_conv_nth)

text \<open>C3: Posting a batch ends in one of two ways. It returns: then the requests sent are for consecutive
  parts of the batch (with the reporting entity filled in), in order and each within the size limit, and
  together they are the whole batch if there was no error and a prefix of it otherwise, so no event is
  sent twice. Or it panics: then some single event of the batch is by itself larger than the limit.\<close>

theorem batch_sent_exactly_once:
  "case evel_PostBatch P evel env batch of
     Crash p \<Rightarrow> p = ExplicitPanic \<and> cli_maxBodySize (ev_client evel) > 0 \<and>
       (\<exists>e \<in> set (evel_update_batch evel batch).
          int (length (pr_encode P (BatchReq [e]))) > cli_maxBodySize (ev_client evel))
   | Ret (evel', env', b', err) \<Rightarrow> b' = evel_update_batch evel batch \<and>
       (\<exists>parts reqs rest. env_sent env' = env_sent env @ reqs \<and>
          list_all2 (\<lambda>part r. CreateJSONPostRequest P (ev_client evel) ''eventBatch'' (BatchReq part) = Inr r) parts reqs \<and>
          concat parts @ rest = b' \<and> (err = None \<longrightarrow> rest = []) \<and>
          (cli_maxBodySize (ev_client evel) > 0 \<longrightarrow>
             (\<forall>r \<in> set reqs. int (length (rq_Body r)) \<le> cli_maxBodySize (ev_client evel))))"
proof (cases "evel_PostBatch P evel env batch")
  case (Crash p)
  from evel_PostBatch_crash [OF Crash] CreateJSONPostRequest_too_large [of P "ev_client evel" "''eventBatch''"]
  show ?thesis by (auto simp: Crash)
next
  case (Ret out)
  obtain evel' env' b' err where out: "out = (evel', env', b', err)" by (metis prod_cases4)
  from evel_PostBatch_outcome [OF Ret] obtain parts reqs rest where
    "b' = evel_update_batch evel batch" "env_sent env' = env_sent env @ reqs"
    "sent_parts P (ev_client evel) parts reqs" "concat parts @ rest = b'" "err = None \<longrightarrow> rest = []"
    by (auto simp: out batch_outcome_def)
  with sent_parts_size [of P "ev_client evel" parts reqs] show ?thesis
    unfolding Ret out go.case prod.case sent_parts_def by blast
qed

theorem batch_sent_exactly_once_witness:
  "\<exists>evel' env' b' err parts reqs rest.
    evel_PostBatch sample_params (sample_evel ''up'' 15) sample_env [sample_event, sample_event, sample_event] =
      Ret (evel', env', b', err) \<and>
    b' = evel_update_batch (sample_evel ''up'' 15) [sample_event, sample_event, sample_event] \<and>
    env_sent env' = reqs \<and> concat parts @ rest = b' \<and> (err = None \<longrightarrow> rest = []) \<and>
    (\<forall>r \<in> set reqs. length (rq_Body r) \<le> 15)"
  using batch_sent_exactly_once [where P = sample_params and evel = "sample_evel ''up'' 15" and env = sample_env
      and batch = "[sample_event, sample_event, sample_event]"]
  by (auto simp: sample_params_def [THEN arg_cong, of pr_encode] sample_evel_def [THEN arg_cong, of ev_client]
      sample_env_def [THEN arg_cong, of env_sent] split: go.splits) (blast, metis append_Nil2)

text \<open>A single event that exceeds the size limit takes the process down when it is posted as a
  batch: the batch cannot be split further.\<close>

theorem oversized_event_panics:
  assumes "CreateJSONPostRequest P (ev_client evel) ''eventBatch'' (BatchReq (evel_update_batch evel [e])) =
    Inl ErrBodyTooLarge"
  shows "evel_PostBatch P evel env [e] = Crash ExplicitPanic"
proof -
  obtain evel1 env1 err where
    d: "doPost P evel env ''eventBatch'' (BatchReq (evel_update_batch evel [e])) = (evel1, env1, err)"
    by (metis prod_cases3)
  have "err = Some ErrBodyTooLarge" using doPost_sent [OF d] assms by simp
  moreover obtain b1 b2 where sp: "batch_Split (evel_update_batch evel [e]) = (b1, b2)" by fastforce
  moreover have "b1 = [] \<or> b2 = []" using batch_Split_stuck [OF sp] by simp
  ultimately show ?thesis using d by (simp add: evel_PostBatch.simps [of P evel env "[e]"])
qed

theorem oversized_event_panics_witness:
  "evel_PostBatch sample_params (sample_evel ''up'' 5) sample_env [sample_event] = Crash ExplicitPanic"
  by (rule oversized_event_panics) (simp add: sample_create sample_evel_def)

section \<open>Failover\<close>

text \<open>C5: An event for a collector pair whose active member is down and whose other member is up, with
  at least one retry configured: one request more than there are retries goes to the host of the active
  member, all of them fail, and then exactly one request goes out for the other member. It carries the event,
  the post returns without an error, and the other member is the active one afterwards. The event has the
  reporting entity of the first member, and what is empty there is taken from the second one.\<close>

theorem event_failover:
  assumes "event_link P up good evt w" and "cw_objects w cid = Some c" and "cluster_ok (cw_clusters w c)"
    and "vc_primaryVES (cw_clusters w c) = Some p" and "vc_backupVES (cw_clusters w c) = Some b" and "p \<noteq> b"
    and "vc_activVES (cw_clusters w c) = Some a" and "o' = (if a = p then b else p)" and "\<not> good a" and "good o'"
    and "1 \<le> vc_maxMissed (cw_clusters w c)"
  shows "\<exists>evt' w' reqs r. cluster_PostEvent P c evt cid w = Some (Ret (evt', w', None)) \<and>
    evt' = evel_stamp (cw_evels w o') (evel_stamp (cw_evels w a) evt) \<and>
    env_sent (cw_env w') = env_sent (cw_env w) @ reqs @ [r] \<and>
    int (length reqs) = vc_maxMissed (cw_clusters w c) + 1 \<and>
    (\<forall>q \<in> set reqs. url_Host (rq_URL q) = evel_host (cw_evels w a)) \<and>
    url_Host (rq_URL r) = evel_host (cw_evels w o') \<and> rq_Body r = pr_encode P (EventReq evt') \<and>
    CreateJSONPostRequest P (ev_client (cw_evels w o')) (ev_topic (cw_evels w o')) (EventReq evt') = Inr r \<and>
    cw_clusters w' = (cw_clusters w)(c := (cw_clusters w c)\<lparr>vc_activVES := Some o'\<rparr>)"
proof -
  let ?n = "Suc (nat (vc_maxMissed (cw_clusters w c)))"
  from pe.perform_failover [OF assms(1-11)] obtain x1 w1 x' w' where
    1: "cluster_PostEvent P c evt cid w = Some (Ret (x', w', None))"
      "failed_posts (post_event_at P) a ?n evt w x1 w1" "event_link P up good x1 (switch_at w1 c)"
      "post_event_at P x1 (switch_at w1 c) (Some o') = Ret (x', w', None)"
      "cw_clusters w' = (cw_clusters w)(c := (cw_clusters w c)\<lparr>vc_activVES := Some o'\<rparr>)"
    unfolding cluster_PostEvent_def by blast
  from failed_event_posts [OF 1(2) assms(1)] obtain reqs where
    2: "same_evels w w1" "x1 = evel_stamp (cw_evels w a) evt" "env_sent (cw_env w1) = env_sent (cw_env w) @ reqs"
      "length reqs = ?n" "\<forall>q \<in> set reqs. url_Host (rq_URL q) = evel_host (cw_evels w a)"
    using CreateJSONPostRequest_host [of P "ev_client (cw_evels w a)"] unfolding evel_host_def by blast
  have conn: "same_conn (cw_evels (switch_at w1 c) o') (cw_evels w o')"
    "ev_topic (cw_evels (switch_at w1 c) o') = ev_topic (cw_evels w o')"
    using 2(1) by (simp_all add: same_evels_def same_conn_def switch_at_def)
  then have cl: "ev_client (cw_evels (switch_at w1 c) o') = ev_client (cw_evels w o')" by (simp add: same_conn_def)
  from post_event_at_Some(2) [OF 1(3,4)] evel_stamp_conn [OF conn(1)] obtain r where
    3: "x' = evel_stamp (cw_evels w o') x1" "env_sent (cw_env w') = env_sent (cw_env w1) @ [r]"
      "CreateJSONPostRequest P (ev_client (cw_evels w o')) (ev_topic (cw_evels w o')) (EventReq x') = Inr r"
    unfolding conn(2) cl by (auto simp: switch_at_def)
  have "int (length reqs) = vc_maxMissed (cw_clusters w c) + 1" using 2(4) assms(11) by simp
  moreover have "url_Host (rq_URL r) = evel_host (cw_evels w o')" "rq_Body r = pr_encode P (EventReq x')"
    using CreateJSONPostRequest_host [OF 3(3)] CreateJSONPostRequest_size [OF 3(3)] by (simp_all add: evel_host_def)
  ultimately show ?thesis using 1(1,5) 2(2,3,5) 3
    by (intro exI [of _ x'] exI [of _ w'] exI [of _ reqs] exI [of _ r]) simp
qed

abbreviation sample_up :: "string \<Rightarrow> bool" where
  "sample_up h \<equiv> HasPrefix h ''up''"

lemma net_up_sample: "net_up sample_params sample_up"
  by (simp add: net_up_def sample_params_def reply_ok_def)

lemma event_link_sample:
  "event_link sample_params sample_up (\<lambda>a. sample_up (if a = 0 then ha else hb)) e (sample_world ha hb mx)"
  using net_up_sample
  by (auto simp: event_link_def evel_host_def sample_world_def sample_evel_def sample_url_def
      CreateJSONPostRequest_def ValidateWithSchema_def sample_params_def)

lemma batch_link_sample:
  "e \<noteq> [] \<Longrightarrow>
   batch_link sample_params sample_up (\<lambda>a. sample_up (if a = 0 then ha else hb)) e (sample_world ha hb mx)"
  using net_up_sample
  by (auto simp: batch_link_def batch_buildable_def sample_create evel_host_def sample_world_def sample_evel_def
      sample_url_def)

lemma sample_world_simps [simp]:
  "cw_objects (sample_world ha hb mx) 7 = Some 0" "cluster_ok (cw_clusters (sample_world ha hb mx) 0)"
  "vc_primaryVES (cw_clusters (sample_world ha hb mx) 0) = Some 0"
  "vc_backupVES (cw_clusters (sample_world ha hb mx) 0) = Some 1"
  "vc_activVES (cw_clusters (sample_world ha hb mx) 0) = Some 0"
  "vc_maxMissed (cw_clusters (sample_world ha hb mx) 0) = mx"
  by (simp_all add: sample_world_def cluster_ok_def)

theorem event_failover_witness:
  "\<exists>evt' w' reqs r. cluster_PostEvent sample_params 0 sample_event 7 (sample_world ''down'' ''up'' 2) =
      Some (Ret (evt', w', None)) \<and> env_sent (cw_env w') = reqs @ [r] \<and> length reqs = 3 \<and>
    (\<forall>q \<in> set reqs. url_Host (rq_URL q) = ''down'') \<and> url_Host (rq_URL r) = ''up'' \<and>
    vc_activVES (cw_clusters w' 0) = Some 1"
proof -
  have host: "evel_host (cw_evels (sample_world ''down'' ''up'' 2) a) = (if a = 0 then ''down'' else ''up'')"
    "env_sent (cw_env (sample_world ''down'' ''up'' 2)) = []" for a
    by (simp_all add: evel_host_def sample_world_def sample_evel_def sample_url_def sample_env_def)
  note F = event_failover [OF event_link_sample [of "''down''" "''up''" _ 2], where evt = sample_event and cid = 7
      and c = 0 and p = 0 and b = 1 and a = 0 and o' = 1, unfolded sample_world_simps host]
  obtain evt' w' reqs r where
    "cluster_PostEvent sample_params 0 sample_event 7 (sample_world ''down'' ''up'' 2) = Some (Ret (evt', w', None))"
    "env_sent (cw_env w') = reqs @ [r]" "int (length reqs) = 3" "\<forall>q \<in> set reqs. url_Host (rq_URL q) = ''down''"
    "url_Host (rq_URL r) = ''up''" "vc_activVES (cw_clusters w' 0) = Some 1"
    by (rule exE [OF F]) (auto simp: HasPrefix_def)
  then show ?thesis by (intro exI [of _ evt'] exI [of _ w'] exI [of _ reqs] exI [of _ r]) simp
qed

text \<open>The same for a batch: it is delivered to the other member, whole.\<close>

theorem batch_failover:
  assumes "batch_link P up good batch w" and "cw_objects w cid = Some c" and "cluster_ok (cw_clusters w c)"
    and "vc_primaryVES (cw_clusters w c) = Some p" and "vc_backupVES (cw_clusters w c) = Some b" and "p \<noteq> b"
    and "vc_activVES (cw_clusters w c) = Some a" and "\<not> good a" and "good (if a = p then b else p)"
    and "1 \<le> vc_maxMissed (cw_clusters w c)"
  shows "\<exists>batch' w'. cluster_PostBatch P c batch cid w = Some (Ret (batch', w', None)) \<and>
    cw_clusters w' = (cw_clusters w)(c := (cw_clusters w c)\<lparr>vc_activVES := Some (if a = p then b else p)\<rparr>)"
  using pb.perform_failover [OF assms(1-7) refl assms(8-10)] unfolding cluster_PostBatch_def by blast

theorem batch_failover_witness:
  "\<exists>b' w'. cluster_PostBatch sample_params 0 [sample_event, sample_event] 7 (sample_world ''down'' ''up'' 2) =
      Some (Ret (b', w', None)) \<and> vc_activVES (cw_clusters w' 0) = Some 1"
  using batch_failover [OF batch_link_sample [of "[sample_event, sample_event]" "''down''" "''up''" 2], where cid = 7 and c = 0 and p = 0 and b = 1 and a = 0]
  by (auto simp: HasPrefix_def)

text \<open>C35: With at least one retry configured and no collector up, posting an event never returns: the
  retry counter restarts at every switch.\<close>

theorem event_post_diverges:
  assumes "event_link P up good evt w" and "cw_objects w cid = Some c" and "cluster_ok (cw_clusters w c)"
    and "1 \<le> vc_maxMissed (cw_clusters w c)" and "\<forall>a. \<not> good a"
  shows "cluster_PostEvent P c evt cid w = None"
  using pe.perform_diverges [OF assms] by (simp add: cluster_PostEvent_def)

theorem event_post_diverges_witness:
  "cluster_PostEvent sample_params 0 sample_event 7 (sample_world ''down'' ''off'' 1) = None"
  using event_post_diverges [OF event_link_sample [of "''down''" "''off''" _ 1], where evt = sample_event and cid = 7 and c = 0]
  by (simp add: HasPrefix_def)

text \<open>With no retry configured a failed post is reported after one try, and the cluster has switched
  to the other collector for the next one.\<close>

theorem event_post_no_retry:
  assumes "event_link P up good evt w" and "cw_objects w cid = Some c"
    and "vc_activVES (cw_clusters w c) = Some a" and "\<not> good a" and "vc_maxMissed (cw_clusters w c) = 0"
  shows "\<exists>evt' w' e. cluster_PostEvent P c evt cid w = Some (Ret (evt', w', Some e)) \<and>
    cw_clusters w' = (cw_clusters w)(c := switchCollector (cw_clusters w c))"
  using pe.perform_no_retry [OF assms] by (simp add: cluster_PostEvent_def)

theorem event_post_no_retry_witness:
  "\<exists>evt' w' e. cluster_PostEvent sample_params 0 sample_event 7 (sample_world ''down'' ''up'' 0) =
      Some (Ret (evt', w', Some e)) \<and>
    cw_clusters w' 0 = switchCollector (cw_clusters (sample_world ''down'' ''up'' 0) 0)"
  using event_post_no_retry [OF event_link_sample [of "''down''" "''up''" _ 0], where evt = sample_event and cid = 7 and c = 0 and a = 0]
  by (auto simp: HasPrefix_def)

section \<open>Answers\<close>

text \<open>An answer is an error exactly if its status is not 2xx. The error carried by the answer's first
  request error is reported when the body is JSON and has one, the status otherwise.\<close>

theorem answer_error_iff:
  "DecodeVESResponse resp =
     (if 200 \<le> rs_StatusCode resp \<and> rs_StatusCode resp < 300
      then Inr (if rs_ContentType resp = ''application/json'' then rs_decoded resp
                else \<lparr>vr_CommandList = [], vr_RequestError = []\<rparr>)
      else Inl (if rs_ContentType resp = ''application/json'' \<and> vr_RequestError (rs_decoded resp) \<noteq> []
                then ServerError (snd (hd (vr_RequestError (rs_decoded resp))))
                else HttpStatus (rs_StatusCode resp)))"
  by (auto simp: DecodeVESResponse_def IsError_def GetError_def Let_def split: list.splits)










section \<open>Requests\<close>

text \<open>A request that is built carries the encoded data under the collector's path extended by the
  query path, with the credentials of the base URL, and within the size limit if there is one.\<close>

theorem request_wellformed:
  assumes "CreateJSONPostRequest P ves path d = Inr r"
  shows "rq_Body r = pr_encode P d \<and> rq_ContentLength r = int (length (rq_Body r)) \<and>
    url_Host (rq_URL r) = url_Host (cli_baseURL ves) \<and>
    url_Path (rq_URL r) = path_Join (url_Path (cli_baseURL ves)) path \<and>
    rq_BasicAuth r = url_User (cli_baseURL ves) \<and>
    (cli_maxBodySize ves > 0 \<longrightarrow> int (length (rq_Body r)) \<le> cli_maxBodySize ves)"
  using assms by (auto simp: CreateJSONPostRequest_def Let_def split: option.splits if_splits)

theorem request_wellformed_witness:
  "\<exists>r. CreateJSONPostRequest sample_params (ev_client (sample_evel ''up'' 15)) ''eventBatch'' (BatchReq [sample_event]) = Inr r \<and>
    length (rq_Body r) \<le> 15 \<and> url_Host (rq_URL r) = ''up''"
proof -
  obtain r where r: "CreateJSONPostRequest sample_params (ev_client (sample_evel ''up'' 15)) ''eventBatch''
      (BatchReq [sample_event]) = Inr r" by (simp add: sample_create sample_evel_def)
  from request_wellformed [OF r] have "length (rq_Body r) \<le> 15 \<and> url_Host (rq_URL r) = ''up''"
    by (simp add: sample_evel_def sample_url_def sample_params_def)
  with r show ?thesis by blast
qed

end
