(* ===== verification/Agent_Post.thy ===== *)
theory Agent_Post
  imports Collector_Cluster
begin

text \<open>
  Posting one FMaaS event to one northbound collector (VESPA/ves-agent/agent/agent.go,
  \<open>postEventFor...\<close>): the event is numbered with the collector's sequence number, delivered over
  Kafka or HTTP, and the number and the Kafka offset are persisted in ZooKeeper
  (VESPA/ves-agent/zk/zkManager.go). The ZooKeeper client (curator), the TCP dialler, the
  environment and the JSON text parser are parameters.
\<close>

section \<open>The ZooKeeper manager\<close>

record 'z curator =
  cu_checkExists :: "'z \<Rightarrow> string \<Rightarrow> bool option"
  cu_setData :: "'z \<Rightarrow> string \<Rightarrow> string \<Rightarrow> 'z"
  cu_create :: "'z \<Rightarrow> string \<Rightarrow> string \<Rightarrow> 'z"
  cu_getData :: "'z \<Rightarrow> string \<Rightarrow> string option"

text \<open>\<open>None\<close> is an error of the client; the errors of a write are only printed.\<close>

definition PathExist :: "'z curator \<Rightarrow> 'z \<Rightarrow> string \<Rightarrow> bool" where
  "PathExist cu z path = (case cu_checkExists cu z path of None \<Rightarrow> False | Some b \<Rightarrow> b)"

definition zk_Update :: "'z curator \<Rightarrow> 'z \<Rightarrow> string \<Rightarrow> string \<Rightarrow> 'z" where
  "zk_Update cu z path payload =
     (if PathExist cu z path then cu_setData cu z path payload else cu_create cu z path payload)"

definition zk_GetData :: "'z curator \<Rightarrow> 'z \<Rightarrow> string \<Rightarrow> string" where
  "zk_GetData cu z path = (case cu_getData cu z path of None \<Rightarrow> [] | Some d \<Rightarrow> d)"

definition offset_path :: "int \<Rightarrow> string" where
  "offset_path i = ''/offset/'' @ FormatInt i"

definition id_path :: "int \<Rightarrow> string" where
  "id_path i = ''/id/'' @ FormatInt i"

definition getLastOffset :: "'z curator \<Rightarrow> 'z \<Rightarrow> int \<Rightarrow> int" where
  "getLastOffset cu z i =
     (if PathExist cu z (offset_path i) then fst (Atoi (zk_GetData cu z (offset_path i))) else 0)"

definition getLastSequence :: "'z curator \<Rightarrow> 'z \<Rightarrow> int \<Rightarrow> int" where
  "getLastSequence cu z i =
     (if PathExist cu z (id_path i) then fst (Atoi (zk_GetData cu z (id_path i))) else 0)"

text \<open>
  What the client relies on: a write to an existing node replaces its data, creating a node
  creates it (and missing parents) with the data, and neither touches another node.
\<close>

definition zk_works :: "'z curator \<Rightarrow> ('z \<Rightarrow> string \<rightharpoonup> string) \<Rightarrow> bool" where
  "zk_works cu view \<longleftrightarrow>
     (\<forall>z p. cu_checkExists cu z p = Some (view z p \<noteq> None)) \<and>
     (\<forall>z p. cu_getData cu z p = view z p) \<and>
     (\<forall>z p d. view z p \<noteq> None \<longrightarrow> view (cu_setData cu z p d) = (view z)(p \<mapsto> d)) \<and>
     (\<forall>z p d. view z p = None \<longrightarrow> view (cu_create cu z p d) p = Some d \<and>
        (\<forall>q. q \<noteq> p \<longrightarrow> \<not> HasPrefix p (q @ ''/'') \<longrightarrow> view (cu_create cu z p d) q = view z q))"

lemma zk_Update_same:
  assumes "zk_works cu view"
  shows "view (zk_Update cu z p d) p = Some d"
  using assms by (simp add: zk_works_def zk_Update_def PathExist_def)

lemma zk_Update_other:
  assumes "zk_works cu view" and "q \<noteq> p" and "\<not> HasPrefix p (q @ ''/'')"
  shows "view (zk_Update cu z p d) q = view z q"
  using assms by (simp add: zk_works_def zk_Update_def PathExist_def)

lemma zk_read: "zk_works cu view \<Longrightarrow> view z p = Some d \<Longrightarrow> PathExist cu z p \<and> zk_GetData cu z p = d"
  by (simp add: zk_works_def PathExist_def zk_GetData_def)

lemma paths_apart:
  "id_path i \<noteq> offset_path j" "\<not> HasPrefix (id_path i) (offset_path j @ ''/'')"
  "\<not> HasPrefix (offset_path i) (id_path j @ ''/'')"
  by (auto simp: id_path_def offset_path_def HasPrefix_def)

lemma getLastOffset_Update:
  assumes "zk_works cu view" and "is_int64 off"
  shows "getLastOffset cu (zk_Update cu z (offset_path i) (FormatInt off)) i = off"
  using zk_read [OF assms(1) zk_Update_same [OF assms(1)]] assms(2)
  by (simp add: getLastOffset_def Atoi_FormatInt)

lemma getLastSequence_Update:
  assumes "zk_works cu view" and "is_int64 sn"
  shows "getLastSequence cu (zk_Update cu z (id_path i) (FormatInt sn)) i = sn"
  using zk_read [OF assms(1) zk_Update_same [OF assms(1)]] assms(2)
  by (simp add: getLastSequence_def Atoi_FormatInt)

lemma getLastSequence_other:
  assumes "zk_works cu view"
  shows "getLastSequence cu (zk_Update cu z (offset_path i) d) j = getLastSequence cu z j"
proof -
  have "view (zk_Update cu z (offset_path i) d) (id_path j) = view z (id_path j)"
    using zk_Update_other [OF assms] paths_apart by metis
  with assms show ?thesis
    by (simp add: getLastSequence_def PathExist_def zk_GetData_def zk_works_def)
qed

section \<open>The state of the gateway\<close>

record VesMap =
  vm_NbiFormat :: string
  vm_NbiType :: string
  vm_KafkaPrimary :: "string list"
  vm_KafkaBackup :: "string list"
  vm_PrimaryTopic :: string
  vm_BackupTopic :: string

definition zero_VesMap :: VesMap where
  "zero_VesMap = \<lparr>vm_NbiFormat = [], vm_NbiType = [], vm_KafkaPrimary = [], vm_KafkaBackup = [],
     vm_PrimaryTopic = [], vm_BackupTopic = []\<rparr>"

datatype nbi_msg = NbiEvent Event | NbiRCP RCPEvent | NbiBatch Batch

text \<open>
  The package variables of govel that the agent uses. \<open>gw_published\<close> lists the messages handed to
  Kafka writers, with the brokers and the topic.
\<close>

record ('n, 'z) gw =
  gw_cw :: "'n cworld"
  gw_zk :: 'z
  gw_kafkaObj :: "int \<rightharpoonup> VesMap"
  gw_ZKSequenceId :: "int \<rightharpoonup> int"
  gw_ZKOffsetId :: "int \<rightharpoonup> int"
  gw_ZKSequenceIdForReplay :: "int \<rightharpoonup> int"
  gw_HeartbeatSent :: "int \<rightharpoonup> bool"
  gw_PauseFmmasEvents :: "int \<rightharpoonup> bool"
  gw_CollectorFirstReplay :: "int \<rightharpoonup> bool"
  gw_SetResetReplay :: "int \<rightharpoonup> bool"
  gw_CollectorLastEventId :: "int \<rightharpoonup> int"
  gw_CollectorReplayObjects :: "int \<rightharpoonup> ReplayCollectorInfo"
  gw_VesCollectorsHeartBeat :: "int \<rightharpoonup> bool"
  gw_published :: "(string list \<times> string \<times> nbi_msg) list"

record ('n, 'z) ext =
  x_params :: "'n params"
  x_curator :: "'z curator"
  x_dial :: "string \<Rightarrow> bool"
  x_write_error :: "string list \<Rightarrow> string \<Rightarrow> nbi_msg \<Rightarrow> string option"
  x_productType :: string
  x_parse :: "string \<Rightarrow> json option"

text \<open>A call that may crash, or (\<open>None\<close>) not return.\<close>

type_synonym 'a run = "'a go option"

definition run_bind :: "'a run \<Rightarrow> ('a \<Rightarrow> 'b run) \<Rightarrow> 'b run" where
  "run_bind m f = (case m of None \<Rightarrow> None | Some (Crash c) \<Rightarrow> Some (Crash c) | Some (Ret x) \<Rightarrow> f x)"

lemma run_bind_Ret [simp]: "run_bind (Some (Ret x)) f = f x"
  by (simp add: run_bind_def)

lemma run_bind_Ret_iff [go_simps]:
  "run_bind m f = Some (Ret y) \<longleftrightarrow> (\<exists>x. m = Some (Ret x) \<and> f x = Some (Ret y))"
  by (auto simp: run_bind_def split: option.splits go.splits)

section \<open>Delivery\<close>

text \<open>Both broker checks have the same body: the first address decides.\<close>

definition isPrimaryBrokerReacheable :: "(string \<Rightarrow> bool) \<Rightarrow> string list \<Rightarrow> bool" where
  "isPrimaryBrokerReacheable dial primary = (case primary of [] \<Rightarrow> False | a # _ \<Rightarrow> dial a)"

definition isSecondaryBrokerReacheable :: "(string \<Rightarrow> bool) \<Rightarrow> string list \<Rightarrow> bool" where
  "isSecondaryBrokerReacheable dial secondary = (case secondary of [] \<Rightarrow> False | a # _ \<Rightarrow> dial a)"

text \<open>\<open>gw_published\<close> are the messages handed to a writer. The error of the writer is returned; no caller looks at it.\<close>

definition publishToKafkaForNbi ::
    "('n, 'z) ext \<Rightarrow> ('n, 'z) gw \<Rightarrow> nbi_msg \<Rightarrow> string list \<Rightarrow> string \<Rightarrow> ('n, 'z) gw \<times> string option" where
  "publishToKafkaForNbi X w m addr topic =
     (w\<lparr>gw_published := gw_published w @ [(addr, topic, m)]\<rparr>, x_write_error X addr topic m)"

definition nbi_publish :: "('n, 'z) ext \<Rightarrow> VesMap \<Rightarrow> nbi_msg \<Rightarrow> ('n, 'z) gw \<Rightarrow> ('n, 'z) gw" where
  "nbi_publish X vm m w =
     (if isPrimaryBrokerReacheable (x_dial X) (vm_KafkaPrimary vm)
        then fst (publishToKafkaForNbi X w m (vm_KafkaPrimary vm) (vm_PrimaryTopic vm))
      else if isSecondaryBrokerReacheable (x_dial X) (vm_KafkaBackup vm)
        then fst (publishToKafkaForNbi X w m (vm_KafkaBackup vm) (vm_BackupTopic vm))
      else w)"

text \<open>The delivery block that the posting functions share. The error of the post is logged.\<close>

definition deliver :: "('n, 'z) ext \<Rightarrow> Event \<Rightarrow> int \<Rightarrow> ('n, 'z) gw \<Rightarrow> ('n, 'z) gw run" where
  "deliver X evt i w =
     (let vm = at zero_VesMap (gw_kafkaObj w) i
      in if vm_NbiType vm = ''KAFKA'' then Some (Ret (nbi_publish X vm (NbiEvent evt) w))
         else case cw_objects (gw_cw w) i of
                None \<Rightarrow> Some (Crash NilDeref)
              | Some c \<Rightarrow>
                  run_bind (cluster_PostEvent (x_params X) c evt i (gw_cw w))
                    (\<lambda>(evt1, cw, err). Some (Ret (w\<lparr>gw_cw := cw\<rparr>))))"

section \<open>Live events\<close>

definition zk_next :: "('n, 'z) gw \<Rightarrow> int \<Rightarrow> int" where
  "zk_next w i = wrap64 (at 0 (gw_ZKSequenceId w) i + 1)"

text \<open>The end of a live post: the sequence number is incremented and persisted, then the offset.\<close>

definition bump_sequence :: "('n, 'z) ext \<Rightarrow> int \<Rightarrow> ('n, 'z) gw \<Rightarrow> ('n, 'z) gw" where
  "bump_sequence X i w =
     w\<lparr>gw_ZKSequenceId := (gw_ZKSequenceId w)(i \<mapsto> zk_next w i),
       gw_zk := zk_Update (x_curator X) (gw_zk w) (id_path i) (FormatInt (zk_next w i))\<rparr>"

definition bump_offset :: "('n, 'z) ext \<Rightarrow> int \<Rightarrow> int \<Rightarrow> ('n, 'z) gw \<Rightarrow> ('n, 'z) gw" where
  "bump_offset X i offset w =
     w\<lparr>gw_ZKOffsetId := (gw_ZKOffsetId w)(i \<mapsto> offset),
       gw_zk := zk_Update (x_curator X) (gw_zk w) (offset_path i) (FormatInt offset)\<rparr>"

definition fault_of :: "Data \<Rightarrow> int \<Rightarrow> Event" where
  "fault_of d sn =
     (let e = d_MavData d; h = et_hdr e; f = et_fault e;
          ev = NewFault (n_EventName h) ''xgvela'' (n_EventID h) (ff_AlarmCondition f) (n_EventType h)
            (n_ReportingEntityID h) (n_ReportingEntityName h) sn (n_SourceID h) (ff_SpecificProblem f)
            (n_Priority h) (ff_EventFaultSeverity f) ''Active'' (n_SourceName h) (n_LastEpochMillis h)
            (n_StartEpochMillis h) (ff_EventCategory f) (ff_EventSourceType f) (n_NfNamingCode h)
            (n_NfcNamingCode h)
      in EvFault (ev\<lparr>fault_fields := (fault_fields ev)
           \<lparr>fs_AlarmAdditionalInformation := ff_AlarmAdditionalInformation f\<rparr>\<rparr>))"

definition notification_of :: "Data \<Rightarrow> int \<Rightarrow> Event" where
  "notification_of d sn =
     (let e = d_MavData d; h = et_hdr e; n = et_NotificationFields e;
          ev = NewNotification (nf_ChangeContact n) (nf_ChangeIdentifier n) (nf_ChangeType n)
            (nf_NotificationFieldsVersion n) (nf_NewState n) (nf_OldState n) (nf_StateInterface n)
            (n_EventName h) (n_EventID h) (n_EventType h) (n_ReportingEntityID h) (n_ReportingEntityName h) sn
            (n_SourceID h) (n_Priority h) (n_SourceName h) ''Active'' (n_LastEpochMillis h)
            (n_StartEpochMillis h) (n_NfNamingCode h) (n_NfcNamingCode h)
      in EvNotification (ev\<lparr>notif_fields := (notif_fields ev)\<lparr>nf_AdditionalFields := nf_AdditionalFields n\<rparr>\<rparr>))"

definition tca_of :: "Data \<Rightarrow> int \<Rightarrow> Event" where
  "tca_of d sn =
     (let e = d_MavData d; h = et_hdr e; t = et_tca e;
          ev = NewTCA (tc_AdditionalParameters t) (tc_AlertAction t) (tc_AlertDescription t) (tc_AlertType t)
            (tc_CollectionTimestamp t) (tc_EventSeverity t) (tc_EventStartTimestamp t)
            (tc_ThresholdCrossingFieldsVersion t) ''TCA'' ''xgvela'' (n_EventID h) (n_EventName h)
            (n_EventType h) (n_ReportingEntityID h) (n_ReportingEntityName h) sn (n_SourceID h) (n_Priority h)
            ''VirtualMachine'' ''Active'' (n_LastEpochMillis h) (n_StartEpochMillis h) (n_NfNamingCode h)
            (n_NfcNamingCode h)
      in EvTCA (ev\<lparr>tca_fields := (tca_fields ev)\<lparr>tc_AdditionalFields := tc_AdditionalFields t\<rparr>\<rparr>))"

definition postEventForFault ::
    "('n, 'z) ext \<Rightarrow> Data \<Rightarrow> int \<Rightarrow> int \<Rightarrow> ('n, 'z) gw \<Rightarrow> ('n, 'z) gw run" where
  "postEventForFault X d i offset w =
     run_bind (deliver X (fault_of d (zk_next w i)) i w)
       (\<lambda>w1. Some (Ret (bump_offset X i offset (bump_sequence X i w1))))"

definition postEventForNotification ::
    "('n, 'z) ext \<Rightarrow> Data \<Rightarrow> int \<Rightarrow> int \<Rightarrow> ('n, 'z) gw \<Rightarrow> ('n, 'z) gw run" where
  "postEventForNotification X d i offset w =
     run_bind (deliver X (notification_of d (zk_next w i)) i w)
       (\<lambda>w1. Some (Ret (bump_offset X i offset (bump_sequence X i w1))))"

definition postEventForTCA ::
    "('n, 'z) ext \<Rightarrow> Data \<Rightarrow> int \<Rightarrow> int \<Rightarrow> ('n, 'z) gw \<Rightarrow> ('n, 'z) gw run" where
  "postEventForTCA X d i offset w =
     run_bind (deliver X (tca_of d (zk_next w i)) i w)
       (\<lambda>w1. Some (Ret (bump_offset X i offset (bump_sequence X i w1))))"

section \<open>Replayed events\<close>

definition bump_replay :: "int \<Rightarrow> ('n, 'z) gw \<Rightarrow> ('n, 'z) gw" where
  "bump_replay i w = w\<lparr>gw_ZKSequenceIdForReplay :=
     (gw_ZKSequenceIdForReplay w)(i \<mapsto> wrap64 (at 0 (gw_ZKSequenceIdForReplay w) i + 1))\<rparr>"

definition postEventForFaultForReplay ::
    "('n, 'z) ext \<Rightarrow> Data \<Rightarrow> int \<Rightarrow> int \<Rightarrow> ('n, 'z) gw \<Rightarrow> ('n, 'z) gw run" where
  "postEventForFaultForReplay X d i offset w =
     run_bind (deliver X (fault_of d (at 0 (gw_ZKSequenceIdForReplay w) i)) i w)
       (\<lambda>w1. Some (Ret (bump_replay i w1)))"

definition postEventForNotificationForReplay ::
    "('n, 'z) ext \<Rightarrow> Data \<Rightarrow> int \<Rightarrow> int \<Rightarrow> ('n, 'z) gw \<Rightarrow> ('n, 'z) gw run" where
  "postEventForNotificationForReplay X d i offset w =
     run_bind (deliver X (notification_of d (at 0 (gw_ZKSequenceIdForReplay w) i)) i w)
       (\<lambda>w1. Some (Ret (bump_replay i w1)))"

definition postEventForTCAReplay ::
    "('n, 'z) ext \<Rightarrow> Data \<Rightarrow> int \<Rightarrow> int \<Rightarrow> ('n, 'z) gw \<Rightarrow> ('n, 'z) gw run" where
  "postEventForTCAReplay X d i offset w =
     run_bind (deliver X (tca_of d (at 0 (gw_ZKSequenceIdForReplay w) i)) i w)
       (\<lambda>w1. Some (Ret (bump_replay i w1)))"

end
