(* ===== verification/Agent_Rcp.thy ===== *)
theory Agent_Rcp
  imports Agent_Post
begin

text \<open>
  Events in the RCP format (VESPA/ves-agent/agent/agent.go, \<open>postEventForRCPFault\<close>,
  \<open>postEventForRCPNotification\<close>, \<open>postEventForRCPTCA\<close>). The body is made by splicing JSON text:
  the text of the additional information and of the event fields is cut at the braces and
  glued together. An index past the pieces of a split is a crash.
\<close>

section \<open>Splicing\<close>

definition index :: "'a list \<Rightarrow> nat \<Rightarrow> 'a go" where
  "index xs i = (if i < length xs then Ret (xs ! i) else Crash OutOfRange)"

text \<open>\<open>strings.Split(strings.Split(s, "{")[1], "}")[0]\<close>\<close>

definition between_braces :: "string \<Rightarrow> string go" where
  "between_braces s =
     go_bind (index (Split s (CHR ''{'')) 1) (\<lambda>t. index (Split t (CHR ''}'')) 0)"

definition Trim_braces :: "string \<Rightarrow> string" where
  "Trim_braces s =
     (let p = (\<lambda>c. c = CHR ''{'' \<or> c = CHR ''}'') in rev (dropWhile p (rev (dropWhile p s))))"

lemma between_braces_crash: "CHR ''{'' \<notin> set s \<Longrightarrow> between_braces s = Crash OutOfRange"
  by (simp add: between_braces_def index_def Split_absent)

lemma between_braces_flat:
  assumes "CHR ''{'' \<notin> set pre" and "CHR ''{'' \<notin> set body" and "CHR ''}'' \<notin> set body"
  shows "between_braces (pre @ ''{'' @ body @ ''}'') = Ret body"
proof -
  have "Split (pre @ CHR ''{'' # (body @ ''}'')) (CHR ''{'') = [pre, body @ ''}'']"
    using assms by (simp add: Split_at Split_absent)
  moreover have "Split (body @ CHR ''}'' # []) (CHR ''}'') = [body, []]"
    using Split_at [OF assms(3), of "[]"] by simp
  ultimately show ?thesis by (simp add: between_braces_def index_def)
qed

section \<open>The parts of an RCP event\<close>

text \<open>Unmarshalling a JSON value into a struct of strings: another kind of value leaves the field
  empty, and the error is dropped.\<close>

definition str_field :: "json \<Rightarrow> string \<Rightarrow> string" where
  "str_field j k =
     (case j of JObj kvs \<Rightarrow> (case jget kvs k of Some (JStr s) \<Rightarrow> s | _ \<Rightarrow> []) | _ \<Rightarrow> [])"

definition enhanced_fields :: "json \<Rightarrow> RCPEnhancedAdditionalFields" where
  "enhanced_fields j = \<lparr>ra_Uhn = str_field j ''uhn'', ra_Cnfc_uui = str_field j ''cnfc_uuid'',
     ra_Pod_uuid = str_field j ''pod_uuid'', ra_CorrelationId = str_field j ''correlationId''\<rparr>"

definition with_enhanced :: "RCPEnhancedAdditionalFields \<Rightarrow> RCPEvent \<Rightarrow> RCPEvent" where
  "with_enhanced a e = e\<lparr>rcp_hdr := (rcp_hdr e)\<lparr>r_Uhn := ra_Uhn a, r_Cnfc_uui := ra_Cnfc_uui a,
     r_Pod_uuid := ra_Pod_uuid a\<rparr>\<rparr>"

definition omit_str :: "string \<Rightarrow> string \<Rightarrow> (string \<times> json) list" where
  "omit_str k s = (if s = [] then [] else [(k, JStr s)])"

definition RCPFaultBody :: "RcpFaultFields \<Rightarrow> string \<Rightarrow> json" where
  "RCPFaultBody f productType = JObj ([(''alarmCondition'', JStr (ff_AlarmCondition f))] @
     omit_str ''alarmInterfaceA'' (ff_AlarmInterfaceA f) @ omit_str ''eventCategory'' (ff_EventCategory f) @
     [(''eventSeverity'', JStr (ff_EventFaultSeverity f)), (''eventSourceType'', JStr (ff_EventSourceType f)),
      (''faultFieldsVersion'', JStr (ff_FaultFieldsVersion f)), (''specificProblem'', JStr (ff_SpecificProblem f)),
      (''vfStatus'', JStr (ff_VfStatus f)), (''productType'', JStr productType)])"

text \<open>The tags of \<open>RCPEventBody\<close> spell the option with a leading blank, so nothing is omitted.\<close>

definition RCPEventBody :: "RcpnotificationFields \<Rightarrow> string \<Rightarrow> json" where
  "RCPEventBody n productType = JObj [(''changeContact'', JStr (nf_ChangeContact n)),
     (''changeIdentifier'', JStr (nf_ChangeIdentifier n)), (''changeType'', JStr (nf_ChangeType n)),
     (''notificationFieldsVersion'', JStr (nf_NotificationFieldsVersion n)), (''newState'', JStr (nf_NewState n)),
     (''oldState'', JStr (nf_OldState n)), (''stateInterface'', JStr (nf_StateInterface n)),
     (''productType'', JStr productType)]"

definition RCPTcaBody :: "RcpThresholdCrossingAlertFields \<Rightarrow> string \<Rightarrow> json" where
  "RCPTcaBody t productType = JObj [(''alertAction'', JStr (rt_AlertAction t)),
     (''alertDescription'', JStr (rt_AlertDescription t)), (''alertType'', JStr (rt_AlertType t)),
     (''collectionTimestamp'', JStr (rt_CollectionTimestamp t)), (''eventSeverity'', JStr (rt_EventSeverity t)),
     (''eventStartTimestamp'', JStr (rt_EventStartTimestamp t)),
     (''thresholdCrossingFieldsVersion'', JStr (rt_ThresholdCrossingFieldsVersion t)),
     (''productType'', JStr productType)]"

definition set_body :: "('n, 'z) ext \<Rightarrow> string \<Rightarrow> RCPEvent \<Rightarrow> RCPEvent" where
  "set_body X text e = (case x_parse X text of None \<Rightarrow> e | Some j \<Rightarrow> e\<lparr>rcp_Body := j\<rparr>)"

section \<open>The events\<close>

definition rcp_fault_text :: "('n, 'z) ext \<Rightarrow> RcpFaultFields \<Rightarrow> string go" where
  "rcp_fault_text X f =
     go_bind (between_braces (json_text (RCPFaultBody f (x_productType X)))) (\<lambda>body.
       go_bind (between_braces (json_text (ff_AlarmAdditionalInformation f))) (\<lambda>addl.
         Ret (''{'' @ addl @ '', '' @ body @ ''}'')))"

definition rcp_fault :: "('n, 'z) ext \<Rightarrow> RCPData \<Rightarrow> int \<Rightarrow> RCPEvent go" where
  "rcp_fault X d sn =
     (let e = rd_MavData d; h = re_hdr e; f = re_fault e;
          a = enhanced_fields (ff_AlarmAdditionalInformation f);
          ev = with_enhanced a (NewFaultForRCP sn (n_StartEpochMillis h) (n_LastEpochMillis h) (n_EventID h)
                 (n_ReportingEntityName h) (n_EventName h) (ff_EventFaultSeverity f) (n_LocalEventName h));
          ev1 = ev\<lparr>rcp_hdr := (rcp_hdr ev)
                  \<lparr>r_Severity := (if length (ra_CorrelationId a) = 0 then ''Info'' else ''Clear'')\<rparr>\<rparr>
      in go_bind (rcp_fault_text X f) (\<lambda>text. Ret (set_body X text ev1)))"

definition rcp_notification :: "('n, 'z) ext \<Rightarrow> RCPData \<Rightarrow> int \<Rightarrow> RCPEvent go" where
  "rcp_notification X d sn =
     (let e = rd_MavData d; h = re_hdr e; n = re_NotificationFields e;
          ev = with_enhanced (enhanced_fields (nf_AdditionalFields n))
                 (NewNotificationForRCP sn (n_StartEpochMillis h) (n_LastEpochMillis h) (n_EventID h)
                   (n_ReportingEntityName h) (n_EventName h) (n_Priority h) (n_LocalEventName h))
      in go_bind (between_braces (json_text (RCPEventBody n (x_productType X)))) (\<lambda>body.
           go_bind (between_braces (json_text (nf_AdditionalFields n))) (\<lambda>addl.
             Ret (set_body X (''{'' @ addl @ '', '' @ body @ ''}'') ev))))"

definition rcp_tca :: "('n, 'z) ext \<Rightarrow> RCPData \<Rightarrow> int \<Rightarrow> RCPEvent go" where
  "rcp_tca X d sn =
     (let e = rd_MavData d; h = re_hdr e; t = re_tca e;
          ev = with_enhanced (enhanced_fields (rt_AdditionalFields t))
                 (NewTCAForRCP sn (n_StartEpochMillis h) (n_LastEpochMillis h) (n_EventID h)
                   (n_ReportingEntityName h) (n_EventName h) (rt_EventSeverity t) (n_LocalEventName h));
          body = Trim_braces (json_text (RCPTcaBody t (x_productType X)))
      in go_bind (between_braces (json_text (rt_AdditionalFields t))) (\<lambda>addl.
           Ret (set_body X (''{'' @ addl @ '','' @ body @ ''}'') ev)))"

text \<open>The sequence number is persisted, the offset is not.\<close>

definition post_rcp ::
    "('n, 'z) ext \<Rightarrow> RCPEvent go \<Rightarrow> VesMap \<Rightarrow> int \<Rightarrow> ('n, 'z) gw \<Rightarrow> ('n, 'z) gw run" where
  "post_rcp X ev vm i w =
     Some (go_bind ev (\<lambda>e. Ret (bump_sequence X i (nbi_publish X vm (NbiRCP e) w))))"

definition postEventForRCPFault ::
    "('n, 'z) ext \<Rightarrow> RCPData \<Rightarrow> VesMap \<Rightarrow> int \<Rightarrow> ('n, 'z) gw \<Rightarrow> ('n, 'z) gw run" where
  "postEventForRCPFault X d vm i w = post_rcp X (rcp_fault X d (zk_next w i)) vm i w"

definition postEventForRCPNotification ::
    "('n, 'z) ext \<Rightarrow> RCPData \<Rightarrow> VesMap \<Rightarrow> int \<Rightarrow> ('n, 'z) gw \<Rightarrow> ('n, 'z) gw run" where
  "postEventForRCPNotification X d vm i w = post_rcp X (rcp_notification X d (zk_next w i)) vm i w"

definition postEventForRCPTCA ::
    "('n, 'z) ext \<Rightarrow> RCPData \<Rightarrow> VesMap \<Rightarrow> int \<Rightarrow> ('n, 'z) gw \<Rightarrow> ('n, 'z) gw run" where
  "postEventForRCPTCA X d vm i w = post_rcp X (rcp_tca X d (zk_next w i)) vm i w"

section \<open>When the splice fails\<close>

lemma go_bind_crash: "\<exists>c. go_bind m (\<lambda>x. Crash e) = Crash c"
  by (cases m) auto

text \<open>An event whose additional information is missing (null) takes the process down.\<close>

lemma rcp_null_crash:
  "ff_AlarmAdditionalInformation (re_fault (rd_MavData d)) = JNull \<Longrightarrow>
     \<exists>c. postEventForRCPFault X d vm i w = Some (Crash c)"
  "nf_AdditionalFields (re_NotificationFields (rd_MavData d)) = JNull \<Longrightarrow>
     \<exists>c. postEventForRCPNotification X d vm i w = Some (Crash c)"
  "rt_AdditionalFields (re_tca (rd_MavData d)) = JNull \<Longrightarrow>
     \<exists>c. postEventForRCPTCA X d vm i w = Some (Crash c)"
proof -
  have n: "between_braces (json_text JNull) = Crash OutOfRange" by (simp add: between_braces_crash)
  show "\<exists>c. postEventForRCPFault X d vm i w = Some (Crash c)"
    if "ff_AlarmAdditionalInformation (re_fault (rd_MavData d)) = JNull"
    using that n by (simp add: go_bind_crash postEventForRCPFault_def post_rcp_def rcp_fault_def rcp_fault_text_def Let_def del: json_text.simps)
  show "\<exists>c. postEventForRCPNotification X d vm i w = Some (Crash c)"
    if "nf_AdditionalFields (re_NotificationFields (rd_MavData d)) = JNull"
    using that n by (simp add: go_bind_crash postEventForRCPNotification_def post_rcp_def rcp_notification_def Let_def del: json_text.simps)
  show "\<exists>c. postEventForRCPTCA X d vm i w = Some (Crash c)"
    if "rt_AdditionalFields (re_tca (rd_MavData d)) = JNull"
    using that n by (simp add: postEventForRCPTCA_def post_rcp_def rcp_tca_def Let_def del: json_text.simps)
qed

text \<open>With flat additional information and no brace in any value the splice is the union of the two
  objects.\<close>

lemma rcp_fault_text_flat:
  assumes "json_text (RCPFaultBody f (x_productType X)) = ''{'' @ b @ ''}''"
    and "json_text (ff_AlarmAdditionalInformation f) = ''{'' @ a @ ''}''"
    and "CHR ''{'' \<notin> set a" and "CHR ''}'' \<notin> set a" and "CHR ''{'' \<notin> set b" and "CHR ''}'' \<notin> set b"
  shows "rcp_fault_text X f = Ret (''{'' @ a @ '', '' @ b @ ''}'')"
  using assms between_braces_flat [of "[]" a] between_braces_flat [of "[]" b]
  by (simp add: rcp_fault_text_def)

end
