(* ===== verification/Agent.thy ===== *)
theory Agent
  imports Agent_Rcp Ha
begin

text \<open>
  The agent's handling of Kafka messages, replays, heartbeats and scheduler triggers
  (VESPA/ves-agent/agent/agent.go) and the replay requests of FMaaS (VESPA/ves-agent/ves-agent.go).
  A goroutine that runs for ever is modelled by its iteration; the moment at which a spawned task runs
  is explicit. The loop of the consumer of live events is in \<open>Kafka_Consumer\<close>.
\<close>

section \<open>Routing\<close>

record Domains =
  dm_Fault :: "int list"
  dm_Notificaiton :: "int list"
  dm_Tca :: "int list"
  dm_Measurment :: "int list"

fun find_id :: "int list \<Rightarrow> int \<Rightarrow> int \<Rightarrow> int \<times> bool" where
  "find_id [] i k = (- 1, False)"
| "find_id (x # xs) i k = (if x = i then (k, True) else find_id xs i (k + 1))"

definition Find :: "Domains \<Rightarrow> string \<Rightarrow> int \<Rightarrow> int \<times> bool" where
  "Find dm domain i =
     (if domain = ''fault'' then find_id (dm_Fault dm) i 0
      else if domain = ''notification'' then find_id (dm_Notificaiton dm) i 0
      else if domain = ''tca'' then find_id (dm_Tca dm) i 0
      else (- 1, False))"

text \<open>A Kafka message: its offset and what \<open>json.Unmarshal\<close> makes of its value for each target
  type, \<open>None\<close> being an error.\<close>

record kmessage =
  km_Offset :: int
  km_data :: "Data option"
  km_rcp :: "RCPData option"
  km_meas :: "Batch option"

definition data_domain :: "Data \<Rightarrow> string" where
  "data_domain d = n_Domain (et_hdr (d_MavData d))"

definition processMessages ::
    "('n, 'z) ext \<Rightarrow> Domains \<Rightarrow> kmessage \<Rightarrow> int \<Rightarrow> ('n, 'z) gw \<Rightarrow> ('n, 'z) gw run" where
  "processMessages X dm msg i w =
     (case km_data msg of
        None \<Rightarrow> Some (Ret w)
      | Some d \<Rightarrow>
          (case km_rcp msg of
             None \<Rightarrow> Some (Crash NilDeref)
           | Some r \<Rightarrow>
               (let vm = at zero_VesMap (gw_kafkaObj w) i; rcp = (vm_NbiFormat vm = ''RCP'')
                in if data_domain d = ''fault'' then
                     (if snd (Find dm ''fault'' i) then
                        (if rcp then postEventForRCPFault X r vm i w
                         else postEventForFault X d i (km_Offset msg) w)
                      else Some (Ret w))
                   else if data_domain d = ''notification'' then
                     (if snd (Find dm ''notification'' i) then
                        (if rcp then postEventForRCPNotification X r vm i w
                         else postEventForNotification X d i (km_Offset msg) w)
                      else Some (Ret w))
                   else if data_domain d = ''thresholdCrossingAlert'' then
                     (if snd (Find dm ''tca'' i) then
                        (if rcp then postEventForRCPTCA X r vm i w
                         else postEventForTCA X d i (km_Offset msg) w)
                      else Some (Ret w))
                   else Some (Ret w))))"

definition processMessagesForReplay ::
    "('n, 'z) ext \<Rightarrow> Domains \<Rightarrow> kmessage \<Rightarrow> int \<Rightarrow> ('n, 'z) gw \<Rightarrow> ('n, 'z) gw run" where
  "processMessagesForReplay X dm msg i w =
     (case km_data msg of
        None \<Rightarrow> Some (Ret w)
      | Some d \<Rightarrow>
          (case km_rcp msg of
             None \<Rightarrow> Some (Crash NilDeref)
           | Some r \<Rightarrow>
               (let vm = at zero_VesMap (gw_kafkaObj w) i; rcp = (vm_NbiFormat vm = ''RCP'')
                in if data_domain d = ''fault'' then
                     (if snd (Find dm ''fault'' i) then
                        (if rcp then postEventForRCPFault X r vm i w
                         else postEventForFaultForReplay X d i (km_Offset msg) w)
                      else Some (Ret w))
                   else if data_domain d = ''notification'' then
                     (if snd (Find dm ''notification'' i) then
                        (if rcp then postEventForRCPNotification X r vm i w
                         else postEventForNotificationForReplay X d i (km_Offset msg) w)
                      else Some (Ret w))
                   else if data_domain d = ''thresholdCrossingAlert'' then
                     (if snd (Find dm ''tca'' i) then
                        (if rcp then postEventForRCPTCA X r vm i w
                         else postEventForTCAReplay X d i (km_Offset msg) w)
                      else Some (Ret w))
                   else Some (Ret w))))"

definition processMessagesForMeas ::
    "('n, 'z) ext \<Rightarrow> kmessage \<Rightarrow> string \<Rightarrow> int \<Rightarrow> ('n, 'z) gw \<Rightarrow> ('n, 'z) gw run" where
  "processMessagesForMeas X msg topicName i w =
     (if topicName \<noteq> ''measurement'' then Some (Ret w)
      else case km_meas msg of
             None \<Rightarrow> Some (Ret w)
           | Some batch \<Rightarrow>
               (let vm = at zero_VesMap (gw_kafkaObj w) i
                in if vm_NbiType vm = ''KAFKA'' then Some (Ret (nbi_publish X vm (NbiBatch batch) w))
                   else case cw_objects (gw_cw w) i of
                          None \<Rightarrow> Some (Crash NilDeref)
                        | Some c \<Rightarrow>
                            run_bind (cluster_PostBatch (x_params X) c batch i (gw_cw w))
                              (\<lambda>(b, cw, err). Some (Ret (w\<lparr>gw_cw := cw\<rparr>)))))"

section \<open>The consumer of live events\<close>

definition getLastSequenceId :: "kmessage \<Rightarrow> int" where
  "getLastSequenceId msg = (case km_data msg of None \<Rightarrow> 0 | Some d \<Rightarrow> n_Sequence (et_hdr (d_MavData d)))"

definition remember_last :: "kmessage \<Rightarrow> int \<Rightarrow> ('n, 'z) gw \<Rightarrow> ('n, 'z) gw" where
  "remember_last msg i w =
     w\<lparr>gw_CollectorLastEventId := (gw_CollectorLastEventId w)(i \<mapsto> getLastSequenceId msg)\<rparr>"

section \<open>Replay\<close>

text \<open>The handler of \<open>/setInitReplay\<close>; the status of the reply is looked up under the one-rune string
  of the identifier.\<close>

record ReplayResponse =
  rr_CollectorStatus :: string
  rr_ReplayOnGoing :: bool
  rr_LastSequenceID :: int

definition setInitReplay ::
    "(string \<rightharpoonup> string) \<Rightarrow> int \<Rightarrow> int \<Rightarrow> ('n, 'z) gw \<Rightarrow> ('n, 'z) gw \<times> ReplayResponse" where
  "setInitReplay status replayId startIndex w =
     (let first = (at False (gw_CollectorFirstReplay w) replayId = False);
          replayOngoing = (\<not> first);
          lastId = at 0 (gw_CollectorLastEventId w) replayId;
          w1 = (if first then w\<lparr>gw_CollectorFirstReplay := (gw_CollectorFirstReplay w)(replayId \<mapsto> True)\<rparr> else w)
      in (w1\<lparr>gw_CollectorReplayObjects := (gw_CollectorReplayObjects w1)
             (replayId \<mapsto> NewReplayObject True replayId lastId replayOngoing startIndex)\<rparr>,
          \<lparr>rr_CollectorStatus = at [] status (string_of_rune replayId), rr_ReplayOnGoing = replayOngoing,
            rr_LastSequenceID = lastId\<rparr>))"

definition setResetReplay :: "int list \<Rightarrow> ('n, 'z) gw \<Rightarrow> ('n, 'z) gw" where
  "setResetReplay eventList w =
     foldl (\<lambda>w i. w\<lparr>gw_SetResetReplay := (gw_SetResetReplay w)(i \<mapsto> True)\<rparr>) w eventList"

text \<open>What the agent does with an identifier from the replay channel: live events are paused, then
  the replay starts at an offset computed from what ZooKeeper has.\<close>

definition startOffset :: "'z curator \<Rightarrow> 'z \<Rightarrow> int \<Rightarrow> int \<Rightarrow> int" where
  "startOffset cu z i startIndex =
     wrap64 (getLastOffset cu z i - wrap64 (getLastSequence cu z i - startIndex))"

definition begin_replay :: "('n, 'z) ext \<Rightarrow> int \<Rightarrow> ('n, 'z) gw \<Rightarrow> (('n, 'z) gw \<times> int) go" where
  "begin_replay X i w =
     (let w1 = w\<lparr>gw_PauseFmmasEvents := (gw_PauseFmmasEvents w)(i \<mapsto> True)\<rparr>
      in case gw_CollectorReplayObjects w1 i of
           None \<Rightarrow> Crash NilDeref
         | Some info \<Rightarrow> Ret (w1, startOffset (x_curator X) (gw_zk w1) (ri_ReplayCollectorId info) (ri_StartIndex info)))"

definition end_replay :: "int \<Rightarrow> ('n, 'z) gw \<Rightarrow> ('n, 'z) gw" where
  "end_replay i w = w\<lparr>gw_PauseFmmasEvents := (gw_PauseFmmasEvents w)(i \<mapsto> False),
     gw_CollectorFirstReplay := (gw_CollectorFirstReplay w)(i \<mapsto> False),
     gw_SetResetReplay := (gw_SetResetReplay w)(i \<mapsto> False)\<rparr>"

text \<open>One iteration of the replay loop of \<open>processEvents\<close>, after a message was read.\<close>

definition replay_iteration ::
    "('n, 'z) ext \<Rightarrow> Domains \<Rightarrow> int \<Rightarrow> kmessage \<Rightarrow> ('n, 'z) gw \<Rightarrow> ('n, 'z) gw run" where
  "replay_iteration X dm i msg w =
     run_bind (processMessagesForReplay X dm msg i w) (\<lambda>w1.
       Some (Ret (if at False (gw_SetResetReplay w1) i then end_replay i w1
                  else if at 0 (gw_ZKSequenceId w1) i = at 0 (gw_ZKSequenceIdForReplay w1) i
                    then end_replay i w1 else w1)))"

section \<open>Scheduler triggers\<close>

text \<open>A \<open>time.Timer\<close>: it runs, its tick is in its channel, or neither. \<open>Stop\<close> leaves a tick in the channel.\<close>

datatype timer = Running duration | Fired | Off

definition timer_Stop :: "timer \<Rightarrow> timer" where
  "timer_Stop t = (case t of Running d \<Rightarrow> Off | _ \<Rightarrow> t)"

text \<open>\<open>f\<close> sends the result of the job; it works on a state of its own and says whether it succeeded.\<close>

definition triggerScheduler ::
    "('s, 'e) State \<Rightarrow> ('s, 'e, 'r) Job \<Rightarrow> ('r \<Rightarrow> 'x \<Rightarrow> 'x \<times> bool) \<Rightarrow> Scheduler \<Rightarrow> 's world \<Rightarrow> 'x \<Rightarrow> timer \<Rightarrow>
     Scheduler \<times> 's world \<times> 'x \<times> timer" where
  "triggerScheduler I job f sched w x timer =
     (let (sched1, w1, res) = Step I job sched w
      in case res of
           Inl e \<Rightarrow> (sched1, w1, x, Running (10 * second))
         | Inr r \<Rightarrow>
             (let (x1, sent) = f r x
              in if sent then
                   (let (sched2, w2, err) = Ack I sched1 w1
                    in case err of
                         Some e \<Rightarrow> (sched2, w2, x1, timer)
                       | None \<Rightarrow> (let (d, w3) = WaitChan I sched2 w2 in (sched2, w3, x1, Running d)))
                 else (sched1, w1, x1, Running (10 * second))))"

definition handleIntervalChanged ::
    "('s, 'e) State \<Rightarrow> Scheduler \<Rightarrow> 's world \<Rightarrow> timer \<Rightarrow> duration \<Rightarrow> 's world \<times> timer" where
  "handleIntervalChanged I sched w timer interval =
     (let (w1, err) = SetInterval I sched w interval
      in case err of Some e \<Rightarrow> (w1, timer)
         | None \<Rightarrow> (let (d, w2) = WaitChan I sched w1 in (w2, Running d)))"

section \<open>Naming codes\<close>

record NfcNamingCode =
  nn_Type :: string
  nn_Vnfcs :: "string list"

definition initNfcNamingCode :: "NfcNamingCode list \<Rightarrow> string \<rightharpoonup> string" where
  "initNfcNamingCode codes =
     foldl (\<lambda>m c. foldl (\<lambda>m v. m(v \<mapsto> nn_Type c)) m (nn_Vnfcs c)) Map.empty codes"

section \<open>Heartbeats\<close>

record hb_ports =
  hp_NetConfPort :: string
  hp_RestConfPort :: string
  hp_FmaasPort :: string

text \<open>The heartbeat that is sent, made from the one the monitor produced.\<close>

definition hb_collector :: "hb_ports \<Rightarrow> time \<Rightarrow> HeartbeatEvent \<Rightarrow> HeartbeatEvent" where
  "hb_collector ports now hmsg =
     (let h = hb_hdr hmsg; a = hb_AdditionalFields hmsg;
          hbc = NewHeartbeatCollector now (h_EventID h) (h_EventName h) (h_EventType h) ''VNFName''
            (hb_HeartbeatInterval hmsg)
      in hbc\<lparr>hb_hdr := (hb_hdr hbc)\<lparr>h_SourceName := h_SourceName h, h_NfNamingCode := h_NfNamingCode h,
             h_ReportingEntityID := h_ReportingEntityID h, h_ReportingEntityName := h_ReportingEntityName h,
             h_SourceID := h_SourceID h, h_NfVendorName := h_NfVendorName h\<rparr>,
           hb_AdditionalFields := (hb_AdditionalFields hbc)\<lparr>af_CMAAS_NETCONF_PORT := hp_NetConfPort ports,
             af_APIGW_PORT := hp_RestConfPort ports, af_FMAAS_HTTP_PORT := hp_FmaasPort ports,
             af_APIGW_USERNAME := ''admin'', af_APIGW_PASSWORD := ''admin'', af_APIGW_AUTH_TYPE := ''basic'',
             af_ME_ID := af_ME_ID a, af_MGMT_IP := af_MGMT_IP a\<rparr>\<rparr>)"

text \<open>
  The goroutines share one heartbeat object, whose collector identifier the loop overwrites:
  \<open>hb_collector_id order k\<close> is its value after \<open>k\<close> iterations over the collectors in the order
  \<open>order\<close> in which the range visits the map.
\<close>

definition hb_collector_id :: "(int \<times> bool) list \<Rightarrow> nat \<Rightarrow> string" where
  "hb_collector_id order k =
     (case filter snd (take k order) of [] \<Rightarrow> [] | x # xs \<Rightarrow> FormatInt (fst (last (x # xs))))"

definition with_collector_id :: "string \<Rightarrow> HeartbeatEvent \<Rightarrow> HeartbeatEvent" where
  "with_collector_id s hbc = hbc\<lparr>hb_AdditionalFields := (hb_AdditionalFields hbc)\<lparr>af_COLLECTOR_ID := s\<rparr>\<rparr>"

text \<open>The body of one goroutine.\<close>

definition send_heartbeat ::
    "('n, 'z) ext \<Rightarrow> HeartbeatEvent \<Rightarrow> int \<Rightarrow> ('n, 'z) gw \<Rightarrow> ('n, 'z) gw run" where
  "send_heartbeat X hbc i w =
     (let vm = at zero_VesMap (gw_kafkaObj w) i; sent = (\<lambda>b w. w\<lparr>gw_HeartbeatSent := (gw_HeartbeatSent w)(i \<mapsto> b)\<rparr>)
      in if vm_NbiType vm = ''KAFKA'' then Some (Ret (sent True (nbi_publish X vm (NbiEvent (EvHeartbeat hbc)) w)))
         else case cw_objects (gw_cw w) i of
                None \<Rightarrow> Some (Crash NilDeref)
              | Some c \<Rightarrow>
                  run_bind (cluster_PostEvent (x_params X) c (EvHeartbeat hbc) i (gw_cw w))
                    (\<lambda>(evt, cw, err). Some (Ret (sent (err = None) (w\<lparr>gw_cw := cw\<rparr>)))))"

text \<open>\<open>postHeartbeat\<close> with the schedule made explicit: the goroutine spawned in iteration \<open>k\<close> reads the
  shared heartbeat after \<open>moment k\<close> iterations.\<close>

fun postHeartbeat_loop ::
    "('n, 'z) ext \<Rightarrow> HeartbeatEvent \<Rightarrow> (int \<times> bool) list \<Rightarrow> (nat \<Rightarrow> nat) \<Rightarrow> nat \<Rightarrow> (int \<times> bool) list \<Rightarrow>
     ('n, 'z) gw \<Rightarrow> ('n, 'z) gw run" where
  "postHeartbeat_loop X hbc order moment k [] w = Some (Ret w)"
| "postHeartbeat_loop X hbc order moment k ((i, hbState) # rest) w =
     run_bind (if hbState
               then send_heartbeat X (with_collector_id (hb_collector_id order (moment k)) hbc) i w
               else Some (Ret (w\<lparr>gw_HeartbeatSent := (gw_HeartbeatSent w)(i \<mapsto> True)\<rparr>)))
       (postHeartbeat_loop X hbc order moment (Suc k) rest)"

definition postHeartbeat ::
    "('n, 'z) ext \<Rightarrow> hb_ports \<Rightarrow> time \<Rightarrow> HeartbeatEvent \<Rightarrow> (int \<times> bool) list \<Rightarrow> (nat \<Rightarrow> nat) \<Rightarrow>
     ('n, 'z) gw \<Rightarrow> ('n, 'z) gw run" where
  "postHeartbeat X ports now hmsg order moment w =
     postHeartbeat_loop X (hb_collector ports now hmsg) order moment 0 order w"

section \<open>Live events: numbering and persistence\<close>

text \<open>The part of the state that a delivery leaves alone.\<close>

definition same_books :: "('n, 'z) gw \<Rightarrow> ('n, 'z) gw \<Rightarrow> bool" where
  "same_books w w' \<longleftrightarrow> gw_zk w' = gw_zk w \<and> gw_kafkaObj w' = gw_kafkaObj w \<and>
     gw_ZKSequenceId w' = gw_ZKSequenceId w \<and> gw_ZKOffsetId w' = gw_ZKOffsetId w \<and>
     gw_ZKSequenceIdForReplay w' = gw_ZKSequenceIdForReplay w"

lemma nbi_publish_books: "same_books w (nbi_publish X vm m w)"
  by (simp add: same_books_def nbi_publish_def publishToKafkaForNbi_def)

lemma deliver_books: "deliver X evt i w = Some (Ret w') \<Longrightarrow> same_books w w'"
  using nbi_publish_books [of w X]
  by (auto simp: deliver_def Let_def go_simps same_books_def split: if_splits option.splits prod.splits)

definition event_of :: "Data \<Rightarrow> int \<Rightarrow> Event" where
  "event_of d sn =
     (if data_domain d = ''fault'' then fault_of d sn
      else if data_domain d = ''notification'' then notification_of d sn else tca_of d sn)"

lemma Header_event_of: "h_Sequence (Header (event_of d sn)) = sn"
  by (simp add: event_of_def fault_of_def notification_of_def tca_of_def NewFault_def NewNotification_def
      NewTCA_def Let_def)

text \<open>The messages that lead to a live VES post for collector \<open>i\<close>.\<close>

definition wanted :: "Domains \<Rightarrow> int \<Rightarrow> kmessage \<Rightarrow> bool" where
  "wanted dm i msg =
     (case (km_data msg, km_rcp msg) of
        (Some d, Some r) \<Rightarrow>
          (data_domain d = ''fault'' \<and> i \<in> set (dm_Fault dm)) \<or>
          (data_domain d = ''notification'' \<and> i \<in> set (dm_Notificaiton dm)) \<or>
          (data_domain d = ''thresholdCrossingAlert'' \<and> i \<in> set (dm_Tca dm))
      | _ \<Rightarrow> False)"

lemma find_id_found: "snd (find_id xs i k) \<longleftrightarrow> i \<in> set xs"
  by (induction xs arbitrary: k) auto

lemma find_id_nth: "find_id xs i k = (j, True) \<Longrightarrow> k \<le> j \<and> nat (j - k) < length xs \<and> xs ! nat (j - k) = i"
proof (induction xs arbitrary: k)
  case (Cons x xs)
  show ?case
  proof (cases "x = i")
    case False
    with Cons.prems have "find_id xs i (k + 1) = (j, True)" by simp
    from Cons.IH [OF this] have "k + 1 \<le> j" "nat (j - (k + 1)) < length xs" "xs ! nat (j - (k + 1)) = i" by auto
    moreover from this(1) have "nat (j - k) = Suc (nat (j - (k + 1)))" by simp
    ultimately show ?thesis by simp
  qed (use Cons.prems in auto)
qed simp

lemma processMessages_wanted:
  assumes "wanted dm i msg" and "km_data msg = Some d" and "vm_NbiFormat (at zero_VesMap (gw_kafkaObj w) i) \<noteq> ''RCP''"
  shows "processMessages X dm msg i w = run_bind (deliver X (event_of d (zk_next w i)) i w)
    (\<lambda>w1. Some (Ret (bump_offset X i (km_Offset msg) (bump_sequence X i w1))))"
  using assms by (auto simp: wanted_def processMessages_def Find_def find_id_found event_of_def Let_def
      postEventForFault_def postEventForNotification_def postEventForTCA_def split: option.splits)

lemma processMessages_books:
  assumes "wanted dm i msg" and "vm_NbiFormat (at zero_VesMap (gw_kafkaObj w) i) \<noteq> ''RCP''"
    and "processMessages X dm msg i w = Some (Ret w')"
  shows "gw_ZKSequenceId w' = (gw_ZKSequenceId w)(i \<mapsto> zk_next w i) \<and>
    gw_ZKOffsetId w' = (gw_ZKOffsetId w)(i \<mapsto> km_Offset msg) \<and> gw_kafkaObj w' = gw_kafkaObj w \<and>
    gw_zk w' = zk_Update (x_curator X)
      (zk_Update (x_curator X) (gw_zk w) (id_path i) (FormatInt (zk_next w i)))
      (offset_path i) (FormatInt (km_Offset msg))"
proof -
  from assms(1) obtain d where d: "km_data msg = Some d" by (auto simp: wanted_def split: option.splits)
  from assms(3) [unfolded processMessages_wanted [OF assms(1) d assms(2)]] obtain w1 where
    w1: "deliver X (event_of d (zk_next w i)) i w = Some (Ret w1)"
    and w': "w' = bump_offset X i (km_Offset msg) (bump_sequence X i w1)" by (auto simp: go_simps)
  from deliver_books [OF w1] show ?thesis
    by (simp add: w' bump_offset_def bump_sequence_def same_books_def zk_next_def)
qed

lemma processMessages_persists:
  assumes "zk_works (x_curator X) view" and "wanted dm i msg"
    and "vm_NbiFormat (at zero_VesMap (gw_kafkaObj w) i) \<noteq> ''RCP''"
    and "processMessages X dm msg i w = Some (Ret w')" and "is_int64 (km_Offset msg)"
  shows "getLastSequence (x_curator X) (gw_zk w') i = zk_next w i \<and>
    getLastOffset (x_curator X) (gw_zk w') i = km_Offset msg"
  using processMessages_books [OF assms(2-4)] getLastOffset_Update [OF assms(1,5)]
    getLastSequence_other [OF assms(1)] getLastSequence_Update [OF assms(1)]
  by (simp add: zk_next_def)

section \<open>A run of live events\<close>

fun process_all ::
    "('n, 'z) ext \<Rightarrow> Domains \<Rightarrow> int \<Rightarrow> kmessage list \<Rightarrow> ('n, 'z) gw \<Rightarrow> ('n, 'z) gw run" where
  "process_all X dm i [] w = Some (Ret w)"
| "process_all X dm i (m # ms) w = run_bind (processMessages X dm m i w) (process_all X dm i ms)"

lemma process_all_books:
  assumes "process_all X dm i ms w = Some (Ret w')" and "\<forall>m \<in> set ms. wanted dm i m"
    and "vm_NbiFormat (at zero_VesMap (gw_kafkaObj w) i) \<noteq> ''RCP''"
    and "at 0 (gw_ZKSequenceId w) i = s" and "0 \<le> s" and "s + int (length ms) < 2 ^ 63"
  shows "at 0 (gw_ZKSequenceId w') i = s + int (length ms) \<and> gw_kafkaObj w' = gw_kafkaObj w"
  using assms
proof (induction ms arbitrary: w s)
  case (Cons m ms)
  from Cons.prems(1) obtain w1 where
    p: "processMessages X dm m i w = Some (Ret w1)" and r: "process_all X dm i ms w1 = Some (Ret w')"
    by (auto simp: go_simps)
  have nx: "zk_next w i = s + 1" using Cons.prems(4-6) by (simp add: zk_next_def is_int64_def)
  have B: "gw_ZKSequenceId w1 = (gw_ZKSequenceId w)(i \<mapsto> s + 1)" "gw_kafkaObj w1 = gw_kafkaObj w"
    using processMessages_books [OF _ Cons.prems(3) p] Cons.prems(2) nx by auto
  then have a: "at 0 (gw_ZKSequenceId w1) i = s + 1" by (metis at_upd)
  have "at 0 (gw_ZKSequenceId w') i = (s + 1) + int (length ms) \<and> gw_kafkaObj w' = gw_kafkaObj w1"
    by (rule Cons.IH [OF r _ _ a]) (use Cons.prems B(2) in simp_all)
  with B show ?case by simp
qed simp

lemma process_all_append:
  "process_all X dm i (ms @ ns) w = run_bind (process_all X dm i ms w) (process_all X dm i ns)"
  by (induction ms arbitrary: w) (auto simp: run_bind_def split: option.splits go.splits)

text \<open>After a run over consecutive offsets ZooKeeper has the number of the last event and its offset,
  so the start offset of a replay is the offset of the event that got the start index.\<close>

lemma process_all_startOffset:
  assumes zk: "zk_works (x_curator X) view" and run: "process_all X dm i ms w = Some (Ret w')"
    and wanted: "\<forall>m \<in> set ms. wanted dm i m"
    and fmt: "vm_NbiFormat (at zero_VesMap (gw_kafkaObj w) i) \<noteq> ''RCP''"
    and s: "at 0 (gw_ZKSequenceId w) i = s" "0 \<le> s" "s + int (length ms) < 2 ^ 63"
    and off: "\<forall>k < length ms. km_Offset (ms ! k) = o0 + int k" "0 \<le> o0" "o0 + int (length ms) < 2 ^ 63"
    and k: "k < length ms"
  shows "startOffset (x_curator X) (gw_zk w') i (s + 1 + int k) = km_Offset (ms ! k)"
proof -
  from k obtain n where n: "length ms = Suc n" by (cases "length ms") auto
  let ?l = "take n ms" let ?m = "ms ! n"
  have ms: "ms = ?l @ [?m]" using n take_Suc_conv_app_nth [of n ms] by simp
  have "process_all X dm i (?l @ [?m]) w = Some (Ret w')" using run by (simp only: ms [symmetric])
  then obtain w1 where r1: "process_all X dm i ?l w = Some (Ret w1)"
    and r2: "process_all X dm i [?m] w1 = Some (Ret w')"
    unfolding process_all_append run_bind_Ret_iff by blast
  have B: "at 0 (gw_ZKSequenceId w1) i = s + int n \<and> gw_kafkaObj w1 = gw_kafkaObj w"
    using process_all_books [OF r1 _ fmt s(1,2)] wanted s(3) n by (auto dest: in_set_takeD)
  have p: "processMessages X dm ?m i w1 = Some (Ret w')" using r2 by (simp add: go_simps)
  have nx: "zk_next w1 i = s + 1 + int n" using B s n by (simp add: zk_next_def is_int64_def)
  have om: "km_Offset ?m = o0 + int n" using off(1) n by simp
  have "getLastSequence (x_curator X) (gw_zk w') i = s + 1 + int n \<and>
      getLastOffset (x_curator X) (gw_zk w') i = o0 + int n"
    using processMessages_persists [OF zk _ _ p] wanted fmt B nx om off(2,3) n
    by (simp add: is_int64_def)
  with off k n s show ?thesis by (simp add: startOffset_def is_int64_def)
qed

text \<open>For a Kafka collector the events of a run are published in order with consecutive numbers.\<close>

lemma deliver_kafka:
  assumes "at zero_VesMap (gw_kafkaObj w) i = vm" and "vm_NbiType vm = ''KAFKA''"
    and "isPrimaryBrokerReacheable (x_dial X) (vm_KafkaPrimary vm)"
  shows "deliver X evt i w = Some (Ret (w\<lparr>gw_published :=
    gw_published w @ [(vm_KafkaPrimary vm, vm_PrimaryTopic vm, NbiEvent evt)]\<rparr>))"
  using assms by (simp add: deliver_def nbi_publish_def publishToKafkaForNbi_def Let_def)

definition kafka_ves :: "('n, 'z) ext \<Rightarrow> VesMap \<Rightarrow> bool" where
  "kafka_ves X vm \<longleftrightarrow> vm_NbiType vm = ''KAFKA'' \<and> vm_NbiFormat vm \<noteq> ''RCP'' \<and>
     isPrimaryBrokerReacheable (x_dial X) (vm_KafkaPrimary vm)"

definition numbered :: "int \<Rightarrow> kmessage list \<Rightarrow> Event list" where
  "numbered s ms = map (\<lambda>(k, m). event_of (the (km_data m)) (s + int k)) (zip [1 ..< Suc (length ms)] ms)"

lemma numbered_Cons: "numbered s (m # ms) = event_of (the (km_data m)) (s + 1) # numbered (s + 1) ms"
proof -
  have "[1 ..< Suc (length (m # ms))] = 1 # map Suc [1 ..< Suc (length ms)]"
    by (simp add: upt_conv_Cons map_Suc_upt del: upt_Suc)
  then show ?thesis by (simp add: numbered_def zip_map1 case_prod_beta comp_def add.assoc del: upt_Suc)
qed

lemma process_all_kafka:
  assumes "at zero_VesMap (gw_kafkaObj w) i = vm" and "kafka_ves X vm"
    and "\<forall>m \<in> set ms. wanted dm i m"
    and "at 0 (gw_ZKSequenceId w) i = s" and "0 \<le> s" and "s + int (length ms) < 2 ^ 63"
  shows "\<exists>w'. process_all X dm i ms w = Some (Ret w') \<and>
    gw_published w' = gw_published w @
      map (\<lambda>e. (vm_KafkaPrimary vm, vm_PrimaryTopic vm, NbiEvent e)) (numbered s ms)"
  using assms
proof (induction ms arbitrary: w s)
  case Nil
  then show ?case by (simp add: numbered_def)
next
  case (Cons m ms)
  from Cons.prems(3) obtain d where d: "km_data m = Some d" by (auto simp: wanted_def split: option.splits)
  have w: "wanted dm i m" using Cons.prems(3) by simp
  have nx: "zk_next w i = s + 1" using Cons.prems(4-6) by (simp add: zk_next_def is_int64_def)
  have f: "vm_NbiFormat (at zero_VesMap (gw_kafkaObj w) i) \<noteq> ''RCP''" using Cons.prems(1,2) by (simp add: kafka_ves_def)
  obtain w1 where p: "processMessages X dm m i w = Some (Ret w1)"
    and pub: "gw_published w1 = gw_published w @ [(vm_KafkaPrimary vm, vm_PrimaryTopic vm, NbiEvent (event_of d (s + 1)))]"
    using processMessages_wanted [OF w d f] deliver_kafka [OF Cons.prems(1)] Cons.prems(2) nx
    by (simp add: kafka_ves_def bump_offset_def bump_sequence_def)
  have B: "gw_ZKSequenceId w1 = (gw_ZKSequenceId w)(i \<mapsto> s + 1)" "gw_kafkaObj w1 = gw_kafkaObj w"
    using processMessages_books [OF w f p] nx by auto
  then have a: "at 0 (gw_ZKSequenceId w1) i = s + 1" by (metis at_upd)
  have "\<exists>w'. process_all X dm i ms w1 = Some (Ret w') \<and> gw_published w' = gw_published w1 @
      map (\<lambda>e. (vm_KafkaPrimary vm, vm_PrimaryTopic vm, NbiEvent e)) (numbered (s + 1) ms)"
    by (rule Cons.IH [OF _ _ _ a]) (use Cons.prems B(2) in simp_all)
  with p pub d show ?case by (auto simp: numbered_Cons)
qed

section \<open>Interleavings\<close>

lemma hb_collector_id_own:
  assumes "k < length order" and "order ! k = (i, True)"
    and "\<forall>j. k < j \<and> j < n \<and> j < length order \<longrightarrow> \<not> snd (order ! j)" and "k < n"
  shows "hb_collector_id order n = FormatInt i"
proof -
  have split: "take n order = take k order @ order ! k # take (n - Suc k) (drop (Suc k) order)"
    using assms(1,4) take_add [of "Suc k" "n - Suc k" order] take_Suc_conv_app_nth [of k order] by simp
  have "filter snd (take (n - Suc k) (drop (Suc k) order)) = []"
  proof -
    have "\<not> snd x" if "x \<in> set (take (n - Suc k) (drop (Suc k) order))" for x
    proof -
      from that obtain j where "j < n - Suc k" "j < length order - Suc k" "x = order ! (Suc k + j)"
        by (auto simp: in_set_conv_nth)
      moreover from this have "Suc k + j < n" "Suc k + j < length order" by linarith+
      ultimately show ?thesis using assms(3) by simp
    qed
    then show ?thesis by (simp add: filter_empty_conv)
  qed
  with split assms(2) have "filter snd (take n order) = filter snd (take k order) @ [(i, True)]" by simp
  then show ?thesis by (cases "filter snd (take k order)") (simp_all add: hb_collector_id_def)
qed

end
