(* ===== verification/Agent_Properties.thy ===== *)
theory Agent_Properties
  imports Agent
begin

text \<open>
  The properties of the agent: the numbering of live events and what ZooKeeper holds of it, replays
  and the smaller routines.
\<close>

section \<open>A sample gateway\<close>

definition map_curator :: "(string \<rightharpoonup> string) curator" where
  "map_curator = \<lparr>cu_checkExists = (\<lambda>z p. Some (z p \<noteq> None)), cu_setData = (\<lambda>z p d. z(p \<mapsto> d)),
     cu_create = (\<lambda>z p d. z(p \<mapsto> d)), cu_getData = (\<lambda>z p. z p)\<rparr>"

lemma zk_works_map_curator: "zk_works map_curator (\<lambda>z. z)"
  by (simp add: zk_works_def map_curator_def)

definition sample_ext :: "(unit, string \<rightharpoonup> string) ext" where
  "sample_ext = \<lparr>x_params = \<lparr>pr_validate = (\<lambda>_. None), pr_encode_error = (\<lambda>_. None), pr_encode = (\<lambda>_. []), pr_newreq = (\<lambda>_. None),
       pr_send = (\<lambda>n r. (n, Inl ''no network''))\<rparr>,
     x_curator = map_curator, x_dial = (\<lambda>a. a = ''broker:9092''), x_write_error = (\<lambda>_ _ _. None), x_productType = ''cnf'', x_parse = (\<lambda>_. None)\<rparr>"

definition sample_vm :: VesMap where
  "sample_vm = \<lparr>vm_NbiFormat = ''VES'', vm_NbiType = ''KAFKA'', vm_KafkaPrimary = [''broker:9092''], vm_KafkaBackup = [],
     vm_PrimaryTopic = ''t'', vm_BackupTopic = []\<rparr>"

definition no_evel :: Evel where
  "no_evel = (let u = \<lparr>url_Scheme = [], url_Host = [], url_Path = [], url_User = None\<rparr>
     in \<lparr>ev_baseURL = u, ev_topic = [], ev_heartbeatInterval = 0, ev_measurementInterval = 0,
       ev_reportingEntityName = [], ev_reportingEntityID = [],
       ev_client = \<lparr>cli_baseURL = u, cli_schema = False, cli_maxBodySize = 0\<rparr>, ev_measIntCh = [], ev_hbIntCh = []\<rparr>)"

definition sample_gw :: "(unit, string \<rightharpoonup> string) gw" where
  "sample_gw = \<lparr>gw_cw = \<lparr>cw_env = \<lparr>env_chans = (\<lambda>_. \<lparr>ch_cap = 0, ch_buf = []\<rparr>), env_net = (), env_sent = []\<rparr>,
       cw_evels = (\<lambda>_. no_evel), cw_nevels = 0, cw_clusters = (\<lambda>_. zero_VCluster), cw_nclusters = 0,
       cw_objects = Map.empty\<rparr>,
     gw_zk = Map.empty, gw_kafkaObj = [7 \<mapsto> sample_vm], gw_ZKSequenceId = [7 \<mapsto> 3], gw_ZKOffsetId = Map.empty,
     gw_ZKSequenceIdForReplay = Map.empty, gw_HeartbeatSent = Map.empty, gw_PauseFmmasEvents = Map.empty,
     gw_CollectorFirstReplay = Map.empty, gw_SetResetReplay = Map.empty, gw_CollectorLastEventId = Map.empty,
     gw_CollectorReplayObjects = Map.empty, gw_VesCollectorsHeartBeat = Map.empty, gw_published = []\<rparr>"

definition sample_header :: NewEventHeader where
  "sample_header = \<lparr>n_Domain = ''fault'', n_EventID = ''e1'', n_EventName = ''Fault_x'', n_EventType = [],
     n_InternalHeaderFields = JNull, n_LastEpochMillis = 1000, n_NfNamingCode = [], n_NfcNamingCode = [],
     n_NfVendorName = [], n_Priority = ''High'', n_ReportingEntityID = [], n_ReportingEntityName = [], n_Sequence = 0,
     n_SourceID = [], n_SourceName = [], n_StartEpochMillis = 1000, n_TimeZoneOffset = [], n_Version = [],
     n_VesEventListenerVersion = [], n_LocalEventName = []\<rparr>"

definition sample_fault :: faultFields where
  "sample_fault = \<lparr>ff_AlarmAdditionalInformation = JNull, ff_AlarmCondition = ''c'', ff_AlarmInterfaceA = [],
     ff_EventCategory = [], ff_EventFaultSeverity = ''MAJOR'', ff_EventSourceType = [], ff_FaultFieldsVersion = [],
     ff_SpecificProblem = [], ff_VfStatus = ''Active''\<rparr>"

definition sample_notification :: notificationFields where
  "sample_notification = \<lparr>nf_AdditionalFields = JNull, nf_ChangeContact = [], nf_ChangeIdentifier = [],
     nf_ChangeType = [], nf_NotificationFieldsVersion = [], nf_NewState = [], nf_OldState = [], nf_StateInterface = []\<rparr>"

definition sample_data :: Data where
  "sample_data = \<lparr>d_MavData = \<lparr>et_hdr = sample_header, et_fault = sample_fault,
     et_tca = \<lparr>tc_AdditionalFields = JNull, tc_AdditionalParameters = [], tc_AlertAction = [], tc_AlertDescription = [],
       tc_AlertType = [], tc_CollectionTimestamp = [], tc_EventSeverity = [], tc_EventStartTimestamp = [],
       tc_ThresholdCrossingFieldsVersion = []\<rparr>,
     et_NotificationFields = sample_notification\<rparr>\<rparr>"

definition sample_rcp :: RCPData where
  "sample_rcp = \<lparr>rd_MavData = \<lparr>re_hdr = sample_header, re_fault = sample_fault,
     re_tca = \<lparr>rt_AdditionalFields = JNull, rt_AlertAction = [], rt_AlertDescription = [], rt_AlertType = [],
       rt_CollectionTimestamp = [], rt_EventSeverity = [], rt_EventStartTimestamp = [],
       rt_ThresholdCrossingFieldsVersion = []\<rparr>,
     re_NotificationFields = \<lparr>nf_AdditionalFields = JNull, nf_ChangeContact = [], nf_ChangeIdentifier = [],
       nf_ChangeType = [], nf_NotificationFieldsVersion = [], nf_NewState = [], nf_OldState = [], nf_StateInterface = [],
       rn_ProductType = []\<rparr>\<rparr>\<rparr>"

definition sample_msg :: "int \<Rightarrow> kmessage" where
  "sample_msg off = \<lparr>km_Offset = off, km_data = Some sample_data, km_rcp = Some sample_rcp, km_meas = None\<rparr>"

definition sample_domains :: Domains where
  "sample_domains = \<lparr>dm_Fault = [5, 7], dm_Notificaiton = [], dm_Tca = [], dm_Measurment = []\<rparr>"

lemma wanted_sample [simp]: "wanted sample_domains 7 (sample_msg off)"
  by (simp add: wanted_def sample_msg_def data_domain_def sample_data_def sample_header_def sample_domains_def)

lemma sample_gw_simps [simp]:
  "at zero_VesMap (gw_kafkaObj sample_gw) 7 = sample_vm" "at 0 (gw_ZKSequenceId sample_gw) 7 = 3"
  "gw_published sample_gw = []" "kafka_ves sample_ext sample_vm" "vm_NbiFormat sample_vm \<noteq> ''RCP''"
  "x_curator sample_ext = map_curator" "km_Offset (sample_msg off) = off"
  by (simp_all add: sample_gw_def kafka_ves_def sample_vm_def sample_ext_def isPrimaryBrokerReacheable_def sample_msg_def)

section \<open>Live events\<close>

lemma process_all_persists:
  assumes zk: "zk_works (x_curator X) view" and run: "process_all X dm i (ms @ [m]) w = Some (Ret w')"
    and wanted: "\<forall>m \<in> set (ms @ [m]). wanted dm i m"
    and fmt: "vm_NbiFormat (at zero_VesMap (gw_kafkaObj w) i) \<noteq> ''RCP''"
    and s: "at 0 (gw_ZKSequenceId w) i = s" "0 \<le> s" "s + int (length (ms @ [m])) < 2 ^ 63"
    and off: "is_int64 (km_Offset m)"
  shows "getLastSequence (x_curator X) (gw_zk w') i = s + int (length (ms @ [m])) \<and>
    getLastOffset (x_curator X) (gw_zk w') i = km_Offset m"
proof -
  from run obtain w1 where r1: "process_all X dm i ms w = Some (Ret w1)"
    and r2: "processMessages X dm m i w1 = Some (Ret w')"
    by (auto simp: process_all_append go_simps)
  have B: "at 0 (gw_ZKSequenceId w1) i = s + int (length ms) \<and> gw_kafkaObj w1 = gw_kafkaObj w"
    using process_all_books [OF r1 _ fmt s(1,2)] wanted s(3) by simp
  have "zk_next w1 i = s + int (length (ms @ [m]))" using B s by (simp add: zk_next_def is_int64_def)
  with processMessages_persists [OF zk _ _ r2 off] wanted fmt B show ?thesis by simp
qed

text \<open>C2: A run of live events for a Kafka collector whose primary broker is reachable: every event is
  published, in order, numbered consecutively from the collector's last number; when the run is over
  ZooKeeper holds the number and the offset of the last event.\<close>

theorem live_events_numbered:
  assumes zk: "zk_works (x_curator X) view"
    and vm: "at zero_VesMap (gw_kafkaObj w) i = vm" "kafka_ves X vm"
    and wanted: "\<forall>m \<in> set ms. wanted dm i m"
    and s: "at 0 (gw_ZKSequenceId w) i = s" "0 \<le> s" "s + int (length ms) < 2 ^ 63"
    and off: "ms \<noteq> [] \<Longrightarrow> is_int64 (km_Offset (last ms))"
  shows "\<exists>w'. process_all X dm i ms w = Some (Ret w') \<and>
    gw_published w' = gw_published w @
      map (\<lambda>e. (vm_KafkaPrimary vm, vm_PrimaryTopic vm, NbiEvent e)) (numbered s ms) \<and>
    (ms \<noteq> [] \<longrightarrow> getLastSequence (x_curator X) (gw_zk w') i = s + int (length ms) \<and>
       getLastOffset (x_curator X) (gw_zk w') i = km_Offset (last ms))"
proof -
  from process_all_kafka [OF vm wanted s] obtain w' where
    r: "process_all X dm i ms w = Some (Ret w')"
      "gw_published w' = gw_published w @
        map (\<lambda>e. (vm_KafkaPrimary vm, vm_PrimaryTopic vm, NbiEvent e)) (numbered s ms)" by blast
  have fmt: "vm_NbiFormat (at zero_VesMap (gw_kafkaObj w) i) \<noteq> ''RCP''" using vm by (simp add: kafka_ves_def)
  have "getLastSequence (x_curator X) (gw_zk w') i = s + int (length ms) \<and>
      getLastOffset (x_curator X) (gw_zk w') i = km_Offset (last ms)" if "ms \<noteq> []"
    using process_all_persists [OF zk, of dm i "butlast ms" "last ms" w w' s] r(1) wanted fmt s off that by simp
  with r show ?thesis by blast
qed

theorem live_events_numbered_witness:
  "\<exists>w'. process_all sample_ext sample_domains 7 [sample_msg 20, sample_msg 21] sample_gw = Some (Ret w') \<and>
    map (\<lambda>(_, _, m). m) (gw_published w') = map NbiEvent (numbered 3 [sample_msg 20, sample_msg 21]) \<and>
    getLastSequence map_curator (gw_zk w') 7 = 5 \<and> getLastOffset map_curator (gw_zk w') 7 = 21"
  using live_events_numbered [of sample_ext "\<lambda>z. z" sample_gw 7 sample_vm "[sample_msg 20, sample_msg 21]"
      sample_domains 3] zk_works_map_curator
  by (auto simp: is_int64_def comp_def)

text \<open>C12: After a run of live events over consecutive Kafka offsets, with any kind of collector, a replay
  that asks for the event with a given number starts reading at the offset of exactly that event.\<close>

theorem replay_starts_at_event:
  assumes "zk_works (x_curator X) view" and "process_all X dm i ms w = Some (Ret w')"
    and "\<forall>m \<in> set ms. wanted dm i m" and "vm_NbiFormat (at zero_VesMap (gw_kafkaObj w) i) \<noteq> ''RCP''"
    and "at 0 (gw_ZKSequenceId w) i = s" and "0 \<le> s" and "s + int (length ms) < 2 ^ 63"
    and "\<forall>k < length ms. km_Offset (ms ! k) = o0 + int k" and "0 \<le> o0" and "o0 + int (length ms) < 2 ^ 63"
    and "k < length ms"
  shows "startOffset (x_curator X) (gw_zk w') i (s + 1 + int k) = km_Offset (ms ! k)"
  by (rule process_all_startOffset [OF assms])

theorem replay_starts_at_event_witness:
  "\<exists>w'. process_all sample_ext sample_domains 7 [sample_msg 20, sample_msg 21] sample_gw = Some (Ret w') \<and>
    startOffset map_curator (gw_zk w') 7 4 = 20"
proof -
  from process_all_kafka [of sample_gw 7 sample_vm sample_ext "[sample_msg 20, sample_msg 21]" sample_domains 3]
  obtain w' where w': "process_all sample_ext sample_domains 7 [sample_msg 20, sample_msg 21] sample_gw = Some (Ret w')"
    by auto
  have "\<forall>k < length [sample_msg 20, sample_msg 21]. km_Offset ([sample_msg 20, sample_msg 21] ! k) = 20 + int k"
    by (auto simp: less_Suc_eq)
  from replay_starts_at_event [OF _ w' _ _ _ _ _ this, of "\<lambda>z. z" 3 0] zk_works_map_curator w'
  show ?thesis by simp
qed

section \<open>Replayed events\<close>

fun replay_all ::
    "('n, 'z) ext \<Rightarrow> Domains \<Rightarrow> int \<Rightarrow> kmessage list \<Rightarrow> ('n, 'z) gw \<Rightarrow> ('n, 'z) gw run" where
  "replay_all X dm i [] w = Some (Ret w)"
| "replay_all X dm i (m # ms) w = run_bind (processMessagesForReplay X dm m i w) (replay_all X dm i ms)"

lemma processMessagesForReplay_wanted:
  assumes "wanted dm i msg" and "km_data msg = Some d" and "vm_NbiFormat (at zero_VesMap (gw_kafkaObj w) i) \<noteq> ''RCP''"
  shows "processMessagesForReplay X dm msg i w =
    run_bind (deliver X (event_of d (at 0 (gw_ZKSequenceIdForReplay w) i)) i w) (\<lambda>w1. Some (Ret (bump_replay i w1)))"
  using assms by (auto simp: wanted_def processMessagesForReplay_def Find_def find_id_found event_of_def Let_def
      postEventForFaultForReplay_def postEventForNotificationForReplay_def postEventForTCAReplay_def
      split: option.splits)

text \<open>C13: Replayed events for a reachable Kafka collector are published in order, numbered consecutively
  starting with the collector's replay counter (whatever start index was asked for); the live
  numbering, the offsets and ZooKeeper are left as they are.\<close>

theorem replayed_events_numbered:
  assumes "at zero_VesMap (gw_kafkaObj w) i = vm" and "kafka_ves X vm"
    and "\<forall>m \<in> set ms. wanted dm i m"
    and "at 0 (gw_ZKSequenceIdForReplay w) i = s" and "0 \<le> s" and "s + int (length ms) < 2 ^ 63"
  shows "\<exists>w'. replay_all X dm i ms w = Some (Ret w') \<and>
    gw_published w' = gw_published w @
      map (\<lambda>e. (vm_KafkaPrimary vm, vm_PrimaryTopic vm, NbiEvent e)) (numbered (s - 1) ms) \<and>
    at 0 (gw_ZKSequenceIdForReplay w') i = s + int (length ms) \<and>
    gw_ZKSequenceId w' = gw_ZKSequenceId w \<and> gw_ZKOffsetId w' = gw_ZKOffsetId w \<and> gw_zk w' = gw_zk w"
  using assms
proof (induction ms arbitrary: w s)
  case Nil
  then show ?case by (simp add: numbered_def)
next
  case (Cons m ms)
  from Cons.prems(3) obtain d where d: "km_data m = Some d" by (auto simp: wanted_def split: option.splits)
  have w: "wanted dm i m" using Cons.prems(3) by simp
  have f: "vm_NbiFormat (at zero_VesMap (gw_kafkaObj w) i) \<noteq> ''RCP''" using Cons.prems(1,2) by (simp add: kafka_ves_def)
  define w1 where "w1 = bump_replay i (w\<lparr>gw_published := gw_published w @
    [(vm_KafkaPrimary vm, vm_PrimaryTopic vm, NbiEvent (event_of d s))]\<rparr>)"
  have p: "processMessagesForReplay X dm m i w = Some (Ret w1)"
    using processMessagesForReplay_wanted [OF w d f] deliver_kafka [OF Cons.prems(1)] Cons.prems(2,4)
    by (simp add: kafka_ves_def w1_def)
  have a: "at 0 (gw_ZKSequenceIdForReplay w1) i = s + 1"
    using Cons.prems(4-6) by (simp add: w1_def bump_replay_def is_int64_def)
  have fr: "gw_kafkaObj w1 = gw_kafkaObj w" "gw_ZKSequenceId w1 = gw_ZKSequenceId w"
    "gw_ZKOffsetId w1 = gw_ZKOffsetId w" "gw_zk w1 = gw_zk w"
    "gw_published w1 = gw_published w @ [(vm_KafkaPrimary vm, vm_PrimaryTopic vm, NbiEvent (event_of d s))]"
    by (simp_all add: w1_def bump_replay_def)
  have "\<exists>w'. replay_all X dm i ms w1 = Some (Ret w') \<and> gw_published w' = gw_published w1 @
      map (\<lambda>e. (vm_KafkaPrimary vm, vm_PrimaryTopic vm, NbiEvent e)) (numbered (s + 1 - 1) ms) \<and>
      at 0 (gw_ZKSequenceIdForReplay w') i = s + 1 + int (length ms) \<and>
      gw_ZKSequenceId w' = gw_ZKSequenceId w1 \<and> gw_ZKOffsetId w' = gw_ZKOffsetId w1 \<and> gw_zk w' = gw_zk w1"
    by (rule Cons.IH [OF _ _ _ a]) (use Cons.prems fr(1) in simp_all)
  with p fr d show ?case by (auto simp: numbered_Cons)
qed

theorem replayed_events_numbered_witness:
  "\<exists>w'. replay_all sample_ext sample_domains 7 [sample_msg 20, sample_msg 21] sample_gw = Some (Ret w') \<and>
    map (\<lambda>(_, _, m). m) (gw_published w') = map NbiEvent (numbered (- 1) [sample_msg 20, sample_msg 21]) \<and>
    gw_ZKSequenceId w' = gw_ZKSequenceId sample_gw"
proof -
  have "at 0 (gw_ZKSequenceIdForReplay sample_gw) 7 = 0" by (simp add: sample_gw_def)
  with replayed_events_numbered [of sample_gw 7 sample_vm sample_ext "[sample_msg 20, sample_msg 21]" sample_domains 0]
  show ?thesis by (auto simp: comp_def)
qed

section \<open>Routing and naming codes\<close>

text \<open>The collectors of a domain.\<close>

definition domain_ids :: "Domains \<Rightarrow> string \<Rightarrow> int list" where
  "domain_ids dm domain = (if domain = ''fault'' then dm_Fault dm else if domain = ''notification''
     then dm_Notificaiton dm else if domain = ''tca'' then dm_Tca dm else [])"

lemma find_id_absent: "i \<notin> set xs \<Longrightarrow> find_id xs i k = (- 1, False)"
  by (induction xs arbitrary: k) auto

text \<open>\<open>Find\<close> reports a collector exactly if it is among the collectors of the domain, with an index
  at which it stands, and -1 otherwise.\<close>

theorem Find_exact:
  "if i \<in> set (domain_ids dm domain)
   then \<exists>j < length (domain_ids dm domain). domain_ids dm domain ! j = i \<and> Find dm domain i = (int j, True)
   else Find dm domain i = (- 1, False)"
proof -
  have F: "Find dm domain i = find_id (domain_ids dm domain) i 0" by (simp add: Find_def domain_ids_def)
  show ?thesis
  proof (cases "i \<in> set (domain_ids dm domain)")
    case True
    then obtain j where j: "find_id (domain_ids dm domain) i 0 = (j, True)"
      using find_id_found [of "domain_ids dm domain" i 0] by (metis prod.collapse)
    from find_id_nth [OF this] F j True show ?thesis by (auto intro!: exI [of _ "nat j"])
  qed (simp add: F find_id_absent)
qed

lemma foldl_vnfcs: "foldl (\<lambda>m v. m(v \<mapsto> t)) m vs x = (if x \<in> set vs then Some t else m x)"
  by (induction vs arbitrary: m) (simp_all del: fun_upd_apply, simp add: fun_upd_apply)

lemma foldl_codes:
  "foldl (\<lambda>m c. foldl (\<lambda>m v. m(v \<mapsto> nn_Type c)) m (nn_Vnfcs c)) m codes v =
     (case find (\<lambda>c. v \<in> set (nn_Vnfcs c)) (rev codes) of Some c \<Rightarrow> Some (nn_Type c) | None \<Rightarrow> m v)"
proof (induction codes rule: rev_induct)
  case (snoc c codes)
  then show ?case by (simp add: foldl_vnfcs del: fun_upd_apply)
qed simp

text \<open>The naming code of a VNFC is the type of the last entry of the configuration that lists it.\<close>

theorem naming_code_of:
  "initNfcNamingCode codes v = map_option nn_Type (find (\<lambda>c. v \<in> set (nn_Vnfcs c)) (rev codes))"
  by (auto simp: initNfcNamingCode_def foldl_codes split: option.splits)

section \<open>Heartbeats and RCP events\<close>

text \<open>A heartbeat that is sent before the loop reaches the next collector with heartbeats carries the
  identifier of its own collector.\<close>

theorem heartbeat_own_id:
  assumes "k < length order" and "order ! k = (i, True)" and "k < n"
    and "\<forall>j. k < j \<and> j < n \<and> j < length order \<longrightarrow> \<not> snd (order ! j)"
  shows "af_COLLECTOR_ID (hb_AdditionalFields (with_collector_id (hb_collector_id order n) hbc)) = FormatInt i"
  using hb_collector_id_own [OF assms(1,2,4,3)] by (simp add: with_collector_id_def)

theorem heartbeat_own_id_witness:
  "af_COLLECTOR_ID (hb_AdditionalFields (with_collector_id (hb_collector_id [(1, True), (2, False), (3, True)] 2)
     (hb_collector \<lparr>hp_NetConfPort = [], hp_RestConfPort = [], hp_FmaasPort = []\<rparr> 0 (NewHeartbeat 0 [] [] [] [] 60 [])))) =
   FormatInt 1"
  by (rule heartbeat_own_id [of 0]) (auto simp: less_Suc_eq)

text \<open>A heartbeat that is sent only after the loop has reached a later collector carries the identifier
  of that one: the goroutines share the object.\<close>

theorem heartbeat_foreign_id:
  assumes "k < k'" and "k' < length order" and "order ! k = (i, True)" and "order ! k' = (i', True)" and "i \<noteq> i'"
  shows "af_COLLECTOR_ID (hb_AdditionalFields (with_collector_id (hb_collector_id order (Suc k')) hbc)) = FormatInt i'"
proof -
  have "hb_collector_id order (Suc k') = FormatInt i'"
    by (rule hb_collector_id_own [of k']) (use assms in auto)
  then show ?thesis by (simp add: with_collector_id_def)
qed

theorem heartbeat_foreign_id_witness:
  "af_COLLECTOR_ID (hb_AdditionalFields (with_collector_id (hb_collector_id [(1, True), (2, False), (3, True)] 3)
     (hb_collector \<lparr>hp_NetConfPort = [], hp_RestConfPort = [], hp_FmaasPort = []\<rparr> 0 (NewHeartbeat 0 [] [] [] [] 60 [])))) =
   FormatInt 3"
  using heartbeat_foreign_id [of 0 2 "[(1, True), (2, False), (3, True)]" 1 3] by (simp add: numeral_3_eq_3)

text \<open>An event for an RCP collector that comes without additional information (null) takes the process
  down, whatever its domain.\<close>

theorem rcp_without_information_crashes:
  "(ff_AlarmAdditionalInformation (re_fault (rd_MavData d)) = JNull \<longrightarrow>
      (\<exists>c. postEventForRCPFault X d vm i w = Some (Crash c))) \<and>
   (nf_AdditionalFields (re_NotificationFields (rd_MavData d)) = JNull \<longrightarrow>
      (\<exists>c. postEventForRCPNotification X d vm i w = Some (Crash c))) \<and>
   (rt_AdditionalFields (re_tca (rd_MavData d)) = JNull \<longrightarrow>
      (\<exists>c. postEventForRCPTCA X d vm i w = Some (Crash c)))"
  using rcp_null_crash by blast

theorem rcp_without_information_crashes_witness:
  "\<exists>c. postEventForRCPFault sample_ext sample_rcp sample_vm 7 sample_gw = Some (Crash c)"
  using rcp_without_information_crashes [of sample_rcp sample_ext sample_vm 7 sample_gw]
  by (simp add: sample_rcp_def sample_fault_def)

end
