(* ===== verification/Measurement_Config.thy ===== *)
theory Measurement_Config
  imports Go_Std
begin

text \<open>
  The measurement configuration (VESPA/ves-agent/config/measurementConfiguration.go): the rules that
  say which metrics to query and how to map them, their default values, and the surrounding structures.
\<close>

record Label =
  l_Name :: string
  l_Expr :: string

record MetricRule =
  mr_Target :: string
  mr_Expr :: string
  mr_VMIDLabel :: string
  mr_Labels :: "Label list"
  mr_ObjectName :: string
  mr_ObjectInstance :: string
  mr_ObjectKeys :: "Label list"

definition hasLabel :: "MetricRule \<Rightarrow> string \<Rightarrow> bool" where
  "hasLabel rule name = list_ex (\<lambda>l. l_Name l = name) (mr_Labels rule)"

definition add_label :: "MetricRule \<Rightarrow> Label \<Rightarrow> MetricRule" where
  "add_label rule l = (if hasLabel rule (l_Name l) then rule else rule\<lparr>mr_Labels := mr_Labels rule @ [l]\<rparr>)"

definition WithDefaults :: "MetricRule \<Rightarrow> MetricRule option \<Rightarrow> MetricRule" where
  "WithDefaults rule def =
     (case def of
        None \<Rightarrow> rule
      | Some d \<Rightarrow>
          (let rule1 = (if mr_Target rule = [] then rule\<lparr>mr_Target := mr_Target d\<rparr> else rule);
               rule2 = (if mr_VMIDLabel rule1 = [] then rule1\<lparr>mr_VMIDLabel := mr_VMIDLabel d\<rparr> else rule1)
           in foldl add_label rule2 (mr_Labels d)))"

record MetricRules =
  ms_MicroserviceName :: string
  ms_Defaults :: "MetricRule option"
  ms_Metrics :: "MetricRule list"
  ms_NfcNamingCodes :: string

record PrometheusConfig =
  pc_Address :: string
  pc_Timeout :: duration
  pc_KeepAlive :: duration
  pc_Rules :: "MetricRules list"

record MeasurementConfiguration =
  mc_DomainAbbreviation :: string
  mc_DefaultInterval :: duration
  mc_MaxBufferingDuration :: duration
  mc_Prometheus :: PrometheusConfig

section \<open>Default labels\<close>

text \<open>The label of a rule with a given name: the first one.\<close>

definition label_of :: "MetricRule \<Rightarrow> string \<Rightarrow> Label option" where
  "label_of rule name = List.find (\<lambda>l. l_Name l = name) (mr_Labels rule)"

lemma hasLabel_label_of: "hasLabel rule name \<longleftrightarrow> label_of rule name \<noteq> None"
  by (auto simp: hasLabel_def label_of_def list_ex_iff find_None_iff)

lemma find_append: "List.find P (xs @ ys) = (case List.find P xs of None \<Rightarrow> List.find P ys | Some x \<Rightarrow> Some x)"
  by (induction xs) simp_all

lemma label_of_add_label:
  "label_of (add_label rule l) name =
     (case label_of rule name of Some l' \<Rightarrow> Some l' | None \<Rightarrow> if l_Name l = name then Some l else None)"
  by (auto simp: add_label_def label_of_def hasLabel_label_of find_append split: option.splits)

lemma label_of_defaults:
  "label_of (foldl add_label rule ls) name =
     (case label_of rule name of Some l \<Rightarrow> Some l | None \<Rightarrow> List.find (\<lambda>l. l_Name l = name) ls)"
  by (induction ls arbitrary: rule) (auto simp: label_of_add_label split: option.splits)

lemma add_label_keeps:
  "mr_Target (foldl add_label rule ls) = mr_Target rule \<and> mr_Expr (foldl add_label rule ls) = mr_Expr rule \<and>
   mr_VMIDLabel (foldl add_label rule ls) = mr_VMIDLabel rule"
  by (induction ls arbitrary: rule) (simp_all add: add_label_def)

lemma add_label_distinct:
  "distinct (map l_Name (mr_Labels rule)) \<Longrightarrow> distinct (map l_Name (mr_Labels (foldl add_label rule ls)))"
proof (induction ls arbitrary: rule)
  case (Cons l ls)
  have "distinct (map l_Name (mr_Labels (add_label rule l)))"
    using Cons.prems by (auto simp: add_label_def hasLabel_def list_ex_iff)
  from Cons.IH [OF this] show ?case by simp
qed simp

end
