(* ===== verification/Gateway_Config.thy ===== *)
theory Gateway_Config
  imports Agent Measurement_Config
begin

text \<open>
  The configuration of the gateway process (VESPA/ves-agent/ves-agent.go, the configuration
  structures of VESPA/ves-agent/config): what the management configuration turns into, how the
  collectors are set up from it, and what an update does. \<open>parseDur\<close> stands for the value that
  \<open>time.ParseDuration\<close> returns (0 with an error, which the code drops). The starting of the agents and
  the HTTP server that runs without collectors are left out. A crash in a request handler ends the request
  only, since the HTTP server recovers it; elsewhere it ends the process.
\<close>

section \<open>Configuration structures\<close>

record Collector =
  co_Fqdn :: string
  co_Port :: int
  co_Secure :: bool
  co_User :: string
  co_Password :: string
  co_Passphrase :: string
  co_NbiType :: string
  co_Brokers :: "string list"
  co_Topic :: string
  co_KafkaTopic :: string
  co_NbiFormat :: string
  co_HeartBeat :: bool

record CollectorDetail =
  cj_Id :: int
  cj_PrimaryCollector :: "Collector option"
  cj_BackupCollector :: "Collector option"

text \<open>The list of a domain, \<open>None\<close> for a nil list; its entries are taken to be non-nil.\<close>

record Vesdomains =
  vd_Fault :: "int list option"
  vd_Measurement :: "int list option"
  vd_Notification :: "int list option"
  vd_Tca :: "int list option"

record Prometheus =
  pj_Address :: string
  pj_Timeout :: string
  pj_Keepalive :: string

record Measurement =
  mj_DefaultInterval :: string
  mj_MaxBufferingDuration :: string
  mj_Prometheus :: "Prometheus option"

record ConfigEvent =
  ej_MaxSize :: int
  ej_RetryInterval :: string
  ej_MaxMissed :: int

record ConfigCluster =
  kj_Debug :: bool
  kj_DisplayLogs :: bool

record Config =
  cf_CollectorDetail :: "CollectorDetail list"
  cf_Domains :: "Vesdomains option"
  cf_Heartbeat :: "string option"
  cf_Measurement :: "Measurement option"
  cf_Event :: "ConfigEvent option"
  cf_AlertManager :: "string option"
  cf_Cluster :: "ConfigCluster option"

record CollectorDetails =
  cd_Id :: int
  cd_PrimaryCollector :: CollectorConfiguration
  cd_BackupCollector :: CollectorConfiguration

text \<open>The parts of the agent configuration that the process changes; the pointers are those of the
  structure, \<open>None\<close> for nil.\<close>

record VESAgentConfiguration =
  va_CollectorDetails :: "CollectorDetails list"
  va_Domains :: "Domains option"
  va_Heartbeat :: "duration option"
  va_Measurement :: "MeasurementConfiguration option"
  va_Event :: "EventConfiguration option"
  va_AlertManager :: "string option"
  va_Cluster :: "ConfigCluster option"

record KeyStruct =
  ks_PrimaryFQDN :: string
  ks_PrimaryPort :: int
  ks_BackupFQDN :: string
  ks_BackupPort :: int

text \<open>The process state: the gateway's package variables and those that only the configuration uses.
  \<open>g_ConfigUpdate\<close> lists the identifiers sent on the channel of that name.\<close>

record ('n, 'z) gateway =
  g_gw :: "('n, 'z) gw"
  g_conf :: VESAgentConfiguration
  g_UniqueEventList :: "int list"
  g_CollectorList :: "string list"
  g_CollectorUrl :: "string \<rightharpoonup> int"
  g_CollectorUrlToId :: "string \<rightharpoonup> string"
  g_CollectorStatus :: "string \<rightharpoonup> string"
  g_VesCollectorObjectslist :: "KeyStruct \<rightharpoonup> int"
  g_ConfigUpdate :: "int list"

section \<open>From the management configuration\<close>

definition isValueInList :: "int \<Rightarrow> int list \<Rightarrow> bool" where
  "isValueInList value xs = list_ex (\<lambda>v. v = value) xs"

definition isCollectorInList :: "string \<Rightarrow> string list \<Rightarrow> bool" where
  "isCollectorInList value xs = list_ex (\<lambda>v. v = value) xs"

definition zero_CollectorConfiguration :: CollectorConfiguration where
  "zero_CollectorConfiguration = \<lparr>cc_ServerRoot = [], cc_FQDN = [], cc_Port = 0, cc_Secure = False, cc_User = [],
     cc_Password = [], cc_PassPhrase = [], cc_NbiType = [], cc_Brokers = [], cc_Topic = [], cc_KafkaTopic = [],
     cc_NbiFormat = [], cc_HeartBeat = False\<rparr>"

definition prepareCollDetails :: "Collector \<Rightarrow> CollectorConfiguration" where
  "prepareCollDetails c = zero_CollectorConfiguration\<lparr>cc_FQDN := co_Fqdn c, cc_Port := co_Port c,
     cc_Secure := co_Secure c, cc_User := co_User c, cc_Password := co_Password c, cc_PassPhrase := co_Passphrase c,
     cc_NbiType := co_NbiType c, cc_Brokers := co_Brokers c, cc_Topic := co_Topic c,
     cc_KafkaTopic := co_KafkaTopic c, cc_NbiFormat := co_NbiFormat c, cc_HeartBeat := co_HeartBeat c\<rparr>"

definition coll_details :: "CollectorDetail \<Rightarrow> CollectorDetails" where
  "coll_details d = \<lparr>cd_Id = cj_Id d,
     cd_PrimaryCollector = (case cj_PrimaryCollector d of None \<Rightarrow> zero_CollectorConfiguration | Some c \<Rightarrow> prepareCollDetails c),
     cd_BackupCollector = (case cj_BackupCollector d of None \<Rightarrow> zero_CollectorConfiguration | Some c \<Rightarrow> prepareCollDetails c)\<rparr>"

definition take_over_collector :: "('n, 'z) gateway \<Rightarrow> CollectorDetail \<Rightarrow> ('n, 'z) gateway" where
  "take_over_collector g d =
     (let known = (isValueInList (cj_Id d) (g_UniqueEventList g) \<or> length (g_UniqueEventList g) = 0);
          g1 = (if known then g else g\<lparr>g_ConfigUpdate := g_ConfigUpdate g @ [cj_Id d]\<rparr>)
      in g1\<lparr>g_conf := (g_conf g1)\<lparr>va_CollectorDetails := va_CollectorDetails (g_conf g1) @ [coll_details d]\<rparr>\<rparr>)"

definition fillCollectorDetails :: "Config \<Rightarrow> ('n, 'z) gateway \<Rightarrow> ('n, 'z) gateway" where
  "fillCollectorDetails cfg g = foldl take_over_collector g (cf_CollectorDetail cfg)"

definition prepareDomainDetails :: "int list option \<Rightarrow> int list" where
  "prepareDomainDetails ids = (case ids of None \<Rightarrow> [] | Some xs \<Rightarrow> xs)"

definition fillDomainDetails :: "Config \<Rightarrow> VESAgentConfiguration \<Rightarrow> VESAgentConfiguration" where
  "fillDomainDetails cfg conf =
     (case cf_Domains cfg of
        None \<Rightarrow> conf
      | Some d \<Rightarrow> conf\<lparr>va_Domains := Some \<lparr>dm_Fault = prepareDomainDetails (vd_Fault d),
          dm_Notificaiton = prepareDomainDetails (vd_Notification d), dm_Tca = prepareDomainDetails (vd_Tca d),
          dm_Measurment = prepareDomainDetails (vd_Measurement d)\<rparr>\<rparr>)"

definition fillHeartbeatDetails ::
    "(string \<Rightarrow> duration) \<Rightarrow> Config \<Rightarrow> VESAgentConfiguration \<Rightarrow> VESAgentConfiguration go" where
  "fillHeartbeatDetails parseDur cfg conf =
     (case (cf_Heartbeat cfg, va_Heartbeat conf) of
        (Some s, Some _) \<Rightarrow> Ret (conf\<lparr>va_Heartbeat := Some (parseDur s)\<rparr>)
      | _ \<Rightarrow> Crash NilDeref)"

definition fillMeasurementDetails ::
    "(string \<Rightarrow> duration) \<Rightarrow> Config \<Rightarrow> VESAgentConfiguration \<Rightarrow> VESAgentConfiguration go" where
  "fillMeasurementDetails parseDur cfg conf =
     (case (cf_Measurement cfg, va_Measurement conf) of
        (Some m, Some old) \<Rightarrow>
          (case mj_Prometheus m of
             None \<Rightarrow> Crash NilDeref
           | Some p \<Rightarrow> Ret (conf\<lparr>va_Measurement := Some (old\<lparr>mc_DefaultInterval := parseDur (mj_DefaultInterval m),
               mc_MaxBufferingDuration := parseDur (mj_MaxBufferingDuration m),
               mc_Prometheus := \<lparr>pc_Address = pj_Address p, pc_Timeout = parseDur (pj_Timeout p),
                 pc_KeepAlive = parseDur (pj_Keepalive p), pc_Rules = []\<rparr>\<rparr>)\<rparr>))
      | _ \<Rightarrow> Crash NilDeref)"

definition fillEventDetails ::
    "(string \<Rightarrow> duration) \<Rightarrow> Config \<Rightarrow> VESAgentConfiguration \<Rightarrow> VESAgentConfiguration go" where
  "fillEventDetails parseDur cfg conf =
     (case (cf_Event cfg, va_Event conf) of
        (Some e, Some old) \<Rightarrow> Ret (conf\<lparr>va_Event := Some (old\<lparr>ec_MaxSize := ej_MaxSize e,
          ec_RetryInterval := parseDur (ej_RetryInterval e), ec_MaxMissed := ej_MaxMissed e\<rparr>)\<rparr>)
      | _ \<Rightarrow> Crash NilDeref)"

definition fillAlertManagerDetails :: "Config \<Rightarrow> VESAgentConfiguration \<Rightarrow> VESAgentConfiguration go" where
  "fillAlertManagerDetails cfg conf =
     (case (cf_AlertManager cfg, va_AlertManager conf) of
        (Some b, Some _) \<Rightarrow> Ret (conf\<lparr>va_AlertManager := Some b\<rparr>)
      | _ \<Rightarrow> Crash NilDeref)"

definition fillClusterDetails :: "Config \<Rightarrow> VESAgentConfiguration \<Rightarrow> VESAgentConfiguration go" where
  "fillClusterDetails cfg conf =
     (case (cf_Cluster cfg, va_Cluster conf) of
        (Some c, Some _) \<Rightarrow> Ret (conf\<lparr>va_Cluster := Some c\<rparr>)
      | _ \<Rightarrow> Crash NilDeref)"

definition on_conf ::
    "(VESAgentConfiguration \<Rightarrow> VESAgentConfiguration go) \<Rightarrow> ('n, 'z) gateway \<Rightarrow> ('n, 'z) gateway go" where
  "on_conf f g = go_bind (f (g_conf g)) (\<lambda>c. Ret (g\<lparr>g_conf := c\<rparr>))"

text \<open>A patch selects what is taken over by the words it contains.\<close>

definition updateDefaultConfUponPatch ::
    "(string \<Rightarrow> duration) \<Rightarrow> Config \<Rightarrow> string \<Rightarrow> ('n, 'z) gateway \<Rightarrow> ('n, 'z) gateway go" where
  "updateDefaultConfUponPatch parseDur cfg value g =
     (let has = Contains value;
          upd = (\<lambda>w f g. if has w then on_conf f g else Ret g);
          g1 = (if has ''collectorDetails'' then fillCollectorDetails cfg g else g)
      in go_bind (upd ''vesdomains'' (\<lambda>c. Ret (fillDomainDetails cfg c)) g1)
           (\<lambda>g. go_bind (upd ''heartbeat'' (fillHeartbeatDetails parseDur cfg) g)
             (\<lambda>g. go_bind (upd ''measurement'' (fillAlertManagerDetails cfg) g)
               (\<lambda>g. go_bind (upd ''event'' (fillEventDetails parseDur cfg) g)
                 (\<lambda>g. go_bind (upd ''alertManager'' (fillMeasurementDetails parseDur cfg) g)
                   (upd ''cluster'' (fillClusterDetails cfg)))))))"

section \<open>The list of collector URLs\<close>

text \<open>The third piece of a collector URL, meant to be the identifier.\<close>

definition third :: "string \<Rightarrow> string go" where
  "third url = index (Split url (CHR '':'')) 2"

text \<open>A slice is its backing array (up to the longest length in play) and its length. Removing an element
  shifts the rest of the slice inside the array; the cell behind the new end keeps its value.\<close>

definition RemoveIndex :: "string list \<Rightarrow> nat \<Rightarrow> nat \<Rightarrow> (string list \<times> nat) go" where
  "RemoveIndex arr len i =
     (if i + 1 \<le> len then Ret (take i arr @ drop (i + 1) (take len arr) @ drop (len - 1) arr, len - 1)
      else Crash OutOfRange)"

text \<open>The loop ranges over the slice as it was at the start, while its body removes from it.\<close>

fun remove_loop :: "string \<Rightarrow> nat list \<Rightarrow> string list \<times> nat \<Rightarrow> (string list \<times> nat) go" where
  "remove_loop key [] st = Ret st"
| "remove_loop key (j # js) (arr, len) =
     go_bind (third (arr ! j)) (\<lambda>t.
       if key = t then go_bind (RemoveIndex arr len j) (remove_loop key js)
       else remove_loop key js (arr, len))"

definition remove_same_id :: "string \<Rightarrow> string list \<Rightarrow> string list go" where
  "remove_same_id key urls =
     go_bind (remove_loop key [0 ..< length urls] (urls, length urls)) (\<lambda>(arr, len). Ret (take len arr))"

definition collector_url :: "CollectorConfiguration \<Rightarrow> string" where
  "collector_url c = cc_FQDN c @ '':'' @ FormatInt (cc_Port c)"

definition url_with_id :: "CollectorDetails \<Rightarrow> string" where
  "url_with_id d = collector_url (cd_PrimaryCollector d) @ '':'' @ FormatInt (cd_Id d)"

definition update_collector_list :: "CollectorDetails \<Rightarrow> string list \<Rightarrow> string list go" where
  "update_collector_list d urls =
     go_bind (third (url_with_id d)) (\<lambda>key.
       go_bind (remove_same_id key urls) (\<lambda>urls1.
         Ret (if isCollectorInList (url_with_id d) urls1 then urls1 else urls1 @ [url_with_id d])))"

section \<open>Setting up the collectors\<close>

definition add_unique :: "int list \<Rightarrow> int \<Rightarrow> int list" where
  "add_unique acc x = (if isValueInList x acc then acc else acc @ [x])"

definition unique_event_list :: "Domains \<Rightarrow> int list" where
  "unique_event_list dm =
     foldl add_unique (foldl add_unique (foldl add_unique [] (dm_Fault dm)) (dm_Notificaiton dm)) (dm_Tca dm)"

text \<open>The first loop over the collectors.\<close>

definition register_collector :: "('n, 'z) gateway \<Rightarrow> CollectorDetails \<Rightarrow> ('n, 'z) gateway go" where
  "register_collector g d =
     (let p = cd_PrimaryCollector d; b = cd_BackupCollector d;
          key = \<lparr>ks_PrimaryFQDN = cc_FQDN p, ks_PrimaryPort = cc_Port p, ks_BackupFQDN = cc_FQDN b, ks_BackupPort = cc_Port b\<rparr>;
          map_url = (\<lambda>c. ''http://user:pass@'' @ collector_url c @ ''/eventListener/v7'')
      in go_bind (update_collector_list d (g_CollectorList g)) (\<lambda>urls.
           Ret (g\<lparr>g_CollectorUrlToId := (g_CollectorUrlToId g)(url_with_id d \<mapsto> collector_url p),
             g_CollectorList := urls,
             g_CollectorUrl := (g_CollectorUrl g)(map_url p \<mapsto> cd_Id d, map_url b \<mapsto> cd_Id d),
             g_CollectorStatus := (g_CollectorStatus g)(string_of_rune (cd_Id d) \<mapsto> ''UP''),
             g_VesCollectorObjectslist := (if g_VesCollectorObjectslist g key = None
               then (g_VesCollectorObjectslist g)(key \<mapsto> cd_Id d) else g_VesCollectorObjectslist g),
             g_gw := (g_gw g)\<lparr>gw_VesCollectorsHeartBeat :=
               (gw_VesCollectorsHeartBeat (g_gw g))(cd_Id d \<mapsto> cc_HeartBeat p)\<rparr>\<rparr>)))"

definition bracket_fqdn :: "CollectorConfiguration \<Rightarrow> CollectorConfiguration" where
  "bracket_fqdn c =
     (if \<not> Contains (cc_FQDN c) ''['' \<and> Contains (cc_FQDN c) '':'' then c\<lparr>cc_FQDN := ''['' @ cc_FQDN c @ '']''\<rparr> else c)"

text \<open>The books of a collector are read from ZooKeeper, or created there.\<close>

definition init_sequence :: "'z curator \<Rightarrow> int \<Rightarrow> ('n, 'z) gw \<Rightarrow> ('n, 'z) gw" where
  "init_sequence cu i w =
     (if PathExist cu (gw_zk w) (id_path i)
      then w\<lparr>gw_ZKSequenceId := (gw_ZKSequenceId w)(i \<mapsto> fst (Atoi (zk_GetData cu (gw_zk w) (id_path i))))\<rparr>
      else w\<lparr>gw_zk := cu_create cu (gw_zk w) (id_path i) ''0'', gw_ZKSequenceId := (gw_ZKSequenceId w)(i \<mapsto> 0)\<rparr>)"

definition init_offset :: "'z curator \<Rightarrow> int \<Rightarrow> ('n, 'z) gw \<Rightarrow> ('n, 'z) gw" where
  "init_offset cu i w =
     (if PathExist cu (gw_zk w) (offset_path i)
      then w\<lparr>gw_ZKOffsetId := (gw_ZKOffsetId w)(i \<mapsto> fst (Atoi (zk_GetData cu (gw_zk w) (offset_path i))))\<rparr>
      else w\<lparr>gw_zk := cu_create cu (gw_zk w) (offset_path i) ''0'', gw_ZKOffsetId := (gw_ZKOffsetId w)(i \<mapsto> 0)\<rparr>)"

definition ves_map :: "CollectorConfiguration \<Rightarrow> CollectorConfiguration \<Rightarrow> VesMap" where
  "ves_map p b = \<lparr>vm_NbiFormat = cc_NbiFormat p, vm_NbiType = cc_NbiType p, vm_KafkaPrimary = cc_Brokers p,
     vm_KafkaBackup = cc_Brokers b, vm_PrimaryTopic = cc_KafkaTopic p, vm_BackupTopic = cc_KafkaTopic b\<rparr>"

text \<open>The second loop: the connection of collector number \<open>k\<close>. A cluster that cannot be initialized
  ends the process.\<close>

definition connect_collector ::
    "(string \<Rightarrow> string \<Rightarrow> string + string) option \<Rightarrow> 'z curator \<Rightarrow> ('n, 'z) gateway \<Rightarrow> nat \<Rightarrow> ('n, 'z) gateway go" where
  "connect_collector fpm cu g k =
     (let d = va_CollectorDetails (g_conf g) ! k;
          p = bracket_fqdn (cd_PrimaryCollector d); b = bracket_fqdn (cd_BackupCollector d); i = cd_Id d;
          conf = (g_conf g)\<lparr>va_CollectorDetails := (va_CollectorDetails (g_conf g))
                   [k := d\<lparr>cd_PrimaryCollector := p, cd_BackupCollector := b\<rparr>]\<rparr>
      in case va_Event conf of
           None \<Rightarrow> Crash NilDeref
         | Some event \<Rightarrow>
             go_bind (NewCluster fpm (gw_cw (g_gw g)) p b event) (\<lambda>(cw, c, err).
               if err \<noteq> None then Crash ProcessExit
               else
                 (let w = (g_gw g)\<lparr>gw_cw := cw\<lparr>cw_objects := (cw_objects cw)(i \<mapsto> c)\<rparr>,
                        gw_kafkaObj := (gw_kafkaObj (g_gw g))(i \<mapsto> ves_map p b),
                        gw_CollectorFirstReplay := (gw_CollectorFirstReplay (g_gw g))(i \<mapsto> False),
                        gw_HeartbeatSent := (gw_HeartbeatSent (g_gw g))(i \<mapsto> False)\<rparr>
                  in Ret (g\<lparr>g_conf := conf, g_gw := init_offset cu i (init_sequence cu i w)\<rparr>))))"

definition prepareVesgwConfigList ::
    "(string \<Rightarrow> string \<Rightarrow> string + string) option \<Rightarrow> 'z curator \<Rightarrow> ('n, 'z) gateway \<Rightarrow> ('n, 'z) gateway go" where
  "prepareVesgwConfigList fpm cu g =
     (case va_Domains (g_conf g) of
        None \<Rightarrow> Crash NilDeref
      | Some dm \<Rightarrow>
          go_bind (go_foldl register_collector (g\<lparr>g_UniqueEventList := unique_event_list dm\<rparr>)
                     (va_CollectorDetails (g_conf g)))
            (\<lambda>g1. go_foldl (connect_collector fpm cu) g1 [0 ..< length (va_CollectorDetails (g_conf g1))]))"

end
