(* ===== verification/Gateway_Properties.thy ===== *)
theory Gateway_Properties
  imports Gateway_Config Agent_Properties
begin

text \<open>
  The properties of the gateway's configuration: the list of event collectors, the list of
  collector URLs, what survives a restart, and what an update takes over.
\<close>

section \<open>The list of event collectors\<close>

lemma foldl_add_unique:
  "foldl add_unique (rev (remdups ys)) xs = rev (remdups (rev xs @ ys))"
proof (induction xs arbitrary: ys)
  case (Cons x xs)
  have "add_unique (rev (remdups ys)) x = rev (remdups (x # ys))"
    by (auto simp: add_unique_def isValueInList_def list_ex_iff)
  with Cons.IH [of "x # ys"] show ?case by simp
qed simp

text \<open>The list of event collectors has every collector of the fault, notification and TCA domains
  exactly once, in the order of their first occurrence.\<close>

theorem unique_event_list_spec:
  "unique_event_list dm = rev (remdups (rev (dm_Fault dm @ dm_Notificaiton dm @ dm_Tca dm))) \<and>
   distinct (unique_event_list dm) \<and>
   set (unique_event_list dm) = set (dm_Fault dm) \<union> set (dm_Notificaiton dm) \<union> set (dm_Tca dm)"
proof -
  have "unique_event_list dm = rev (remdups (rev (dm_Fault dm @ dm_Notificaiton dm @ dm_Tca dm)))"
    using foldl_add_unique [of "[]" "dm_Fault dm"] foldl_add_unique [of "rev (dm_Fault dm)" "dm_Notificaiton dm"]
      foldl_add_unique [of "rev (dm_Notificaiton dm) @ rev (dm_Fault dm)" "dm_Tca dm"]
    by (simp add: unique_event_list_def)
  then show ?thesis by auto
qed

section \<open>The list of collector URLs\<close>

lemma length_Split: "length (Split s sep) = count_list s sep + 1"
proof (induction s)
  case (Cons c s)
  then show ?case by (cases "Split s sep") auto
qed simp

lemma third_url: "\<exists>t. third (url_with_id d) = Ret t"
  by (simp add: third_def index_def url_with_id_def collector_url_def length_Split)

text \<open>Every URL of the list has a third piece, and no two have the same.\<close>

definition urls_keyed :: "string list \<Rightarrow> bool" where
  "urls_keyed urls \<longleftrightarrow> (\<forall>u \<in> set urls. \<exists>t. third u = Ret t) \<and> distinct (map third urls)"

lemma urls_keyed_others:
  assumes "urls_keyed (xs @ u # ys)" and "v \<in> set xs \<union> set ys"
  shows "third v \<noteq> third u"
proof -
  from assms(2) have "third v \<in> set (map third xs) \<union> set (map third ys)" by auto
  moreover have "third u \<notin> set (map third xs) \<union> set (map third ys)"
    using assms(1) by (simp add: urls_keyed_def)
  ultimately show ?thesis by metis
qed

lemma remove_loop_none:
  "(\<And>j. j \<in> set js \<Longrightarrow> \<exists>t. third (arr ! j) = Ret t \<and> t \<noteq> key) \<Longrightarrow> remove_loop key js (arr, len) = Ret (arr, len)"
proof (induction js)
  case (Cons j js)
  from Cons.prems [of j] obtain t where "third (arr ! j) = Ret t" "key \<noteq> t" by auto
  with Cons show ?case by simp
qed simp

lemma remove_loop_append:
  "remove_loop key (js @ ks) st = go_bind (remove_loop key js st) (remove_loop key ks)"
proof (induction js arbitrary: st)
  case (Cons j js)
  obtain arr len where st: "st = (arr, len)" by fastforce
  show ?case by (cases "third (arr ! j)"; cases "RemoveIndex arr len j") (auto simp: st Cons.IH)
qed simp

lemma remove_same_id_absent:
  assumes "urls_keyed urls" and "Ret key \<notin> set (map third urls)"
  shows "remove_same_id key urls = Ret urls"
proof -
  have "remove_loop key [0 ..< length urls] (urls, length urls) = Ret (urls, length urls)"
  proof (rule remove_loop_none)
    fix j assume "j \<in> set [0 ..< length urls]"
    then have m: "urls ! j \<in> set urls" by simp
    with assms(1) obtain t where "third (urls ! j) = Ret t" by (auto simp: urls_keyed_def)
    with m assms(2) show "\<exists>t. third (urls ! j) = Ret t \<and> t \<noteq> key" by (metis in_set_conv_nth length_map nth_map)
  qed
  then show ?thesis by (simp add: remove_same_id_def)
qed

lemma remove_same_id_present:
  assumes keyed: "urls_keyed (xs @ u # ys)" and u: "third u = Ret key"
  shows "remove_same_id key (xs @ u # ys) = Ret (xs @ ys)"
proof -
  let ?n = "length xs" let ?m = "length ys"
  let ?arr = "xs @ ys @ [last (u # ys)]"
  have ok: "\<exists>t. third v = Ret t \<and> t \<noteq> key" if "v \<in> set xs \<union> set ys" for v
  proof -
    from that have "v \<in> set (xs @ u # ys)" by auto
    with keyed obtain t where "third v = Ret t" unfolding urls_keyed_def by blast
    moreover have "third v \<noteq> third u" using urls_keyed_others [OF keyed that] .
    ultimately show ?thesis using u by auto
  qed
  have 1: "remove_loop key [0 ..< ?n] (xs @ u # ys, Suc (?n + ?m)) = Ret (xs @ u # ys, Suc (?n + ?m))"
    by (rule remove_loop_none) (use ok in \<open>simp add: nth_append\<close>)
  have "drop (?n + ?m) (xs @ u # ys) = [last (u # ys)]"
    by (cases ys rule: rev_cases) simp_all
  then have 2: "RemoveIndex (xs @ u # ys) (Suc (?n + ?m)) ?n = Ret (?arr, ?n + ?m)"
    by (simp add: RemoveIndex_def)
  have 3: "remove_loop key [Suc ?n ..< Suc (?n + ?m)] (?arr, ?n + ?m) = Ret (?arr, ?n + ?m)"
  proof (rule remove_loop_none)
    fix j assume j: "j \<in> set [Suc ?n ..< Suc (?n + ?m)]"
    then have "ys \<noteq> []" by auto
    then have "?arr ! j \<in> set ys" using j by (auto simp: nth_append not_less less_Suc_eq)
    then show "\<exists>t. third (?arr ! j) = Ret t \<and> t \<noteq> key" using ok by blast
  qed
  have "[0 ..< Suc (?n + ?m)] = [0 ..< ?n] @ ?n # [Suc ?n ..< Suc (?n + ?m)]"
    by (metis add_Suc_right le_add1 less_add_Suc1 upt_add_eq_append upt_conv_Cons zero_le)
  then have "remove_loop key [0 ..< Suc (?n + ?m)] (xs @ u # ys, Suc (?n + ?m)) = Ret (?arr, ?n + ?m)"
    using 1 2 3 u by (simp add: remove_loop_append del: upt_Suc)
  then show ?thesis by (simp add: remove_same_id_def del: upt_Suc)
qed

lemma remove_same_id_filter:
  assumes "urls_keyed urls"
  shows "remove_same_id key urls = Ret (filter (\<lambda>v. third v \<noteq> Ret key) urls)"
proof (cases "Ret key \<in> set (map third urls)")
  case False
  then have "filter (\<lambda>v. third v \<noteq> Ret key) urls = urls" by (force simp: filter_id_conv)
  with remove_same_id_absent [OF assms False] show ?thesis by simp
next
  case True
  then obtain u where "u \<in> set urls" "third u = Ret key" by auto
  then obtain xs ys where s: "urls = xs @ u # ys" by (meson split_list)
  have "third v \<noteq> Ret key" if "v \<in> set xs \<union> set ys" for v
    using urls_keyed_others [of xs u ys v] that assms \<open>third u = Ret key\<close> s by metis
  then have "filter (\<lambda>v. third v \<noteq> Ret key) urls = xs @ ys" by (auto simp: s \<open>third u = Ret key\<close> filter_id_conv)
  with remove_same_id_present [of xs u ys key] assms s \<open>third u = Ret key\<close> show ?thesis by simp
qed

lemma update_collector_list_eq:
  assumes "urls_keyed urls"
  shows "update_collector_list d urls =
      Ret (filter (\<lambda>v. third v \<noteq> third (url_with_id d)) urls @ [url_with_id d]) \<and>
    urls_keyed (filter (\<lambda>v. third v \<noteq> third (url_with_id d)) urls @ [url_with_id d])"
proof -
  obtain key where k: "third (url_with_id d) = Ret key" using third_url by blast
  let ?f = "filter (\<lambda>v. third v \<noteq> Ret key) urls"
  have "\<not> isCollectorInList (url_with_id d) ?f" using k by (auto simp: isCollectorInList_def list_ex_iff)
  then have "update_collector_list d urls = Ret (?f @ [url_with_id d])"
    using k remove_same_id_filter [OF assms, of key] by (simp add: update_collector_list_def)
  moreover have "urls_keyed (?f @ [url_with_id d])"
    using assms k by (auto simp: urls_keyed_def distinct_map_filter)
  ultimately show ?thesis by (simp add: k)
qed

text \<open>Registering a collector never crashes on a list in which no two URLs share the third piece: the
  URLs with the new URL's third piece are dropped, although the loop removes from the list it ranges over,
  the new URL is added at the end, and the list keeps the invariant.\<close>

theorem collector_list_update:
  assumes "urls_keyed urls"
  shows "update_collector_list d urls =
      Ret (filter (\<lambda>v. third v \<noteq> third (url_with_id d)) urls @ [url_with_id d]) \<and>
    urls_keyed (filter (\<lambda>v. third v \<noteq> third (url_with_id d)) urls @ [url_with_id d])"
  by (rule update_collector_list_eq [OF assms])

definition sample_details :: "int \<Rightarrow> string \<Rightarrow> CollectorDetails" where
  "sample_details i fqdn = \<lparr>cd_Id = i,
     cd_PrimaryCollector = zero_CollectorConfiguration\<lparr>cc_FQDN := fqdn, cc_Port := 30000\<rparr>,
     cd_BackupCollector = zero_CollectorConfiguration\<rparr>"

lemma FormatInt_sample: "FormatInt 30000 = ''30000''" "FormatInt 7 = ''7''" "FormatInt 1 = ''1''" "FormatInt 2 = ''2''"
  by (simp_all add: FormatInt_def dec_nat.simps char_of_def bit_0)

theorem collector_list_update_witness:
  "update_collector_list (sample_details 7 ''ves2'') [''ves1:30000:7'', ''ves3:30000:1''] =
     Ret [''ves3:30000:1'', ''ves2:30000:7'']"
proof -
  have "urls_keyed [''ves1:30000:7'', ''ves3:30000:1'']"
    by (simp add: urls_keyed_def third_def index_def)
  moreover have "url_with_id (sample_details 7 ''ves2'') = ''ves2:30000:7''"
    by (simp add: url_with_id_def collector_url_def sample_details_def FormatInt_sample)
  ultimately show ?thesis
    using collector_list_update [of "[''ves1:30000:7'', ''ves3:30000:1'']" "sample_details 7 ''ves2''"]
    by (simp add: third_def index_def)
qed

lemma FormatInt_no_colon: "CHR '':'' \<notin> set (FormatInt x)"
proof -
  have "CHR '':'' \<notin> set (dec_nat n)" for n
  proof
    assume "CHR '':'' \<in> set (dec_nat n)"
    with dec_nat_digits have "is_digit (CHR '':'')" by blast
    then show False by (simp add: is_digit_def)
  qed
  then show ?thesis by (simp add: FormatInt_def)
qed

text \<open>For a host name without colons the third piece is the identifier, so the list keeps one URL per
  collector; but a collector whose address shares the third piece with another one's (as IPv6
  addresses of one network do) drops that one from the list, whatever their identifiers.\<close>

theorem collector_list_third_piece:
  "(CHR '':'' \<notin> set (cc_FQDN (cd_PrimaryCollector d)) \<longrightarrow> third (url_with_id d) = Ret (FormatInt (cd_Id d))) \<and>
   (urls_keyed urls \<and> third (url_with_id d) = third (url_with_id d') \<and> url_with_id d \<noteq> url_with_id d' \<longrightarrow>
      (\<exists>urls'. update_collector_list d' urls = Ret urls' \<and> url_with_id d \<notin> set urls'))"
proof -
  have "third (url_with_id d) = Ret (FormatInt (cd_Id d))" if "CHR '':'' \<notin> set (cc_FQDN (cd_PrimaryCollector d))"
    using that by (simp add: third_def index_def url_with_id_def collector_url_def Split_at Split_absent FormatInt_no_colon)
  moreover have "\<exists>urls'. update_collector_list d' urls = Ret urls' \<and> url_with_id d \<notin> set urls'"
    if "urls_keyed urls" "third (url_with_id d) = third (url_with_id d')" "url_with_id d \<noteq> url_with_id d'"
    using update_collector_list_eq [OF that(1), of d'] that(2,3) by auto
  ultimately show ?thesis by blast
qed

theorem collector_list_third_piece_witness:
  "third (url_with_id (sample_details 7 ''ves1'')) = Ret ''7'' \<and>
   (\<exists>urls'. update_collector_list (sample_details 2 ''fd00:0:5::2'') [''fd00:0:5::1:30000:1''] = Ret urls' \<and>
      ''fd00:0:5::1:30000:1'' \<notin> set urls')"
proof -
  have u: "url_with_id (sample_details 1 ''fd00:0:5::1'') = ''fd00:0:5::1:30000:1''"
    "url_with_id (sample_details 2 ''fd00:0:5::2'') = ''fd00:0:5::2:30000:2''"
    by (simp_all add: url_with_id_def collector_url_def sample_details_def FormatInt_sample)
  have k: "urls_keyed [url_with_id (sample_details 1 ''fd00:0:5::1'')]"
    by (simp add: u urls_keyed_def third_def index_def)
  have "\<exists>urls'. update_collector_list (sample_details 2 ''fd00:0:5::2'') [url_with_id (sample_details 1 ''fd00:0:5::1'')] =
      Ret urls' \<and> url_with_id (sample_details 1 ''fd00:0:5::1'') \<notin> set urls'"
    by (rule collector_list_third_piece [THEN conjunct2, rule_format]) (simp add: k, simp add: u third_def index_def)
  moreover have "third (url_with_id (sample_details 7 ''ves1'')) = Ret ''7''"
    using collector_list_third_piece [THEN conjunct1, of "sample_details 7 ''ves1''"]
    by (simp add: sample_details_def FormatInt_sample)
  ultimately show ?thesis by (simp only: u)
qed

section \<open>Restarts\<close>

lemma init_sequence_value:
  "at 0 (gw_ZKSequenceId (init_sequence cu i w)) i = getLastSequence cu (gw_zk w) i"
  by (simp add: init_sequence_def getLastSequence_def)

lemma init_sequence_zk:
  assumes "zk_works cu view"
  shows "getLastOffset cu (gw_zk (init_sequence cu i w)) j = getLastOffset cu (gw_zk w) j"
proof (cases "PathExist cu (gw_zk w) (id_path i)")
  case False
  then have "view (gw_zk w) (id_path i) = None" using assms by (simp add: zk_works_def PathExist_def)
  moreover have "offset_path j \<noteq> id_path i" using paths_apart(1) by metis
  ultimately have "view (gw_zk (init_sequence cu i w)) (offset_path j) = view (gw_zk w) (offset_path j)"
    using assms paths_apart(2) [of i j] False by (simp add: init_sequence_def zk_works_def)
  with assms show ?thesis by (simp add: getLastOffset_def PathExist_def zk_GetData_def zk_works_def)
qed (simp add: init_sequence_def)

lemma init_offset_value:
  "at 0 (gw_ZKOffsetId (init_offset cu i w)) i = getLastOffset cu (gw_zk w) i"
  by (simp add: init_offset_def getLastOffset_def)

lemma init_offset_frame: "gw_ZKSequenceId (init_offset cu i w) = gw_ZKSequenceId w"
  by (simp add: init_offset_def)

lemma connect_collector_books:
  assumes "zk_works cu view" and "connect_collector fpm cu g k = Ret g'"
    and "i = cd_Id (va_CollectorDetails (g_conf g) ! k)"
  shows "at 0 (gw_ZKSequenceId (g_gw g')) i = getLastSequence cu (gw_zk (g_gw g)) i \<and>
    at 0 (gw_ZKOffsetId (g_gw g')) i = getLastOffset cu (gw_zk (g_gw g)) i"
  using assms(2,3)
  by (auto simp: connect_collector_def Let_def go_simps init_offset_frame init_sequence_value init_offset_value
      init_sequence_zk [OF assms(1)] split: option.splits if_splits prod.splits)

text \<open>C10: Restarting the gateway loses no number: after a run of live events for a collector, a process that
  sets the collector up again over the same ZooKeeper gives the next event the number after the last one,
  and knows the offset of the last event.\<close>

theorem restart_resumes_numbering:
  assumes zk: "zk_works (x_curator X) view" and run: "process_all X dm i ms w = Some (Ret w')"
    and ms: "ms \<noteq> []" "\<forall>m \<in> set ms. wanted dm i m" "is_int64 (km_Offset (last ms))"
    and fmt: "vm_NbiFormat (at zero_VesMap (gw_kafkaObj w) i) \<noteq> ''RCP''"
    and s: "at 0 (gw_ZKSequenceId w) i = s" "0 \<le> s" "s + int (length ms) + 1 < 2 ^ 63"
    and restart: "gw_zk (g_gw g) = gw_zk w'" "i = cd_Id (va_CollectorDetails (g_conf g) ! k)"
      "connect_collector fpm (x_curator X) g k = Ret g'"
  shows "zk_next (g_gw g') i = s + int (length ms) + 1 \<and> at 0 (gw_ZKOffsetId (g_gw g')) i = km_Offset (last ms)"
proof -
  have "getLastSequence (x_curator X) (gw_zk w') i = s + int (length ms) \<and>
      getLastOffset (x_curator X) (gw_zk w') i = km_Offset (last ms)"
    using process_all_persists [OF zk, of dm i "butlast ms" "last ms" w w' s] run ms fmt s by simp
  with connect_collector_books [OF zk restart(3,2)] restart(1) s show ?thesis
    by (simp add: zk_next_def is_int64_def)
qed

lemma NewCluster_plain: "\<exists>w' c. NewCluster None w p b e = Ret (w', c, None)"
  by (simp add: NewCluster_def new_evel_def NewEvel_def alloc_evel_def CreateCluster_def alloc_cluster_def Let_def)

lemma connect_collector_plain:
  assumes "va_Event (g_conf g) = Some e"
  shows "\<exists>g'. connect_collector None cu g k = Ret g'"
proof -
  let ?d = "va_CollectorDetails (g_conf g) ! k"
  from NewCluster_plain obtain w' c where
    "NewCluster None (gw_cw (g_gw g)) (bracket_fqdn (cd_PrimaryCollector ?d)) (bracket_fqdn (cd_BackupCollector ?d)) e =
      Ret (w', c, None)" by blast
  with assms show ?thesis by (simp add: connect_collector_def Let_def)
qed

definition sample_event_conf :: EventConfiguration where
  "sample_event_conf = \<lparr>ec_VNFName = [], ec_ReportingEntityName = [], ec_ReportingEntityID = [], ec_MaxSize = 0,
     ec_NfNamingCode = [], ec_RetryInterval = 0, ec_MaxMissed = 1, ec_Tmaas = None, ec_DnPrefix = [],
     ec_SourceName = [], ec_NfcNamingCodes = []\<rparr>"

definition sample_gateway :: "(unit, string \<rightharpoonup> string) gw \<Rightarrow> (unit, string \<rightharpoonup> string) gateway" where
  "sample_gateway w = \<lparr>g_gw = w, g_conf = \<lparr>va_CollectorDetails = [sample_details 7 ''ves''], va_Domains = Some sample_domains,
       va_Heartbeat = Some 0, va_Measurement = Some \<lparr>mc_DomainAbbreviation = ''Mfvs'', mc_DefaultInterval = 300, mc_MaxBufferingDuration = 900,
         mc_Prometheus = \<lparr>pc_Address = ''a'', pc_Timeout = 30, pc_KeepAlive = 30, pc_Rules = []\<rparr>\<rparr>,
       va_Event = Some sample_event_conf, va_AlertManager = Some ''old:9095'', va_Cluster = None\<rparr>,
     g_UniqueEventList = [5], g_CollectorList = [], g_CollectorUrl = Map.empty, g_CollectorUrlToId = Map.empty,
     g_CollectorStatus = Map.empty, g_VesCollectorObjectslist = Map.empty, g_ConfigUpdate = []\<rparr>"

theorem restart_resumes_numbering_witness:
  "\<exists>w' g'. process_all sample_ext sample_domains 7 [sample_msg 20, sample_msg 21] sample_gw = Some (Ret w') \<and>
    connect_collector None map_curator (sample_gateway (sample_gw\<lparr>gw_zk := gw_zk w'\<rparr>)) 0 = Ret g' \<and>
    zk_next (g_gw g') 7 = 6 \<and> at 0 (gw_ZKOffsetId (g_gw g')) 7 = 21"
proof -
  from process_all_kafka [of sample_gw 7 sample_vm sample_ext "[sample_msg 20, sample_msg 21]" sample_domains 3]
  obtain w' where w': "process_all sample_ext sample_domains 7 [sample_msg 20, sample_msg 21] sample_gw = Some (Ret w')"
    by auto
  let ?g = "sample_gateway (sample_gw\<lparr>gw_zk := gw_zk w'\<rparr>)"
  obtain g' where g': "connect_collector None map_curator ?g 0 = Ret g'"
    using connect_collector_plain [of ?g sample_event_conf map_curator 0] by (auto simp: sample_gateway_def)
  have "zk_works (x_curator sample_ext) (\<lambda>z. z)" "gw_zk (g_gw ?g) = gw_zk w'"
    "7 = cd_Id (va_CollectorDetails (g_conf ?g) ! 0)" "connect_collector None (x_curator sample_ext) ?g 0 = Ret g'"
    using zk_works_map_curator g' by (simp_all add: sample_gateway_def sample_details_def)
  from restart_resumes_numbering [OF this(1) w' _ _ _ _ _ _ _ this(2,3,4), of 3] w' g'
  show ?thesis by (simp add: is_int64_def)
qed

section \<open>Updates\<close>

lemma fillCollectorDetails_fold:
  "foldl take_over_collector g ds =
   g\<lparr>g_conf := (g_conf g)\<lparr>va_CollectorDetails := va_CollectorDetails (g_conf g) @ map coll_details ds\<rparr>,
     g_ConfigUpdate := g_ConfigUpdate g @ (if g_UniqueEventList g = [] then []
       else filter (\<lambda>i. i \<notin> set (g_UniqueEventList g)) (map cj_Id ds))\<rparr>"
  by (induction ds arbitrary: g) (auto simp: take_over_collector_def isValueInList_def list_ex_iff Let_def)

text \<open>Taking the collectors over from the configuration appends all of them to the ones the agent
  already has, whether they are known or not, and announces exactly those that are not among the event
  collectors, once there are any.\<close>

theorem update_appends_collectors:
  "va_CollectorDetails (g_conf (fillCollectorDetails cfg g)) =
     va_CollectorDetails (g_conf g) @ map coll_details (cf_CollectorDetail cfg) \<and>
   g_ConfigUpdate (fillCollectorDetails cfg g) = g_ConfigUpdate g @ (if g_UniqueEventList g = [] then []
     else filter (\<lambda>i. i \<notin> set (g_UniqueEventList g)) (map cj_Id (cf_CollectorDetail cfg)))"
  by (simp add: fillCollectorDetails_def fillCollectorDetails_fold)

text \<open>A patch that mentions the measurement and no other section changes the address of the alert
  manager and leaves the measurement as it was; one that mentions only the alert manager takes over the
  measurement instead.\<close>

theorem patch_sections_swapped:
  assumes m: "cf_Measurement cfg = Some m" "mj_Prometheus m = Some p" "va_Measurement (g_conf g) = Some m0"
    and a: "cf_AlertManager cfg = Some b" "va_AlertManager (g_conf g) = Some b0"
    and v: "\<forall>s \<in> {''collectorDetails'', ''vesdomains'', ''heartbeat'', ''event'', ''cluster''}. \<not> Contains value s"
  shows "(Contains value ''measurement'' \<and> \<not> Contains value ''alertManager'' \<longrightarrow>
      updateDefaultConfUponPatch pd cfg value g = Ret (g\<lparr>g_conf := (g_conf g)\<lparr>va_AlertManager := Some b\<rparr>\<rparr>)) \<and>
    (Contains value ''alertManager'' \<and> \<not> Contains value ''measurement'' \<longrightarrow>
      (\<exists>m1. updateDefaultConfUponPatch pd cfg value g = Ret (g\<lparr>g_conf := (g_conf g)\<lparr>va_Measurement := Some m1\<rparr>\<rparr>) \<and>
        pc_Address (mc_Prometheus m1) = pj_Address p \<and> mc_DefaultInterval m1 = pd (mj_DefaultInterval m)))"
  using assms by (simp add: updateDefaultConfUponPatch_def on_conf_def fillAlertManagerDetails_def
      fillMeasurementDetails_def Let_def) (rule impI, rule exI, rule conjI [OF refl], simp)

definition sample_cfg :: Config where
  "sample_cfg = \<lparr>cf_CollectorDetail = [], cf_Domains = None, cf_Heartbeat = None,
     cf_Measurement = Some \<lparr>mj_DefaultInterval = ''300s'', mj_MaxBufferingDuration = ''3600s'',
       mj_Prometheus = Some \<lparr>pj_Address = ''http://p:9090'', pj_Timeout = ''30s'', pj_Keepalive = ''30s''\<rparr>\<rparr>,
     cf_Event = None, cf_AlertManager = Some ''new:9095'', cf_Cluster = None\<rparr>"

theorem patch_sections_swapped_witness:
  "updateDefaultConfUponPatch (\<lambda>_. 0) sample_cfg ''/config/measurement'' (sample_gateway sample_gw) =
     Ret ((sample_gateway sample_gw)\<lparr>g_conf := (g_conf (sample_gateway sample_gw))\<lparr>va_AlertManager := Some ''new:9095''\<rparr>\<rparr>)"
proof -
  have "\<forall>s \<in> {''collectorDetails'', ''vesdomains'', ''heartbeat'', ''event'', ''cluster''}.
      \<not> Contains ''/config/measurement'' s"
    "Contains ''/config/measurement'' ''measurement''" "\<not> Contains ''/config/measurement'' ''alertManager''"
    by (simp_all add: HasPrefix_def)
  from patch_sections_swapped [OF _ _ _ _ _ this(1), of sample_cfg _ _ "sample_gateway sample_gw"] this(2,3)
  show ?thesis by (simp add: sample_cfg_def sample_gateway_def)
qed

end
