(* ===== verification/Go_Reflect.thy ===== *)
theory Go_Reflect
  imports Go_Std
begin

text \<open>
  The part of Go's \<open>reflect\<close> package that VESPA/ves-agent/metrics/set.go uses: descriptions of
  types, values, zero values, the lookup of a field by name with the promotion of the fields of
  embedded structs, and reading and writing at the place it finds. A reflected value is a pair of
  a type and a value; \<open>has_type\<close> says that they fit.
\<close>

section \<open>Types and values\<close>

text \<open>A \<open>float64\<close> is its IEEE 754 bit pattern; the code moves these numbers and never computes with them.\<close>

type_synonym float64 = "64 word"

text \<open>
  Strings and integers carry the name of their type, a struct its name, its field names with a
  mark for embedded fields, and its field types. Maps are those with string keys and
  \<open>interface{}\<close> elements.
\<close>

datatype gtype =
    TFloat
  | TString string
  | TInt string
  | TPtr gtype
  | TSlice gtype
  | TMap
  | TIface
  | TStruct string "(string \<times> bool) list" "gtype list"

datatype gval =
    VFloat float64
  | VString string
  | VInt int
  | VPtr "gval option"
  | VSlice "gval list"
  | VMap "(string \<times> gval) list option"
  | VIface "gval option"
  | VStruct "gval list"

definition struct :: "string \<Rightarrow> (string \<times> gtype) list \<Rightarrow> gtype" where
  "struct n fs = TStruct n (map (\<lambda>(f, t). (f, False)) fs) (map snd fs)"

fun type_String :: "gtype \<Rightarrow> string" where
  "type_String TFloat = ''float64''"
| "type_String (TString n) = n"
| "type_String (TInt n) = n"
| "type_String (TPtr t) = ''*'' @ type_String t"
| "type_String (TSlice t) = ''[]'' @ type_String t"
| "type_String TMap = ''map[string]interface {}''"
| "type_String TIface = ''interface {}''"
| "type_String (TStruct n fi ts) = n"

primrec zero_val :: "gtype \<Rightarrow> gval" where
  "zero_val TFloat = VFloat 0"
| "zero_val (TString n) = VString []"
| "zero_val (TInt n) = VInt 0"
| "zero_val (TPtr t) = VPtr None"
| "zero_val (TSlice t) = VSlice []"
| "zero_val TMap = VMap None"
| "zero_val TIface = VIface None"
| "zero_val (TStruct n fi ts) = VStruct (map zero_val ts)"

fun has_type :: "gtype \<Rightarrow> gval \<Rightarrow> bool" and has_types :: "gtype list \<Rightarrow> gval list \<Rightarrow> bool" where
  "has_type TFloat (VFloat x) = True"
| "has_type (TString n) (VString s) = True"
| "has_type (TInt n) (VInt i) = True"
| "has_type (TPtr t) (VPtr None) = True"
| "has_type (TPtr t) (VPtr (Some v)) = has_type t v"
| "has_type (TSlice t) (VSlice vs) = (\<forall>v \<in> set vs. has_type t v)"
| "has_type TMap (VMap m) = True"
| "has_type TIface (VIface v) = True"
| "has_type (TStruct n fi ts) (VStruct vs) = has_types ts vs"
| "has_type t v = False"
| "has_types [] [] = True"
| "has_types (t # ts) (v # vs) = (has_type t v \<and> has_types ts vs)"
| "has_types ts vs = False"

section \<open>Fields by name\<close>

text \<open>
  \<open>field_paths d t n\<close> lists the fields called \<open>n\<close> that are reached through \<open>d\<close> embedded structs, each as
  the indices that lead to it and its type. \<open>FieldByName\<close> takes the shallowest depth that has one
  and finds nothing when that depth has two. The code embeds structs, not pointers to them.
\<close>

fun field_paths :: "nat \<Rightarrow> gtype \<Rightarrow> string \<Rightarrow> (nat list \<times> gtype) list" where
  "field_paths 0 (TStruct m fi ts) n =
     [([i], ts ! i). i \<leftarrow> [0..<length ts], i < length fi \<and> fst (fi ! i) = n]"
| "field_paths (Suc d) (TStruct m fi ts) n =
     [(i # p, t). i \<leftarrow> [0..<length ts], i < length fi \<and> snd (fi ! i), (p, t) \<leftarrow> field_paths d (ts ! i) n]"
| "field_paths d t n = []"

primrec embed_depth :: "gtype \<Rightarrow> nat" where
  "embed_depth TFloat = 0"
| "embed_depth (TString n) = 0"
| "embed_depth (TInt n) = 0"
| "embed_depth (TPtr t) = 0"
| "embed_depth (TSlice t) = 0"
| "embed_depth TMap = 0"
| "embed_depth TIface = 0"
| "embed_depth (TStruct n fi ts) = Suc (foldr max (map embed_depth ts) 0)"

definition FieldByName :: "gtype \<Rightarrow> string \<Rightarrow> (nat list \<times> gtype) option" where
  "FieldByName t n =
     (case filter (\<lambda>ps. ps \<noteq> []) (map (\<lambda>d. field_paths d t n) [0..<embed_depth t]) of
        [] \<Rightarrow> None
      | ps # _ \<Rightarrow> (case ps of [pt] \<Rightarrow> Some pt | _ \<Rightarrow> None))"

text \<open>Reading and writing the place that a list of field indices leads to.\<close>

fun val_at :: "gval \<Rightarrow> nat list \<Rightarrow> gval" where
  "val_at (VStruct vs) (i # p) = (if i < length vs then val_at (vs ! i) p else VStruct vs)"
| "val_at v p = v"

fun upd_at :: "gval \<Rightarrow> nat list \<Rightarrow> gval \<Rightarrow> gval" where
  "upd_at (VStruct vs) (i # p) w =
     (if i < length vs then VStruct (vs[i := upd_at (vs ! i) p w]) else VStruct vs)"
| "upd_at v p w = w"

fun type_at :: "gtype \<Rightarrow> nat list \<Rightarrow> gtype option" where
  "type_at t [] = Some t"
| "type_at (TStruct n fi ts) (i # p) = (if i < length ts then type_at (ts ! i) p else None)"
| "type_at t (i # p) = None"

text \<open>Selection of a field that the compiler resolved.\<close>

definition sel :: "gtype \<Rightarrow> string \<Rightarrow> gval \<Rightarrow> gval" where
  "sel t n v = val_at v (fst (the (FieldByName t n)))"

definition put :: "gtype \<Rightarrow> string \<Rightarrow> gval \<Rightarrow> gval \<Rightarrow> gval" where
  "put t n w v = upd_at v (fst (the (FieldByName t n))) w"

text \<open>\<open>reflect.Value.String\<close>: the text of a string, a placeholder for any other kind.\<close>

fun value_String :: "gtype \<Rightarrow> gval \<Rightarrow> string" where
  "value_String (TString n) (VString s) = s"
| "value_String t v = ''<'' @ type_String t @ '' Value>''"

fun elems :: "gval \<Rightarrow> gval list" where
  "elems (VSlice vs) = vs"
| "elems v = []"

section \<open>Laws\<close>

lemma has_types_iff: "has_types ts vs \<longleftrightarrow> list_all2 has_type ts vs"
  by (induction ts arbitrary: vs) (case_tac vs; simp)+

lemma has_type_zero_val [simp]: "has_type t (zero_val t)"
  by (induction t) (auto simp: has_types_iff list_all2_conv_all_nth)

lemma has_type_TStructE:
  assumes "has_type (TStruct n fi ts) v"
  obtains vs where "v = VStruct vs" "list_all2 has_type ts vs"
  using assms by (cases v) (auto simp: has_types_iff)

lemma has_type_val_at:
  "has_type t v \<Longrightarrow> type_at t p = Some t' \<Longrightarrow> has_type t' (val_at v p)"
proof (induction t p arbitrary: v rule: type_at.induct)
  case (2 n fi ts i p)
  from "2.prems"(1) obtain vs where vs: "v = VStruct vs" "list_all2 has_type ts vs"
    by (rule has_type_TStructE)
  with 2 show ?case by (auto simp: list_all2_conv_all_nth split: if_splits)
qed auto

lemma has_type_upd_at:
  "has_type t v \<Longrightarrow> type_at t p = Some t' \<Longrightarrow> has_type t' w \<Longrightarrow> has_type t (upd_at v p w)"
proof (induction t p arbitrary: v rule: type_at.induct)
  case (2 n fi ts i p)
  from "2.prems"(1) obtain vs where vs: "v = VStruct vs" "list_all2 has_type ts vs"
    by (rule has_type_TStructE)
  with 2 show ?case
    by (auto simp: has_types_iff list_all2_conv_all_nth nth_list_update split: if_splits)
qed auto

lemma val_at_upd_at:
  "has_type t v \<Longrightarrow> type_at t p = Some t' \<Longrightarrow> val_at (upd_at v p w) p = w"
proof (induction t p arbitrary: v rule: type_at.induct)
  case (1 t)
  then show ?case by simp
next
  case (2 n fi ts i p)
  from "2.prems"(1) obtain vs where vs: "v = VStruct vs" "list_all2 has_type ts vs"
    by (rule has_type_TStructE)
  with 2 show ?case by (auto simp: list_all2_conv_all_nth split: if_splits)
qed auto

text \<open>Writing a place leaves alone every place that is not below or above it.\<close>

fun apart :: "nat list \<Rightarrow> nat list \<Rightarrow> bool" where
  "apart (i # p) (j # q) = (i \<noteq> j \<or> apart p q)"
| "apart p q = False"

lemma val_at_upd_at_apart:
  "apart p q \<Longrightarrow> has_type t v \<Longrightarrow> type_at t p = Some t' \<Longrightarrow> type_at t q = Some t2 \<Longrightarrow>
     val_at (upd_at v p w) q = val_at v q"
proof (induction p q arbitrary: t v rule: apart.induct)
  case (1 i p j q)
  from "1.prems"(3) obtain n fi ts where t: "t = TStruct n fi ts" by (cases t) auto
  with "1.prems"(2) obtain vs where vs: "v = VStruct vs" "list_all2 has_type ts vs"
    by (auto elim: has_type_TStructE)
  with 1 t show ?case
    by (auto simp: list_all2_conv_all_nth nth_list_update split: if_splits)
qed auto

lemma field_paths_type_at:
  "(p, t') \<in> set (field_paths d t n) \<Longrightarrow> type_at t p = Some t' \<and> p \<noteq> [] \<and> size t' < size t"
proof (induction d t n arbitrary: p t' rule: field_paths.induct)
  case (1 m fi ts n)
  then show ?case by (auto simp: less_Suc_eq_le intro!: size_list_estimation' trans_le_add2)
next
  case (2 d m fi ts n)
  from "2.prems" obtain i q where i: "p = i # q" "i < length ts" "i < length fi"
      "(q, t') \<in> set (field_paths d (ts ! i) n)" "snd (fi ! i)"
    by auto
  from "2.IH" [of i q t'] i have h: "type_at (ts ! i) q = Some t'" "size t' < size (ts ! i)" by auto
  have "size (ts ! i) \<le> size_list size ts"
    using i(2) by (intro size_list_estimation' [of "ts ! i"]) auto
  with h i show ?case by simp
qed auto

lemma FieldByName_paths:
  assumes "FieldByName t n = Some pt"
  shows "\<exists>d. field_paths d t n = [pt]"
proof -
  let ?L = "map (\<lambda>d. field_paths d t n) [0..<embed_depth t]"
  from assms obtain rest where "filter (\<lambda>ps. ps \<noteq> []) ?L = [pt] # rest"
    by (auto simp: FieldByName_def split: list.splits)
  then have "[pt] \<in> set (filter (\<lambda>ps. ps \<noteq> []) ?L)" by simp
  then show ?thesis by auto
qed

lemma FieldByName_type_at:
  "FieldByName t n = Some (p, t') \<Longrightarrow> type_at t p = Some t' \<and> p \<noteq> [] \<and> size t' < size t"
  using FieldByName_paths [of t n "(p, t')"] field_paths_type_at by (metis list.set_intros(1))

text \<open>Paths that are not apart are comparable, and what lies beyond a path is a path of its type.\<close>

lemma not_apart_prefix: "\<not> apart p q \<Longrightarrow> (\<exists>r. q = p @ r) \<or> (\<exists>r. p = q @ r)"
  by (induction p q rule: apart.induct) auto

lemma type_at_append:
  "type_at t (p @ r) = (case type_at t p of None \<Rightarrow> None | Some t' \<Rightarrow> type_at t' r)"
  by (induction t p rule: type_at.induct) auto

lemma val_at_append:
  "has_type t v \<Longrightarrow> type_at t p = Some t' \<Longrightarrow> val_at v (p @ r) = val_at (val_at v p) r"
proof (induction t p arbitrary: v rule: type_at.induct)
  case (2 n fi ts i p)
  from "2.prems"(1) obtain vs where vs: "v = VStruct vs" "list_all2 has_type ts vs"
    by (rule has_type_TStructE)
  with 2 show ?case by (auto simp: list_all2_conv_all_nth split: if_splits)
qed auto

lemma type_at_TString [simp]: "type_at (TString n) q = Some t \<longleftrightarrow> q = [] \<and> t = TString n"
  by (cases q) auto

text \<open>A path determines the name of the field it leads to.\<close>

fun name_at :: "gtype \<Rightarrow> nat list \<Rightarrow> string" where
  "name_at (TStruct m fi ts) [i] = fst (fi ! i)"
| "name_at (TStruct m fi ts) (i # j # p) = name_at (ts ! i) (j # p)"
| "name_at t p = []"

lemma field_paths_name_at: "(p, t') \<in> set (field_paths d t n) \<Longrightarrow> name_at t p = n"
proof (induction d t n arbitrary: p t' rule: field_paths.induct)
  case (2 d m fi ts n)
  from "2.prems" obtain i q where i: "p = i # q" "i < length ts" "i < length fi"
      "(q, t') \<in> set (field_paths d (ts ! i) n)" "snd (fi ! i)"
    by auto
  from field_paths_type_at [OF i(4)] obtain j r where q: "q = j # r" by (cases q) auto
  from "2.IH" [of i q t'] i have "name_at (ts ! i) q = n" by auto
  with i q show ?case by simp
qed auto

lemma FieldByName_name_at: "FieldByName t n = Some (p, t') \<Longrightarrow> name_at t p = n"
  using FieldByName_paths [of t n "(p, t')"] field_paths_name_at by (metis list.set_intros(1))

lemma FieldByName_apart:
  assumes "k \<noteq> k'" and k: "FieldByName t k = Some (p, TString a)" and k': "FieldByName t k' = Some (q, TString b)"
  shows "apart p q"
proof (rule ccontr)
  have p: "type_at t p = Some (TString a)" and q: "type_at t q = Some (TString b)"
    using FieldByName_type_at [OF k] FieldByName_type_at [OF k'] by simp_all
  assume "\<not> apart p q"
  then have "p = q" using not_apart_prefix [of p q] p q by (auto simp: type_at_append)
  then show False using FieldByName_name_at [OF k] FieldByName_name_at [OF k'] assms(1) by simp
qed

lemma value_String_other: "(\<And>n. t \<noteq> TString n) \<Longrightarrow> value_String t v = value_String t w"
  by (cases t) auto

text \<open>Selection and assignment.\<close>

lemma has_type_sel: "has_type t v \<Longrightarrow> FieldByName t n = Some (p, t') \<Longrightarrow> has_type t' (sel t n v)"
  using has_type_val_at [of t v p t'] FieldByName_type_at [of t n p t'] by (simp add: sel_def)

lemma has_type_put:
  "has_type t v \<Longrightarrow> FieldByName t n = Some (p, t') \<Longrightarrow> has_type t' w \<Longrightarrow> has_type t (put t n w v)"
  using has_type_upd_at [of t v p t' w] FieldByName_type_at [of t n p t'] by (simp add: put_def)

lemma sel_put: "has_type t v \<Longrightarrow> FieldByName t n = Some (p, t') \<Longrightarrow> sel t n (put t n w v) = w"
  using val_at_upd_at [of t v p t' w] FieldByName_type_at [of t n p t'] by (simp add: put_def sel_def)

lemma sel_put_other:
  "has_type t v \<Longrightarrow> FieldByName t n = Some (p, t') \<Longrightarrow> FieldByName t m = Some (q, t2) \<Longrightarrow> apart p q \<Longrightarrow>
     sel t m (put t n w v) = sel t m v"
  using val_at_upd_at_apart [of p q t v t' t2 w] FieldByName_type_at [of t n p t'] FieldByName_type_at [of t m q t2]
  by (simp add: put_def sel_def)

lemma has_type_elems: "has_type (TSlice t) v \<Longrightarrow> \<forall>w \<in> set (elems v). has_type t w"
  by (cases v) auto

end
