(* ===== verification/Govel_Measurements.thy ===== *)
theory Govel_Measurements
  imports Go_Reflect Govel_Events
begin

text \<open>
  The structures of VESPA/govel/measurements.go and the header of an event as descriptions of Go
  types, since the metrics builder fills them by reflection, and the constructor of measurement
  events.
\<close>

section \<open>Structures\<close>

abbreviation gstring :: gtype where
  "gstring \<equiv> TString ''string''"

abbreviation pfloat :: gtype where
  "pfloat \<equiv> TPtr TFloat"

definition NicPerformance :: gtype where
  "NicPerformance = struct ''govel.NicPerformance''
    [(''ReceivedBroadcastPacketsAccumulated'', pfloat), (''ReceivedBroadcastPacketsDelta'', pfloat),
    (''ReceivedDiscardedPacketsAccumulated'', pfloat), (''ReceivedDiscardedPacketsDelta'', pfloat),
    (''ReceivedErrorPacketsAccumulated'', pfloat), (''ReceivedErrorPacketsDelta'', pfloat),
    (''ReceivedMulticastPacketsAccumulated'', pfloat), (''ReceivedMulticastPacketsDelta'', pfloat),
    (''ReceivedOctetsAccumulated'', pfloat), (''ReceivedOctetsDelta'', pfloat),
    (''ReceivedTotalPacketsAccumulated'', pfloat), (''ReceivedTotalPacketsDelta'', pfloat),
    (''ReceivedPercentDiscard'', pfloat), (''ReceivedPercentError'', pfloat),
    (''ReceivedUtilization'', pfloat), (''Speed'', pfloat), (''TransmittedPercentDiscard'', pfloat),
    (''TansmittedUtilization'', pfloat), (''ReceivedUnicastPacketsAccumulated'', pfloat),
    (''ReceivedUnicastPacketsDelta'', pfloat), (''TransmittedBroadcastPacketsAccumulated'', pfloat),
    (''TransmittedBroadcastPacketsDelta'', pfloat),
    (''TransmittedDiscardedPacketsAccumulated'', pfloat),
    (''TransmittedDiscardedPacketsDelta'', pfloat), (''TransmittedErrorPacketsAccumulated'', pfloat),
    (''TransmittedErrorPacketsDelta'', pfloat), (''TransmittedMulticastPacketsAccumulated'', pfloat),
    (''TransmittedMulticastPacketsDelta'', pfloat), (''TransmittedOctetsAccumulated'', pfloat),
    (''TransmittedOctetsDelta'', pfloat), (''TransmittedTotalPacketsAccumulated'', pfloat),
    (''TransmittedTotalPacketsDelta'', pfloat), (''TransmittedUnicastPacketsAccumulated'', pfloat),
    (''TransmittedUnicastPacketsDelta'', pfloat),
    (''ValuesAreSuspect'', TString ''govel.ValuesAreSuspect''), (''VNICIdentifier'', gstring)]"

definition MemoryUsage :: gtype where
  "MemoryUsage = struct ''govel.MemoryUsage''
    [(''MemoryBuffered'', pfloat), (''MemoryCached'', pfloat), (''MemoryConfigured'', pfloat),
    (''MemoryLatencyAvg'', pfloat), (''MemorySharedAvg'', pfloat), (''MemorySwapInAvg'', pfloat),
    (''MemorySwapInRateAvg'', pfloat), (''MemorySwapOutAvg'', pfloat),
    (''MemorySwapOutRateAvg'', pfloat), (''MemorySwapUsedAvg'', pfloat),
    (''PercentMemoryUsage'', pfloat), (''MemoryFree'', TFloat), (''MemorySlabRecl'', pfloat),
    (''MemorySlabUnrecl'', pfloat), (''MemoryUsed'', TFloat), (''VMIdentifier'', gstring)]"

definition LatencyBucketMeasure :: gtype where
  "LatencyBucketMeasure = struct ''govel.LatencyBucketMeasure''
    [(''CountsInTheBucket'', TFloat), (''HighEndOfLatencyBucket'', pfloat),
    (''LowEndOfLatencyBucket'', pfloat)]"

definition FilesystemUsage :: gtype where
  "FilesystemUsage = struct ''govel.FilesystemUsage''
    [(''BlockConfigured'', TFloat), (''BlockIops'', TFloat), (''BlockUsed'', TFloat),
    (''EphemeralConfigured'', TFloat), (''EphemeralIops'', TFloat), (''EphemeralUsed'', TFloat),
    (''FilesystemName'', gstring)]"

definition FeaturesInUse :: gtype where
  "FeaturesInUse = struct ''govel.FeaturesInUse''
    [(''FeatureIdentifier'', gstring), (''FeatureUtilization'', TInt ''int64'')]"

definition DiskUsage :: gtype where
  "DiskUsage = struct ''govel.DiskUsage''
    [(''DiskIdentifier'', gstring), (''DiskIoTimeAvg'', pfloat), (''DiskIoTimeLast'', pfloat),
    (''DiskIoTimeMax'', pfloat), (''DiskIoTimeMin'', pfloat), (''DiskMergedReadAvg'', pfloat),
    (''DiskMergedReadLast'', pfloat), (''DiskMergedReadMax'', pfloat), (''DiskMergedReadMin'', pfloat),
    (''DiskMergedWriteAvg'', pfloat), (''DiskMergedWriteLast'', pfloat),
    (''DiskMergedWriteMax'', pfloat), (''DiskMergedWriteMin'', pfloat),
    (''DiskOctetsReadAvg'', pfloat), (''DiskOctetsReadLast'', pfloat), (''DiskOctetsReadMax'', pfloat),
    (''DiskOctetsReadMin'', pfloat), (''DiskOctetsWriteAvg'', pfloat),
    (''DiskOctetsWriteLast'', pfloat), (''DiskOctetsWriteMax'', pfloat),
    (''DiskOctetsWriteMin'', pfloat), (''DiskOpsReadAvg'', pfloat), (''DiskOpsReadLast'', pfloat),
    (''DiskOpsReadMax'', pfloat), (''DiskOpsReadMin'', pfloat), (''DiskOpsWriteAvg'', pfloat),
    (''DiskOpsWriteLast'', pfloat), (''DiskOpsWriteMax'', pfloat), (''DiskOpsWriteMin'', pfloat),
    (''DiskPendingOperationsAvg'', pfloat), (''DiskPendingOperationsLast'', pfloat),
    (''DiskPendingOperationsMax'', pfloat), (''DiskPendingOperationsMin'', pfloat),
    (''DiskTimeReadAvg'', pfloat), (''DiskTimeReadLast'', pfloat), (''DiskTimeReadMax'', pfloat),
    (''DiskTimeReadMin'', pfloat), (''DiskTimeWriteAvg'', pfloat), (''DiskTimeWriteLast'', pfloat),
    (''DiskTimeWriteMax'', pfloat), (''DiskTimeWriteMin'', pfloat), (''DiskBusResets'', pfloat),
    (''DiskCommandsAborted'', pfloat), (''DiskCommandsAvg'', pfloat), (''DiskFlushRequests'', pfloat),
    (''DiskFlushTime'', pfloat), (''DiskReadCommandsAvg'', pfloat), (''DiskTime'', pfloat),
    (''DiskTotalReadLatencyAvg'', pfloat), (''DiskTotalWriteLatencyAvg'', pfloat),
    (''DiskWeightedIoTimeAvg'', pfloat), (''DiskWeightedIoTimeLast'', pfloat),
    (''DiskWeightedIoTimeMax'', pfloat), (''DiskWeightedIoTimeMin'', pfloat),
    (''DiskWriteCommandsAvg'', pfloat)]"

definition CPUUsage :: gtype where
  "CPUUsage = struct ''govel.CPUUsage''
    [(''CPUIdentifier'', gstring), (''CPUCapacityContention'', TInt ''int''), (''CPUIdle'', pfloat),
    (''CPUUsageInterrupt'', pfloat), (''CPUUsageNice'', pfloat), (''CPUUsageSoftIRQ'', pfloat),
    (''CPUUsageSteal'', pfloat), (''CPUUsageSystem'', pfloat), (''CPUUsageUser'', pfloat),
    (''CPUWait'', pfloat), (''PercentUsage'', pfloat), (''CPUDemandAvg'', pfloat),
    (''CPUDemandMhz'', pfloat), (''CPUDemandPct'', pfloat), (''CPULatencyAvg'', pfloat),
    (''CPUOverheadAvg'', pfloat), (''CPUSwapWaitTime'', pfloat)]"

definition CodecsInUse :: gtype where
  "CodecsInUse = struct ''govel.CodecsInUse''
    [(''CodecIdentifier'', gstring), (''NumberInUse'', TInt ''int64'')]"

definition Key :: gtype where
  "Key = struct ''govel.Key''
    [(''KeyName'', gstring), (''KeyOrder'', TPtr (TInt ''int64'')), (''KeyValue'', TPtr gstring)]"

definition JSONObjectInstance :: gtype where
  "JSONObjectInstance = struct ''govel.JSONObjectInstance''
    [(''ObjectInstance'', TMap), (''ObjectInstanceEpochMicrosec'', pfloat),
    (''ObjectKeys'', TSlice Key)]"

definition JSONObject :: gtype where
  "JSONObject = struct ''govel.JSONObject''
    [(''NfSubscribedObjectName'', TPtr gstring), (''NfSubscriptionID'', TPtr gstring),
    (''ObjectInstances'', TSlice JSONObjectInstance), (''ObjectName'', gstring),
    (''ObjectSchema'', TPtr gstring), (''ObjectSchemaURL'', TPtr gstring)]"

definition Field_t :: gtype where
  "Field_t = struct ''govel.Field''
    [(''Name'', gstring), (''Value'', gstring)]"

definition NamedArrayOfFields :: gtype where
  "NamedArrayOfFields = struct ''govel.NamedArrayOfFields''
    [(''ArrayOfFields'', TSlice Field_t), (''Name'', gstring)]"

definition MeasurementFields :: gtype where
  "MeasurementFields = struct ''govel.MeasurementFields''
    [(''AdditionalFields'', TSlice Field_t), (''AdditionalMeasurements'', TSlice NamedArrayOfFields),
    (''AdditionalObjects'', TSlice JSONObject), (''CodecUsageArray'', TSlice CodecsInUse),
    (''ConcurrentSessions'', TPtr (TInt ''int64'')), (''ConfiguredEntities'', TPtr (TInt ''int64'')),
    (''CPUUsageArray'', TSlice CPUUsage), (''DiskUsageArray'', TSlice DiskUsage),
    (''FeatureUsageArray'', TSlice FeaturesInUse), (''FilesystemUsageArray'', TSlice FilesystemUsage),
    (''LatencyDistribution'', TSlice LatencyBucketMeasure), (''MeanRequestLatency'', pfloat),
    (''MeasurementInterval'', TFloat), (''MeasurementFieldsVersion'', gstring),
    (''MemoryUsageArray'', TSlice MemoryUsage), (''NumberOfMediaPortsInUse'', TPtr (TInt ''int64'')),
    (''RequestRate'', pfloat), (''NfcScalingMetric'', TPtr (TInt ''int64'')),
    (''NicPerformanceArray'', TSlice NicPerformance)]"

definition EventHeader_t :: gtype where
  "EventHeader_t = struct ''govel.EventHeader''
    [(''Domain'', TString ''govel.EventDomain''), (''EventID'', gstring), (''EventName'', gstring),
    (''EventType'', gstring), (''InternalHeaderFields'', TIface),
    (''LastEpochMicrosec'', TInt ''int64''), (''NfNamingCode'', gstring), (''NfcNamingCode'', gstring),
    (''NfVendorName'', gstring), (''Priority'', TString ''govel.EventPriority''),
    (''ReportingEntityID'', gstring), (''ReportingEntityName'', gstring),
    (''Sequence'', TInt ''int64''), (''SourceID'', gstring), (''SourceName'', gstring),
    (''StartEpochMicrosec'', TInt ''int64''), (''TimeZoneOffset'', gstring), (''Version'', gstring),
    (''VesEventListenerVersion'', gstring)]"

definition EventMeasurements :: gtype where
  "EventMeasurements = TStruct ''govel.EventMeasurements''
     [(''EventHeader'', True), (''MeasurementFields'', True)] [EventHeader_t, MeasurementFields]"

section \<open>Construction\<close>

abbreviation DomainMeasurements :: EventDomain where "DomainMeasurements \<equiv> ''measurement''"

text \<open>Assigning a field of a measurement event.\<close>

abbreviation setm :: "string \<Rightarrow> gval \<Rightarrow> gval \<Rightarrow> gval" where
  "setm \<equiv> put EventMeasurements"

text \<open>
  \<open>Seconds\<close> stands for the conversion of a duration to floating point. The source name is an
  argument of the Go function too, which ignores it.
\<close>

definition NewMeasurements ::
    "(duration \<Rightarrow> float64) \<Rightarrow> ident \<Rightarrow> ident \<Rightarrow> ident \<Rightarrow> duration \<Rightarrow> time \<Rightarrow> time \<Rightarrow> gval" where
  "NewMeasurements Seconds name i sourceName interval start end =
     (let meas = zero_val EventMeasurements;
          meas = setm ''MeasurementFieldsVersion'' (VString ''4.0'') meas;
          meas = setm ''VesEventListenerVersion'' (VString ''7.1'') meas;
          meas = setm ''MeasurementInterval'' (VFloat (Seconds interval)) meas;
          meas = setm ''Domain'' (VString DomainMeasurements) meas;
          meas = setm ''EventName'' (VString name) meas;
          meas = setm ''EventID'' (VString i) meas;
          meas = setm ''Version'' (VString ''4.1'') meas;
          meas = setm ''Priority'' (VString PriorityNormal) meas;
          meas = setm ''StartEpochMicrosec'' (VInt (go_div (UnixNano start) 1000)) meas;
          meas = setm ''LastEpochMicrosec'' (VInt (go_div (UnixNano end) 1000)) meas
      in setm ''Sequence'' (VInt 0) meas)"

end
