(* ===== verification/Metrics_Set.thy ===== *)
theory Metrics_Set
  imports Govel_Measurements "HOL-Library.AList"
begin

text \<open>
  The measurement set builder of VESPA/ves-agent/metrics/set.go. A \<open>MeasKeys\<close> map is the list of
  its entries in the order in which the iteration visits them, with distinct names. A pointer to
  an event of the set is its position there. Go's in-place updates become updated values; what
  a failing \<open>setField\<close> has already written is lost with the set that \<open>invalidate\<close> drops.
\<close>

section \<open>Results\<close>

text \<open>A call that may crash and that otherwise returns an error or a value.\<close>

type_synonym 'a res = "(string + 'a) go"

definition go_try :: "'a res \<Rightarrow> ('a \<Rightarrow> 'b res) \<Rightarrow> 'b res" where
  "go_try m f = go_bind m (\<lambda>r. case r of Inl e \<Rightarrow> Ret (Inl e) | Inr x \<Rightarrow> f x)"

lemma go_try_simps [simp]:
  "go_try (Ret (Inl e)) f = Ret (Inl e)"
  "go_try (Ret (Inr x)) f = f x"
  "go_try (Crash c) f = Crash c"
  by (simp_all add: go_try_def)

lemma go_try_Inr_iff [go_simps]:
  "go_try m f = Ret (Inr y) \<longleftrightarrow> (\<exists>x. m = Ret (Inr x) \<and> f x = Ret (Inr y))"
proof (cases m)
  case (Ret r)
  then show ?thesis by (cases r) (simp_all add: go_try_def)
qed (simp add: go_try_def)

section \<open>Keys\<close>

type_synonym MeasKeys = "(string \<times> string) list"

definition MeasKeys_String :: "MeasKeys \<Rightarrow> string go" where
  "MeasKeys_String keys =
     (let s = concat (map (\<lambda>(k, v). k @ '': '' @ v @ '','') keys)
      in if s = [] then Crash OutOfRange else Ret (butlast s))"

definition JSONObjectKeys :: "MeasKeys \<Rightarrow> gval list" where
  "JSONObjectKeys keys =
     map (\<lambda>(k, v). put Key ''KeyValue'' (VPtr (Some (VString v))) (put Key ''KeyName'' (VString k) (zero_val Key))) keys"

text \<open>A nil \<open>KeyValue\<close> is dereferenced only when the key is known.\<close>

fun match_keys :: "MeasKeys \<Rightarrow> gval list \<Rightarrow> bool go" where
  "match_keys keys [] = Ret True"
| "match_keys keys (k # ks) =
     (case map_of keys (value_String gstring (sel Key ''KeyName'' k)) of
        None \<Rightarrow> Ret False
      | Some v \<Rightarrow>
          (case sel Key ''KeyValue'' k of
             VPtr (Some (VString w)) \<Rightarrow> if v = w then match_keys keys ks else Ret False
           | _ \<Rightarrow> Crash NilDeref))"

definition MatchJSONObjectKeys :: "MeasKeys \<Rightarrow> gval list \<Rightarrow> bool go" where
  "MatchJSONObjectKeys keys jKeys =
     (if length jKeys \<noteq> length keys then Ret False else match_keys keys jKeys)"

section \<open>Setting a field by reflection\<close>

text \<open>A key that names no field of the element is ignored.\<close>

definition entry_matches :: "gtype \<Rightarrow> MeasKeys \<Rightarrow> gval \<Rightarrow> bool" where
  "entry_matches e keys entry \<longleftrightarrow> (\<forall>(k, v) \<in> set keys.
     (case FieldByName e k of None \<Rightarrow> True | Some (p, t) \<Rightarrow> value_String t (val_at entry p) = v))"

definition sliceSearch :: "gtype \<Rightarrow> gval list \<Rightarrow> MeasKeys \<Rightarrow> nat option" where
  "sliceSearch e vs keys =
     List.find (\<lambda>i. entry_matches e keys (vs ! i)) [0..<length vs]"

text \<open>\<open>SetString\<close> panics on a field that is not a string.\<close>

fun set_keys :: "gtype \<Rightarrow> MeasKeys \<Rightarrow> gval \<Rightarrow> gval go" where
  "set_keys e [] obj = Ret obj"
| "set_keys e ((k, v) # keys) obj =
     (case FieldByName e k of
        None \<Rightarrow> set_keys e keys obj
      | Some (p, TString _) \<Rightarrow> set_keys e keys (upd_at obj p (VString v))
      | Some _ \<Rightarrow> Crash ExplicitPanic)"

definition sliceAppendNew :: "gtype \<Rightarrow> gval list \<Rightarrow> MeasKeys \<Rightarrow> gval list go" where
  "sliceAppendNew e vs keys = go_bind (set_keys e keys (zero_val e)) (\<lambda>obj. Ret (vs @ [obj]))"

text \<open>The element to write, and the slice that holds it.\<close>

definition slice_entry :: "gtype \<Rightarrow> gval list \<Rightarrow> MeasKeys \<Rightarrow> (gval list \<times> nat) go" where
  "slice_entry e vs keys =
     (case sliceSearch e vs keys of
        Some i \<Rightarrow> Ret (vs, i)
      | None \<Rightarrow> go_bind (sliceAppendNew e vs keys) (\<lambda>vs'. Ret (vs', length vs' - 1)))"

fun is_struct :: "gtype \<Rightarrow> bool" where
  "is_struct (TStruct n fi ts) = True"
| "is_struct t = False"

text \<open>
  \<open>setField\<close> and \<open>setSliceField\<close> take the type and the value at a place and give the new value for
  it. Looking up a field of an element that is not a struct panics.
\<close>

function (sequential) setField :: "gtype \<Rightarrow> gval \<Rightarrow> string list \<Rightarrow> float64 \<Rightarrow> MeasKeys \<Rightarrow> gval res"
  and setSliceField :: "gtype \<Rightarrow> gval list \<Rightarrow> string list \<Rightarrow> float64 \<Rightarrow> MeasKeys \<Rightarrow> gval res" where
  "setField (TPtr t) v subfields x keys =
     go_try (setField t (case v of VPtr (Some w) \<Rightarrow> w | _ \<Rightarrow> zero_val t) subfields x keys)
       (\<lambda>w. Ret (Inr (VPtr (Some w))))"
| "setField TFloat v [] x keys = Ret (Inr (VFloat x))"
| "setField t v [] x keys = Ret (Inl (''Cannot assign a float64 to '' @ type_String t))"
| "setField (TSlice e) v subfields x keys = setSliceField e (elems v) subfields x keys"
| "setField (TStruct n fi ts) v (f # subfields) x keys =
     (case FieldByName (TStruct n fi ts) f of
        None \<Rightarrow> Ret (Inl (''Invalid field '' @ f @ '' on type '' @ n))
      | Some (p, t) \<Rightarrow>
          go_try (setField t (val_at v p) subfields x keys) (\<lambda>w. Ret (Inr (upd_at v p w))))"
| "setField t v subfields x keys = Ret (Inl (''Cannot access subfields of type '' @ type_String t))"
| "setSliceField e vs subfields x keys =
     (if \<not> is_struct e then Crash ExplicitPanic
      else go_bind (slice_entry e vs keys) (\<lambda>(vs', i).
        case FieldByName e (hd subfields) of
          None \<Rightarrow> Ret (Inl ''Cannot set field, parent is not valid'')
        | Some (p, t) \<Rightarrow>
            go_try (setField t (val_at (vs' ! i) p) (tl subfields) x keys)
              (\<lambda>w. Ret (Inr (VSlice (vs'[i := upd_at (vs' ! i) p w]))))))"
  by pat_completeness auto
termination
  by (relation "measure (case_sum (\<lambda>(t, _). size t) (\<lambda>(e, _). size e))")
    (auto dest!: FieldByName_type_at)

section \<open>The builder\<close>

type_synonym EventMeasurementSet = "gval list"

record EventMeasurementSetBuilder =
  bld_set :: EventMeasurementSet
  bld_valid :: bool

text \<open>A factory creates the event for a VM and a time; it may change the state it draws on.\<close>

type_synonym 's MeasurementFactory = "'s \<Rightarrow> string \<Rightarrow> time \<Rightarrow> ('s \<times> (string + gval)) go"

definition NewEventMeasurementSetBuilder :: EventMeasurementSetBuilder where
  "NewEventMeasurementSetBuilder = \<lparr>bld_set = [], bld_valid = True\<rparr>"

text \<open>A log line of level EXCEPTION ends the process.\<close>

definition checkValid :: "EventMeasurementSetBuilder \<Rightarrow> unit go" where
  "checkValid bld = (if bld_valid bld then Ret () else Crash ProcessExit)"

definition invalidate :: "EventMeasurementSetBuilder \<Rightarrow> EventMeasurementSetBuilder" where
  "invalidate bld = bld\<lparr>bld_set := [], bld_valid := False\<rparr>"

definition event_of :: "string \<Rightarrow> time \<Rightarrow> gval \<Rightarrow> bool" where
  "event_of vmID timestamp evt \<longleftrightarrow>
     sel EventMeasurements ''LastEpochMicrosec'' evt = VInt (go_div (UnixNano timestamp) 1000) \<and>
     sel EventMeasurements ''SourceName'' evt = VString vmID"

definition bld_find :: "'s MeasurementFactory \<Rightarrow> EventMeasurementSetBuilder \<Rightarrow> 's \<Rightarrow> string \<Rightarrow> time \<Rightarrow>
    (EventMeasurementSetBuilder \<times> 's \<times> (string + nat)) go" where
  "bld_find create bld st vmID timestamp =
     (case List.find (\<lambda>i. event_of vmID timestamp (bld_set bld ! i)) [0..<length (bld_set bld)] of
        Some i \<Rightarrow> Ret (bld, st, Inr i)
      | None \<Rightarrow>
          go_bind (create st vmID timestamp) (\<lambda>(st', r).
            case r of
              Inl err \<Rightarrow> Ret (bld, st', Inl err)
            | Inr evt \<Rightarrow> Ret (bld\<lparr>bld_set := bld_set bld @ [evt]\<rparr>, st', Inr (length (bld_set bld)))))"

definition Measurements :: "EventMeasurementSetBuilder \<Rightarrow> EventMeasurementSet go" where
  "Measurements bld = go_bind (checkValid bld) (\<lambda>_. Ret (bld_set bld))"

definition put_event :: "EventMeasurementSetBuilder \<Rightarrow> nat \<Rightarrow> gval \<Rightarrow> EventMeasurementSetBuilder" where
  "put_event bld i evt = bld\<lparr>bld_set := (bld_set bld)[i := evt]\<rparr>"

definition bld_Set :: "'s MeasurementFactory \<Rightarrow> EventMeasurementSetBuilder \<Rightarrow> 's \<Rightarrow>
    string \<Rightarrow> string \<Rightarrow> time \<Rightarrow> float64 \<Rightarrow> MeasKeys \<Rightarrow>
    (EventMeasurementSetBuilder \<times> 's \<times> string option) go" where
  "bld_Set create bld st flds vmID timestamp x keys =
     go_bind (checkValid bld) (\<lambda>_.
       if flds = [] then Ret (bld, st, Some ''Fields cannot be empty'')
       else if vmID = [] then Ret (bld, st, Some ''VmID cannot be empty'')
       else go_bind (bld_find create bld st vmID timestamp) (\<lambda>(bld1, st1, r).
         case r of
           Inl err \<Rightarrow> Ret (bld1, st1, Some err)
         | Inr i \<Rightarrow>
             go_bind (setField (TPtr EventMeasurements) (VPtr (Some (bld_set bld1 ! i))) (Split flds CHR ''.'') x keys)
               (\<lambda>res. case res of
                  Inr (VPtr (Some evt)) \<Rightarrow> Ret (put_event bld1 i evt, st1, None)
                | Inr _ \<Rightarrow> Crash NilDeref
                | Inl err \<Rightarrow> Ret (invalidate bld1, st1, Some err))))"

text \<open>The first instance whose keys match.\<close>

fun find_instance :: "MeasKeys \<Rightarrow> gval list \<Rightarrow> nat \<Rightarrow> nat option go" where
  "find_instance keys [] i = Ret None"
| "find_instance keys (v # vs) i =
     go_bind (MatchJSONObjectKeys keys (elems (sel JSONObjectInstance ''ObjectKeys'' v)))
       (\<lambda>m. if m then Ret (Some i) else find_instance keys vs (Suc i))"

fun map_assign :: "gval \<Rightarrow> string \<Rightarrow> gval \<Rightarrow> gval go" where
  "map_assign (VMap (Some m)) k v = Ret (VMap (Some (AList.update k v m)))"
| "map_assign v k w = Crash NilDeref"

text \<open>The object with a name, the instance of an object with the keys: found, or appended.\<close>

definition object_entry :: "gval list \<Rightarrow> string \<Rightarrow> gval list \<times> nat" where
  "object_entry objs objectName =
     (case List.find (\<lambda>i. sel JSONObject ''ObjectName'' (objs ! i) = VString objectName) [0..<length objs] of
        Some i \<Rightarrow> (objs, i)
      | None \<Rightarrow> (objs @ [put JSONObject ''ObjectName'' (VString objectName) (zero_val JSONObject)], length objs))"

definition instance_entry :: "gval list \<Rightarrow> MeasKeys \<Rightarrow> (gval list \<times> nat) go" where
  "instance_entry insts keys =
     go_bind (find_instance keys insts 0) (\<lambda>r. case r of
       Some j \<Rightarrow> Ret (insts, j)
     | None \<Rightarrow>
         Ret (insts @ [put JSONObjectInstance ''ObjectInstance'' (VMap (Some []))
                (put JSONObjectInstance ''ObjectKeys'' (VSlice (JSONObjectKeys keys)) (zero_val JSONObjectInstance))],
              length insts))"

definition set_object :: "gval \<Rightarrow> string \<Rightarrow> string \<Rightarrow> float64 \<Rightarrow> MeasKeys \<Rightarrow> gval go" where
  "set_object metric objectName objectInstance x keys =
     (let (objs, i) = object_entry (elems (sel EventMeasurements ''AdditionalObjects'' metric)) objectName
      in go_bind (instance_entry (elems (sel JSONObject ''ObjectInstances'' (objs ! i))) keys) (\<lambda>(insts, j).
           go_bind (map_assign (sel JSONObjectInstance ''ObjectInstance'' (insts ! j)) objectInstance (VFloat x)) (\<lambda>m.
             let inst = put JSONObjectInstance ''ObjectInstance'' m (insts ! j);
                 obj = put JSONObject ''ObjectInstances'' (VSlice (insts[j := inst])) (objs ! i)
             in Ret (put EventMeasurements ''AdditionalObjects'' (VSlice (objs[i := obj])) metric))))"

definition SetAdditionalObject :: "'s MeasurementFactory \<Rightarrow> EventMeasurementSetBuilder \<Rightarrow> 's \<Rightarrow>
    string \<times> string \<times> string \<Rightarrow> time \<Rightarrow> float64 \<Rightarrow> MeasKeys \<Rightarrow>
    (EventMeasurementSetBuilder \<times> 's \<times> string option) go" where
  "SetAdditionalObject create bld st names timestamp x keys =
     (case names of (vmID, objectName, objectInstance) \<Rightarrow>
       if vmID = [] \<or> objectName = [] \<or> objectInstance = []
       then Ret (bld, st, Some ''SetAdditionalObject() - Arguments cannot be empty'')
       else go_bind (bld_find create bld st vmID timestamp) (\<lambda>(bld1, st1, r).
         case r of
           Inl err \<Rightarrow> Ret (bld1, st1, Some err)
         | Inr i \<Rightarrow>
             go_bind (set_object (bld_set bld1 ! i) objectName objectInstance x keys)
               (\<lambda>evt. Ret (put_event bld1 i evt, st1, None))))"

section \<open>What a successful call does\<close>

declare setSliceField.simps [simp del]

text \<open>The two ways into \<open>setField\<close> that recur, as elimination rules.\<close>

lemma setSliceField_InrE:
  assumes "setSliceField e vs subfields x keys = Ret (Inr w)"
  obtains vs' i p t u where "is_struct e" "slice_entry e vs keys = Ret (vs', i)"
    "FieldByName e (hd subfields) = Some (p, t)"
    "setField t (val_at (vs' ! i) p) (tl subfields) x keys = Ret (Inr u)"
    "w = VSlice (vs'[i := upd_at (vs' ! i) p u])"
  using assms by (auto simp: setSliceField.simps go_simps split: if_splits option.splits)

lemma setField_struct_InrE:
  assumes "setField (TStruct n fi ts) v (f # subfields) x keys = Ret (Inr w)"
  obtains p t u where "FieldByName (TStruct n fi ts) f = Some (p, t)"
    "setField t (val_at v p) subfields x keys = Ret (Inr u)" "w = upd_at v p u"
  using assms by (auto simp: go_simps split: option.splits)

lemma setField_ptr_InrE:
  assumes "setField (TPtr t) v subfields x keys = Ret (Inr w)" and "has_type (TPtr t) v"
  obtains v1 u where "has_type t v1" "setField t v1 subfields x keys = Ret (Inr u)" "w = VPtr (Some u)"
    "v1 = (case v of VPtr (Some w) \<Rightarrow> w | _ \<Rightarrow> zero_val t)"
proof -
  have "has_type t (case v of VPtr (Some w) \<Rightarrow> w | _ \<Rightarrow> zero_val t)"
    using assms(2) by (cases v) (auto split: option.splits)
  then show thesis using assms(1) that by (auto simp: go_simps)
qed

lemma set_keys_ConsE:
  assumes "set_keys e ((k, v) # keys) obj = Ret obj'"
  obtains "FieldByName e k = None" "set_keys e keys obj = Ret obj'"
    | p n where "FieldByName e k = Some (p, TString n)" "set_keys e keys (upd_at obj p (VString v)) = Ret obj'"
  using assms by (cases "FieldByName e k") (auto split: gtype.splits)

subsection \<open>Types\<close>

lemma has_type_set_keys:
  "has_type e obj \<Longrightarrow> set_keys e keys obj = Ret obj' \<Longrightarrow> has_type e obj'"
proof (induction keys arbitrary: obj)
  case (Cons kv keys)
  obtain k v where kv: "kv = (k, v)" by (cases kv)
  from Cons.prems(2) [unfolded kv] show ?case
  proof (cases rule: set_keys_ConsE)
    case 1
    then show ?thesis using Cons by simp
  next
    case (2 p n)
    from FieldByName_type_at [OF 2(1)] have "has_type e (upd_at obj p (VString v))"
      using has_type_upd_at [OF Cons.prems(1)] by simp
    then show ?thesis using 2(2) by (rule Cons.IH)
  qed
qed simp

lemma find_upt_Some: "List.find P [0..<n] = Some i \<Longrightarrow> i < n \<and> P i \<and> (\<forall>j < i. \<not> P j)"
  by (auto simp: find_Some_iff)

lemma has_type_slice_entry:
  assumes "\<forall>v \<in> set vs. has_type e v" and "slice_entry e vs keys = Ret (vs', i)"
  shows "(\<forall>v \<in> set vs'. has_type e v) \<and> i < length vs'"
  using assms
  by (auto simp: slice_entry_def sliceAppendNew_def sliceSearch_def go_simps
      split: option.splits dest!: find_upt_Some has_type_set_keys [OF has_type_zero_val])

lemma has_type_list_update:
  "\<forall>v \<in> set vs. has_type e v \<Longrightarrow> has_type e w \<Longrightarrow> \<forall>v \<in> set (vs[i := w]). has_type e v"
  by (auto dest!: subsetD [OF set_update_subset_insert])

lemma has_type_setField:
  "has_type t v \<Longrightarrow> setField t v subfields x keys = Ret (Inr w) \<Longrightarrow> has_type t w"
  "\<forall>v \<in> set vs. has_type e v \<Longrightarrow> setSliceField e vs subfields x keys = Ret (Inr w) \<Longrightarrow> has_type (TSlice e) w"
proof (induction t v subfields x keys and e vs subfields x keys arbitrary: w and w
    rule: setField_setSliceField.induct)
  case (1 t v subfields x keys)
  from "1.prems"(2,1) show ?case
    by (rule setField_ptr_InrE) (use "1.IH" in simp)
next
  case (5 n fi ts v f subfields x keys)
  from "5.prems"(2) show ?case
  proof (rule setField_struct_InrE)
    fix p t u
    assume u: "FieldByName (TStruct n fi ts) f = Some (p, t)"
      "setField t (val_at v p) subfields x keys = Ret (Inr u)" "w = upd_at v p u"
    from FieldByName_type_at [OF u(1)] have t: "type_at (TStruct n fi ts) p = Some t" by simp
    from "5.IH" [OF u(1) refl has_type_val_at [OF "5.prems"(1) t] u(2)] show ?thesis
      using has_type_upd_at [OF "5.prems"(1) t] u(3) by simp
  qed
next
  case (7 e vs subfields x keys)
  from "7.prems"(2) show ?case
  proof (rule setSliceField_InrE)
    fix vs' i p t u
    assume u: "is_struct e" "slice_entry e vs keys = Ret (vs', i)" "FieldByName e (hd subfields) = Some (p, t)"
      "setField t (val_at (vs' ! i) p) (tl subfields) x keys = Ret (Inr u)"
      "w = VSlice (vs'[i := upd_at (vs' ! i) p u])"
    from has_type_slice_entry [OF "7.prems"(1) u(2)]
    have vs': "\<forall>v \<in> set vs'. has_type e v" and i: "has_type e (vs' ! i)" by auto
    from FieldByName_type_at [OF u(3)] have t: "type_at e p = Some t" by simp
    from "7.IH" [OF _ u(3) refl has_type_val_at [OF i t] u(4)] u(1)
    have "has_type e (upd_at (vs' ! i) p u)" using has_type_upd_at [OF i t] by simp
    then show ?thesis using has_type_list_update [OF vs'] u(5) by simp
  qed
next
  case (4 e v f subfields x keys)
  then show ?case by (cases v) auto
qed auto

subsection \<open>Reading back\<close>

text \<open>
  \<open>getField\<close> is the reading counterpart of \<open>setField\<close>: it follows pointers, takes the element of a slice
  that the keys select, and expects a number at the end.
\<close>

function (sequential) getField :: "gtype \<Rightarrow> gval \<Rightarrow> string list \<Rightarrow> MeasKeys \<Rightarrow> float64 option" where
  "getField (TPtr t) (VPtr (Some v)) subfields keys = getField t v subfields keys"
| "getField TFloat (VFloat x) [] keys = Some x"
| "getField (TSlice e) (VSlice vs) (f # subfields) keys =
     (case sliceSearch e vs keys of
        None \<Rightarrow> None
      | Some i \<Rightarrow> (case FieldByName e f of
            None \<Rightarrow> None
          | Some (p, t) \<Rightarrow> getField t (val_at (vs ! i) p) subfields keys))"
| "getField (TStruct n fi ts) v (f # subfields) keys =
     (case FieldByName (TStruct n fi ts) f of
        None \<Rightarrow> None
      | Some (p, t) \<Rightarrow> getField t (val_at v p) subfields keys)"
| "getField t v subfields keys = None"
  by pat_completeness auto
termination
  by (relation "measure (\<lambda>(t, _). size t)") (auto dest!: FieldByName_type_at)

lemma setField_keeps_strings:
  "has_type t v \<Longrightarrow> setField t v subfields x keys = Ret (Inr w) \<Longrightarrow> type_at t q = Some (TString m) \<Longrightarrow>
     val_at w q = val_at v q"
proof (induction subfields arbitrary: t v w q)
  case Nil
  then show ?case by (cases t; cases q) auto
next
  case (Cons f subfields)
  show ?case
  proof (cases t)
    case (TStruct n fi ts)
    note prems = Cons.prems [unfolded TStruct]
    from prems(2) show ?thesis
    proof (rule setField_struct_InrE)
      fix p t u
      assume u: "FieldByName (TStruct n fi ts) f = Some (p, t)"
        "setField t (val_at v p) subfields x keys = Ret (Inr u)" "w = upd_at v p u"
      from FieldByName_type_at [OF u(1)] have t: "type_at (TStruct n fi ts) p = Some t" "p \<noteq> []" by simp_all
      note tv = has_type_val_at [OF prems(1) t(1)]
      have tu: "has_type (TStruct n fi ts) (upd_at v p u)"
        by (rule has_type_upd_at [OF prems(1) t(1) has_type_setField(1) [OF tv u(2)]])
      show ?thesis
      proof (cases "apart p q")
        case True
        then show ?thesis using val_at_upd_at_apart [OF True prems(1) t(1) prems(3)] u(3) by simp
      next
        case False
        then obtain r where q: "q = p @ r"
          using not_apart_prefix [OF False] prems(3) t(1) by (auto simp: type_at_append)
        with prems(3) t(1) have "type_at t r = Some (TString m)" by (simp add: type_at_append)
        then have "val_at u r = val_at (val_at v p) r"
          using Cons.IH [OF tv u(2)] by simp
        then show ?thesis
          using q u(3) val_at_append [OF tu t(1)] val_at_append [OF prems(1) t(1)]
            val_at_upd_at [OF prems(1) t(1)] by simp
      qed
    qed
  qed (use Cons.prems in \<open>cases q; auto\<close>)+
qed

lemma entry_matches_setField:
  assumes ty: "has_type e v" and p: "FieldByName e f = Some (p, t)"
    and u: "setField t (val_at v p) subfields x keys' = Ret (Inr u)"
  shows "entry_matches e keys (upd_at v p u) = entry_matches e keys v"
proof -
  obtain n fi ts where e: "e = TStruct n fi ts"
    using FieldByName_type_at [OF p] by (cases e; cases p) auto
  have w: "setField e v (f # subfields) x keys' = Ret (Inr (upd_at v p u))"
    using p u by (simp add: e)
  have "value_String tq (val_at (upd_at v p u) q) = value_String tq (val_at v q)"
    if "FieldByName e k = Some (q, tq)" for k q tq
  proof (cases "\<exists>m. tq = TString m")
    case True
    with FieldByName_type_at [OF that] setField_keeps_strings [OF ty w] show ?thesis by auto
  next
    case False
    then show ?thesis by (intro value_String_other) auto
  qed
  then show ?thesis by (auto simp: entry_matches_def split: option.splits)
qed

lemma set_keys_frame:
  "has_type e obj \<Longrightarrow> set_keys e keys obj = Ret obj' \<Longrightarrow> FieldByName e k = Some (p, TString n) \<Longrightarrow>
     k \<notin> fst ` set keys \<Longrightarrow> val_at obj' p = val_at obj p"
proof (induction keys arbitrary: obj)
  case (Cons kv keys)
  obtain k1 v1 where kv: "kv = (k1, v1)" by (cases kv)
  from Cons.prems(2) [unfolded kv] show ?case
  proof (cases rule: set_keys_ConsE)
    case 1
    then show ?thesis using Cons kv by simp
  next
    case (2 q n1)
    have q: "type_at e q = Some (TString n1)" using FieldByName_type_at [OF 2(1)] by simp
    have p: "type_at e p = Some (TString n)" using FieldByName_type_at [OF Cons.prems(3)] by simp
    have "apart q p" using FieldByName_apart [OF _ 2(1) Cons.prems(3)] Cons.prems(4) kv by auto
    from val_at_upd_at_apart [OF this Cons.prems(1) q p]
    have "val_at (upd_at obj q (VString v1)) p = val_at obj p" .
    moreover have "has_type e (upd_at obj q (VString v1))"
      using has_type_upd_at [OF Cons.prems(1) q] by simp
    ultimately show ?thesis using Cons.IH 2(2) Cons.prems(3,4) by simp
  qed
qed simp

lemma set_keys_matches:
  "has_type e obj \<Longrightarrow> set_keys e keys obj = Ret obj' \<Longrightarrow> distinct (map fst keys) \<Longrightarrow> entry_matches e keys obj'"
proof (induction keys arbitrary: obj)
  case (Cons kv keys)
  obtain k v where kv: "kv = (k, v)" by (cases kv)
  from Cons.prems(2) [unfolded kv] show ?case
  proof (cases rule: set_keys_ConsE)
    case 1
    then show ?thesis using Cons kv by (simp add: entry_matches_def)
  next
    case (2 p n)
    have p: "type_at e p = Some (TString n)" using FieldByName_type_at [OF 2(1)] by simp
    have ty: "has_type e (upd_at obj p (VString v))"
      using has_type_upd_at [OF Cons.prems(1) p] by simp
    have "val_at obj' p = val_at (upd_at obj p (VString v)) p"
      using set_keys_frame [OF ty 2(2,1)] Cons.prems(3) kv by simp
    then have "val_at obj' p = VString v" using val_at_upd_at [OF Cons.prems(1) p] by simp
    moreover have "entry_matches e keys obj'" using Cons.IH [OF ty 2(2)] Cons.prems(3) by simp
    ultimately show ?thesis using 2(1) kv by (simp add: entry_matches_def)
  qed
qed (simp add: entry_matches_def)

lemma slice_entry_found:
  assumes ty: "\<forall>v \<in> set vs. has_type e v" and r: "slice_entry e vs keys = Ret (vs', i)"
    and keys: "distinct (map fst keys)"
  shows "i < length vs' \<and> entry_matches e keys (vs' ! i) \<and> (\<forall>j < i. \<not> entry_matches e keys (vs' ! j))"
proof (cases "sliceSearch e vs keys")
  case None
  then have no: "\<forall>j < length vs. \<not> entry_matches e keys (vs ! j)"
    by (simp add: sliceSearch_def find_None_iff)
  from r None obtain obj where obj: "set_keys e keys (zero_val e) = Ret obj" "vs' = vs @ [obj]" "i = length vs"
    by (auto simp: slice_entry_def sliceAppendNew_def go_simps)
  from set_keys_matches [OF has_type_zero_val obj(1) keys] no obj show ?thesis
    by (simp add: nth_append)
next
  case (Some j)
  with r show ?thesis by (auto simp: slice_entry_def sliceSearch_def dest!: find_upt_Some)
qed

lemma sliceSearch_updated:
  assumes "i < length vs" and "entry_matches e keys w" and "\<forall>j < i. \<not> entry_matches e keys (vs ! j)"
  shows "sliceSearch e (vs[i := w]) keys = Some i"
  using assms by (auto simp: sliceSearch_def find_Some_iff)

lemma getField_setField:
  "has_type t v \<Longrightarrow> setField t v subfields x keys = Ret (Inr w) \<Longrightarrow> distinct (map fst keys) \<Longrightarrow>
     getField t w subfields keys = Some x"
  "\<forall>v \<in> set vs. has_type e v \<Longrightarrow> setSliceField e vs subfields x keys = Ret (Inr w) \<Longrightarrow> distinct (map fst keys) \<Longrightarrow>
     subfields \<noteq> [] \<Longrightarrow> getField (TSlice e) w subfields keys = Some x"
proof (induction t v subfields x keys and e vs subfields x keys arbitrary: w and w
    rule: setField_setSliceField.induct)
  case (1 t v subfields x keys)
  from "1.prems"(2,1) show ?case
    by (rule setField_ptr_InrE) (use "1.IH" "1.prems"(3) in simp)
next
  case (4 e v f subfields x keys)
  then show ?case by (cases v) auto
next
  case (5 n fi ts v f subfields x keys)
  from "5.prems"(2) show ?case
  proof (rule setField_struct_InrE)
    fix p t u
    assume u: "FieldByName (TStruct n fi ts) f = Some (p, t)"
      "setField t (val_at v p) subfields x keys = Ret (Inr u)" "w = upd_at v p u"
    from FieldByName_type_at [OF u(1)] have t: "type_at (TStruct n fi ts) p = Some t" by simp
    from "5.IH" [OF u(1) refl has_type_val_at [OF "5.prems"(1) t] u(2)] "5.prems"(3)
    show ?thesis using u val_at_upd_at [OF "5.prems"(1) t] by simp
  qed
next
  case (7 e vs subfields x keys)
  from "7.prems"(2) show ?case
  proof (rule setSliceField_InrE)
    fix vs' i p t u
    assume u: "is_struct e" "slice_entry e vs keys = Ret (vs', i)" "FieldByName e (hd subfields) = Some (p, t)"
      "setField t (val_at (vs' ! i) p) (tl subfields) x keys = Ret (Inr u)"
      "w = VSlice (vs'[i := upd_at (vs' ! i) p u])"
    from has_type_slice_entry [OF "7.prems"(1) u(2)] have i: "has_type e (vs' ! i)" by auto
    from FieldByName_type_at [OF u(3)] have t: "type_at e p = Some t" by simp
    note found = slice_entry_found [OF "7.prems"(1) u(2) "7.prems"(3)]
    have "sliceSearch e (vs'[i := upd_at (vs' ! i) p u]) keys = Some i"
      using found entry_matches_setField [OF i u(3,4)] by (intro sliceSearch_updated) auto
    moreover have "getField t u (tl subfields) keys = Some x"
      using "7.IH" [OF _ u(3) refl has_type_val_at [OF i t] u(4) "7.prems"(3)] u(1) by simp
    ultimately show ?thesis
      using u(3,5) "7.prems"(4) found val_at_upd_at [OF i t] by (cases subfields) auto
  qed
qed auto

section \<open>Additional objects\<close>

text \<open>The fields that the code selects at compile time.\<close>

lemma object_fields [simp]:
  "FieldByName EventMeasurements ''AdditionalObjects'' = Some ([1, 2], TSlice JSONObject)"
  "FieldByName JSONObject ''ObjectName'' = Some ([3], gstring)"
  "FieldByName JSONObject ''ObjectInstances'' = Some ([2], TSlice JSONObjectInstance)"
  "FieldByName JSONObjectInstance ''ObjectInstance'' = Some ([0], TMap)"
  "FieldByName JSONObjectInstance ''ObjectKeys'' = Some ([2], TSlice Key)"
  "FieldByName Key ''KeyName'' = Some ([0], gstring)"
  "FieldByName Key ''KeyValue'' = Some ([2], TPtr gstring)"
  by code_simp+

lemma zero_Key: "zero_val Key = VStruct [VString [], VPtr None, VPtr None]"
  by (simp add: Key_def struct_def)

lemma json_key:
  "sel Key ''KeyName'' (put Key ''KeyValue'' w (put Key ''KeyName'' u (zero_val Key))) = u"
  "sel Key ''KeyValue'' (put Key ''KeyValue'' w (put Key ''KeyName'' u (zero_val Key))) = w"
  by (simp_all add: sel_def put_def zero_Key)

lemma has_type_JSONObjectKeys: "\<forall>k \<in> set (JSONObjectKeys keys). has_type Key k"
  by (auto simp: JSONObjectKeys_def intro!: has_type_put)

text \<open>\<open>get_object\<close> is the reading counterpart of \<open>set_object\<close>.\<close>

definition get_object :: "gval \<Rightarrow> string \<Rightarrow> string \<Rightarrow> MeasKeys \<Rightarrow> gval option" where
  "get_object metric objectName objectInstance keys =
     (let objs = elems (sel EventMeasurements ''AdditionalObjects'' metric)
      in case List.find (\<lambda>i. sel JSONObject ''ObjectName'' (objs ! i) = VString objectName) [0..<length objs] of
           None \<Rightarrow> None
         | Some i \<Rightarrow>
             (let insts = elems (sel JSONObject ''ObjectInstances'' (objs ! i))
              in case find_instance keys insts 0 of
                   Ret (Some j) \<Rightarrow>
                     (case sel JSONObjectInstance ''ObjectInstance'' (insts ! j) of
                        VMap (Some m) \<Rightarrow> map_of m objectInstance
                      | _ \<Rightarrow> None)
                 | _ \<Rightarrow> None))"

lemma match_keys_own:
  "distinct (map fst keys) \<Longrightarrow> set ks \<subseteq> set keys \<Longrightarrow> match_keys keys (JSONObjectKeys ks) = Ret True"
  by (induction ks) (auto simp: JSONObjectKeys_def json_key)

lemma MatchJSONObjectKeys_own:
  "distinct (map fst keys) \<Longrightarrow> MatchJSONObjectKeys keys (JSONObjectKeys keys) = Ret True"
  by (simp add: MatchJSONObjectKeys_def match_keys_own) (simp add: JSONObjectKeys_def)

text \<open>The search for an instance sees the keys only.\<close>

definition inst_match :: "MeasKeys \<Rightarrow> gval \<Rightarrow> bool go" where
  "inst_match keys v = MatchJSONObjectKeys keys (elems (sel JSONObjectInstance ''ObjectKeys'' v))"

lemma find_instance_Some:
  "find_instance keys vs k = Ret (Some j) \<longleftrightarrow>
     (\<exists>i < length vs. j = k + i \<and> inst_match keys (vs ! i) = Ret True \<and>
        (\<forall>h < i. inst_match keys (vs ! h) = Ret False))"
proof (induction vs arbitrary: k)
  case (Cons v vs)
  consider "inst_match keys v = Ret True" | "inst_match keys v = Ret False"
    | c where "inst_match keys v = Crash c" by (cases "inst_match keys v") auto
  then show ?case
    using Cons.IH [of "Suc k"]
    by cases (auto simp: Ex_less_Suc2 All_less_Suc2 inst_match_def)
qed simp

lemma find_instance_None:
  "find_instance keys vs k = Ret None \<longleftrightarrow> (\<forall>i < length vs. inst_match keys (vs ! i) = Ret False)"
proof (induction vs arbitrary: k)
  case (Cons v vs)
  consider "inst_match keys v = Ret True" | "inst_match keys v = Ret False"
    | c where "inst_match keys v = Crash c" by (cases "inst_match keys v") auto
  then show ?case
    using Cons.IH [of "Suc k"] by cases (auto simp: All_less_Suc2 inst_match_def)
qed simp

lemma object_entry_spec:
  assumes "object_entry objs n = (objs', i)" and ty: "\<forall>obj \<in> set objs. has_type JSONObject obj"
  shows "(\<forall>obj \<in> set objs'. has_type JSONObject obj) \<and> i < length objs' \<and>
    sel JSONObject ''ObjectName'' (objs' ! i) = VString n \<and>
    (\<forall>j < i. sel JSONObject ''ObjectName'' (objs' ! j) \<noteq> VString n)"
proof (cases "List.find (\<lambda>i. sel JSONObject ''ObjectName'' (objs ! i) = VString n) [0..<length objs]")
  case None
  then have "\<forall>j < length objs. sel JSONObject ''ObjectName'' (objs ! j) \<noteq> VString n"
    by (simp add: find_None_iff)
  moreover have "has_type JSONObject (put JSONObject ''ObjectName'' (VString n) (zero_val JSONObject))"
    by (rule has_type_put [OF has_type_zero_val object_fields(2)]) simp
  ultimately show ?thesis
    using assms None sel_put [OF has_type_zero_val [of JSONObject], of "''ObjectName''"]
    by (auto simp: object_entry_def nth_append)
next
  case (Some j)
  with assms find_upt_Some [OF Some] show ?thesis by (auto simp: object_entry_def)
qed

lemma new_instance:
  fixes keys
  defines "v \<equiv> put JSONObjectInstance ''ObjectInstance'' (VMap (Some []))
    (put JSONObjectInstance ''ObjectKeys'' (VSlice (JSONObjectKeys keys)) (zero_val JSONObjectInstance))"
  shows "has_type JSONObjectInstance v" and "distinct (map fst keys) \<Longrightarrow> inst_match keys v = Ret True"
    and "sel JSONObjectInstance ''ObjectInstance'' v = VMap (Some [])"
proof -
  let ?u = "put JSONObjectInstance ''ObjectKeys'' (VSlice (JSONObjectKeys keys)) (zero_val JSONObjectInstance)"
  have u: "has_type JSONObjectInstance ?u"
    using has_type_JSONObjectKeys [of keys] by (intro has_type_put [OF has_type_zero_val object_fields(5)]) simp
  show "has_type JSONObjectInstance v" unfolding v_def by (rule has_type_put [OF u object_fields(4)]) simp
  have "sel JSONObjectInstance ''ObjectKeys'' v = VSlice (JSONObjectKeys keys)"
    unfolding v_def
    using sel_put_other [OF u, of "''ObjectInstance''" _ _ "''ObjectKeys''"]
      sel_put [OF has_type_zero_val [of JSONObjectInstance], of "''ObjectKeys''"] by simp
  then show "distinct (map fst keys) \<Longrightarrow> inst_match keys v = Ret True"
    by (simp add: inst_match_def MatchJSONObjectKeys_own)
  show "sel JSONObjectInstance ''ObjectInstance'' v = VMap (Some [])"
    unfolding v_def by (rule sel_put [OF u object_fields(4)])
qed

lemma instance_entry_spec:
  assumes r: "instance_entry insts keys = Ret (insts', j)" and keys: "distinct (map fst keys)"
    and ty: "\<forall>v \<in> set insts. has_type JSONObjectInstance v"
  shows "(\<forall>v \<in> set insts'. has_type JSONObjectInstance v) \<and> j < length insts' \<and>
    inst_match keys (insts' ! j) = Ret True \<and> (\<forall>h < j. inst_match keys (insts' ! h) = Ret False)"
proof -
  from r obtain f where f: "find_instance keys insts 0 = Ret f" by (auto simp: instance_entry_def go_simps)
  show ?thesis
  proof (cases f)
    case None
    with r f ty new_instance [of keys] keys show ?thesis
      by (auto simp: instance_entry_def find_instance_None nth_append)
  next
    case (Some i)
    with r f ty show ?thesis by (auto simp: instance_entry_def find_instance_Some)
  qed
qed

lemma map_assign_Ret:
  "map_assign v k w = Ret m \<longleftrightarrow> (\<exists>a. v = VMap (Some a) \<and> m = VMap (Some (AList.update k w a)))"
  by (cases "(v, k, w)" rule: map_assign.cases) auto

lemma set_object_RetE:
  assumes r: "set_object metric n k x keys = Ret metric'"
    and ty: "has_type EventMeasurements metric" and keys: "distinct (map fst keys)"
  obtains objs i insts j a inst obj where
    "object_entry (elems (sel EventMeasurements ''AdditionalObjects'' metric)) n = (objs, i)"
    "instance_entry (elems (sel JSONObject ''ObjectInstances'' (objs ! i))) keys = Ret (insts, j)"
    "sel JSONObjectInstance ''ObjectInstance'' (insts ! j) = VMap (Some a)"
    "inst = put JSONObjectInstance ''ObjectInstance'' (VMap (Some (AList.update k (VFloat x) a))) (insts ! j)"
    "obj = put JSONObject ''ObjectInstances'' (VSlice (insts[j := inst])) (objs ! i)"
    "metric' = put EventMeasurements ''AdditionalObjects'' (VSlice (objs[i := obj])) metric"
    "\<forall>v \<in> set objs. has_type JSONObject v" "\<forall>v \<in> set insts. has_type JSONObjectInstance v"
    "has_type JSONObjectInstance inst" "has_type JSONObject obj"
proof -
  obtain objs i where oi: "object_entry (elems (sel EventMeasurements ''AdditionalObjects'' metric)) n = (objs, i)"
    by (metis surj_pair)
  from r oi obtain insts j m where ij:
      "instance_entry (elems (sel JSONObject ''ObjectInstances'' (objs ! i))) keys = Ret (insts, j)"
      "map_assign (sel JSONObjectInstance ''ObjectInstance'' (insts ! j)) k (VFloat x) = Ret m"
      "metric' = put EventMeasurements ''AdditionalObjects''
         (VSlice (objs[i := put JSONObject ''ObjectInstances''
            (VSlice (insts[j := put JSONObjectInstance ''ObjectInstance'' m (insts ! j)])) (objs ! i)])) metric"
    by (auto simp: set_object_def go_simps Let_def)
  have objs: "(\<forall>v \<in> set objs. has_type JSONObject v) \<and> i < length objs"
    using object_entry_spec [OF oi has_type_elems [OF has_type_sel [OF ty object_fields(1)]]] by simp
  then have oty: "has_type JSONObject (objs ! i)" by simp
  have insts: "(\<forall>v \<in> set insts. has_type JSONObjectInstance v) \<and> j < length insts"
    using instance_entry_spec [OF ij(1) keys has_type_elems [OF has_type_sel [OF oty object_fields(3)]]] by simp
  obtain a where a: "sel JSONObjectInstance ''ObjectInstance'' (insts ! j) = VMap (Some a)"
      "m = VMap (Some (AList.update k (VFloat x) a))"
    using ij(2) by (auto simp: map_assign_Ret)
  let ?inst = "put JSONObjectInstance ''ObjectInstance'' m (insts ! j)"
  have ity: "has_type JSONObjectInstance ?inst"
    using insts a by (intro has_type_put [OF _ object_fields(4)]) simp_all
  have "has_type JSONObject (put JSONObject ''ObjectInstances'' (VSlice (insts[j := ?inst])) (objs ! i))"
    using has_type_list_update [OF conjunct1 [OF insts] ity]
    by (intro has_type_put [OF oty object_fields(3)]) simp
  then show thesis using that [OF oi ij(1) a(1) _ _ _ conjunct1 [OF objs] conjunct1 [OF insts]] ity ij(3) a by simp
qed

lemma has_type_set_object:
  assumes ty: "has_type EventMeasurements metric" and r: "set_object metric n k x keys = Ret metric'"
    and keys: "distinct (map fst keys)"
  shows "has_type EventMeasurements metric'"
  using r ty keys
proof (rule set_object_RetE)
  fix objs i obj
  assume "metric' = put EventMeasurements ''AdditionalObjects'' (VSlice (objs[i := obj])) metric"
    "\<forall>v \<in> set objs. has_type JSONObject v" "has_type JSONObject obj"
  then show ?thesis
    using has_type_list_update [of objs JSONObject obj i] has_type_put [OF ty object_fields(1)] by simp
qed

lemma zero_JSONObject:
  "zero_val JSONObject = VStruct [VPtr None, VPtr None, VSlice [], VString [], VPtr None, VPtr None]"
  by (simp add: JSONObject_def struct_def)

lemma new_object_instances:
  "elems (sel JSONObject ''ObjectInstances'' (put JSONObject ''ObjectName'' w (zero_val JSONObject))) = []"
  by (simp add: sel_def put_def zero_JSONObject)

lemma get_object_entry:
  assumes o: "object_entry (elems (sel EventMeasurements ''AdditionalObjects'' metric)) n = (objs, i)"
    and e: "instance_entry (elems (sel JSONObject ''ObjectInstances'' (objs ! i))) keys = Ret (insts, j)"
    and a: "sel JSONObjectInstance ''ObjectInstance'' (insts ! j) = VMap (Some a)"
  shows "get_object metric n k keys = map_of a k"
proof -
  let ?objs = "elems (sel EventMeasurements ''AdditionalObjects'' metric)"
  show ?thesis
  proof (cases "List.find (\<lambda>i. sel JSONObject ''ObjectName'' (?objs ! i) = VString n) [0..<length ?objs]")
    case None
    then show ?thesis using o e a
      by (auto simp: get_object_def object_entry_def instance_entry_def new_object_instances new_instance(3))
  next
    case (Some h)
    then have h: "objs = ?objs" "i = h" using o by (auto simp: object_entry_def)
    from e obtain f where f: "find_instance keys (elems (sel JSONObject ''ObjectInstances'' (objs ! i))) 0 = Ret f"
      by (auto simp: instance_entry_def go_simps)
    with Some h e a show ?thesis
      by (cases f) (auto simp: get_object_def instance_entry_def Let_def new_instance(3) nth_append)
  qed
qed

lemma get_object_set_object:
  assumes ty: "has_type EventMeasurements metric" and r: "set_object metric n k x keys = Ret metric'"
    and keys: "distinct (map fst keys)"
  shows "get_object metric' n k' keys = (if k' = k then Some (VFloat x) else get_object metric n k' keys)"
  using r ty keys
proof (rule set_object_RetE)
  fix objs i insts j a inst obj
  assume o: "object_entry (elems (sel EventMeasurements ''AdditionalObjects'' metric)) n = (objs, i)"
    and e: "instance_entry (elems (sel JSONObject ''ObjectInstances'' (objs ! i))) keys = Ret (insts, j)"
    and a: "sel JSONObjectInstance ''ObjectInstance'' (insts ! j) = VMap (Some a)"
    and inst: "inst = put JSONObjectInstance ''ObjectInstance'' (VMap (Some (AList.update k (VFloat x) a))) (insts ! j)"
    and obj: "obj = put JSONObject ''ObjectInstances'' (VSlice (insts[j := inst])) (objs ! i)"
    and m: "metric' = put EventMeasurements ''AdditionalObjects'' (VSlice (objs[i := obj])) metric"
    and tys: "\<forall>v \<in> set objs. has_type JSONObject v" "\<forall>v \<in> set insts. has_type JSONObjectInstance v"
      "has_type JSONObjectInstance inst" "has_type JSONObject obj"
  note ospec = object_entry_spec [OF o has_type_elems [OF has_type_sel [OF ty object_fields(1)]]]
  then have oty: "has_type JSONObject (objs ! i)" by simp
  note ispec = instance_entry_spec [OF e keys has_type_elems [OF has_type_sel [OF oty object_fields(3)]]]
  then have ity: "has_type JSONObjectInstance (insts ! j)" by simp
  have objs': "elems (sel EventMeasurements ''AdditionalObjects'' metric') = objs[i := obj]"
    using sel_put [OF ty object_fields(1)] m by simp
  have name: "sel JSONObject ''ObjectName'' obj = VString n"
    using sel_put_other [OF oty object_fields(3,2)] obj ospec by simp
  have insts': "elems (sel JSONObject ''ObjectInstances'' obj) = insts[j := inst]"
    using sel_put [OF oty object_fields(3)] obj by simp
  have match: "inst_match keys inst = inst_match keys (insts ! j)"
    using sel_put_other [OF ity object_fields(4,5)] inst by (simp add: inst_match_def)
  have val: "sel JSONObjectInstance ''ObjectInstance'' inst = VMap (Some (AList.update k (VFloat x) a))"
    using sel_put [OF ity object_fields(4)] inst by simp
  have f: "List.find (\<lambda>h. sel JSONObject ''ObjectName'' (objs[i := obj] ! h) = VString n) [0..<length objs] = Some i"
    using ospec name by (auto simp: find_Some_iff)
  have g: "find_instance keys (insts[j := inst]) 0 = Ret (Some j)"
    using ispec match by (auto simp: find_instance_Some)
  have new: "get_object metric' n k' keys = map_of (AList.update k (VFloat x) a) k'"
    using ospec ispec by (simp add: get_object_def objs' f insts' g val)
  then show ?thesis using get_object_entry [OF o e a] by (simp add: update_conv')
qed

section \<open>The builder over a factory\<close>

definition typed_set :: "EventMeasurementSetBuilder \<Rightarrow> bool" where
  "typed_set bld \<longleftrightarrow> (\<forall>evt \<in> set (bld_set bld). has_type EventMeasurements evt)"

lemma typed_set_nth: "typed_set bld \<Longrightarrow> i < length (bld_set bld) \<Longrightarrow> has_type EventMeasurements (bld_set bld ! i)"
  by (simp add: typed_set_def)

lemma typed_set_put_event:
  "typed_set bld \<Longrightarrow> has_type EventMeasurements evt \<Longrightarrow> typed_set (put_event bld i evt)"
  using has_type_list_update [of "bld_set bld" EventMeasurements evt i] by (simp add: typed_set_def put_event_def)

lemma typed_set_invalidate [simp]: "typed_set (invalidate bld)"
  by (simp add: typed_set_def invalidate_def)

lemma bld_Set_alt:
  "bld_Set create bld st flds vmID t x keys =
     go_bind (checkValid bld) (\<lambda>_.
       if flds = [] then Ret (bld, st, Some ''Fields cannot be empty'')
       else if vmID = [] then Ret (bld, st, Some ''VmID cannot be empty'')
       else go_bind (bld_find create bld st vmID t) (\<lambda>(bld1, st1, r).
         case r of
           Inl err \<Rightarrow> Ret (bld1, st1, Some err)
         | Inr i \<Rightarrow>
             go_bind (setField EventMeasurements (bld_set bld1 ! i) (Split flds CHR ''.'') x keys)
               (\<lambda>res. case res of
                  Inr evt \<Rightarrow> Ret (put_event bld1 i evt, st1, None)
                | Inl err \<Rightarrow> Ret (invalidate bld1, st1, Some err))))"
proof -
  have "go_bind (setField (TPtr t) (VPtr (Some v)) fs x keys)
      (\<lambda>res. case res of Inr (VPtr (Some evt)) \<Rightarrow> f evt | Inr _ \<Rightarrow> Crash NilDeref | Inl err \<Rightarrow> g err) =
    go_bind (setField t v fs x keys) (\<lambda>res. case res of Inr evt \<Rightarrow> f evt | Inl err \<Rightarrow> g err)"
    for t v fs and f g :: "_ \<Rightarrow> (EventMeasurementSetBuilder \<times> 'a \<times> string option) go"
  proof (cases "setField t v fs x keys")
    case (Ret r)
    then show ?thesis by (cases r) simp_all
  qed simp
  then show ?thesis by (simp add: bld_Set_def)
qed

text \<open>What the builder relies on: a factory creates events of the right type.\<close>

locale measurement_factory =
  fixes create :: "'s MeasurementFactory"
  assumes create_typed: "create st vmID t = Ret (st', Inr evt) \<Longrightarrow> has_type EventMeasurements evt"
begin

lemma find_result:
  assumes "typed_set bld" and "bld_find create bld st vmID t = Ret (bld', st', r)"
  shows "typed_set bld' \<and> bld_valid bld' = bld_valid bld \<and>
    (case r of Inl e \<Rightarrow> bld' = bld
     | Inr i \<Rightarrow> i < length (bld_set bld') \<and> take (length (bld_set bld)) (bld_set bld') = bld_set bld \<and>
         (if i < length (bld_set bld) then bld' = bld \<and> event_of vmID t (bld_set bld ! i)
          else length (bld_set bld') = Suc i \<and> i = length (bld_set bld) \<and>
            create st vmID t = Ret (st', Inr (bld_set bld' ! i))))"
  using assms
  by (auto simp: bld_find_def typed_set_def go_simps case_sum_eq split: option.splits
      dest: create_typed find_upt_Some)

lemma Set_RetE:
  assumes ty: "typed_set bld" and r: "bld_Set create bld st flds vmID t x keys = Ret (bld', st', None)"
  obtains bld1 i evt where "bld_find create bld st vmID t = Ret (bld1, st', Inr i)"
    "setField EventMeasurements (bld_set bld1 ! i) (Split flds CHR ''.'') x keys = Ret (Inr evt)"
    "bld' = put_event bld1 i evt" "flds \<noteq> []" "vmID \<noteq> []" "bld_valid bld"
proof -
  from r obtain bld1 st1 q where f: "bld_find create bld st vmID t = Ret (bld1, st1, q)"
      and ne: "flds \<noteq> []" "vmID \<noteq> []" "bld_valid bld"
    by (auto simp: bld_Set_alt checkValid_def go_simps split: if_splits)
  with r that show thesis by (auto simp: bld_Set_alt checkValid_def go_simps case_sum_eq)
qed

lemma Set_typed:
  assumes "typed_set bld" and "bld_Set create bld st flds vmID t x keys = Ret (bld', st', err)"
  shows "typed_set bld'"
proof (cases err)
  case None
  with assms(2) have "bld_Set create bld st flds vmID t x keys = Ret (bld', st', None)" by simp
  with assms(1) show ?thesis
  proof (rule Set_RetE)
    fix bld1 i evt
    assume b: "bld_find create bld st vmID t = Ret (bld1, st', Inr i)"
      "setField EventMeasurements (bld_set bld1 ! i) (Split flds CHR ''.'') x keys = Ret (Inr evt)"
      "bld' = put_event bld1 i evt"
    from find_result [OF assms(1) b(1)] have f: "typed_set bld1" "i < length (bld_set bld1)" by auto
    from has_type_setField(1) [OF typed_set_nth [OF f] b(2)] f(1) b(3) show ?thesis
      by (simp add: typed_set_put_event)
  qed
next
  case (Some e)
  show ?thesis
  proof (cases "flds = [] \<or> vmID = []")
    case True
    with assms Some show ?thesis by (auto simp: bld_Set_alt checkValid_def split: if_splits)
  next
    case False
    with assms(2) obtain bld1 st1 q where f: "bld_find create bld st vmID t = Ret (bld1, st1, q)" "bld_valid bld"
      by (auto simp: bld_Set_alt checkValid_def go_simps split: if_splits)
    with assms(2) False Some have "bld' = bld1 \<or> bld' = invalidate bld1"
      by (auto simp: bld_Set_alt checkValid_def go_simps case_sum_eq)
    with find_result [OF assms(1) f(1)] show ?thesis by auto
  qed
qed

lemma SetAdditionalObject_typed:
  assumes ty: "typed_set bld" and keys: "distinct (map fst keys)"
    and r: "SetAdditionalObject create bld st names t x keys = Ret (bld', st', err)"
  shows "typed_set bld'"
proof -
  obtain vmID n k where names: "names = (vmID, n, k)" by (cases names)
  show ?thesis
  proof (cases "vmID = [] \<or> n = [] \<or> k = []")
    case True
    with r ty show ?thesis by (auto simp: SetAdditionalObject_def names)
  next
    case False
    with r obtain bld1 st1 q where f: "bld_find create bld st vmID t = Ret (bld1, st1, q)"
      by (auto simp: SetAdditionalObject_def names go_simps)
    note b = find_result [OF ty f]
    show ?thesis
    proof (cases q)
      case (Inl e)
      with r f b False show ?thesis by (auto simp: SetAdditionalObject_def names)
    next
      case (Inr i)
      with r f False obtain evt where e: "set_object (bld_set bld1 ! i) n k x keys = Ret evt"
          "bld' = put_event bld1 i evt"
        by (auto simp: SetAdditionalObject_def names go_simps)
      from b Inr have "has_type EventMeasurements (bld_set bld1 ! i)" "typed_set bld1" by (auto intro: typed_set_nth)
      with has_type_set_object [OF _ e(1) keys] e(2) show ?thesis by (simp add: typed_set_put_event)
    qed
  qed
qed

text \<open>
  After a successful \<open>Set\<close> one event holds the value at the place that the path and the keys name;
  the other events are as before.
\<close>

lemma Set_reads_back:
  assumes ty: "typed_set bld" and r: "bld_Set create bld st flds vmID t x keys = Ret (bld', st', None)"
    and keys: "distinct (map fst keys)"
  shows "\<exists>i < length (bld_set bld').
    getField EventMeasurements (bld_set bld' ! i) (Split flds CHR ''.'') keys = Some x \<and>
    length (bld_set bld') = max (length (bld_set bld)) (Suc i) \<and>
    (\<forall>j < length (bld_set bld). j \<noteq> i \<longrightarrow> bld_set bld' ! j = bld_set bld ! j)"
  using ty r
proof (rule Set_RetE)
  fix bld1 i evt
  assume b: "bld_find create bld st vmID t = Ret (bld1, st', Inr i)"
    "setField EventMeasurements (bld_set bld1 ! i) (Split flds CHR ''.'') x keys = Ret (Inr evt)"
    "bld' = put_event bld1 i evt"
  from find_result [OF ty b(1)] have f: "typed_set bld1" "i < length (bld_set bld1)"
      "length (bld_set bld1) = max (length (bld_set bld)) (Suc i)"
      "take (length (bld_set bld)) (bld_set bld1) = bld_set bld"
    by (auto split: if_splits)
  have "\<forall>j < length (bld_set bld). bld_set bld1 ! j = bld_set bld ! j"
    using f(4) nth_take by metis
  with f b(3) getField_setField(1) [OF typed_set_nth [OF f(1,2)] b(2) keys] show ?thesis
    by (intro exI [of _ i]) (simp add: put_event_def)
qed

end

section \<open>What insertions leave alone\<close>

lemma sel_setField:
  "has_type t v \<Longrightarrow> setField t v subfields x keys = Ret (Inr w) \<Longrightarrow> FieldByName t m = Some (q, TString k) \<Longrightarrow>
     sel t m w = sel t m v"
  using setField_keeps_strings FieldByName_type_at [of t m q "TString k"] by (simp add: sel_def)

lemma sel_set_object:
  assumes "has_type EventMeasurements metric" and "set_object metric n k x keys = Ret metric'"
    and "FieldByName EventMeasurements m = Some (q, t)" and "apart [1, 2] q"
  shows "sel EventMeasurements m metric' = sel EventMeasurements m metric"
  using assms(2) sel_put_other [OF assms(1) object_fields(1) assms(3,4)]
  by (auto simp: set_object_def go_simps Let_def split: prod.splits)

text \<open>A string field of the header is kept in every event of the set; a new event brings its own.\<close>

definition insert_outcome :: "'s MeasurementFactory \<Rightarrow> EventMeasurementSetBuilder \<Rightarrow> 's \<Rightarrow> string \<Rightarrow> time \<Rightarrow>
    EventMeasurementSetBuilder \<Rightarrow> 's \<Rightarrow> (string \<Rightarrow> bool) \<Rightarrow> bool" where
  "insert_outcome create bld st vmID t bld' st' F \<longleftrightarrow>
     (\<exists>i. i < length (bld_set bld) \<and> event_of vmID t (bld_set bld ! i) \<and> st' = st \<and>
        length (bld_set bld') = length (bld_set bld) \<and>
        (\<forall>j < length (bld_set bld). \<forall>m. F m \<longrightarrow>
           sel EventMeasurements m (bld_set bld' ! j) = sel EventMeasurements m (bld_set bld ! j))) \<or>
     (\<exists>evt. create st vmID t = Ret (st', Inr evt) \<and> length (bld_set bld') = Suc (length (bld_set bld)) \<and>
        (\<forall>j \<le> length (bld_set bld). \<forall>m. F m \<longrightarrow>
           sel EventMeasurements m (bld_set bld' ! j) = sel EventMeasurements m ((bld_set bld @ [evt]) ! j)))"

context measurement_factory
begin

text \<open>Both insertions write one event, found or created, and keep the strings of its header.\<close>

lemma put_outcome:
  assumes ty: "typed_set bld" and f: "bld_find create bld st vmID t = Ret (bld1, st', Inr i)"
    and keep: "\<And>m. F m \<Longrightarrow> sel EventMeasurements m evt = sel EventMeasurements m (bld_set bld1 ! i)"
  shows "insert_outcome create bld st vmID t (put_event bld1 i evt) st' F"
proof (cases "i < length (bld_set bld)")
  case True
  with find_result [OF ty f] have b: "bld1 = bld" "event_of vmID t (bld_set bld ! i)" by auto
  moreover have "st' = st" using f True
    by (auto simp: bld_find_def go_simps case_sum_eq split: option.splits)
  ultimately show ?thesis unfolding insert_outcome_def
    using True keep by (intro disjI1 exI [of _ i]) (auto simp: put_event_def nth_list_update)
next
  case False
  with find_result [OF ty f] have b: "i = length (bld_set bld)" "length (bld_set bld1) = Suc i"
      "create st vmID t = Ret (st', Inr (bld_set bld1 ! i))" "take (length (bld_set bld)) (bld_set bld1) = bld_set bld"
    by auto
  then have "bld_set bld1 = bld_set bld @ [bld_set bld1 ! i]"
    by (metis lessI take_Suc_conv_app_nth take_all_iff le_refl)
  with b keep show ?thesis unfolding insert_outcome_def
    by (intro disjI2 exI [of _ "bld_set bld1 ! i"]) (auto simp: put_event_def nth_list_update)
qed

lemma Set_outcome:
  assumes ty: "typed_set bld" and r: "bld_Set create bld st flds vmID t x keys = Ret (bld', st', None)"
  shows "insert_outcome create bld st vmID t bld' st'
    (\<lambda>m. \<exists>q k. FieldByName EventMeasurements m = Some (q, TString k) \<and> apart [1, 2] q)"
  using ty r
proof (rule Set_RetE)
  fix bld1 i evt
  assume b: "bld_find create bld st vmID t = Ret (bld1, st', Inr i)"
    "setField EventMeasurements (bld_set bld1 ! i) (Split flds CHR ''.'') x keys = Ret (Inr evt)"
    "bld' = put_event bld1 i evt"
  from find_result [OF ty b(1)] have f: "typed_set bld1" "i < length (bld_set bld1)" by auto
  show ?thesis unfolding b(3)
    by (rule put_outcome [OF ty b(1)]) (use sel_setField [OF typed_set_nth [OF f] b(2)] in blast)
qed

lemma SetAdditionalObject_outcome:
  assumes ty: "typed_set bld" and r: "SetAdditionalObject create bld st (vmID, n, k) t x keys = Ret (bld', st', None)"
  shows "insert_outcome create bld st vmID t bld' st'
    (\<lambda>m. \<exists>q k. FieldByName EventMeasurements m = Some (q, TString k) \<and> apart [1, 2] q)"
proof -
  from r have ne: "\<not> (vmID = [] \<or> n = [] \<or> k = [])" by (auto simp: SetAdditionalObject_def)
  with r obtain bld1 i evt where f: "bld_find create bld st vmID t = Ret (bld1, st', Inr i)"
      and e: "set_object (bld_set bld1 ! i) n k x keys = Ret evt" "bld' = put_event bld1 i evt"
    by (auto simp: SetAdditionalObject_def go_simps case_sum_eq)
  from find_result [OF ty f] have b: "typed_set bld1" "i < length (bld_set bld1)" by auto
  show ?thesis unfolding e(2)
    by (rule put_outcome [OF ty f]) (use sel_set_object [OF typed_set_nth [OF b] e(1)] in blast)
qed

end

end
