(* ===== verification/Metrics_Collector.thy ===== *)
theory Metrics_Collector
  imports Metrics_Set Measurement_Config Govel_Config Uuid
begin

text \<open>
  The metrics collector (VESPA/ves-agent/metrics/collector.go): it queries Prometheus with the rules of
  the configuration and turns the answers into measurement events. Parameters stand for the text
  templates, the Prometheus client, the state that numbers the events, the hash and the floating-point
  conversions. A Go map is visited in the order in which its keys were first assigned; Go's order is
  unspecified.
\<close>

section \<open>Types\<close>

text \<open>The numbering state that the collector has of its own, \<open>inMemState\<close>.\<close>

definition mem_NextMeasurementIndex :: "int \<Rightarrow> (int \<times> (string + int)) go" where
  "mem_NextMeasurementIndex index = Ret (wrap64 (index + 1), Inr index)"

record MetricRange =
  rng_Start :: time
  rng_End :: time
  rng_Step :: duration

text \<open>A series of a matrix: its labels and its samples, each a time in milliseconds and a value.\<close>

record SampleStream =
  ss_Metric :: "(string \<times> string) list"
  ss_Values :: "(int \<times> float64) list"

datatype query_result = Matrix "SampleStream list" | OtherResult

datatype tmpl_val = TvInt int | TvString string | TvLabels "(string \<times> string) list"

type_synonym tmpl_data = "string \<rightharpoonup> tmpl_val"

record ('s, 'm, 'a) metric_ext =
  mx_Seconds :: "duration \<Rightarrow> float64"
  mx_to_int :: "float64 \<Rightarrow> int"
  mx_md5 :: "byte8 list \<Rightarrow> byte8 list"
  mx_DnPrefix :: string
  mx_next :: "'s \<Rightarrow> ('s \<times> (string + int)) go"
  mx_parse :: "string \<Rightarrow> string + 'm"
  mx_exec :: "'m \<Rightarrow> bool \<Rightarrow> tmpl_data \<Rightarrow> string + string"
  mx_QueryRange :: "'a \<Rightarrow> string \<Rightarrow> MetricRange \<Rightarrow> 'a \<times> (string + query_result)"

text \<open>A cached template keeps the option it was parsed with.\<close>

record ('s, 'm, 'a) MetricCollector =
  mco_state :: 's
  mco_rules :: "MetricRules list"
  mco_api :: 'a
  mco_max :: duration
  mco_domainAbr :: string
  mco_evtCfg :: EventConfigurationWithoutNfc
  mco_templates :: "string \<rightharpoonup> 'm \<times> bool"

text \<open>\<open>client\<close> is the Prometheus client, which the library fails to create for an address it cannot parse.\<close>

definition NewCollectorWithState :: "(string + 'a) \<Rightarrow> MeasurementConfiguration \<Rightarrow> EventConfigurationWithoutNfc \<Rightarrow>
    's \<Rightarrow> string + ('s, 'm, 'a) MetricCollector" where
  "NewCollectorWithState client cfg evtCfg state =
     (case client of
        Inl err \<Rightarrow> Inl err
      | Inr api \<Rightarrow> Inr \<lparr>mco_state = state, mco_rules = pc_Rules (mc_Prometheus cfg), mco_api = api,
          mco_max = mc_MaxBufferingDuration cfg, mco_domainAbr = mc_DomainAbbreviation cfg, mco_evtCfg = evtCfg,
          mco_templates = Map.empty\<rparr>)"

definition NewCollector :: "(string + 'a) \<Rightarrow> MeasurementConfiguration \<Rightarrow> EventConfigurationWithoutNfc \<Rightarrow>
    string + (int, 'm, 'a) MetricCollector" where
  "NewCollector client cfg evtCfg = NewCollectorWithState client cfg evtCfg 0"

section \<open>Collection times\<close>

text \<open>\<open>time.Time.Sub\<close> saturates at the ends of the range of a duration.\<close>

definition Time_Sub :: "time \<Rightarrow> time \<Rightarrow> duration" where
  "Time_Sub t u = max (- (2 ^ 63)) (min (2 ^ 63 - 1) (t - u))"

definition adjustCollectionStartTime :: "('s, 'm, 'a) MetricCollector \<Rightarrow> time \<Rightarrow> time \<Rightarrow> duration \<Rightarrow> time" where
  "adjustCollectionStartTime col start end interval =
     (if mco_max col > 0 \<and> Time_Sub end start > mco_max col
      then Truncate (end - mco_max col) interval else start)"

section \<open>Templates\<close>

definition parseTemplate :: "('s, 'm, 'a) metric_ext \<Rightarrow> ('s, 'm, 'a) MetricCollector \<Rightarrow> string \<Rightarrow> bool \<Rightarrow>
    ('s, 'm, 'a) MetricCollector \<times> (string + 'm \<times> bool)" where
  "parseTemplate ext col s strict =
     (case mco_templates col s of
        Some tmpl \<Rightarrow> (col, Inr tmpl)
      | None \<Rightarrow>
          (case mx_parse ext s of
             Inl err \<Rightarrow> (col, Inl err)
           | Inr tmpl \<Rightarrow> (col\<lparr>mco_templates := (mco_templates col)(s \<mapsto> (tmpl, strict))\<rparr>, Inr (tmpl, strict))))"

definition execTemplate :: "('s, 'm, 'a) metric_ext \<Rightarrow> ('s, 'm, 'a) MetricCollector \<Rightarrow> string \<Rightarrow> tmpl_data \<Rightarrow> bool \<Rightarrow>
    ('s, 'm, 'a) MetricCollector \<times> (string + string)" where
  "execTemplate ext col s data strict =
     (let (col1, r) = parseTemplate ext col s strict
      in case r of
           Inl err \<Rightarrow> (col1, Inl (''Bad expression template: '' @ s @ '' ('' @ err @ '')''))
         | Inr (tmpl, opt) \<Rightarrow>
             (case mx_exec ext tmpl opt data of
                Inl err \<Rightarrow> (col1, Inl (''Cannot execute expression '' @ s @ '' ('' @ err @ '')''))
              | Inr text \<Rightarrow> (col1, Inr text)))"

section \<open>Creating events\<close>

text \<open>The factory of \<open>CollectMetrics\<close>. The vendor is read through a pointer.\<close>

definition create_measurement :: "('s, 'm, 'a) metric_ext \<Rightarrow> EventConfigurationWithoutNfc \<Rightarrow> string \<Rightarrow> duration \<Rightarrow>
    's MeasurementFactory" where
  "create_measurement ext evtCfg evtName interval st vmID0 timestamp =
     (let vmID = (if vmID0 = [] then ec_VNFName evtCfg else vmID0)
      in go_bind (mx_next ext st) (\<lambda>(st1, r).
        case r of
          Inl err \<Rightarrow> Ret (st1, Inl err)
        | Inr i \<Rightarrow>
            (let meas = NewMeasurements (mx_Seconds ext) evtName (''Measurements'' @ fmt_prec10d i) vmID interval
                   (timestamp + wrap64 (- interval)) timestamp;
                 meas = setm ''NfNamingCode'' (VString (ec_NfNamingCode evtCfg)) meas;
                 mvmid = Split vmID CHR ''_''
             in if length mvmid < 2 then Crash OutOfRange
                else
                  (let meas = setm ''NfcNamingCode'' (VString (mvmid ! 1)) meas;
                       meas = setm ''EventType'' (VString ''MEASUREMENT'') meas;
                       meas = setm ''ReportingEntityID'' (VString (ec_ReportingEntityID evtCfg)) meas;
                       meas = setm ''ReportingEntityName'' (VString (mx_DnPrefix ext @ ec_ReportingEntityName evtCfg)) meas;
                       sourceName = mx_DnPrefix ext @ ec_SourceName evtCfg;
                       meas = setm ''SourceName'' (VString sourceName) meas;
                       meas = setm ''SourceID'' (VString (generateUUID (mx_md5 ext) sourceName)) meas
                   in case ec_Tmaas evtCfg of
                        None \<Rightarrow> Crash NilDeref
                      | Some tmaas \<Rightarrow> Ret (st1, Inr (setm ''NfVendorName'' (VString (tm_VendorID tmaas)) meas))))))"

section \<open>Collecting\<close>

text \<open>A loop that returns at the first error.\<close>

primrec try_foldl :: "('s \<Rightarrow> 'a \<Rightarrow> ('s \<times> string option) go) \<Rightarrow> 's \<Rightarrow> 'a list \<Rightarrow> ('s \<times> string option) go" where
  "try_foldl f s [] = Ret (s, None)"
| "try_foldl f s (x # xs) =
     go_bind (f s x) (\<lambda>(s', err). case err of None \<Rightarrow> try_foldl f s' xs | Some e \<Rightarrow> Ret (s', Some e))"

definition getMatrix :: "('s, 'm, 'a) metric_ext \<Rightarrow> ('s, 'm, 'a) MetricCollector \<Rightarrow> string \<Rightarrow> MetricRange \<Rightarrow>
    ('s, 'm, 'a) MetricCollector \<times> (string + SampleStream list)" where
  "getMatrix ext col query rng =
     (let (api', r) = mx_QueryRange ext (mco_api col) query rng;
          col1 = col\<lparr>mco_api := api'\<rparr>
      in case r of
           Inl err \<Rightarrow> (col1, Inl err)
         | Inr (Matrix m) \<Rightarrow> (col1, Inr m)
         | Inr OtherResult \<Rightarrow> (col1, Inl ''Query result cannot be converted into a matrix''))"

text \<open>Does a series carry a label with another value than the rule asks for?\<close>

definition label_differs :: "(string \<times> string) list \<Rightarrow> string \<Rightarrow> string \<Rightarrow> bool" where
  "label_differs metric lab v = list_ex (\<lambda>(l, w). l = lab \<and> w \<noteq> v) metric"

text \<open>Evaluating the key expressions.\<close>

definition eval_key :: "('s, 'm, 'a) metric_ext \<Rightarrow> tmpl_data \<Rightarrow> ('s, 'm, 'a) MetricCollector \<times> MeasKeys \<Rightarrow> Label \<Rightarrow>
    ((('s, 'm, 'a) MetricCollector \<times> MeasKeys) \<times> string option) go" where
  "eval_key ext data cs label =
     (case cs of (col, keys) \<Rightarrow>
        (let (col1, r) = execTemplate ext col (l_Expr label) data False
         in case r of
              Inl err \<Rightarrow> Ret ((col1, keys), Some err)
            | Inr v \<Rightarrow> Ret ((col1, AList.update (l_Name label) v keys), None)))"

text \<open>The log line before each insertion prints the keys.\<close>

definition collect_value :: "('s, 'm, 'a) metric_ext \<Rightarrow> 's MeasurementFactory \<Rightarrow> MetricRule \<Rightarrow> string \<Rightarrow> string \<Rightarrow> MeasKeys \<Rightarrow>
    EventMeasurementSetBuilder \<times> 's \<Rightarrow> int \<times> float64 \<Rightarrow> ((EventMeasurementSetBuilder \<times> 's) \<times> string option) go" where
  "collect_value ext create rule target vnfc keys bs val =
     (case (bs, val) of ((bld, st), (ms, x)) \<Rightarrow>
        (let timestamp = unix_epoch + ms * 1000000
         in go_bind (MeasKeys_String keys) (\<lambda>_.
              go_bind (if target = ''AdditionalObjects''
                       then SetAdditionalObject create bld st (vnfc, mr_ObjectName rule, mr_ObjectInstance rule) timestamp x keys
                       else bld_Set create bld st target vnfc timestamp x keys)
                (\<lambda>(bld', st', err). Ret ((bld', st'), err)))))"

type_synonym ('s, 'm, 'a) collect_state =
  "('s, 'm, 'a) MetricCollector \<times> EventMeasurementSetBuilder \<times> tmpl_data"

definition collect_stream :: "('s, 'm, 'a) metric_ext \<Rightarrow> 's MeasurementFactory \<Rightarrow> MetricRule \<Rightarrow> string \<Rightarrow> string \<Rightarrow>
    ('s, 'm, 'a) collect_state \<Rightarrow> SampleStream \<Rightarrow> (('s, 'm, 'a) collect_state \<times> string option) go" where
  "collect_stream ext create rule procNameSpace procMicroSvc cst meas =
     (case cst of (col, bld, data) \<Rightarrow>
       if label_differs (ss_Metric meas) ''microSvcName'' procMicroSvc \<or>
          label_differs (ss_Metric meas) ''kubernetes_namespace'' procNameSpace
       then Ret ((col, bld, data), None)
       else
         (let data1 = data(''labels'' \<mapsto> TvLabels (ss_Metric meas));
              (col1, r) = execTemplate ext col (mr_VMIDLabel rule) data1 True
          in case r of
               Inl err \<Rightarrow> Ret ((col1, bld, data1), Some (''Cannot evaluate vmID: '' @ err))
             | Inr vnfc \<Rightarrow>
                 (let data2 = data1(''vmId'' \<mapsto> TvString vnfc);
                      (col2, r2) = execTemplate ext col1 (mr_Target rule) data2 True
                  in case r2 of
                       Inl err \<Rightarrow> Ret ((col2, bld, data2), None)
                     | Inr target \<Rightarrow>
                         if target = [] then Crash NilDeref
                         else
                           (let lbls = (if target = ''AdditionalObjects'' then mr_ObjectKeys rule else mr_Labels rule)
                            in go_bind (try_foldl (eval_key ext data2) (col2, []) lbls) (\<lambda>((col3, keys), kerr).
                              case kerr of
                                Some err \<Rightarrow> Ret ((col3, bld, data2), Some err)
                              | None \<Rightarrow>
                                  go_bind (try_foldl (collect_value ext create rule target vnfc keys)
                                      (bld, mco_state col3) (ss_Values meas)) (\<lambda>((bld', st'), err).
                                    Ret ((col3\<lparr>mco_state := st'\<rparr>, bld', data2), err)))))))"

definition collectFromRule :: "('s, 'm, 'a) metric_ext \<Rightarrow> 's MeasurementFactory \<Rightarrow> MetricRange \<Rightarrow>
    ('s, 'm, 'a) MetricCollector \<times> EventMeasurementSetBuilder \<Rightarrow> MetricRule \<Rightarrow>
    ((('s, 'm, 'a) MetricCollector \<times> EventMeasurementSetBuilder) \<times> string option) go" where
  "collectFromRule ext create rng cb rule =
     (case cb of (col, bld) \<Rightarrow>
       (let mvmid = Split (mr_VMIDLabel rule) CHR ''_''
        in if length mvmid < 2 then Crash OutOfRange
           else
             (let data = [''interval'' \<mapsto> TvInt (mx_to_int ext (mx_Seconds ext (rng_Step rng)))];
                  (col1, r) = execTemplate ext col (mr_Expr rule) data True
              in case r of
                   Inl err \<Rightarrow> Ret ((col1, bld), Some err)
                 | Inr expr \<Rightarrow>
                     (let (col2, r2) = getMatrix ext col1 expr rng
                      in case r2 of
                           Inl err \<Rightarrow> Ret ((col2, bld), Some err)
                         | Inr res \<Rightarrow>
                             go_bind (try_foldl (collect_stream ext create rule (mvmid ! 0) (mvmid ! 1))
                                 (col2, bld, data) res) (\<lambda>((col3, bld', _), err). Ret ((col3, bld'), err))))))"

definition collect_rules :: "('s, 'm, 'a) metric_ext \<Rightarrow> 's MeasurementFactory \<Rightarrow> MetricRange \<Rightarrow>
    ('s, 'm, 'a) MetricCollector \<times> EventMeasurementSetBuilder \<Rightarrow> MetricRules \<Rightarrow>
    ((('s, 'm, 'a) MetricCollector \<times> EventMeasurementSetBuilder) \<times> string option) go" where
  "collect_rules ext create rng cb rules =
     try_foldl (\<lambda>cb rule. collectFromRule ext create rng cb (WithDefaults rule (ms_Defaults rules))) cb (ms_Metrics rules)"

text \<open>Without rules the set is nil, which reads as the empty set.\<close>

definition CollectMetrics :: "('s, 'm, 'a) metric_ext \<Rightarrow> ('s, 'm, 'a) MetricCollector \<Rightarrow> time \<Rightarrow> time \<Rightarrow> duration \<Rightarrow>
    (('s, 'm, 'a) MetricCollector \<times> (string + EventMeasurementSet)) go" where
  "CollectMetrics ext col from0 to interval =
     (let from = adjustCollectionStartTime col from0 to interval
      in case ec_Tmaas (mco_evtCfg col) of
           None \<Rightarrow> Crash NilDeref
         | Some tmaas \<Rightarrow>
             (let evtName = mco_domainAbr col @ ''_'' @ ec_NfNamingCode (mco_evtCfg col) @ ''-'' @ tm_VendorID tmaas @ ''_Measurements'';
                  create = create_measurement ext (mco_evtCfg col) evtName interval;
                  rng = \<lparr>rng_Start = from, rng_End = to, rng_Step = interval\<rparr>
              in if mco_rules col = [] then Ret (col, Inr [])
                 else
                   go_bind (try_foldl (collect_rules ext create rng) (col, NewEventMeasurementSetBuilder) (mco_rules col))
                     (\<lambda>((col1, bld), err).
                       case err of
                         Some e \<Rightarrow> Ret (col1, Inl e)
                       | None \<Rightarrow> go_bind (Measurements bld) (\<lambda>evts. Ret (col1, Inr evts)))))"

section \<open>The events of the factory\<close>

lemma header_fields [simp]:
  "FieldByName EventMeasurements ''MeasurementFieldsVersion'' = Some ([1, 13], gstring)"
  "FieldByName EventMeasurements ''VesEventListenerVersion'' = Some ([0, 18], gstring)"
  "FieldByName EventMeasurements ''MeasurementInterval'' = Some ([1, 12], TFloat)"
  "FieldByName EventMeasurements ''Domain'' = Some ([0, 0], TString ''govel.EventDomain'')"
  "FieldByName EventMeasurements ''EventName'' = Some ([0, 2], gstring)"
  "FieldByName EventMeasurements ''EventID'' = Some ([0, 1], gstring)"
  "FieldByName EventMeasurements ''Version'' = Some ([0, 17], gstring)"
  "FieldByName EventMeasurements ''Priority'' = Some ([0, 9], TString ''govel.EventPriority'')"
  "FieldByName EventMeasurements ''StartEpochMicrosec'' = Some ([0, 15], TInt ''int64'')"
  "FieldByName EventMeasurements ''LastEpochMicrosec'' = Some ([0, 5], TInt ''int64'')"
  "FieldByName EventMeasurements ''Sequence'' = Some ([0, 12], TInt ''int64'')"
  "FieldByName EventMeasurements ''NfNamingCode'' = Some ([0, 6], gstring)"
  "FieldByName EventMeasurements ''NfcNamingCode'' = Some ([0, 7], gstring)"
  "FieldByName EventMeasurements ''EventType'' = Some ([0, 3], gstring)"
  "FieldByName EventMeasurements ''ReportingEntityID'' = Some ([0, 10], gstring)"
  "FieldByName EventMeasurements ''ReportingEntityName'' = Some ([0, 11], gstring)"
  "FieldByName EventMeasurements ''SourceName'' = Some ([0, 14], gstring)"
  "FieldByName EventMeasurements ''SourceID'' = Some ([0, 13], gstring)"
  "FieldByName EventMeasurements ''NfVendorName'' = Some ([0, 8], gstring)"
  by code_simp+

lemma has_type_setm:
  "has_type EventMeasurements v \<Longrightarrow> FieldByName EventMeasurements n = Some (p, t) \<Longrightarrow> has_type t w \<Longrightarrow>
     has_type EventMeasurements (setm n w v)"
  by (rule has_type_put)

lemma NewMeasurements_typed [simp]: "has_type EventMeasurements (NewMeasurements sec name i src d s e)"
  unfolding NewMeasurements_def Let_def
  by (rule has_type_setm, (rule has_type_setm)+, rule has_type_zero_val, (rule header_fields, simp)+)

lemma create_measurement_typed:
  assumes "create_measurement ext evtCfg evtName interval st vmID t = Ret (st', Inr evt)"
  shows "has_type EventMeasurements evt"
proof -
  note typed = has_type_setm [OF _ header_fields(12)] has_type_setm [OF _ header_fields(13)]
    has_type_setm [OF _ header_fields(14)] has_type_setm [OF _ header_fields(15)]
    has_type_setm [OF _ header_fields(16)] has_type_setm [OF _ header_fields(17)]
    has_type_setm [OF _ header_fields(18)] has_type_setm [OF _ header_fields(19)]
  show ?thesis
    using assms
    by (auto simp: create_measurement_def Let_def go_simps case_sum_eq split: if_splits option.splits
        intro!: typed)
qed

interpretation cm: measurement_factory "create_measurement ext evtCfg evtName interval"
  by unfold_locales (rule create_measurement_typed)

text \<open>The strings of an event that the collection does not touch: its source name and its identifier.\<close>

lemma zero_EventMeasurements:
  "\<exists>m. zero_val EventMeasurements = VStruct [VStruct (map zero_val [TString [], gstring, gstring, gstring, TIface,
     TInt [], gstring, gstring, gstring, TString [], gstring, gstring, TInt [], gstring, gstring, TInt [], gstring,
     gstring, gstring]), VStruct m] \<and> length m = 19 \<and> m ! 2 = VSlice []"
  by (simp add: EventMeasurements_def EventHeader_t_def MeasurementFields_def struct_def)

lemma create_measurement_strings:
  assumes "create_measurement ext evtCfg evtName interval st vmID t = Ret (st', Inr evt)"
  shows "sel EventMeasurements ''SourceName'' evt = VString (mx_DnPrefix ext @ ec_SourceName evtCfg) \<and>
    sel EventMeasurements ''LastEpochMicrosec'' evt = VInt (go_div (UnixNano t) 1000) \<and>
    elems (sel EventMeasurements ''AdditionalObjects'' evt) = [] \<and>
    (\<exists>i. mx_next ext st = Ret (st', Inr i) \<and>
      sel EventMeasurements ''EventID'' evt = VString (''Measurements'' @ fmt_prec10d i))"
proof -
  obtain m where z: "zero_val EventMeasurements = VStruct [VStruct (map zero_val [TString [], gstring, gstring, gstring,
     TIface, TInt [], gstring, gstring, gstring, TString [], gstring, gstring, TInt [], gstring, gstring, TInt [],
     gstring, gstring, gstring]), VStruct m]" "length m = 19" "m ! 2 = VSlice []"
    using zero_EventMeasurements by blast
  show ?thesis
    using assms
    by (auto simp: create_measurement_def NewMeasurements_def Let_def go_simps case_sum_eq z put_def sel_def
        split: if_splits option.splits)
qed

section \<open>Invariants of a collection\<close>

text \<open>What every successful insertion keeps holds of the outcome of a collection.\<close>

lemma try_foldl_invariant:
  assumes step: "\<And>s x s'. P s \<Longrightarrow> f s x = Ret (s', None) \<Longrightarrow> P s'"
  shows "P s \<Longrightarrow> try_foldl f s xs = Ret (s', None) \<Longrightarrow> P s'"
proof (induction xs arbitrary: s)
  case (Cons x xs)
  from Cons.prems(2) obtain t where t: "f s x = Ret (t, None)" "try_foldl f t xs = Ret (s', None)"
    by (auto simp: go_simps split: option.splits)
  from step [OF Cons.prems(1) t(1)] have "P t" .
  from this t(2) show ?case by (rule Cons.IH)
qed simp

lemma execTemplate_state: "execTemplate ext col s data strict = (col', r) \<Longrightarrow> mco_state col' = mco_state col"
  by (auto simp: execTemplate_def parseTemplate_def Let_def split: option.splits sum.splits prod.splits)

lemma getMatrix_state: "getMatrix ext col q rng = (col', r) \<Longrightarrow> mco_state col' = mco_state col"
  by (auto simp: getMatrix_def Let_def split: sum.splits prod.splits query_result.splits)

lemma eval_keys:
  assumes "try_foldl (eval_key ext data) (col, keys) lbls = Ret ((col', keys'), None)" and "distinct (map fst keys)"
  shows "distinct (map fst keys') \<and> mco_state col' = mco_state col"
proof -
  let ?P = "\<lambda>(c :: ('a, 'b, 'c) MetricCollector, ks :: MeasKeys). distinct (map fst ks) \<and> mco_state c = mco_state col"
  have "?P (col', keys')"
  proof (rule try_foldl_invariant [where P = ?P])
    fix s :: "('a, 'b, 'c) MetricCollector \<times> MeasKeys" and x s'
    assume "?P s" "eval_key ext data s x = Ret (s', None)"
    then show "?P s'"
      by (cases s) (auto simp: eval_key_def Let_def distinct_update case_sum_eq split: prod.splits
          dest!: execTemplate_state)
  qed (use assms in auto)
  then show ?thesis by simp
qed

text \<open>What a successful step of the loop over the series did.\<close>

lemma collect_stream_NoneE:
  assumes r: "collect_stream ext create rule ns svc (col, bld, data) meas = Ret ((col', bld', data'), None)"
  obtains "bld' = bld" "mco_state col' = mco_state col"
  | target vnfc keys col3 st' where "distinct (map fst keys)" "mco_state col3 = mco_state col"
    "try_foldl (collect_value ext create rule target vnfc keys) (bld, mco_state col3) (ss_Values meas) = Ret ((bld', st'), None)"
    "col' = col3\<lparr>mco_state := st'\<rparr>"
proof (cases "label_differs (ss_Metric meas) ''microSvcName'' svc \<or> label_differs (ss_Metric meas) ''kubernetes_namespace'' ns")
  case True
  with r that(1) show thesis by (simp add: collect_stream_def)
next
  case False
  let ?d1 = "data(''labels'' \<mapsto> TvLabels (ss_Metric meas))"
  obtain col1 q where 1: "execTemplate ext col (mr_VMIDLabel rule) ?d1 True = (col1, q)" by force
  with r False obtain vnfc where q: "q = Inr vnfc" by (cases q) (auto simp: collect_stream_def)
  let ?d2 = "?d1(''vmId'' \<mapsto> TvString vnfc)"
  obtain col2 q2 where 2: "execTemplate ext col1 (mr_Target rule) ?d2 True = (col2, q2)" by force
  have s2: "mco_state col2 = mco_state col" using execTemplate_state [OF 1] execTemplate_state [OF 2] by simp
  show thesis
  proof (cases q2)
    case (Inl e)
    with r False 1 2 q s2 that(1) show thesis by (auto simp: collect_stream_def)
  next
    case (Inr target)
    let ?l = "if target = ''AdditionalObjects'' then mr_ObjectKeys rule else mr_Labels rule"
    from r False 1 2 q Inr obtain col3 keys kerr where
      k: "try_foldl (eval_key ext ?d2) (col2, []) ?l = Ret ((col3, keys), kerr)"
      by (auto simp: collect_stream_def go_simps Let_def split: if_splits)
    with r False 1 2 q Inr have n: "kerr = None"
      by (cases kerr) (auto simp: collect_stream_def Let_def split: if_splits)
    have K: "distinct (map fst keys)" "mco_state col3 = mco_state col"
      using eval_keys [OF k [unfolded n]] s2 by simp_all
    from r False 1 2 q Inr k n obtain st' where
      "try_foldl (collect_value ext create rule target vnfc keys) (bld, mco_state col3) (ss_Values meas) = Ret ((bld', st'), None)"
      "col' = col3\<lparr>mco_state := st'\<rparr>"
      by (auto simp: collect_stream_def go_simps Let_def split: if_splits)
    with that(2) K show thesis by blast
  qed
qed

lemma collectFromRule_NoneE:
  assumes r: "collectFromRule ext create rng (col, bld) rule = Ret ((col', bld'), None)"
  obtains col2 data res data' where "mco_state col2 = mco_state col"
    "try_foldl (collect_stream ext create rule (Split (mr_VMIDLabel rule) CHR ''_'' ! 0)
       (Split (mr_VMIDLabel rule) CHR ''_'' ! 1)) (col2, bld, data) res = Ret ((col', bld', data'), None)"
proof -
  let ?d = "[''interval'' \<mapsto> TvInt (mx_to_int ext (mx_Seconds ext (rng_Step rng)))]"
  obtain col1 q where 1: "execTemplate ext col (mr_Expr rule) ?d True = (col1, q)" by force
  with r obtain expr where q: "q = Inr expr"
    by (cases q) (auto simp: collectFromRule_def Let_def split: if_splits)
  obtain col2 q2 where 2: "getMatrix ext col1 expr rng = (col2, q2)" by force
  with r 1 q obtain res where q2: "q2 = Inr res"
    by (cases q2) (auto simp: collectFromRule_def Let_def split: if_splits)
  have s: "mco_state col2 = mco_state col" using execTemplate_state [OF 1] getMatrix_state [OF 2] by simp
  from r 1 2 q q2 s that show thesis
    by (auto simp: collectFromRule_def go_simps Let_def split: if_splits)
qed

locale builder_invariant =
  fixes create :: "'s MeasurementFactory" and P :: "EventMeasurementSetBuilder \<Rightarrow> 's \<Rightarrow> bool"
  assumes Set_inv: "P bld st \<Longrightarrow> distinct (map fst keys) \<Longrightarrow>
      bld_Set create bld st flds vmID t x keys = Ret (bld', st', None) \<Longrightarrow> P bld' st'"
    and Object_inv: "P bld st \<Longrightarrow> distinct (map fst keys) \<Longrightarrow>
      SetAdditionalObject create bld st names t x keys = Ret (bld', st', None) \<Longrightarrow> P bld' st'"
begin

lemma values_inv:
  assumes "try_foldl (collect_value ext create rule target vnfc keys) (bld, st) vals = Ret ((bld', st'), None)"
    and "P bld st" and "distinct (map fst keys)"
  shows "P bld' st'"
proof -
  have "(\<lambda>(b, s). P b s) (bld', st')"
  proof (rule try_foldl_invariant [where P = "\<lambda>(b, s). P b s"])
    fix s x s'
    assume P: "(\<lambda>(b, s). P b s) s" and r: "collect_value ext create rule target vnfc keys s x = Ret (s', None)"
    obtain b0 s0 ms v b1 s1 where e: "s = (b0, s0)" "x = (ms, v)" "s' = (b1, s1)" by (metis surj_pair)
    let ?t = "unix_epoch + ms * 1000000"
    consider "bld_Set create b0 s0 target vnfc ?t v keys = Ret (b1, s1, None)"
      | "SetAdditionalObject create b0 s0 (vnfc, mr_ObjectName rule, mr_ObjectInstance rule) ?t v keys = Ret (b1, s1, None)"
      using r by (auto simp: e collect_value_def go_simps Let_def split: if_splits)
    then show "(\<lambda>(b, s). P b s) s'"
      using P e assms(3) by cases (auto intro: Set_inv Object_inv)
  qed (use assms in auto)
  then show ?thesis by simp
qed

lemma stream_inv:
  assumes r: "collect_stream ext create rule ns svc (col, bld, data) meas = Ret ((col', bld', data'), None)"
    and P: "P bld (mco_state col)"
  shows "P bld' (mco_state col')"
  using r
proof (rule collect_stream_NoneE)
  fix target vnfc keys col3 st'
  assume k: "distinct (map fst keys)" "mco_state col3 = mco_state col"
    "try_foldl (collect_value ext create rule target vnfc keys) (bld, mco_state col3) (ss_Values meas) = Ret ((bld', st'), None)"
    "col' = col3\<lparr>mco_state := st'\<rparr>"
  from values_inv [OF k(3) _ k(1)] P k(2,4) show ?thesis by simp
qed (use P in simp)

lemma rule_inv:
  assumes r: "collectFromRule ext create rng (col, bld) rule = Ret ((col', bld'), None)"
    and P: "P bld (mco_state col)"
  shows "P bld' (mco_state col')"
proof -
  from r obtain col2 data res data' where
    s: "mco_state col2 = mco_state col"
      "try_foldl (collect_stream ext create rule (Split (mr_VMIDLabel rule) CHR ''_'' ! 0)
         (Split (mr_VMIDLabel rule) CHR ''_'' ! 1)) (col2, bld, data) res = Ret ((col', bld', data'), None)"
    by (rule collectFromRule_NoneE)
  let ?P = "\<lambda>(c, b, d :: tmpl_data). P b (mco_state c)"
  have "?P (col', bld', data')"
  proof (rule try_foldl_invariant [where P = ?P, OF _ _ s(2)])
    show "?P (col2, bld, data)" using P s(1) by simp
    show "?P s'" if "?P t" "collect_stream ext create rule (Split (mr_VMIDLabel rule) CHR ''_'' ! 0)
         (Split (mr_VMIDLabel rule) CHR ''_'' ! 1) t x = Ret (s', None)" for t x s'
      using that stream_inv by (cases t; cases s') auto
  qed
  then show ?thesis by simp
qed

lemma rules_inv:
  assumes r: "try_foldl (collect_rules ext create rng) (col, bld) rules = Ret ((col', bld'), None)"
    and P: "P bld (mco_state col)"
  shows "P bld' (mco_state col')"
proof -
  let ?P = "\<lambda>(c, b). P b (mco_state c)"
  have step: "?P s'" if "?P t" "collectFromRule ext create rng t x = Ret (s', None)" for t x s'
    using that rule_inv by (cases t; cases s') auto
  have "?P (col', bld')"
  proof (rule try_foldl_invariant [where P = ?P, OF _ _ r])
    show "?P (col, bld)" using P by simp
    show "?P s'" if "?P t" "collect_rules ext create rng t x = Ret (s', None)" for t x s'
      using try_foldl_invariant [where P = ?P, OF _ that(1) that(2) [unfolded collect_rules_def]] step by blast
  qed
  then show ?thesis by simp
qed

end

end
