(* ===== verification/Metrics_Properties.thy ===== *)
theory Metrics_Properties
  imports Metrics_Collector Ha
begin

text \<open>
  What the metrics collector does: the events it returns are well typed and numbered consecutively,
  a value it stores can be read back, the time frame of a collection is bounded, how samples become
  events, which rules take the process down, and what default values do to a rule.
\<close>

section \<open>Types\<close>

interpretation ti: builder_invariant "create_measurement ext evtCfg evtName interval" "\<lambda>bld st. typed_set bld"
  by unfold_locales (auto intro: cm.Set_typed cm.SetAdditionalObject_typed)

lemma CollectMetrics_InrE:
  assumes "CollectMetrics ext col from0 to interval = Ret (col', Inr evts)" and "mco_rules col \<noteq> []"
  obtains tmaas bld rng evtName where "ec_Tmaas (mco_evtCfg col) = Some tmaas" "bld_set bld = evts" "bld_valid bld"
    "try_foldl (collect_rules ext (create_measurement ext (mco_evtCfg col) evtName interval) rng)
       (col, NewEventMeasurementSetBuilder) (mco_rules col) = Ret ((col', bld), None)"
  using assms
  by (auto simp: CollectMetrics_def Measurements_def checkValid_def go_simps Let_def split: option.splits if_splits)

text \<open>Every event that a collection returns has the type of a measurement event, down to the
  last field: whatever the rules name as target and whatever Prometheus answers, reflection never leaves a
  value of another kind in a field.\<close>

theorem collect_well_typed:
  assumes "CollectMetrics ext col from0 to interval = Ret (col', Inr evts)"
  shows "\<forall>evt \<in> set evts. has_type EventMeasurements evt"
proof (cases "mco_rules col = []")
  case True
  with assms show ?thesis by (auto simp: CollectMetrics_def Let_def split: option.splits)
next
  case False
  from assms False show ?thesis
  proof (rule CollectMetrics_InrE)
    fix bld rng evtName
    assume b: "bld_set bld = evts" "try_foldl (collect_rules ext (create_measurement ext (mco_evtCfg col) evtName interval) rng)
       (col, NewEventMeasurementSetBuilder) (mco_rules col) = Ret ((col', bld), None)"
    have "typed_set NewEventMeasurementSetBuilder" by (simp add: typed_set_def NewEventMeasurementSetBuilder_def)
    from ti.rules_inv [OF b(2) this] b(1) show ?thesis by (simp add: typed_set_def)
  qed
qed

text \<open>A collector whose one rule maps the load of a CPU, and a Prometheus that answers with two samples.\<close>

definition sample_rule :: MetricRule where
  "sample_rule = \<lparr>mr_Target = ''CPUUsageArray.PercentUsage'', mr_Expr = ''cpu'', mr_VMIDLabel = ''ns_svc'',
     mr_Labels = [\<lparr>l_Name = ''CPUIdentifier'', l_Expr = ''cpu0''\<rparr>], mr_ObjectName = [], mr_ObjectInstance = [], mr_ObjectKeys = []\<rparr>"

definition sample_metric_ext :: "(int, string, unit) metric_ext" where
  "sample_metric_ext = \<lparr>mx_Seconds = (\<lambda>_. 0), mx_to_int = uint, mx_md5 = (\<lambda>_. replicate 16 0), mx_DnPrefix = ''dn='',
     mx_next = mem_NextMeasurementIndex, mx_parse = Inr, mx_exec = (\<lambda>t _ _. Inr t),
     mx_QueryRange = (\<lambda>a _ _. (a, Inr (Matrix [\<lparr>ss_Metric = [(''microSvcName'', ''svc'')], ss_Values = [(0, 5), (60000, 7)]\<rparr>])))\<rparr>"

definition sample_evtCfg :: EventConfigurationWithoutNfc where
  "sample_evtCfg = \<lparr>ec_VNFName = ''ns_svc'', ec_ReportingEntityName = ''gw'', ec_ReportingEntityID = [], ec_MaxSize = 0,
     ec_NfNamingCode = ''nf'', ec_RetryInterval = 0, ec_MaxMissed = 1,
     ec_Tmaas = Some \<lparr>tm_VendorID = ''v'', tm_XGVelaID = [], tm_NfClass = [], tm_NfType = [], tm_NfID = [],
       tm_NfServiceID = [], tm_NfServiceType = []\<rparr>, ec_DnPrefix = [], ec_SourceName = ''src''\<rparr>"

definition sample_collector :: "MetricRule \<Rightarrow> (int, string, unit) MetricCollector" where
  "sample_collector rule = \<lparr>mco_state = 0, mco_rules = [\<lparr>ms_MicroserviceName = ''svc'', ms_Defaults = None, ms_Metrics = [rule],
     ms_NfcNamingCodes = []\<rparr>], mco_api = (), mco_max = 0, mco_domainAbr = ''Mfvs'', mco_evtCfg = sample_evtCfg,
     mco_templates = Map.empty\<rparr>"

lemma cpu_fields [simp]:
  "FieldByName EventMeasurements ''CPUUsageArray'' = Some ([1, 6], TSlice CPUUsage)"
  "FieldByName CPUUsage ''PercentUsage'' = Some ([10], pfloat)"
  "FieldByName CPUUsage ''CPUIdentifier'' = Some ([0], gstring)"
  by code_simp+

lemma setField_struct:
  "is_struct t \<Longrightarrow> setField t v (f # subfields) x keys =
     (case FieldByName t f of
        None \<Rightarrow> Ret (Inl (''Invalid field '' @ f @ '' on type '' @ type_String t))
      | Some (p, t') \<Rightarrow> go_try (setField t' (val_at v p) subfields x keys) (\<lambda>w. Ret (Inr (upd_at v p w))))"
  by (cases t) (simp_all split: option.split)

lemma cpu_setField:
  "\<exists>evt'. setField EventMeasurements evt [''CPUUsageArray'', ''PercentUsage''] x [(''CPUIdentifier'', s)] = Ret (Inr evt')"
proof -
  have s: "is_struct EventMeasurements" "is_struct CPUUsage"
    by (simp_all add: EventMeasurements_def CPUUsage_def struct_def)
  obtain vs i where "slice_entry CPUUsage (elems (val_at evt [1, 6])) [(''CPUIdentifier'', s)] = Ret (vs, i)"
    by (cases "sliceSearch CPUUsage (elems (val_at evt [1, 6])) [(''CPUIdentifier'', s)]")
      (auto simp: slice_entry_def sliceAppendNew_def)
  then show ?thesis by (simp add: setField_struct s setSliceField.simps)
qed

lemma sample_Set:
  assumes v: "bld_valid bld"
  shows "\<exists>bld' st'. bld_Set (create_measurement sample_metric_ext sample_evtCfg n d) bld st
      ''CPUUsageArray.PercentUsage'' ''ns_svc'' t x [(''CPUIdentifier'', s)] = Ret (bld', st', None) \<and> bld_valid bld'"
proof -
  let ?c = "create_measurement sample_metric_ext sample_evtCfg n d"
  have "\<exists>evt. ?c st ''ns_svc'' t = Ret (wrap64 (st + 1), Inr evt)"
    by (simp add: create_measurement_def sample_metric_ext_def sample_evtCfg_def mem_NextMeasurementIndex_def Let_def)
  then obtain evt where c: "?c st ''ns_svc'' t = Ret (wrap64 (st + 1), Inr evt)" by blast
  have "\<exists>bld1 st1 i. bld_find ?c bld st ''ns_svc'' t = Ret (bld1, st1, Inr i) \<and> bld_valid bld1"
    unfolding bld_find_def c by (simp add: v split: option.split)
  then obtain bld1 st1 i where f: "bld_find ?c bld st ''ns_svc'' t = Ret (bld1, st1, Inr i)" "bld_valid bld1"
    by blast
  obtain evt' where e:
    "setField EventMeasurements (bld_set bld1 ! i) [''CPUUsageArray'', ''PercentUsage''] x [(''CPUIdentifier'', s)] = Ret (Inr evt')"
    using cpu_setField by blast
  have sp: "Split ''CPUUsageArray.PercentUsage'' CHR ''.'' = [''CPUUsageArray'', ''PercentUsage'']" by code_simp
  show ?thesis unfolding bld_Set_alt checkValid_def f(1) sp by (simp add: v f(2) e put_event_def)
qed

lemma sample_collection:
  "\<exists>col' evts. CollectMetrics sample_metric_ext (sample_collector sample_rule) 0 60 60 = Ret (col', Inr evts)"
proof -
  let ?n = "''Mfvs_nf-v_Measurements''"
  let ?k = "[(''CPUIdentifier'', ''cpu0'')]"
  obtain b1 s1 where 1: "bld_Set (create_measurement sample_metric_ext sample_evtCfg ?n 60) NewEventMeasurementSetBuilder 0
      ''CPUUsageArray.PercentUsage'' ''ns_svc'' unix_epoch 5 ?k = Ret (b1, s1, None)" "bld_valid b1"
    using sample_Set [of NewEventMeasurementSetBuilder ?n 60 0 unix_epoch 5 "''cpu0''"]
    by (auto simp: NewEventMeasurementSetBuilder_def)
  obtain b2 s2 where 2: "bld_Set (create_measurement sample_metric_ext sample_evtCfg ?n 60) b1 s1
      ''CPUUsageArray.PercentUsage'' ''ns_svc'' (unix_epoch + 60000000000) 7 ?k = Ret (b2, s2, None)" "bld_valid b2"
    using sample_Set [OF 1(2)] by blast
  have q: "mx_parse sample_metric_ext s = Inr s" "mx_exec sample_metric_ext s opt d = Inr s"
    "mx_QueryRange sample_metric_ext a s r =
      (a, Inr (Matrix [\<lparr>ss_Metric = [(''microSvcName'', ''svc'')], ss_Values = [(0, 5), (60000, 7)]\<rparr>]))" for s opt d a r
    by (simp_all add: sample_metric_ext_def)
  have c: "mco_evtCfg (sample_collector sample_rule) = sample_evtCfg" "mco_domainAbr (sample_collector sample_rule) = ''Mfvs''"
    "mco_state (sample_collector sample_rule) = 0" "mco_templates (sample_collector sample_rule) = Map.empty"
    by (simp_all add: sample_collector_def)
  have e: "ec_NfNamingCode sample_evtCfg = ''nf''" "\<exists>t. ec_Tmaas sample_evtCfg = Some t \<and> tm_VendorID t = ''v''"
    by (simp_all add: sample_evtCfg_def)
  show ?thesis using e 1 2
    by (auto simp: CollectMetrics_def c collect_rules_def collectFromRule_def collect_stream_def collect_value_def
        execTemplate_def parseTemplate_def getMatrix_def eval_key_def label_differs_def WithDefaults_def q Measurements_def
        checkValid_def MeasKeys_String_def Let_def sample_rule_def sample_collector_def)
qed

theorem collect_well_typed_witness:
  "\<exists>col' evts. CollectMetrics sample_metric_ext (sample_collector sample_rule) 0 60 60 = Ret (col', Inr evts) \<and>
     (\<forall>evt \<in> set evts. has_type EventMeasurements evt)"
  using sample_collection collect_well_typed by blast

section \<open>Reading back\<close>

text \<open>C16: After a successful \<open>Set\<close> on a set of well-typed events, one event of the set holds the value at the
  place that the field path and the keys name; it is an event of the set before or the one new event at its
  end, and all other events are unchanged.\<close>

theorem stored_value_reads_back:
  assumes "typed_set bld" and "distinct (map fst keys)"
    and "bld_Set (create_measurement ext evtCfg evtName interval) bld st flds vmID t x keys = Ret (bld', st', None)"
  shows "\<exists>i < length (bld_set bld').
    getField EventMeasurements (bld_set bld' ! i) (Split flds CHR ''.'') keys = Some x \<and>
    length (bld_set bld') = max (length (bld_set bld)) (Suc i) \<and>
    (\<forall>j < length (bld_set bld). j \<noteq> i \<longrightarrow> bld_set bld' ! j = bld_set bld ! j)"
  using assms by (intro cm.Set_reads_back)

lemma typed_new_builder [simp]: "typed_set NewEventMeasurementSetBuilder"
  by (simp add: typed_set_def NewEventMeasurementSetBuilder_def)

theorem stored_value_reads_back_witness:
  "\<exists>bld' st' i. bld_Set (create_measurement sample_metric_ext sample_evtCfg ''e'' 60) NewEventMeasurementSetBuilder 0
      ''CPUUsageArray.PercentUsage'' ''ns_svc'' unix_epoch 5 [(''CPUIdentifier'', ''cpu0'')] = Ret (bld', st', None) \<and>
    i < length (bld_set bld') \<and>
    getField EventMeasurements (bld_set bld' ! i) (Split ''CPUUsageArray.PercentUsage'' CHR ''.'')
      [(''CPUIdentifier'', ''cpu0'')] = Some 5"
proof -
  have "bld_valid NewEventMeasurementSetBuilder" by (simp add: NewEventMeasurementSetBuilder_def)
  from sample_Set [OF this] obtain bld' st' where
    r: "bld_Set (create_measurement sample_metric_ext sample_evtCfg ''e'' 60) NewEventMeasurementSetBuilder 0
      ''CPUUsageArray.PercentUsage'' ''ns_svc'' unix_epoch 5 [(''CPUIdentifier'', ''cpu0'')] = Ret (bld', st', None)"
    by blast
  have "distinct (map fst [(''CPUIdentifier'', ''cpu0'')])" by simp
  from r stored_value_reads_back [OF typed_new_builder this r] show ?thesis by blast
qed

text \<open>\<open>SetAdditionalObject\<close> stores a number under the name of an object, a set of keys and the name of an
  entry: afterwards that entry reads as the number, the other entries under the same name and keys read as
  before, and the other events are unchanged.\<close>

theorem additional_object_lookup:
  assumes ty: "typed_set bld" and keys: "distinct (map fst keys)"
    and r: "SetAdditionalObject (create_measurement ext evtCfg evtName interval) bld st (vmID, n, k) t x keys =
      Ret (bld', st', None)"
  shows "\<exists>i < length (bld_set bld').
    get_object (bld_set bld' ! i) n k keys = Some (VFloat x) \<and>
    (\<forall>j < length (bld_set bld). \<forall>k'. j \<noteq> i \<or> k' \<noteq> k \<longrightarrow>
       get_object (bld_set bld' ! j) n k' keys = get_object (bld_set bld ! j) n k' keys) \<and>
    (\<forall>j < length (bld_set bld). j \<noteq> i \<longrightarrow> bld_set bld' ! j = bld_set bld ! j)"
proof -
  let ?create = "create_measurement ext evtCfg evtName interval"
  from r have ne: "\<not> (vmID = [] \<or> n = [] \<or> k = [])" by (auto simp: SetAdditionalObject_def)
  with r obtain bld1 i evt where f: "bld_find ?create bld st vmID t = Ret (bld1, st', Inr i)"
      and e: "set_object (bld_set bld1 ! i) n k x keys = Ret evt" "bld' = put_event bld1 i evt"
    by (auto simp: SetAdditionalObject_def go_simps case_sum_eq)
  from cm.find_result [OF ty f] have b: "typed_set bld1" "i < length (bld_set bld1)"
      "take (length (bld_set bld)) (bld_set bld1) = bld_set bld"
      "length (bld_set bld) \<le> length (bld_set bld1)"
    by (auto split: if_splits)
  have same: "bld_set bld1 ! j = bld_set bld ! j" if "j < length (bld_set bld)" for j
    using b(3) that nth_take by metis
  note law = get_object_set_object [OF typed_set_nth [OF b(1,2)] e(1) keys]
  show ?thesis
    using law b same by (intro exI [of _ i]) (auto simp: e(2) put_event_def nth_list_update)
qed

lemma sample_object:
  "\<exists>bld' st'. SetAdditionalObject (create_measurement sample_metric_ext sample_evtCfg n d)
     NewEventMeasurementSetBuilder 0 (''ns_svc'', ''requests'', ''total'') t x [(''cell'', ''7'')] = Ret (bld', st', None)"
proof -
  let ?c = "create_measurement sample_metric_ext sample_evtCfg n d"
  have "\<exists>evt. ?c 0 ''ns_svc'' t = Ret (wrap64 1, Inr evt)"
    by (simp add: create_measurement_def sample_metric_ext_def sample_evtCfg_def mem_NextMeasurementIndex_def Let_def)
  then obtain evt where c: "?c 0 ''ns_svc'' t = Ret (wrap64 1, Inr evt)" by blast
  have e: "elems (sel EventMeasurements ''AdditionalObjects'' evt) = []"
    using create_measurement_strings [OF c] by simp
  show ?thesis
    by (simp add: SetAdditionalObject_def bld_find_def NewEventMeasurementSetBuilder_def c e set_object_def object_entry_def
        instance_entry_def new_object_instances new_instance(3) Let_def)
qed

theorem additional_object_lookup_witness:
  "\<exists>bld' st' i. SetAdditionalObject (create_measurement sample_metric_ext sample_evtCfg ''e'' 60)
     NewEventMeasurementSetBuilder 0 (''ns_svc'', ''requests'', ''total'') unix_epoch 9 [(''cell'', ''7'')] = Ret (bld', st', None) \<and>
    i < length (bld_set bld') \<and>
    get_object (bld_set bld' ! i) ''requests'' ''total'' [(''cell'', ''7'')] = Some (VFloat 9)"
proof -
  from sample_object obtain bld' st' where
    r: "SetAdditionalObject (create_measurement sample_metric_ext sample_evtCfg ''e'' 60)
     NewEventMeasurementSetBuilder 0 (''ns_svc'', ''requests'', ''total'') unix_epoch 9 [(''cell'', ''7'')] = Ret (bld', st', None)"
    by blast
  have "distinct (map fst [(''cell'', ''7'')])" by simp
  from r additional_object_lookup [OF typed_new_builder this r] show ?thesis by blast
qed

section \<open>The time frame of a collection\<close>

text \<open>C18: With a maximum buffering duration the collection starts less than one interval before the oldest
  time that the maximum allows, at a multiple of the interval when the start is moved, and less than one
  interval before the start that was asked for; without a maximum the start is the one asked for.\<close>

theorem collection_window:
  assumes "0 < interval" and "t - start < 2 ^ 63"
  shows "let s = adjustCollectionStartTime col start t interval in
    (mco_max col \<le> 0 \<longrightarrow> s = start) \<and>
    (0 < mco_max col \<longrightarrow> t - s < mco_max col + interval \<and> start - interval < s \<and>
       (s \<noteq> start \<longrightarrow> interval dvd s \<and> s \<le> t - mco_max col))"
proof -
  let ?m = "mco_max col"
  have T: "Truncate (t - ?m) interval \<le> t - ?m" "t - ?m < Truncate (t - ?m) interval + interval"
      "interval dvd Truncate (t - ?m) interval"
    using assms(1) by (simp_all add: Truncate_le Truncate_gt Truncate_multiple)
  show ?thesis
  proof (cases "0 < ?m \<and> Time_Sub t start > ?m")
    case True
    then have "start < t - ?m" by (simp add: Time_Sub_def max_def min_def split: if_splits)
    with True T show ?thesis by (simp add: adjustCollectionStartTime_def Let_def)
  next
    case False
    with assms have "0 < ?m \<longrightarrow> t - start \<le> ?m"
      by (auto simp: Time_Sub_def max_def min_def split: if_splits)
    with False assms(1) show ?thesis by (auto simp: adjustCollectionStartTime_def Let_def)
  qed
qed

theorem collection_window_witness:
  "10000 - adjustCollectionStartTime ((sample_collector sample_rule)\<lparr>mco_max := 900\<rparr>) 0 10000 60 < 960"
  using collection_window [of 60 10000 0 "(sample_collector sample_rule)\<lparr>mco_max := 900\<rparr>"]
  by (simp add: Let_def)

section \<open>Samples and events\<close>

text \<open>All events of the set carry the source name \<open>s\<close>.\<close>

definition from_source :: "string \<Rightarrow> EventMeasurementSetBuilder \<Rightarrow> bool" where
  "from_source s bld \<longleftrightarrow> (\<forall>evt \<in> set (bld_set bld). sel EventMeasurements ''SourceName'' evt = VString s)"

lemma insert_own_event:
  assumes o: "insert_outcome (create_measurement ext evtCfg evtName interval) bld st vmID t bld' st' F"
    and F: "F ''SourceName''" and s: "from_source (mx_DnPrefix ext @ ec_SourceName evtCfg) bld"
    and v: "vmID \<noteq> mx_DnPrefix ext @ ec_SourceName evtCfg"
  shows "length (bld_set bld') = Suc (length (bld_set bld)) \<and> from_source (mx_DnPrefix ext @ ec_SourceName evtCfg) bld'"
proof -
  let ?s = "mx_DnPrefix ext @ ec_SourceName evtCfg"
  have "\<not> event_of vmID t (bld_set bld ! i)" if "i < length (bld_set bld)" for i
    using s v that by (simp add: from_source_def event_of_def)
  then obtain evt where e: "create_measurement ext evtCfg evtName interval st vmID t = Ret (st', Inr evt)"
      "length (bld_set bld') = Suc (length (bld_set bld))"
      "\<forall>j \<le> length (bld_set bld). sel EventMeasurements ''SourceName'' (bld_set bld' ! j) =
         sel EventMeasurements ''SourceName'' ((bld_set bld @ [evt]) ! j)"
    using o F unfolding insert_outcome_def by blast
  have "\<forall>j \<le> length (bld_set bld). sel EventMeasurements ''SourceName'' ((bld_set bld @ [evt]) ! j) = VString ?s"
    using s create_measurement_strings [OF e(1)] by (auto simp: nth_append from_source_def)
  with e(2,3) show ?thesis by (auto simp: from_source_def all_set_conv_all_nth)
qed

lemma collect_value_cases:
  assumes "collect_value ext create rule target vnfc keys (bld, st) (ms, x) = Ret ((bld', st'), None)"
  obtains "bld_Set create bld st target vnfc (unix_epoch + ms * 1000000) x keys = Ret (bld', st', None)"
  | "SetAdditionalObject create bld st (vnfc, mr_ObjectName rule, mr_ObjectInstance rule)
       (unix_epoch + ms * 1000000) x keys = Ret (bld', st', None)"
  using assms by (auto simp: collect_value_def go_simps Let_def split: if_splits)

lemma collect_value_outcome:
  assumes "typed_set bld"
    and "collect_value ext (create_measurement ext evtCfg evtName interval) rule target vnfc keys (bld, st) (ms, x) =
      Ret ((bld', st'), None)"
  shows "insert_outcome (create_measurement ext evtCfg evtName interval) bld st vnfc (unix_epoch + ms * 1000000) bld' st'
    (\<lambda>m. \<exists>q k. FieldByName EventMeasurements m = Some (q, TString k) \<and> apart [1, 2] q)"
  using assms(2)
  by (rule collect_value_cases)
    (rule cm.Set_outcome [OF assms(1)] cm.SetAdditionalObject_outcome [OF assms(1)], assumption)+

text \<open>The events of a series. The builder looks an event up by the VM identifier of the rule, but the
  events carry the configured source name; unless these agree, no event is ever found again and every sample
  becomes an event of its own, also samples of the same time.\<close>

theorem every_sample_own_event:
  assumes "try_foldl (collect_value ext (create_measurement ext evtCfg evtName interval) rule target vnfc keys)
      (bld, st) vals = Ret ((bld', st'), None)"
    and "vnfc \<noteq> mx_DnPrefix ext @ ec_SourceName evtCfg" and "distinct (map fst keys)"
    and "typed_set bld" and "from_source (mx_DnPrefix ext @ ec_SourceName evtCfg) bld"
  shows "length (bld_set bld') = length (bld_set bld) + length vals"
  using assms
proof (induction vals arbitrary: bld st)
  case (Cons v vals)
  obtain ms x where v: "v = (ms, x)" by (cases v)
  from Cons.prems(1) obtain bld1 st1 where
    1: "collect_value ext (create_measurement ext evtCfg evtName interval) rule target vnfc keys (bld, st) (ms, x) =
      Ret ((bld1, st1), None)" and
    2: "try_foldl (collect_value ext (create_measurement ext evtCfg evtName interval) rule target vnfc keys)
      (bld1, st1) vals = Ret ((bld', st'), None)"
    by (auto simp: v go_simps split: option.splits)
  have "length (bld_set bld1) = Suc (length (bld_set bld)) \<and> from_source (mx_DnPrefix ext @ ec_SourceName evtCfg) bld1"
    by (rule insert_own_event [OF collect_value_outcome [OF Cons.prems(4) 1] _ Cons.prems(5,2)]) simp
  moreover have "typed_set bld1"
    by (rule collect_value_cases [OF 1])
      (rule cm.Set_typed [OF Cons.prems(4)] cm.SetAdditionalObject_typed [OF Cons.prems(4,3)], assumption)+
  ultimately show ?case using Cons.IH [OF 2 Cons.prems(2,3)] by simp
qed simp

theorem every_sample_own_event_witness:
  "\<exists>bld' st'. try_foldl (collect_value sample_metric_ext (create_measurement sample_metric_ext sample_evtCfg ''e'' 60)
      sample_rule ''CPUUsageArray.PercentUsage'' ''ns_svc'' [(''CPUIdentifier'', ''cpu0'')])
      (NewEventMeasurementSetBuilder, 0) [(0, 5), (0, 7)] = Ret ((bld', st'), None) \<and> length (bld_set bld') = 2"
proof -
  let ?c = "create_measurement sample_metric_ext sample_evtCfg ''e'' 60"
  let ?k = "[(''CPUIdentifier'', ''cpu0'')]"
  have "bld_valid NewEventMeasurementSetBuilder" by (simp add: NewEventMeasurementSetBuilder_def)
  from sample_Set [OF this] obtain b1 s1 where 1: "bld_Set ?c NewEventMeasurementSetBuilder 0
      ''CPUUsageArray.PercentUsage'' ''ns_svc'' unix_epoch 5 ?k = Ret (b1, s1, None)" "bld_valid b1" by blast
  from sample_Set [OF 1(2)] obtain b2 s2 where 2: "bld_Set ?c b1 s1
      ''CPUUsageArray.PercentUsage'' ''ns_svc'' unix_epoch 7 ?k = Ret (b2, s2, None)" by blast
  have r: "try_foldl (collect_value sample_metric_ext ?c sample_rule ''CPUUsageArray.PercentUsage'' ''ns_svc'' ?k)
      (NewEventMeasurementSetBuilder, 0) [(0, 5), (0, 7)] = Ret ((b2, s2), None)"
    by (simp add: collect_value_def MeasKeys_String_def 1 2)
  have "''ns_svc'' \<noteq> mx_DnPrefix sample_metric_ext @ ec_SourceName sample_evtCfg"
    by (simp add: sample_metric_ext_def sample_evtCfg_def)
  from every_sample_own_event [OF r this _ typed_new_builder] have "length (bld_set b2) = 2"
    by (simp add: from_source_def NewEventMeasurementSetBuilder_def)
  with r show ?thesis by blast
qed

section \<open>Crashes\<close>

text \<open>A rule without labels. When a series with at least one sample passes the filter of the rule and the
  identifier and the target evaluate to a field, the log line that prints the empty keys cuts the last
  character off an empty string and the process goes down.\<close>

theorem label_free_rule_crashes:
  assumes "\<not> label_differs (ss_Metric meas) ''microSvcName'' svc" "\<not> label_differs (ss_Metric meas) ''kubernetes_namespace'' ns"
    and "execTemplate ext col (mr_VMIDLabel rule) (data(''labels'' \<mapsto> TvLabels (ss_Metric meas))) True = (col1, Inr vnfc)"
    and "execTemplate ext col1 (mr_Target rule)
      (data(''labels'' \<mapsto> TvLabels (ss_Metric meas), ''vmId'' \<mapsto> TvString vnfc)) True = (col2, Inr target)"
    and "target \<noteq> []" "target \<noteq> ''AdditionalObjects''" "mr_Labels rule = []" "ss_Values meas \<noteq> []"
  shows "collect_stream ext create rule ns svc (col, bld, data) meas = Crash OutOfRange"
proof -
  have "MeasKeys_String [] = Crash OutOfRange" by (simp add: MeasKeys_String_def)
  then have "collect_value ext create rule target vnfc [] bs val = Crash OutOfRange" for bs val
    by (simp add: collect_value_def Let_def split: prod.splits)
  with assms show ?thesis by (cases "ss_Values meas") (auto simp: collect_stream_def Let_def)
qed

lemma sample_exec:
  "mco_templates col s = None \<Longrightarrow> execTemplate sample_metric_ext col s data strict =
     (col\<lparr>mco_templates := (mco_templates col)(s \<mapsto> (s, strict))\<rparr>, Inr s)"
  by (simp add: execTemplate_def parseTemplate_def sample_metric_ext_def)

theorem label_free_rule_crashes_witness:
  "collect_stream sample_metric_ext (create_measurement sample_metric_ext sample_evtCfg ''e'' 60)
     (sample_rule\<lparr>mr_Target := ''MeanRequestLatency'', mr_Labels := []\<rparr>) ''ns'' ''svc''
     (sample_collector sample_rule, NewEventMeasurementSetBuilder, Map.empty)
     \<lparr>ss_Metric = [], ss_Values = [(0, 5)]\<rparr> = Crash OutOfRange"
  by (rule label_free_rule_crashes [OF _ _ sample_exec sample_exec])
    (simp_all add: label_differs_def sample_collector_def sample_rule_def)

section \<open>Numbering\<close>

lemma wrap64_add: "wrap64 (wrap64 a + b) = wrap64 (a + b)"
proof -
  have "((a + 2 ^ 63) mod 2 ^ 64 + b) mod 2 ^ 64 = ((a + 2 ^ 63) + b) mod (2 ^ 64 :: int)"
    by (rule mod_add_left_eq)
  then show ?thesis by (simp add: wrap64_def algebra_simps)
qed

text \<open>The identifier of an event with number \<open>i\<close>, and a set whose events have consecutive numbers.\<close>

definition event_id :: "int \<Rightarrow> gval" where
  "event_id i = VString (''Measurements'' @ fmt_prec10d i)"

definition numbered :: "('s \<Rightarrow> int) \<Rightarrow> int \<Rightarrow> EventMeasurementSetBuilder \<Rightarrow> 's \<Rightarrow> bool" where
  "numbered idx k bld st \<longleftrightarrow> typed_set bld \<and> idx st = wrap64 (k + int (length (bld_set bld))) \<and>
     (\<forall>j < length (bld_set bld).
        sel EventMeasurements ''EventID'' (bld_set bld ! j) = event_id (wrap64 (k + int j)))"

text \<open>The contract of the interface \<open>CollectorState\<close>: it hands out consecutive 64-bit numbers.\<close>

locale index_source =
  fixes nxt :: "'s \<Rightarrow> ('s \<times> (string + int)) go" and idx :: "'s \<Rightarrow> int"
  assumes nxt_consecutive: "nxt st = Ret (st', Inr i) \<Longrightarrow> i = idx st \<and> idx st' = wrap64 (idx st + 1)"
begin

lemma insert_numbered:
  assumes n: "numbered idx k bld st" and ext: "mx_next ext = nxt" and ty: "typed_set bld'" and F: "F ''EventID''"
    and o: "insert_outcome (create_measurement ext evtCfg evtName interval) bld st vmID t bld' st' F"
  shows "numbered idx k bld' st'"
proof -
  let ?id = "sel EventMeasurements ''EventID''"
  from o [unfolded insert_outcome_def] show ?thesis
  proof (elim disjE exE conjE)
    fix i assume "st' = st" "length (bld_set bld') = length (bld_set bld)"
      "\<forall>j < length (bld_set bld). \<forall>m. F m \<longrightarrow> sel EventMeasurements m (bld_set bld' ! j) = sel EventMeasurements m (bld_set bld ! j)"
    with n F ty show ?thesis by (simp add: numbered_def)
  next
    fix evt
    assume c: "create_measurement ext evtCfg evtName interval st vmID t = Ret (st', Inr evt)"
      "length (bld_set bld') = Suc (length (bld_set bld))" and
      j: "\<forall>j \<le> length (bld_set bld). \<forall>m. F m \<longrightarrow>
        sel EventMeasurements m (bld_set bld' ! j) = sel EventMeasurements m ((bld_set bld @ [evt]) ! j)"
    from create_measurement_strings [OF c(1)] ext obtain i where
      i: "nxt st = Ret (st', Inr i)" "?id evt = event_id i" by (auto simp: event_id_def)
    note ix = nxt_consecutive [OF i(1)]
    have id: "?id evt = event_id (wrap64 (k + int (length (bld_set bld))))"
      using i(2) ix n by (simp add: numbered_def)
    have st: "idx st' = wrap64 (k + int (length (bld_set bld')))"
      using ix n wrap64_add [of "k + int (length (bld_set bld))" 1] c(2)
      by (simp add: numbered_def algebra_simps)
    have "?id (bld_set bld' ! j) = event_id (wrap64 (k + int j))" if "j \<le> length (bld_set bld)" for j
      using that j F n id by (cases "j = length (bld_set bld)") (simp_all add: nth_append numbered_def)
    with st ty c(2) show ?thesis by (simp add: numbered_def less_Suc_eq_le)
  qed
qed

end

locale numbered_collector = index_source nxt idx
  for nxt :: "'s \<Rightarrow> ('s \<times> (string + int)) go" and idx :: "'s \<Rightarrow> int" +
  fixes ext :: "('s, 'm, 'a) metric_ext"
  assumes ext_next: "mx_next ext = nxt"

sublocale numbered_collector \<subseteq> ni: builder_invariant "create_measurement ext evtCfg evtName interval" "numbered idx k"
  for evtCfg evtName interval k
proof
  fix bld st keys flds vmID t x bld' st'
  assume n: "numbered idx k bld st" and keys: "distinct (map fst (keys :: MeasKeys))"
    and r: "bld_Set (create_measurement ext evtCfg evtName interval) bld st flds vmID t x keys = Ret (bld', st', None)"
  then have ty: "typed_set bld" by (simp add: numbered_def)
  show "numbered idx k bld' st'"
    by (rule insert_numbered [OF n ext_next cm.Set_typed [OF ty r] _ cm.Set_outcome [OF ty r]]) simp
next
  fix bld st keys names t x bld' st'
  assume n: "numbered idx k bld st" and keys: "distinct (map fst (keys :: MeasKeys))"
    and r: "SetAdditionalObject (create_measurement ext evtCfg evtName interval) bld st names t x keys = Ret (bld', st', None)"
  then have ty: "typed_set bld" by (simp add: numbered_def)
  obtain vmID n' k' where names: "names = (vmID, n', k')" by (cases names)
  show "numbered idx k bld' st'"
    by (rule insert_numbered [OF n ext_next cm.SetAdditionalObject_typed [OF ty keys r] _
          cm.SetAdditionalObject_outcome [OF ty r [unfolded names]]]) simp
qed

context numbered_collector
begin

lemma collection_numbered:
  assumes r: "CollectMetrics ext col from0 to interval = Ret (col', Inr evts)" and k: "is_int64 (idx (mco_state col))"
  shows "\<forall>j < length evts. sel EventMeasurements ''EventID'' (evts ! j) = event_id (wrap64 (idx (mco_state col) + int j))"
proof (cases "mco_rules col = []")
  case True
  with r show ?thesis by (auto simp: CollectMetrics_def Let_def split: option.splits)
next
  case False
  with r show ?thesis
  proof (rule CollectMetrics_InrE)
    fix bld rng evtName
    assume b: "bld_set bld = evts" "try_foldl (collect_rules ext (create_measurement ext (mco_evtCfg col) evtName interval) rng)
       (col, NewEventMeasurementSetBuilder) (mco_rules col) = Ret ((col', bld), None)"
    have "numbered idx (idx (mco_state col)) NewEventMeasurementSetBuilder (mco_state col)"
      using k by (simp add: numbered_def typed_set_def NewEventMeasurementSetBuilder_def)
    from ni.rules_inv [OF b(2) this] b(1) show ?thesis by (simp add: numbered_def)
  qed
qed

end

text \<open>The collector's own state and the replicated state of the agent keep the contract.\<close>

interpretation mem_index: index_source mem_NextMeasurementIndex "\<lambda>i. i"
  by unfold_locales (auto simp: mem_NextMeasurementIndex_def)

definition ha_NextMeasurementIndex ::
    "(ha_error \<Rightarrow> string) \<Rightarrow> 'r raft \<Rightarrow> 'r Cluster \<Rightarrow> ('r Cluster \<times> (string + int)) go" where
  "ha_NextMeasurementIndex Error ra cl =
     go_bind (cl_NextMeasurementIndex ra cl) (\<lambda>(cl1, i, err). Ret (cl1, case err of None \<Rightarrow> Inr i | Some e \<Rightarrow> Inl (Error e)))"

lemma index64_response:
  "(case res of Inl e \<Rightarrow> Ret (cl, 0, Some e)
     | Inr resp \<Rightarrow> (case resp of RInt64 i \<Rightarrow> Ret (cl, i, None) | _ \<Rightarrow> Crash c)) = Ret (cl', i, None) \<longleftrightarrow>
   res = Inr (RInt64 i) \<and> cl' = cl"
  by (auto split: sum.splits response.splits)

interpretation ha_index: index_source "ha_NextMeasurementIndex Error ra" "\<lambda>cl. hs_measIdx (cl_fsm cl)" for Error ra
proof
  fix st st' i
  assume "ha_NextMeasurementIndex Error ra st = Ret (st', Inr i)"
  then have "cl_NextMeasurementIndex ra st = Ret (st', i, None)"
    by (auto simp: ha_NextMeasurementIndex_def go_simps split: option.splits)
  then have "cluster_apply ra st (plain_cmd IncrementMeasIdx) = Ret (st', Inr (RInt64 i))"
    by (auto simp: cl_NextMeasurementIndex_def go_simps index64_response)
  from cluster_apply_ok [OF this]
  have "processCmd (cl_fsm st) (plain_cmd IncrementMeasIdx) = Ret (cl_fsm st', RInt64 i)" by simp
  then have "(cl_fsm st)\<lparr>hs_measIdx := wrap64 (hs_measIdx (cl_fsm st) + 1)\<rparr> = cl_fsm st' \<and> i = hs_measIdx (cl_fsm st)"
    by (auto simp: processCmd_def plain_cmd_def hs_NextMeasurementIndex_def)
  moreover have "hs_measIdx ((cl_fsm st)\<lparr>hs_measIdx := k\<rparr>) = k" for k by simp
  ultimately show "i = hs_measIdx (cl_fsm st) \<and> hs_measIdx (cl_fsm st') = wrap64 (hs_measIdx (cl_fsm st) + 1)"
    by metis
qed

text \<open>C17: The events of a collection are numbered consecutively: the \<open>j\<close>-th carries the identifier with the number
  that the numbering state had before the collection plus \<open>j\<close>, wrapped to 64 bits, whatever errors and
  other series came in between. The states of the collector and of the agent keep the contract asked for.\<close>

theorem events_numbered:
  assumes "index_source (mx_next ext) idx" and "is_int64 (idx (mco_state col))"
    and "CollectMetrics ext col from0 to interval = Ret (col', Inr evts)"
  shows "\<forall>j < length evts. sel EventMeasurements ''EventID'' (evts ! j) =
    VString (''Measurements'' @ fmt_prec10d (wrap64 (idx (mco_state col) + int j)))"
proof -
  have "numbered_collector (mx_next ext) idx ext"
    using assms(1) by (simp add: numbered_collector_def numbered_collector_axioms_def)
  from numbered_collector.collection_numbered [OF this assms(3,2)] show ?thesis by (simp add: event_id_def)
qed

theorem events_numbered_witness:
  "\<exists>col' evts. CollectMetrics sample_metric_ext (sample_collector sample_rule) 0 60 60 = Ret (col', Inr evts) \<and>
     (\<forall>j < length evts. sel EventMeasurements ''EventID'' (evts ! j) =
       VString (''Measurements'' @ fmt_prec10d (wrap64 (int j))))"
proof -
  have "index_source (mx_next sample_metric_ext) (\<lambda>i. i)"
    using mem_index.index_source_axioms by (simp add: sample_metric_ext_def)
  moreover obtain col' evts where r: "CollectMetrics sample_metric_ext (sample_collector sample_rule) 0 60 60 = Ret (col', Inr evts)"
    using sample_collection by blast
  moreover have "mco_state (sample_collector sample_rule) = 0" by (simp add: sample_collector_def)
  ultimately show ?thesis using events_numbered [OF _ _ r, of "\<lambda>i. i"] by (simp add: is_int64_def)
qed

section \<open>Default values of rules\<close>

text \<open>A rule with default values: it keeps its own target, identifier and labels where it has them and takes
  the others from the defaults, its expression is its own, a label of a given name comes from the rule
  first, and distinct label names stay distinct.\<close>

theorem rule_with_defaults:
  "mr_Target (WithDefaults rule (Some d)) = (if mr_Target rule = [] then mr_Target d else mr_Target rule) \<and>
   mr_VMIDLabel (WithDefaults rule (Some d)) = (if mr_VMIDLabel rule = [] then mr_VMIDLabel d else mr_VMIDLabel rule) \<and>
   mr_Expr (WithDefaults rule (Some d)) = mr_Expr rule \<and>
   label_of (WithDefaults rule (Some d)) name =
     (case label_of rule name of Some l \<Rightarrow> Some l | None \<Rightarrow> label_of d name) \<and>
   (distinct (map l_Name (mr_Labels rule)) \<longrightarrow> distinct (map l_Name (mr_Labels (WithDefaults rule (Some d)))))"
proof -
  obtain r where w: "WithDefaults rule (Some d) = foldl add_label r (mr_Labels d)"
    and r: "mr_Target r = (if mr_Target rule = [] then mr_Target d else mr_Target rule)"
      "mr_VMIDLabel r = (if mr_VMIDLabel rule = [] then mr_VMIDLabel d else mr_VMIDLabel rule)"
      "mr_Expr r = mr_Expr rule" "mr_Labels r = mr_Labels rule"
    by (simp add: WithDefaults_def Let_def)
  have "label_of (foldl add_label r (mr_Labels d)) name =
      (case label_of rule name of Some l \<Rightarrow> Some l | None \<Rightarrow> label_of d name)"
    using label_of_defaults [of r "mr_Labels d" name] r(4) by (simp add: label_of_def split: option.splits)
  with r add_label_keeps [of r "mr_Labels d"] add_label_distinct [of r "mr_Labels d"] show ?thesis
    unfolding w by simp
qed

theorem rule_with_defaults_witness:
  "mr_Labels (WithDefaults sample_rule (Some (sample_rule\<lparr>mr_Labels := [\<lparr>l_Name = ''VMIdentifier'', l_Expr = ''x''\<rparr>]\<rparr>))) =
     [\<lparr>l_Name = ''CPUIdentifier'', l_Expr = ''cpu0''\<rparr>, \<lparr>l_Name = ''VMIdentifier'', l_Expr = ''x''\<rparr>] \<and>
   distinct (map l_Name (mr_Labels (WithDefaults sample_rule
     (Some (sample_rule\<lparr>mr_Labels := [\<lparr>l_Name = ''VMIdentifier'', l_Expr = ''x''\<rparr>]\<rparr>)))))"
  using rule_with_defaults [of sample_rule "sample_rule\<lparr>mr_Labels := [\<lparr>l_Name = ''VMIdentifier'', l_Expr = ''x''\<rparr>]\<rparr>"]
  by (simp add: sample_rule_def WithDefaults_def add_label_def hasLabel_def)

end
