(* ===== verification/Config_Map.thy ===== *)
theory Config_Map
  imports Measurement_Config Govel_Config Uuid "HOL-Library.AList"
begin

text \<open>
  The config map reader (VESPA/ves-agent/configmapreader/configmaps.go, the reading of rule files in
  VESPA/ves-agent/config/configuration.go): it watches the config maps of the cluster, collects the
  metric definitions of each namespace, writes one rule file per namespace and has the agents for it
  started and stopped. The YAML and JSON codecs, the file system's failures, the hash and the
  configuration of the gateway are parameters. Go maps are association lists in the order in
  which a range visits them. A goroutine runs at once when it is started (\<open>Config_Watch\<close> has them interleaved); the calls of the agent are
  recorded in their order.
\<close>

section \<open>Types\<close>

record NFMetricConfigRulesWithoutNfc =
  nf_Measurement :: MeasurementConfiguration
  nf_Event :: EventConfigurationWithoutNfc

definition zero_NFRules :: NFMetricConfigRulesWithoutNfc where
  "zero_NFRules = \<lparr>nf_Measurement = \<lparr>mc_DomainAbbreviation = [], mc_DefaultInterval = 0, mc_MaxBufferingDuration = 0,
       mc_Prometheus = \<lparr>pc_Address = [], pc_Timeout = 0, pc_KeepAlive = 0, pc_Rules = []\<rparr>\<rparr>,
     nf_Event = \<lparr>ec_VNFName = [], ec_ReportingEntityName = [], ec_ReportingEntityID = [], ec_MaxSize = 0, ec_NfNamingCode = [],
       ec_RetryInterval = 0, ec_MaxMissed = 0, ec_Tmaas = None, ec_DnPrefix = [], ec_SourceName = []\<rparr>\<rparr>"

text \<open>The definitions of a config map; \<open>None\<close> for a nil list.\<close>

record ConfigMapDetails =
  cm_AdditionalObjects :: "MetricRule list option"
  cm_AdditionalMeasurements :: "MetricRule list option"

datatype watch_type = Added | Modified | Deleted | OtherChange

record ConfigMap =
  km_Namespace :: string
  km_Name :: string
  km_Labels :: "string \<rightharpoonup> string"
  km_Annotations :: "string \<rightharpoonup> string"
  km_Data :: "(string \<times> string) list"

datatype agent_call = StartNfAgentProcessing string string | StopScheduler string

text \<open>Outside code. A decoder gets the value decoded into; the metric definitions of an empty document are a nil
  pointer, as are JSON annotations that are null. \<open>ce_io_fails\<close> says which files cannot be removed, opened or
  written, \<open>ce_unreadable\<close> which fail to be read for another reason than being absent.\<close>

record cm_ext =
  ce_marshal :: "NFMetricConfigRulesWithoutNfc \<Rightarrow> string + string"
  ce_unmarshal :: "string \<Rightarrow> NFMetricConfigRulesWithoutNfc \<Rightarrow> NFMetricConfigRulesWithoutNfc \<times> bool"
  ce_metrics :: "string \<Rightarrow> string + ConfigMapDetails option"
  ce_annotations :: "string \<Rightarrow> string + TmaaSAnnotations option"
  ce_io_fails :: "string \<Rightarrow> bool"
  ce_unreadable :: "string \<Rightarrow> bool"
  ce_mkdir_fails :: bool
  ce_md5 :: "byte8 list \<Rightarrow> byte8 list"
  ce_Measurement :: MeasurementConfiguration
  ce_Event :: EventConfiguration
  ce_DnPrefix :: string
  ce_VesgwXGVelaId :: string

record cm_state =
  cs_msConfigmaps :: "(string \<times> (string \<times> string) list) list"
  cs_msAnnotations :: "(string \<times> (string \<times> TmaaSAnnotations option) list) list"
  cs_metricNew :: MetricRules
  cs_files :: "string \<rightharpoonup> string"
  cs_calls :: "agent_call list"

definition nf_file :: "string \<Rightarrow> string" where
  "nf_file namespace = ''./nfs/'' @ namespace @ ''.yaml''"

section \<open>Watching\<close>

definition getAnnotations :: "cm_ext \<Rightarrow> string \<Rightarrow> string + TmaaSAnnotations option" where
  "getAnnotations X s = ce_annotations X s"

text \<open>One entry of a config map's data.\<close>

definition note_data :: "string \<Rightarrow> string \<Rightarrow> TmaaSAnnotations option \<Rightarrow> cm_state \<Rightarrow> string \<times> string \<Rightarrow> cm_state" where
  "note_data ns ms anns st kv =
     (let cms = the (map_of (cs_msConfigmaps st) ns); ans = the (map_of (cs_msAnnotations st) ns)
      in if fst kv = ''metrics.yml'' \<or> fst kv = ''metricss.yml''
         then st\<lparr>cs_msConfigmaps := AList.update ns (AList.update ms (snd kv) cms) (cs_msConfigmaps st),
                 cs_msAnnotations := AList.update ns (AList.update ms anns ans) (cs_msAnnotations st)\<rparr>
         else st\<lparr>cs_msConfigmaps := (if map_of cms ms = None
                   then AList.update ns (AList.update ms [] cms) (cs_msConfigmaps st) else cs_msConfigmaps st),
                 cs_msAnnotations := (if map_of ans ms = None
                   then AList.update ns (AList.update ms anns ans) (cs_msAnnotations st) else cs_msAnnotations st)\<rparr>)"

definition UpdateMetricRuleMap :: "ConfigMap \<Rightarrow> string \<Rightarrow> TmaaSAnnotations option \<Rightarrow> cm_state \<Rightarrow> cm_state" where
  "UpdateMetricRuleMap cm microsvc anns st =
     (let ns = km_Namespace cm;
          st1 = (if map_of (cs_msConfigmaps st) ns = None
                 then st\<lparr>cs_msConfigmaps := AList.update ns [] (cs_msConfigmaps st)\<rparr> else st);
          st2 = (if map_of (cs_msAnnotations st1) ns = None
                 then st1\<lparr>cs_msAnnotations := AList.update ns [] (cs_msAnnotations st1)\<rparr> else st1)
      in foldl (note_data ns microsvc anns) st2 (km_Data cm))"

definition deleteNfFile :: "cm_ext \<Rightarrow> ConfigMap \<Rightarrow> cm_state \<Rightarrow> cm_state" where
  "deleteNfFile X cm st =
     (let path = nf_file (km_Namespace cm)
      in if cs_files st path = None \<or> ce_io_fails X path then st
         else st\<lparr>cs_files := (cs_files st)(path := None), cs_calls := cs_calls st @ [StopScheduler path]\<rparr>)"

definition watched :: "string \<Rightarrow> bool" where
  "watched name \<longleftrightarrow> HasSuffix name ''-metrics-cfg'' \<or> HasSuffix name ''-eventdef-cfg'' \<or> HasSuffix name ''-mgmt-cfg''"

text \<open>The body of the watcher's loop for an event about a config map.\<close>

definition watch_event :: "cm_ext \<Rightarrow> cm_state \<Rightarrow> watch_type \<times> ConfigMap \<Rightarrow> cm_state go" where
  "watch_event X st ev =
     (case ev of (ty, cm) \<Rightarrow>
       (let microsvc = at [] (km_Labels cm) ''microSvcName'';
            tmaas = at [] (km_Annotations cm) ''xgvela.com/tmaas''
        in if \<not> watched (km_Name cm) \<or> tmaas = [] then Ret st
           else case getAnnotations X tmaas of
               Inl err \<Rightarrow> Ret st
             | Inr anns \<Rightarrow>
                 (case ty of
                    Deleted \<Rightarrow> Ret (deleteNfFile X cm st)
                  | OtherChange \<Rightarrow> Ret st
                  | _ \<Rightarrow> (case anns of
                        None \<Rightarrow> Crash NilDeref
                      | Some a \<Rightarrow> Ret (if tm_XGVelaID a = ce_VesgwXGVelaId X
                                     then UpdateMetricRuleMap cm microsvc anns st else st)))))"

section \<open>Rule files\<close>

datatype read_error = FileNotFound | ErrorReadingFile | ErrorUnmarshalling

definition ReadNFMetricFile :: "cm_ext \<Rightarrow> cm_state \<Rightarrow> string \<Rightarrow> NFMetricConfigRulesWithoutNfc \<Rightarrow>
    NFMetricConfigRulesWithoutNfc \<times> read_error option" where
  "ReadNFMetricFile X st namespace rules =
     (let file = nf_file namespace
      in if ce_unreadable X file then (rules, Some ErrorReadingFile)
         else case cs_files st file of
             None \<Rightarrow> (rules, Some FileNotFound)
           | Some data \<Rightarrow>
               (let (rules1, ok) = ce_unmarshal X data rules
                in if ok then (rules1, None) else (rules1, Some ErrorUnmarshalling)))"

text \<open>Every failure here is logged with level EXCEPTION and ends the process.\<close>

definition ApplyPatch :: "cm_ext \<Rightarrow> string \<Rightarrow> NFMetricConfigRulesWithoutNfc \<Rightarrow> cm_state \<Rightarrow> cm_state go" where
  "ApplyPatch X fileName rules st =
     (case ce_marshal X rules of
        Inl err \<Rightarrow> Crash ProcessExit
      | Inr data \<Rightarrow>
          if ce_io_fails X fileName then Crash ProcessExit
          else Ret (st\<lparr>cs_files := (cs_files st)(fileName \<mapsto> data)\<rparr>))"

definition mark_objects :: "MetricRule list \<Rightarrow> MetricRule list" where
  "mark_objects objs = map (\<lambda>r. r\<lparr>mr_Target := ''AdditionalObjects''\<rparr>) objs"

definition default_rule :: "string \<Rightarrow> string \<Rightarrow> MetricRule" where
  "default_rule namespace msName = \<lparr>mr_Target = [], mr_Expr = [], mr_VMIDLabel = namespace @ ''_'' @ msName, mr_Labels = [],
     mr_ObjectName = [], mr_ObjectInstance = [], mr_ObjectKeys = []\<rparr>"

text \<open>The identity of a namespace's events, from the annotations; they are read through a pointer.\<close>

definition set_identity :: "cm_ext \<Rightarrow> TmaaSAnnotations option \<Rightarrow> EventConfigurationWithoutNfc \<Rightarrow> EventConfigurationWithoutNfc go" where
  "set_identity X anns ev =
     (case anns of
        None \<Rightarrow> Crash NilDeref
      | Some t \<Rightarrow>
          (let me = ec_DnPrefix ev @ '',ManagedElement=me-'' @ tm_XGVelaID t;
               entity = me @ '',NetworkFunction='' @ tm_XGVelaID t
           in Ret (ev\<lparr>ec_Tmaas := anns, ec_SourceName := me @ '',NetworkFunction='' @ tm_NfID t,
                ec_ReportingEntityName := entity, ec_NfNamingCode := tm_NfType t,
                ec_ReportingEntityID := generateUUID (ce_md5 X) entity, ec_MaxMissed := ec_MaxMissed (ce_Event X)\<rparr>)))"

definition add_rules :: "MetricRules \<Rightarrow> NFMetricConfigRulesWithoutNfc \<Rightarrow> NFMetricConfigRulesWithoutNfc" where
  "add_rules m rules = rules\<lparr>nf_Measurement := (nf_Measurement rules)\<lparr>mc_Prometheus :=
     (mc_Prometheus (nf_Measurement rules))\<lparr>pc_Rules := pc_Rules (mc_Prometheus (nf_Measurement rules)) @ [m]\<rparr>\<rparr>\<rparr>"

text \<open>One microservice of a new namespace: \<open>Inl\<close> aborts the write.\<close>

definition first_write_entry :: "cm_ext \<Rightarrow> string \<Rightarrow> cm_state \<times> (string + NFMetricConfigRulesWithoutNfc) \<Rightarrow> string \<times> string \<Rightarrow>
    (cm_state \<times> (string + NFMetricConfigRulesWithoutNfc)) go" where
  "first_write_entry X namespace acc e =
     (case acc of
        (st, Inl err) \<Rightarrow> Ret (st, Inl err)
      | (st, Inr rules) \<Rightarrow>
          (case e of (msName, details) \<Rightarrow>
            (let anns = (case map_of (cs_msAnnotations st) namespace of
                   None \<Rightarrow> None | Some m \<Rightarrow> (case map_of m msName of None \<Rightarrow> None | Some a \<Rightarrow> a))
             in case ce_metrics X details of
                  Inl err \<Rightarrow> Ret (st, Inl err)
                | Inr None \<Rightarrow>
                    go_bind (set_identity X anns (nf_Event rules)) (\<lambda>ev. Ret (st, Inr (rules\<lparr>nf_Event := ev\<rparr>)))
                | Inr (Some d) \<Rightarrow>
                    (case cm_AdditionalObjects d of
                       None \<Rightarrow> Ret (st, Inr rules)
                     | Some objs \<Rightarrow>
                         (case anns of
                            None \<Rightarrow> Crash NilDeref
                          | Some t \<Rightarrow>
                              (let new = \<lparr>ms_MicroserviceName = msName, ms_Defaults = Some (default_rule namespace msName),
                                     ms_Metrics = mark_objects objs, ms_NfcNamingCodes = tm_NfServiceType t\<rparr>
                               in go_bind (set_identity X anns (nf_Event rules)) (\<lambda>ev.
                                    Ret (st\<lparr>cs_metricNew := new\<rparr>, Inr (add_rules new (rules\<lparr>nf_Event := ev\<rparr>)))))))))) "

definition first_rules :: "cm_ext \<Rightarrow> string \<Rightarrow> NFMetricConfigRulesWithoutNfc \<Rightarrow> NFMetricConfigRulesWithoutNfc" where
  "first_rules X namespace rules =
     (let c = ce_Measurement X; m = nf_Measurement rules
      in rules\<lparr>nf_Measurement := m\<lparr>mc_DomainAbbreviation := ''Mvfs'', mc_DefaultInterval := mc_DefaultInterval c,
             mc_MaxBufferingDuration := mc_MaxBufferingDuration c,
             mc_Prometheus := (mc_Prometheus m)\<lparr>pc_Address := pc_Address (mc_Prometheus c),
               pc_Timeout := pc_Timeout (mc_Prometheus c), pc_KeepAlive := pc_KeepAlive (mc_Prometheus c)\<rparr>\<rparr>,
           nf_Event := (nf_Event rules)\<lparr>ec_VNFName := namespace, ec_DnPrefix := ce_DnPrefix X,
             ec_MaxSize := ec_MaxSize (ce_Event X), ec_RetryInterval := ec_RetryInterval (ce_Event X)\<rparr>\<rparr>)"

definition nfFileFirstWrite :: "cm_ext \<Rightarrow> string \<Rightarrow> (string \<times> string) list \<Rightarrow> NFMetricConfigRulesWithoutNfc \<Rightarrow> cm_state \<Rightarrow>
    (cm_state \<times> string option) go" where
  "nfFileFirstWrite X namespace details rules st =
     (if ce_mkdir_fails X then Crash ExplicitPanic
      else go_bind (go_foldl (first_write_entry X namespace) (st, Inr (first_rules X namespace rules)) details) (\<lambda>(st1, r).
        case r of
          Inl err \<Rightarrow> Ret (st1, Some err)
        | Inr rules1 \<Rightarrow>
            go_bind (ApplyPatch X (nf_file namespace) rules1 st1) (\<lambda>st2.
              Ret (st2\<lparr>cs_calls := cs_calls st2 @ [StartNfAgentProcessing ''ADDED'' (nf_file namespace)]\<rparr>, None))))"

section \<open>Updating\<close>

text \<open>The rules of one microservice replaced by new definitions, where a set of rules has its name.\<close>

definition update_rule :: "cm_ext \<Rightarrow> string \<Rightarrow> string \<Rightarrow> string \<Rightarrow> MetricRules \<Rightarrow> MetricRules go" where
  "update_rule X namespace msName details m =
     (if msName \<noteq> ms_MicroserviceName m then Ret m
      else case ce_metrics X details of
          Inl err \<Rightarrow> Ret m
        | Inr None \<Rightarrow> Crash NilDeref
        | Inr (Some d) \<Rightarrow>
            (case cm_AdditionalObjects d of
               None \<Rightarrow> Ret m
             | Some objs \<Rightarrow> Ret (m\<lparr>ms_MicroserviceName := msName, ms_Defaults := Some (default_rule namespace msName),
                 ms_Metrics := mark_objects objs\<rparr>)))"

fun go_mapM :: "('a \<Rightarrow> 'b go) \<Rightarrow> 'a list \<Rightarrow> 'b list go" where
  "go_mapM f [] = Ret []"
| "go_mapM f (x # xs) = go_bind (f x) (\<lambda>y. go_bind (go_mapM f xs) (\<lambda>ys. Ret (y # ys)))"

definition update_entry :: "cm_ext \<Rightarrow> string \<Rightarrow> MetricRules list \<Rightarrow> string \<times> string \<Rightarrow> MetricRules list go" where
  "update_entry X namespace ms e =
     (if snd e = [] then Ret ms else go_mapM (update_rule X namespace (fst e) (snd e)) ms)"

definition update_namespace :: "cm_ext \<Rightarrow> cm_state \<Rightarrow> string \<times> (string \<times> string) list \<Rightarrow> cm_state go" where
  "update_namespace X st e =
     (case e of (namespace, details) \<Rightarrow>
       (let (rules, err) = ReadNFMetricFile X st namespace zero_NFRules
        in if err = Some FileNotFound
           then go_bind (nfFileFirstWrite X namespace details rules st) (\<lambda>(st1, _). Ret st1)
           else
             go_bind (go_foldl (update_entry X namespace) (pc_Rules (mc_Prometheus (nf_Measurement rules))) details) (\<lambda>ms.
               let m = nf_Measurement rules;
                   rules1 = rules\<lparr>nf_Measurement := m\<lparr>mc_Prometheus := (mc_Prometheus m)\<lparr>pc_Rules := ms\<rparr>\<rparr>\<rparr>
               in go_bind (ApplyPatch X (nf_file namespace) rules1 st) (\<lambda>st1.
                 Ret (st1\<lparr>cs_calls := cs_calls st1 @ [StartNfAgentProcessing ''MODIFIED'' (nf_file namespace)]\<rparr>)))))"

definition UpdateRules :: "cm_ext \<Rightarrow> cm_state \<Rightarrow> cm_state go" where
  "UpdateRules X st =
     go_bind (go_foldl (update_namespace X) st (cs_msConfigmaps st)) (\<lambda>st1. Ret (st1\<lparr>cs_msConfigmaps := []\<rparr>))"

section \<open>Service ports\<close>

text \<open>\<open>GetServicePortCMaas\<close> and \<open>GetServicePortFMaas\<close> take the last port with the name they look for;
  a port is its name and its node port.\<close>

definition port_named :: "string \<Rightarrow> (string \<times> int) list list \<Rightarrow> string \<Rightarrow> string" where
  "port_named name services old = foldl (\<lambda>p (n, port). if n = name then FormatInt port else p) old (concat services)"

definition GetServicePortCMaas :: "(string \<times> int) list list \<Rightarrow> string \<times> string \<Rightarrow> string \<times> string" where
  "GetServicePortCMaas services ports = (port_named ''netconf'' services (fst ports), port_named ''restconf'' services (snd ports))"

definition GetServicePortFMaas :: "(string \<times> int) list list \<Rightarrow> string \<Rightarrow> string" where
  "GetServicePortFMaas services port = port_named ''rest'' services port"

end
