(* ===== verification/Config_Map_Properties.thy ===== *)
theory Config_Map_Properties
  imports Config_Map
begin

text \<open>
  What the config map reader writes: the first rule file of a namespace, what an update changes in an
  existing one, and what happens to a file that cannot be read.
\<close>

section \<open>What a new file holds\<close>

text \<open>The rule set that a microservice's definitions give, if any.\<close>

definition anns_of :: "cm_state \<Rightarrow> string \<Rightarrow> string \<Rightarrow> TmaaSAnnotations option" where
  "anns_of st namespace msName = (case map_of (cs_msAnnotations st) namespace of
     None \<Rightarrow> None | Some m \<Rightarrow> (case map_of m msName of None \<Rightarrow> None | Some a \<Rightarrow> a))"

definition written :: "cm_ext \<Rightarrow> cm_state \<Rightarrow> string \<Rightarrow> string \<times> string \<Rightarrow> MetricRules list" where
  "written X st namespace e =
     (case ce_metrics X (snd e) of
        Inr (Some d) \<Rightarrow>
          (case cm_AdditionalObjects d of
             None \<Rightarrow> []
           | Some objs \<Rightarrow> [\<lparr>ms_MicroserviceName = fst e, ms_Defaults = Some (default_rule namespace (fst e)),
               ms_Metrics = mark_objects objs,
               ms_NfcNamingCodes = tm_NfServiceType (the (anns_of st namespace (fst e)))\<rparr>])
      | _ \<Rightarrow> [])"

abbreviation file_rules :: "NFMetricConfigRulesWithoutNfc \<Rightarrow> MetricRules list" where
  "file_rules rules \<equiv> pc_Rules (mc_Prometheus (nf_Measurement rules))"

lemma written_cong: "cs_msAnnotations st' = cs_msAnnotations st \<Longrightarrow> written X st' = written X st"
proof -
  assume "cs_msAnnotations st' = cs_msAnnotations st"
  then have "anns_of st' = anns_of st" by (intro ext) (simp add: anns_of_def)
  then show "written X st' = written X st" by (intro ext) (simp only: written_def)
qed

lemma first_write_entry_Inr:
  assumes "first_write_entry X ns (st, Inr rules) e = Ret (st', Inr rules')"
  shows "cs_msAnnotations st' = cs_msAnnotations st \<and> cs_files st' = cs_files st \<and> cs_calls st' = cs_calls st \<and>
    file_rules rules' = file_rules rules @ written X st ns e \<and> ec_VNFName (nf_Event rules') = ec_VNFName (nf_Event rules)"
proof -
  obtain ms d where e: "e = (ms, d)" by (cases e)
  have id: "ec_VNFName ev' = ec_VNFName ev" if "set_identity X a ev = Ret ev'" for a ev ev'
    using that by (auto simp: set_identity_def Let_def split: option.splits)
  show ?thesis
  proof (cases "ce_metrics X d")
    case (Inl err)
    with assms show ?thesis by (simp add: first_write_entry_def e)
  next
    case (Inr q)
    show ?thesis
    proof (cases q)
      case None
      with assms Inr id show ?thesis by (auto simp: first_write_entry_def e written_def go_simps)
    next
      case (Some cd)
      with assms Inr id show ?thesis
        by (auto simp: first_write_entry_def e written_def anns_of_def add_rules_def go_simps Let_def split: option.splits)
    qed
  qed
qed

lemma first_write_entry_Inl: "first_write_entry X ns (st, Inl err) e = Ret (st, Inl err)"
  by (simp add: first_write_entry_def)

lemma first_write_all_Inl: "go_foldl (first_write_entry X ns) (st, Inl err) es = Ret (st, Inl err)"
  by (induction es) (simp_all add: first_write_entry_Inl)

lemma first_write_all:
  "go_foldl (first_write_entry X ns) (st, Inr rules) es = Ret (st', Inr rules') \<Longrightarrow>
     cs_msAnnotations st' = cs_msAnnotations st \<and> cs_files st' = cs_files st \<and> cs_calls st' = cs_calls st \<and>
     file_rules rules' = file_rules rules @ concat (map (written X st ns) es) \<and>
     ec_VNFName (nf_Event rules') = ec_VNFName (nf_Event rules)"
proof (induction es arbitrary: st rules)
  case (Cons e es)
  from Cons.prems obtain st1 r where 1: "first_write_entry X ns (st, Inr rules) e = Ret (st1, r)"
      "go_foldl (first_write_entry X ns) (st1, r) es = Ret (st', Inr rules')"
    by (auto simp: go_simps)
  then obtain rules1 where r: "r = Inr rules1" by (cases r) (simp_all add: first_write_all_Inl)
  from first_write_entry_Inr [OF 1(1) [unfolded r]] Cons.IH [OF 1(2) [unfolded r]] written_cong [of st1 st X]
  show ?case by simp
qed simp

text \<open>The first write of a namespace, and the file it leaves.\<close>

lemma first_write_file:
  assumes yaml: "\<And>rules data. ce_marshal X rules = Inr data \<Longrightarrow> ce_unmarshal X data zero_NFRules = (rules, True)"
    and upd: "nfFileFirstWrite X ns details zero_NFRules st = Ret (st', None)"
  shows "\<exists>rules data. ce_unmarshal X data zero_NFRules = (rules, True) \<and> cs_files st' (nf_file ns) = Some data \<and>
    file_rules rules = concat (map (written X st ns) details) \<and> ec_VNFName (nf_Event rules) = ns \<and>
    cs_calls st' = cs_calls st @ [StartNfAgentProcessing ''ADDED'' (nf_file ns)]"
proof -
  from upd obtain st1 rules where
    1: "go_foldl (first_write_entry X ns) (st, Inr (first_rules X ns zero_NFRules)) details = Ret (st1, Inr rules)"
    and "\<exists>st2. ApplyPatch X (nf_file ns) rules st1 = Ret st2 \<and>
      st' = st2\<lparr>cs_calls := cs_calls st2 @ [StartNfAgentProcessing ''ADDED'' (nf_file ns)]\<rparr>"
    by (auto simp: nfFileFirstWrite_def go_simps case_sum_eq split: if_splits)
  then obtain data where d: "ce_marshal X rules = Inr data"
      "st' = st1\<lparr>cs_files := (cs_files st1)(nf_file ns \<mapsto> data),
         cs_calls := cs_calls st1 @ [StartNfAgentProcessing ''ADDED'' (nf_file ns)]\<rparr>"
    by (auto simp: ApplyPatch_def case_sum_eq split: if_splits)
  have f: "file_rules (first_rules X ns zero_NFRules) = []" "ec_VNFName (nf_Event (first_rules X ns zero_NFRules)) = ns"
    by (simp_all add: first_rules_def zero_NFRules_def Let_def)
  from first_write_all [OF 1] f d yaml [OF d(1)] show ?thesis by simp
qed

text \<open>The first file of a namespace. When the namespace has no rule file yet and the update succeeds, the
  file is there and, decoded, holds one set of rules for every microservice with object definitions, in
  order, each under the name of its microservice, with the identifier of namespace and microservice as default,
  every rule targeting the additional objects; the agent for it is started.\<close>

theorem first_file_written:
  assumes yaml: "\<And>rules data. ce_marshal X rules = Inr data \<Longrightarrow> ce_unmarshal X data zero_NFRules = (rules, True)"
    and none: "cs_files st (nf_file ns) = None" and rd: "\<not> ce_unreadable X (nf_file ns)"
    and upd: "nfFileFirstWrite X ns details zero_NFRules st = Ret (st', None)"
  shows "update_namespace X st (ns, details) = Ret st' \<and>
    (\<exists>rules. ReadNFMetricFile X st' ns zero_NFRules = (rules, None) \<and>
       file_rules rules = concat (map (written X st ns) details) \<and> ec_VNFName (nf_Event rules) = ns) \<and>
    cs_calls st' = cs_calls st @ [StartNfAgentProcessing ''ADDED'' (nf_file ns)]"
proof -
  from first_write_file [OF yaml upd] obtain rules data where
    f: "ce_unmarshal X data zero_NFRules = (rules, True)" "cs_files st' (nf_file ns) = Some data"
      "file_rules rules = concat (map (written X st ns) details)" "ec_VNFName (nf_Event rules) = ns"
      "cs_calls st' = cs_calls st @ [StartNfAgentProcessing ''ADDED'' (nf_file ns)]" by blast
  then have "ReadNFMetricFile X st' ns zero_NFRules = (rules, None)" using rd by (simp add: ReadNFMetricFile_def Let_def)
  moreover have "update_namespace X st (ns, details) = Ret st'"
    using none rd upd by (simp add: update_namespace_def ReadNFMetricFile_def Let_def)
  ultimately show ?thesis using f by blast
qed

text \<open>A namespace with one microservice, and a codec for the one file that comes out.\<close>

definition sample_objects :: "MetricRule list" where
  "sample_objects = [(default_rule [] [])\<lparr>mr_Expr := ''up'', mr_VMIDLabel := [], mr_ObjectName := ''o'', mr_ObjectInstance := ''i''\<rparr>]"

definition sample_tmaas :: TmaaSAnnotations where
  "sample_tmaas = \<lparr>tm_VendorID = ''v'', tm_XGVelaID = ''x'', tm_NfClass = [], tm_NfType = ''t'', tm_NfID = ''n'',
     tm_NfServiceID = [], tm_NfServiceType = ''s''\<rparr>"

definition sample_cm_ext :: "NFMetricConfigRulesWithoutNfc \<Rightarrow> cm_ext" where
  "sample_cm_ext R = \<lparr>ce_marshal = (\<lambda>r. if r = R then Inr ''doc'' else Inl ''error''), ce_unmarshal = (\<lambda>_ _. (R, True)),
     ce_metrics = (\<lambda>_. Inr (Some \<lparr>cm_AdditionalObjects = Some sample_objects, cm_AdditionalMeasurements = None\<rparr>)),
     ce_annotations = (\<lambda>_. Inr (Some sample_tmaas)), ce_io_fails = (\<lambda>_. False), ce_unreadable = (\<lambda>f. f = nf_file ''bad''),
     ce_mkdir_fails = False, ce_md5 = (\<lambda>_. replicate 16 0), ce_Measurement = nf_Measurement zero_NFRules,
     ce_Event = \<lparr>ec_VNFName = [], ec_ReportingEntityName = [], ec_ReportingEntityID = [], ec_MaxSize = 0, ec_NfNamingCode = [],
       ec_RetryInterval = 0, ec_MaxMissed = 3, ec_Tmaas = None, ec_DnPrefix = [], ec_SourceName = [], ec_NfcNamingCodes = []\<rparr>,
     ce_DnPrefix = ''dn'', ce_VesgwXGVelaId = ''x''\<rparr>"

definition sample_cm_state :: cm_state where
  "sample_cm_state = \<lparr>cs_msConfigmaps = [(''ns'', [(''ms'', ''d'')])], cs_msAnnotations = [(''ns'', [(''ms'', Some sample_tmaas)])],
     cs_metricNew = \<lparr>ms_MicroserviceName = [], ms_Defaults = None, ms_Metrics = [], ms_NfcNamingCodes = []\<rparr>,
     cs_files = Map.empty, cs_calls = []\<rparr>"

lemma sample_first_write:
  "\<exists>st1 R. go_foldl (first_write_entry (sample_cm_ext Q) ''ns'')
     (sample_cm_state, Inr (first_rules (sample_cm_ext Q) ''ns'' zero_NFRules)) [(''ms'', ''d'')] = Ret (st1, Inr R) \<and>
     (\<forall>Q'. go_foldl (first_write_entry (sample_cm_ext Q') ''ns'')
       (sample_cm_state, Inr (first_rules (sample_cm_ext Q') ''ns'' zero_NFRules)) [(''ms'', ''d'')] = Ret (st1, Inr R))"
  by (simp add: first_write_entry_def sample_cm_ext_def sample_cm_state_def set_identity_def first_rules_def Let_def)

lemma sample_first_file:
  "\<exists>R st'. (\<forall>rules data. ce_marshal (sample_cm_ext R) rules = Inr data \<longrightarrow> ce_unmarshal (sample_cm_ext R) data zero_NFRules = (rules, True)) \<and>
     nfFileFirstWrite (sample_cm_ext R) ''ns'' [(''ms'', ''d'')] zero_NFRules sample_cm_state = Ret (st', None)"
proof -
  from sample_first_write obtain st1 R where
    R: "go_foldl (first_write_entry (sample_cm_ext R) ''ns'')
       (sample_cm_state, Inr (first_rules (sample_cm_ext R) ''ns'' zero_NFRules)) [(''ms'', ''d'')] = Ret (st1, Inr R)"
    by metis
  have "ce_marshal (sample_cm_ext R) rules = Inr data \<Longrightarrow> ce_unmarshal (sample_cm_ext R) data zero_NFRules = (rules, True)"
    for rules data by (simp add: sample_cm_ext_def split: if_splits)
  moreover have "\<not> ce_mkdir_fails (sample_cm_ext R)" "ce_marshal (sample_cm_ext R) R = Inr ''doc''"
    "\<not> ce_io_fails (sample_cm_ext R) (nf_file ''ns'')"
    by (simp_all add: sample_cm_ext_def)
  then have "\<exists>st'. nfFileFirstWrite (sample_cm_ext R) ''ns'' [(''ms'', ''d'')] zero_NFRules sample_cm_state = Ret (st', None)"
    unfolding nfFileFirstWrite_def R by (simp add: ApplyPatch_def)
  ultimately show ?thesis by blast
qed

theorem first_file_written_witness:
  "\<exists>R st'. update_namespace (sample_cm_ext R) sample_cm_state (''ns'', [(''ms'', ''d'')]) = Ret st' \<and>
     (\<exists>rules. ReadNFMetricFile (sample_cm_ext R) st' ''ns'' zero_NFRules = (rules, None) \<and> length (file_rules rules) = 1)"
proof -
  from sample_first_file obtain R st' where
    ext: "\<And>rules data. ce_marshal (sample_cm_ext R) rules = Inr data \<Longrightarrow> ce_unmarshal (sample_cm_ext R) data zero_NFRules = (rules, True)"
    and st': "nfFileFirstWrite (sample_cm_ext R) ''ns'' [(''ms'', ''d'')] zero_NFRules sample_cm_state = Ret (st', None)" by blast
  have f: "cs_files sample_cm_state (nf_file ''ns'') = None" "\<not> ce_unreadable (sample_cm_ext R) (nf_file ''ns'')"
    by (simp_all add: sample_cm_state_def sample_cm_ext_def nf_file_def)
  have "length (concat (map (written (sample_cm_ext R) sample_cm_state ''ns'') [(''ms'', ''d'')])) = 1"
    by (simp add: written_def sample_cm_ext_def)
  with first_file_written [OF ext f st'] show ?thesis by metis
qed

section \<open>What an update changes\<close>

text \<open>The rules of a microservice after an update with its definitions.\<close>

definition redefined :: "cm_ext \<Rightarrow> string \<Rightarrow> string \<times> string \<Rightarrow> MetricRules \<Rightarrow> MetricRules" where
  "redefined X namespace e m =
     (if fst e \<noteq> ms_MicroserviceName m \<or> snd e = [] then m
      else case ce_metrics X (snd e) of
          Inr (Some d) \<Rightarrow>
            (case cm_AdditionalObjects d of
               None \<Rightarrow> m
             | Some objs \<Rightarrow> m\<lparr>ms_Defaults := Some (default_rule namespace (fst e)), ms_Metrics := mark_objects objs\<rparr>)
        | _ \<Rightarrow> m)"

lemma go_mapM_Ret: "go_mapM f xs = Ret ys \<longleftrightarrow> list_all2 (\<lambda>x y. f x = Ret y) xs ys"
  by (induction xs arbitrary: ys) (auto simp: go_simps list_all2_Cons1)

lemma redefined_name [simp]: "ms_MicroserviceName (redefined X ns e m) = ms_MicroserviceName m"
  by (simp add: redefined_def split: sum.split option.split)

lemma update_rule_Ret: "snd e \<noteq> [] \<Longrightarrow> update_rule X ns (fst e) (snd e) m = Ret m' \<Longrightarrow> m' = redefined X ns e m"
  by (auto simp: update_rule_def redefined_def split: if_splits sum.split_asm option.split_asm)

lemma update_entry_Ret: "update_entry X ns ms e = Ret ms' \<Longrightarrow> ms' = map (redefined X ns e) ms"
proof (cases "snd e = []")
  case True
  then have "redefined X ns e = (\<lambda>m. m)" by (intro ext) (simp add: redefined_def)
  then show "update_entry X ns ms e = Ret ms' \<Longrightarrow> ?thesis" using True by (simp add: update_entry_def)
next
  case False
  then show "update_entry X ns ms e = Ret ms' \<Longrightarrow> ?thesis"
    using update_rule_Ret [OF False]
    by (auto simp: update_entry_def go_mapM_Ret list_all2_conv_all_nth intro!: nth_equalityI)
qed

lemma update_all_Ret:
  "go_foldl (update_entry X ns) ms es = Ret ms' \<Longrightarrow> ms' = foldl (\<lambda>ms e. map (redefined X ns e) ms) ms es"
  by (induction es arbitrary: ms) (auto simp: go_simps dest: update_entry_Ret)

text \<open>A Go map has one entry per name, so the entries do not interfere.\<close>

lemma redefined_all:
  "distinct (map fst es) \<Longrightarrow> foldl (\<lambda>ms e. map (redefined X ns e) ms) ms es =
     map (\<lambda>m. case map_of es (ms_MicroserviceName m) of
        None \<Rightarrow> m | Some d \<Rightarrow> redefined X ns (ms_MicroserviceName m, d) m) ms"
proof (induction es arbitrary: ms)
  case (Cons e es)
  obtain n d where e: "e = (n, d)" by (cases e)
  have own: "map_of es n = None" using Cons.prems e by (simp add: map_of_eq_None_iff)
  have step: "(case map_of es (ms_MicroserviceName m) of
        None \<Rightarrow> redefined X ns e m | Some d \<Rightarrow> redefined X ns (ms_MicroserviceName m, d) (redefined X ns e m)) =
      (case map_of (e # es) (ms_MicroserviceName m) of
        None \<Rightarrow> m | Some d \<Rightarrow> redefined X ns (ms_MicroserviceName m, d) m)" for m
  proof (cases "n = ms_MicroserviceName m")
    case True
    then show ?thesis using own e by simp
  next
    case False
    then have "redefined X ns e m = m" by (simp add: redefined_def e)
    with False e show ?thesis by (simp split: option.split)
  qed
  have "distinct (map fst es)" using Cons.prems by simp
  from Cons.IH [OF this, of "map (redefined X ns e) ms"] show ?case
    by (simp only: foldl.simps map_map o_def redefined_name step)
qed simp

text \<open>C21: An update of a namespace that has a rule file rewrites the file: afterwards it decodes to the same
  sets of rules in the same order under the same names, the rules of a microservice with new object definitions are
  those definitions, and all others are unchanged. A microservice without rules in the file is therefore
  not added by an update.\<close>

theorem update_in_place:
  assumes yaml: "\<And>rules data. ce_marshal X rules = Inr data \<Longrightarrow> ce_unmarshal X data zero_NFRules = (rules, True)"
    and rd: "ReadNFMetricFile X st ns zero_NFRules = (rules, None)" and names: "distinct (map fst details)"
    and upd: "update_namespace X st (ns, details) = Ret st'"
  shows "\<exists>rules'. ReadNFMetricFile X st' ns zero_NFRules = (rules', None) \<and>
      file_rules rules' = map (\<lambda>m. case map_of details (ms_MicroserviceName m) of
        None \<Rightarrow> m | Some d \<Rightarrow> redefined X ns (ms_MicroserviceName m, d) m) (file_rules rules) \<and>
      map ms_MicroserviceName (file_rules rules') = map ms_MicroserviceName (file_rules rules) \<and>
      nf_Event rules' = nf_Event rules"
proof -
  from upd rd obtain ms where ms: "go_foldl (update_entry X ns) (file_rules rules) details = Ret ms"
    by (auto simp: update_namespace_def go_simps)
  let ?m = "nf_Measurement rules"
  let ?r = "rules\<lparr>nf_Measurement := ?m\<lparr>mc_Prometheus := (mc_Prometheus ?m)\<lparr>pc_Rules := ms\<rparr>\<rparr>\<rparr>"
  from upd rd ms obtain data where d: "ce_marshal X ?r = Inr data" "cs_files st' (nf_file ns) = Some data"
    by (auto simp: update_namespace_def ApplyPatch_def go_simps case_sum_eq Let_def split: if_splits)
  have "\<not> ce_unreadable X (nf_file ns)" using rd by (auto simp: ReadNFMetricFile_def)
  then have "ReadNFMetricFile X st' ns zero_NFRules = (?r, None)"
    using d yaml [OF d(1)] by (simp add: ReadNFMetricFile_def Let_def)
  moreover have "ms = map (\<lambda>m. case map_of details (ms_MicroserviceName m) of
        None \<Rightarrow> m | Some d \<Rightarrow> redefined X ns (ms_MicroserviceName m, d) m) (file_rules rules)"
    using update_all_Ret [OF ms] redefined_all [OF names] by simp
  ultimately show ?thesis by (intro exI [of _ ?r]) (auto simp: o_def split: option.splits)
qed

theorem update_in_place_witness:
  "\<exists>R st'. update_namespace (sample_cm_ext R) (sample_cm_state\<lparr>cs_files := [nf_file ''ns'' \<mapsto> ''doc'']\<rparr>) (''ns'', [(''ms'', [])]) = Ret st' \<and>
     (\<exists>rules'. ReadNFMetricFile (sample_cm_ext R) st' ''ns'' zero_NFRules = (rules', None) \<and> file_rules rules' = file_rules R)"
proof -
  let ?X = "sample_cm_ext zero_NFRules" and ?st = "sample_cm_state\<lparr>cs_files := [nf_file ''ns'' \<mapsto> ''doc'']\<rparr>"
  have ext: "ce_marshal ?X rules = Inr data \<Longrightarrow> ce_unmarshal ?X data zero_NFRules = (rules, True)"
    for rules data by (simp add: sample_cm_ext_def split: if_splits)
  have rd: "ReadNFMetricFile ?X ?st ''ns'' zero_NFRules = (zero_NFRules, None)"
    by (simp add: ReadNFMetricFile_def sample_cm_ext_def nf_file_def)
  have "\<exists>st'. update_namespace ?X ?st (''ns'', [(''ms'', [])]) = Ret st'"
    using rd by (simp add: update_namespace_def update_entry_def ApplyPatch_def sample_cm_ext_def zero_NFRules_def)
  then obtain st' where u: "update_namespace ?X ?st (''ns'', [(''ms'', [])]) = Ret st'" by blast
  have "distinct (map fst [(''ms'', [] :: string)])" by simp
  moreover have "file_rules zero_NFRules = []" by (simp add: zero_NFRules_def)
  ultimately show ?thesis using update_in_place [OF ext rd _ u] u by fastforce
qed

text \<open>A rule file that cannot be read for another reason than being absent is overwritten by the next update
  of its namespace with a file without rules, and the agent for it is restarted on that.\<close>

theorem unreadable_file_overwritten:
  assumes "ce_unreadable X (nf_file ns)" and "ce_marshal X zero_NFRules = Inr data" and "\<not> ce_io_fails X (nf_file ns)"
  shows "update_namespace X st (ns, details) = Ret (st\<lparr>cs_files := (cs_files st)(nf_file ns \<mapsto> data),
    cs_calls := cs_calls st @ [StartNfAgentProcessing ''MODIFIED'' (nf_file ns)]\<rparr>)"
proof -
  have "update_entry X ns [] e = Ret []" for e by (simp add: update_entry_def)
  then have "go_foldl (update_entry X ns) [] details = Ret []" by (induction details) simp_all
  moreover have "ce_marshal X (zero_NFRules\<lparr>nf_Measurement := (nf_Measurement zero_NFRules)\<lparr>mc_Prometheus :=
      (mc_Prometheus (nf_Measurement zero_NFRules))\<lparr>pc_Rules := []\<rparr>\<rparr>\<rparr>) = Inr data"
    using assms(2) by (simp add: zero_NFRules_def)
  moreover have "file_rules zero_NFRules = []" by (simp add: zero_NFRules_def)
  ultimately show ?thesis
    using assms(1,3) by (simp add: update_namespace_def ReadNFMetricFile_def ApplyPatch_def Let_def)
qed

theorem unreadable_file_overwritten_witness:
  "\<exists>st'. update_namespace (sample_cm_ext zero_NFRules) sample_cm_state (''bad'', [(''ms'', ''d'')]) = Ret st' \<and>
     cs_files st' (nf_file ''bad'') = Some ''doc''"
  using unreadable_file_overwritten [of "sample_cm_ext zero_NFRules" "''bad''" "''doc''" sample_cm_state "[(''ms'', ''d'')]"]
  by (simp add: sample_cm_ext_def)

end
