(* ===== verification/Nf_Agent.thy ===== *)
theory Nf_Agent
  imports Agent Metrics_Collector Config_Map
begin

text \<open>
  The heartbeat monitor (VESPA/ves-agent/heartbeat/monitor.go) and the agent of one network function
  (VESPA/ves-agent/agent/nf_agent.go, with the set-up and the triggers of its schedulers in agent.go): it takes the
  measurements and sends the heartbeats of the network function. The loop of the agent is a step relation over the selects
  it waits in; a goroutine per collector would run this loop on the same agent, here there is one. Its schedulers,
  its collector and its monitor work on the one replicated state of the process (theory \<open>Ha\<close>).
\<close>

section \<open>The heartbeat monitor\<close>

text \<open>The numbering state that the monitor has of its own, \<open>inMemState\<close>.\<close>

definition mem_NextHeartbeatIndex :: "int \<Rightarrow> (int \<times> ('e + int)) go" where
  "mem_NextHeartbeatIndex i = Ret (wrap64 (i + 1), Inr i)"

record 's Monitor =
  mon_state :: 's
  mon_eventCfg :: EventConfigurationWithoutNfc

definition NewMonitorWithState :: "EventConfigurationWithoutNfc \<Rightarrow> 's \<Rightarrow> 's Monitor" where
  "NewMonitorWithState conf state = \<lparr>mon_state = state, mon_eventCfg = conf\<rparr>"

definition NewMonitor :: "EventConfigurationWithoutNfc \<Rightarrow> int Monitor" where
  "NewMonitor conf = NewMonitorWithState conf 0"

text \<open>What the kubernetes library answers when the nodes of the cluster are listed; a node is the list of its addresses.\<close>

datatype node_lookup = NoConfig | NoClient | ListFailed | Nodes "string list list"

text \<open>\<open>hx_Seconds\<close> is a duration in seconds as a floating-point number, cut to an integer.\<close>

record ('s, 'e) hb_ext =
  hx_next :: "'s \<Rightarrow> ('s \<times> ('e + int)) go"
  hx_Seconds :: "duration \<Rightarrow> int"
  hx_md5 :: "byte8 list \<Rightarrow> byte8 list"
  hx_DnPrefix :: string
  hx_XGVelaID :: string
  hx_MgmtIp :: string
  hx_nodes :: node_lookup

definition mgmt_ip :: "('s, 'e) hb_ext \<Rightarrow> string go" where
  "mgmt_ip X =
     (if hx_MgmtIp X \<noteq> ''0.0.0.0'' then Ret (hx_MgmtIp X)
      else case hx_nodes X of
          NoConfig \<Rightarrow> Crash ProcessExit
        | NoClient \<Rightarrow> Crash ProcessExit
        | ListFailed \<Rightarrow> Crash ExplicitPanic
        | Nodes ns \<Rightarrow> (case ns of (a # as) # rest \<Rightarrow> Ret a | _ \<Rightarrow> Crash OutOfRange))"

text \<open>\<open>now\<close> is the reading of \<open>time.Now\<close>.\<close>

definition Monitor_Run :: "('s, 'e) hb_ext \<Rightarrow> time \<Rightarrow> 's Monitor \<Rightarrow> time \<Rightarrow> time \<Rightarrow> duration \<Rightarrow>
    ('s Monitor \<times> ('e + HeartbeatEvent)) go" where
  "Monitor_Run X now mon from to interval =
     go_bind (hx_next X (mon_state mon)) (\<lambda>(s1, r).
       let mon1 = mon\<lparr>mon_state := s1\<rparr>; cfg = mon_eventCfg mon
       in case r of
            Inl err \<Rightarrow> Ret (mon1, Inl err)
          | Inr idx \<Rightarrow>
              (case ec_Tmaas cfg of
                 None \<Rightarrow> Crash NilDeref
               | Some tmaas \<Rightarrow>
                   (let hb = NewHeartbeat now (''heartbeat'' @ fmt_prec10d idx)
                          (''heartbeat_'' @ ec_NfNamingCode cfg @ ''-'' @ tm_VendorID tmaas) ''HEARTBEAT'' (ec_VNFName cfg)
                          (hx_Seconds X interval) ''HEARTBEAT'';
                        source = hx_DnPrefix X @ ec_SourceName cfg;
                        me = generateUUID (hx_md5 X) (hx_DnPrefix X @ '',ManagedElement=me-'' @ hx_XGVelaID X)
                    in go_bind (mgmt_ip X) (\<lambda>ip. Ret (mon1, Inr
                         (hb\<lparr>hb_hdr := (hb_hdr hb)\<lparr>h_NfNamingCode := ec_NfNamingCode cfg, h_NfcNamingCode := ec_NfNamingCode cfg,
                               h_ReportingEntityName := hx_DnPrefix X @ ec_ReportingEntityName cfg,
                               h_ReportingEntityID := ec_ReportingEntityID cfg, h_SourceName := source,
                               h_SourceID := generateUUID (hx_md5 X) source, h_NfVendorName := tm_VendorID tmaas\<rparr>,
                             hb_AdditionalFields := (hb_AdditionalFields hb)\<lparr>af_ME_ID := me, af_MGMT_IP := ip\<rparr>\<rparr>))))))"

section \<open>The agent of a network function\<close>

text \<open>The two schedulers have the same names for every network function and work on the one state of the process.\<close>

definition initMeasScheduler :: "(string + 'a) \<Rightarrow> NFMetricConfigRulesWithoutNfc \<Rightarrow> 's \<Rightarrow>
    (Scheduler \<times> ('s, 'm, 'a) MetricCollector) go" where
  "initMeasScheduler client conf state =
     (case NewCollectorWithState client (nf_Measurement conf) (nf_Event conf) state of
        Inl err \<Rightarrow> Crash ProcessExit
      | Inr prom \<Rightarrow> Ret (NewSchedulerWithState ''measurements'' (mc_DefaultInterval (nf_Measurement conf)), prom))"

definition initHbScheduler :: "EventConfigurationWithoutNfc \<Rightarrow> duration \<Rightarrow> 's \<Rightarrow> Scheduler \<times> 's Monitor" where
  "initHbScheduler conf defaultInterval state =
     (NewSchedulerWithState ''heartbeats'' defaultInterval, NewMonitorWithState conf state)"

text \<open>\<open>None\<close> for nil: a scheduler that is not needed, interval channels that nothing makes. A timer that is
  not set yet is \<open>Off\<close>.\<close>

record ('s, 'm, 'a) NfAgent =
  na_measSched :: "(Scheduler \<times> ('s, 'm, 'a) MetricCollector) option"
  na_hbSched :: "Scheduler \<times> 's Monitor"
  na_measTimer :: timer
  na_hbTimer :: timer
  na_measIntervalCh :: "duration list option"
  na_hbIntervalCh :: "duration list option"
  na_namingCodes :: string

definition newNfAgent :: "(string + 'a) \<Rightarrow> duration \<Rightarrow> NFMetricConfigRulesWithoutNfc option \<Rightarrow> 's \<Rightarrow>
    (('s, 'm, 'a) NfAgent \<times> bool) go" where
  "newNfAgent client hbInterval confp state =
     (case confp of
        None \<Rightarrow> Crash NilDeref
      | Some conf \<Rightarrow>
          (let agent = \<lparr>na_measSched = None, na_hbSched = initHbScheduler (nf_Event conf) hbInterval state, na_measTimer = Off,
                 na_hbTimer = Off, na_measIntervalCh = None, na_hbIntervalCh = None, na_namingCodes = ec_NfNamingCode (nf_Event conf)\<rparr>
           in if pc_Rules (mc_Prometheus (nf_Measurement conf)) \<noteq> []
              then go_bind (initMeasScheduler client conf state) (\<lambda>meas. Ret (agent\<lparr>na_measSched := Some meas\<rparr>, True))
              else Ret (agent, False)))"

text \<open>The goroutines that \<open>startSreaming\<close> starts on the agent, each with the identifier of the collector it serves;
  without measurements it is the collector that an earlier call left in the variable \<open>ves\<close>. The second result is that
  variable afterwards.\<close>

definition startSreaming :: "int list \<Rightarrow> int option \<Rightarrow> bool \<Rightarrow> int option list \<times> int option" where
  "startSreaming collectors ves measurementRequired =
     (if measurementRequired then (map Some collectors, if collectors = [] then ves else Some (last collectors))
      else ([ves], ves))"

text \<open>What \<open>StartNfAgentProcessing\<close> does per file. \<open>read\<close> reads and decodes a file: \<open>None\<close> if it cannot be
  read, otherwise what the decoder left in the configuration pointer, also after an error.\<close>

datatype nf_command = NfStop string | NfStart string "NFMetricConfigRulesWithoutNfc option"

fun process_nf_files :: "(string \<Rightarrow> NFMetricConfigRulesWithoutNfc option option) \<Rightarrow> string \<Rightarrow> string \<Rightarrow> string list \<Rightarrow> nf_command list" where
  "process_nf_files read action nfFileName [] = []"
| "process_nf_files read action nfFileName (file # files) =
     (let fileName = ''./nfs/'' @ file
      in if action \<noteq> ''INITIAL'' \<and> fileName \<noteq> nfFileName then process_nf_files read action nfFileName files
         else case read fileName of
             None \<Rightarrow> []
           | Some conf \<Rightarrow>
               if action = ''MODIFIED'' \<and> fileName = nfFileName then [NfStop fileName, NfStart fileName conf]
               else if action = ''ADDED'' \<and> fileName = nfFileName then [NfStart fileName conf]
               else NfStart fileName conf # process_nf_files read action nfFileName files)"

definition StartNfAgentProcessing_nf :: "string list option \<Rightarrow> (string \<Rightarrow> NFMetricConfigRulesWithoutNfc option option) \<Rightarrow>
    string \<Rightarrow> string \<Rightarrow> nf_command list go" where
  "StartNfAgentProcessing_nf dir read action nfFileName =
     (case dir of None \<Rightarrow> Crash ProcessExit | Some files \<Rightarrow> Ret (process_nf_files read action nfFileName files))"

text \<open>\<open>StopScheduler\<close> of this package: the agent that it sends the stop to, if one was scheduled for the file.\<close>

definition StopScheduler_nf :: "(string \<rightharpoonup> 'g) \<Rightarrow> string \<Rightarrow> 'g option" where
  "StopScheduler_nf scheduledFiles filename = scheduledFiles filename"

section \<open>Triggers\<close>

text \<open>
  A job has data of its own beside the state that it shares with the schedulers: the collector or
  the monitor, and whether the process died while it ran. \<open>with_job\<close> is the \<open>State\<close> interface on the pair.
\<close>

definition with_job :: "('s, 'e) State \<Rightarrow> ('s \<times> 'c, 'e) State" where
  "with_job I = \<lparr>st_NextRun = (\<lambda>s. st_NextRun I (fst s)),
     st_UpdateNextRun = (\<lambda>s n t. map_prod (\<lambda>s1. (s1, snd s)) (\<lambda>e. e) (st_UpdateNextRun I (fst s) n t)),
     st_Interval = (\<lambda>s. st_Interval I (fst s)),
     st_UpdateInterval = (\<lambda>s n d. map_prod (\<lambda>s1. (s1, snd s)) (\<lambda>e. e) (st_UpdateInterval I (fst s) n d)),
     st_UpdateScheduler = (\<lambda>s n d t. map_prod (\<lambda>s1. (s1, snd s)) (\<lambda>e. e) (st_UpdateScheduler I (fst s) n d t))\<rparr>"

definition add_job :: "'c \<Rightarrow> 's world \<Rightarrow> ('s \<times> 'c) world" where
  "add_job c w = \<lparr>w_st = (w_st w, c), w_clk = w_clk w, w_tick = w_tick w\<rparr>"

definition drop_job :: "('s \<times> 'c) world \<Rightarrow> 's world" where
  "drop_job w = \<lparr>w_st = fst (w_st w), w_clk = w_clk w, w_tick = w_tick w\<rparr>"

definition run_trigger :: "('s, 'e) State \<Rightarrow> ('s \<times> 'c \<times> crash option, 'e, 'r) Job \<Rightarrow> ('r \<Rightarrow> 'x \<Rightarrow> 'x \<times> bool) \<Rightarrow>
    Scheduler \<times> 'c \<Rightarrow> 's world \<Rightarrow> 'x \<Rightarrow> timer \<Rightarrow> ((Scheduler \<times> 'c) \<times> 's world \<times> 'x \<times> timer) go" where
  "run_trigger I job f sc w x tm =
     (case triggerScheduler (with_job I) job f (fst sc) (add_job (snd sc, None) w) x tm of
        (sched1, w1, x1, tm1) \<Rightarrow>
          (case snd (snd (w_st w1)) of
             Some c \<Rightarrow> Crash c
           | None \<Rightarrow> Ret ((sched1, fst (snd (w_st w1))), drop_job w1, x1, tm1)))"

text \<open>Parameters: the Raft library, the outside of the collector and of the monitor, its errors as errors of the cluster,
  whether a set of measurements has a JSON text, and the Kafka writer.\<close>

record ('r, 'm, 'a, 'k) nf_ext =
  nx_raft :: "'r raft"
  nx_metrics :: "('r Cluster, 'm, 'a) metric_ext"
  nx_hb :: "('r Cluster, ha_error) hb_ext"
  nx_error :: "string \<Rightarrow> ha_error"
  nx_encodes :: "EventMeasurementSet \<Rightarrow> bool"
  nx_publish :: "EventMeasurementSet \<Rightarrow> 'k \<Rightarrow> 'k \<times> bool"

definition meas_job :: "('r, 'm, 'a, 'k) nf_ext \<Rightarrow>
    ('r Cluster \<times> ('r Cluster, 'm, 'a) MetricCollector \<times> crash option, ha_error, EventMeasurementSet) Job" where
  "meas_job X s from to interval =
     (case s of (cl, col, bad) \<Rightarrow>
        (case CollectMetrics (nx_metrics X) (col\<lparr>mco_state := cl\<rparr>) from to interval of
           Crash c \<Rightarrow> ((cl, col, Some c), Inl (Crashed c))
         | Ret (col1, r) \<Rightarrow> ((mco_state col1, col1, bad), case r of Inl e \<Rightarrow> Inl (nx_error X e) | Inr m \<Rightarrow> Inr m)))"

definition hb_job :: "('r, 'm, 'a, 'k) nf_ext \<Rightarrow> time \<Rightarrow>
    ('r Cluster \<times> 'r Cluster Monitor \<times> crash option, ha_error, HeartbeatEvent) Job" where
  "hb_job X now s from to interval =
     (case s of (cl, mon, bad) \<Rightarrow>
        (case Monitor_Run (nx_hb X) now (mon\<lparr>mon_state := cl\<rparr>) from to interval of
           Crash c \<Rightarrow> ((cl, mon, Some c), Inl (Crashed c))
         | Ret (mon1, r) \<Rightarrow> ((mon_state mon1, mon1, bad), r)))"

datatype nf_phase = AwaitMeas | AwaitAny

text \<open>The loop of an agent: where it waits, the state it shares with the other agents, the Kafka topic and
  the heartbeats it handed to \<open>postHeartbeat\<close>.\<close>

record ('r, 'm, 'a, 'k) nf_state =
  ns_agent :: "('r Cluster, 'm, 'a) NfAgent"
  ns_measurementReq :: bool
  ns_phase :: nf_phase
  ns_world :: "'r Cluster world"
  ns_kafka :: 'k
  ns_heartbeats :: "HeartbeatEvent list"

text \<open>\<open>publishToKafka\<close> on the encoded set; a set that cannot be encoded ends the process.\<close>

definition send_measurements :: "('r, 'm, 'a, 'k) nf_ext \<Rightarrow> EventMeasurementSet \<Rightarrow> 'k go \<Rightarrow> 'k go \<times> bool" where
  "send_measurements X m kg =
     (case kg of
        Crash c \<Rightarrow> (Crash c, False)
      | Ret k \<Rightarrow> if nx_encodes X m then (Ret (fst (nx_publish X m k)), snd (nx_publish X m k)) else (Crash ProcessExit, False))"

definition triggerMeasurementEvent :: "('r, 'm, 'a, 'k) nf_ext \<Rightarrow> ('r, 'm, 'a, 'k) nf_state \<Rightarrow> ('r, 'm, 'a, 'k) nf_state go" where
  "triggerMeasurementEvent X s =
     (let agent = ns_agent s
      in case na_measSched agent of
           None \<Rightarrow> Crash NilDeref
         | Some meas \<Rightarrow>
             go_bind (run_trigger (cl_sched_ops (nx_raft X)) (meas_job X) (send_measurements X) meas (ns_world s) (Ret (ns_kafka s))
                 (na_measTimer agent)) (\<lambda>(meas1, w1, kg, tm).
               go_bind kg (\<lambda>k. Ret (s\<lparr>ns_agent := agent\<lparr>na_measSched := Some meas1, na_measTimer := tm\<rparr>, ns_world := w1, ns_kafka := k\<rparr>))))"

text \<open>\<open>postHeartbeat\<close> reports no error for a heartbeat that it can decode; the deliveries are goroutines of their own.\<close>

definition triggerHeatbeatEvent :: "('r, 'm, 'a, 'k) nf_ext \<Rightarrow> time \<Rightarrow> ('r, 'm, 'a, 'k) nf_state \<Rightarrow> ('r, 'm, 'a, 'k) nf_state go" where
  "triggerHeatbeatEvent X now s =
     (let agent = ns_agent s
      in go_bind (run_trigger (cl_sched_ops (nx_raft X)) (hb_job X now) (\<lambda>hb hbs. (hbs @ [hb], True)) (na_hbSched agent) (ns_world s)
             (ns_heartbeats s) (na_hbTimer agent)) (\<lambda>(hb1, w1, hbs, tm).
           Ret (s\<lparr>ns_agent := agent\<lparr>na_hbSched := hb1, na_hbTimer := tm\<rparr>, ns_world := w1, ns_heartbeats := hbs\<rparr>)))"

section \<open>The loop\<close>

definition loop_start :: "bool \<Rightarrow> nf_phase" where
  "loop_start measurementReq = (if measurementReq then AwaitMeas else AwaitAny)"

text \<open>\<open>serveNF\<close> up to its first step.\<close>

definition serveNF :: "('r, 'm, 'a, 'k) nf_ext \<Rightarrow> ('r Cluster, 'm, 'a) NfAgent \<Rightarrow> bool \<Rightarrow> 'r Cluster world \<Rightarrow> 'k \<Rightarrow>
    ('r, 'm, 'a, 'k) nf_state go" where
  "serveNF X agent measurementReq w k =
     (let I = cl_sched_ops (nx_raft X)
      in case (measurementReq, na_measSched agent) of
           (True, None) \<Rightarrow> Crash NilDeref
         | (req, meas) \<Rightarrow>
             (let (tm, w1) = (if req then (case WaitChan I (fst (the meas)) w of (d, w1) \<Rightarrow> (Running d, w1)) else (na_measTimer agent, w));
                  (d2, w2) = WaitChan I (fst (na_hbSched agent)) w1
              in Ret \<lparr>ns_agent = agent\<lparr>na_measTimer := tm, na_hbTimer := Running d2\<rparr>, ns_measurementReq = req,
                   ns_phase = loop_start req, ns_world = w2, ns_kafka = k, ns_heartbeats = []\<rparr>))"

text \<open>
  \<open>leaderNfStep\<close> as a step relation: it waits in one select for the measurement timer, then in another for the rest. A
  timer that runs may fire at any time, and the state that the agents share may change at any time (\<open>Other\<close>).
\<close>

datatype nf_event = MeasFires | HbFires | Measurement | Heartbeat | MeasInterval | HbInterval | Stop | Other

inductive nf_step :: "('r, 'm, 'a, 'k) nf_ext \<Rightarrow> ('r, 'm, 'a, 'k) nf_state \<Rightarrow> nf_event \<Rightarrow> ('r, 'm, 'a, 'k) nf_state \<Rightarrow> bool" for X where
  meas_fires: "na_measTimer (ns_agent s) = Running d \<Longrightarrow>
     nf_step X s MeasFires (s\<lparr>ns_agent := (ns_agent s)\<lparr>na_measTimer := Fired\<rparr>\<rparr>)"
| hb_fires: "na_hbTimer (ns_agent s) = Running d \<Longrightarrow>
     nf_step X s HbFires (s\<lparr>ns_agent := (ns_agent s)\<lparr>na_hbTimer := Fired\<rparr>\<rparr>)"
| measurement: "ns_phase s = AwaitMeas \<Longrightarrow> na_measTimer (ns_agent s) = Fired \<Longrightarrow>
     triggerMeasurementEvent X (s\<lparr>ns_agent := (ns_agent s)\<lparr>na_measTimer := Off\<rparr>\<rparr>) = Ret s' \<Longrightarrow>
     nf_step X s Measurement (s'\<lparr>ns_phase := AwaitAny\<rparr>)"
| heartbeat: "ns_phase s = AwaitAny \<Longrightarrow> na_hbTimer (ns_agent s) = Fired \<Longrightarrow>
     triggerHeatbeatEvent X now (s\<lparr>ns_agent := (ns_agent s)\<lparr>na_hbTimer := Off\<rparr>\<rparr>) = Ret s' \<Longrightarrow>
     nf_step X s Heartbeat (s'\<lparr>ns_phase := loop_start (ns_measurementReq s)\<rparr>)"
| meas_interval: "ns_phase s = AwaitAny \<Longrightarrow> na_measIntervalCh (ns_agent s) = Some (i # q) \<Longrightarrow>
     na_measSched (ns_agent s) = Some meas \<Longrightarrow>
     handleIntervalChanged (cl_sched_ops (nx_raft X)) (fst meas) (ns_world s) (na_measTimer (ns_agent s)) i = (w1, tm) \<Longrightarrow>
     nf_step X s MeasInterval (s\<lparr>ns_agent := (ns_agent s)\<lparr>na_measIntervalCh := Some q, na_measTimer := tm\<rparr>, ns_world := w1,
       ns_phase := loop_start (ns_measurementReq s)\<rparr>)"
| hb_interval: "ns_phase s = AwaitAny \<Longrightarrow> na_hbIntervalCh (ns_agent s) = Some (i # q) \<Longrightarrow>
     handleIntervalChanged (cl_sched_ops (nx_raft X)) (fst (na_hbSched (ns_agent s))) (ns_world s) (na_hbTimer (ns_agent s)) i =
       (w1, tm) \<Longrightarrow>
     nf_step X s HbInterval (s\<lparr>ns_agent := (ns_agent s)\<lparr>na_hbIntervalCh := Some q, na_hbTimer := tm\<rparr>, ns_world := w1,
       ns_phase := loop_start (ns_measurementReq s)\<rparr>)"
| stop: "ns_phase s = AwaitAny \<Longrightarrow>
     nf_step X s Stop (s\<lparr>ns_agent := (ns_agent s)\<lparr>
         na_measTimer := (if ns_measurementReq s then timer_Stop (na_measTimer (ns_agent s)) else na_measTimer (ns_agent s)),
         na_hbTimer := timer_Stop (na_hbTimer (ns_agent s))\<rparr>, ns_phase := loop_start (ns_measurementReq s)\<rparr>)"
| other: "nf_step X s Other (s\<lparr>ns_world := w1\<rparr>)"

inductive nf_run :: "('r, 'm, 'a, 'k) nf_ext \<Rightarrow> ('r, 'm, 'a, 'k) nf_state \<Rightarrow> nf_event list \<Rightarrow> ('r, 'm, 'a, 'k) nf_state \<Rightarrow> bool" for X where
  nf_run_Nil: "nf_run X s [] s"
| nf_run_snoc: "nf_run X s es s1 \<Longrightarrow> nf_step X s1 e s2 \<Longrightarrow> nf_run X s (es @ [e]) s2"

inductive_cases nf_stepE: "nf_step X s e s'"

section \<open>Triggers on the cluster\<close>

lemma with_job_update:
  "st_UpdateNextRun (with_job I) s n t = (s', e) \<longleftrightarrow> st_UpdateNextRun I (fst s) n t = (fst s', e) \<and> snd s' = snd s"
  "st_UpdateScheduler (with_job I) s n d t = (s', e) \<longleftrightarrow> st_UpdateScheduler I (fst s) n d t = (fst s', e) \<and> snd s' = snd s"
  by (cases "st_UpdateNextRun I (fst s) n t"; cases "st_UpdateScheduler I (fst s) n d t"; cases s'; auto simp: with_job_def)+

lemma with_job_sel [simp]:
  "st_NextRun (with_job I) s n = st_NextRun I (fst s) n" "st_Interval (with_job I) s n = st_Interval I (fst s) n"
  by (simp_all add: with_job_def)

lemma with_job_sched_state:
  assumes "sched_state I norm"
  shows "sched_state (with_job I) norm"
proof -
  note A = assms [THEN sched_state.next_update] assms [THEN sched_state.next_update_fail] assms [THEN sched_state.sched_update]
    assms [THEN sched_state.norm_le] assms [THEN sched_state.norm_gt] assms [THEN sched_state.norm_seconds]
  show ?thesis by (unfold_locales; (simp only: with_job_sel with_job_update)?) (use A in auto)
qed

interpretation csj: sched_state "with_job (cl_sched_ops ra)" "\<lambda>t. Truncate t second"
  by (rule with_job_sched_state) (rule cs.sched_state_axioms)

lemma add_job_sel [simp]:
  "w_st (add_job c w) = (w_st w, c)" "w_clk (add_job c w) = w_clk w" "w_tick (add_job c w) = w_tick w"
  by (simp_all add: add_job_def)

lemma GetInterval_with_job [simp]: "GetInterval (with_job I) sched (add_job c w) = GetInterval I sched w"
  by (simp add: GetInterval_def)

lemma drop_job_sel [simp]: "w_st (drop_job w) = fst (w_st w)" "w_clk (drop_job w) = w_clk w" "w_tick (drop_job w) = w_tick w"
  by (simp_all add: drop_job_def)

lemma drop_add_job [simp]:
  "drop_job (add_job c w) = w" "drop_job ((add_job c w)\<lparr>w_tick := k\<rparr>) = w\<lparr>w_tick := k\<rparr>"
  "drop_job ((add_job c w)\<lparr>w_tick := k, w_st := s\<rparr>) = w\<lparr>w_tick := k, w_st := fst s\<rparr>"
  by (simp_all add: drop_job_def add_job_def)

text \<open>A trigger before the planned run: nothing is run, the timer is set for a retry.\<close>

lemma run_trigger_not_ready:
  assumes "cl_NextRun (w_st w) (sch_name (fst sc)) \<noteq> 0"
    and "w_clk w (w_tick w) < cl_NextRun (w_st w) (sch_name (fst sc))"
  shows "run_trigger (cl_sched_ops ra) job f sc w x tm =
    Ret (((fst sc)\<lparr>sch_lastTime := None\<rparr>, snd sc), w\<lparr>w_tick := Suc (w_tick w)\<rparr>, x, Running (10 * second))"
proof -
  have N: "st_NextRun (cl_sched_ops ra) = cl_NextRun" by (simp add: cl_sched_ops_def)
  have "Step (with_job (cl_sched_ops ra)) job (fst sc) (add_job (snd sc, None) w) =
      ((fst sc)\<lparr>sch_lastTime := None\<rparr>, (add_job (snd sc, None) w)\<lparr>w_tick := Suc (w_tick w)\<rparr>, Inl ErrNotReady)"
    using csj.Step_not_ready [of ra "add_job (snd sc, None) w" "fst sc" job] assms by (simp add: N)
  then show ?thesis by (simp add: run_trigger_def triggerScheduler_def)
qed

text \<open>A trigger of a due job that succeeds and whose result is sent, on a cluster that commits.\<close>

lemma run_trigger_sent:
  assumes nz: "cl_NextRun (w_st w) (sch_name sched) \<noteq> 0"
    and due: "cl_NextRun (w_st w) (sch_name sched) \<le> w_clk w (w_tick w)"
    and now: "now = w_clk w (Suc (w_tick w))" "second \<le> now"
    and d: "d = GetInterval (cl_sched_ops ra) sched w" "second dvd d" "0 < sch_defaultInterval sched"
    and job: "job (w_st w, c, None) (cl_NextRun (w_st w) (sch_name sched)) now d = ((s', c', None), Inr r)"
    and fr: "cl_NextRun s' (sch_name sched) = cl_NextRun (w_st w) (sch_name sched)"
      "cl_Interval s' (sch_name sched) = cl_Interval (w_st w) (sch_name sched)"
    and upd: "st_UpdateNextRun (cl_sched_ops ra) s' (sch_name sched) (Truncate now d + d) = (s2, None)"
    and send: "f r x = (x', True)"
  shows "\<exists>w2 d2. run_trigger (cl_sched_ops ra) job f (sched, c) w x tm =
      Ret ((sched\<lparr>sch_lastTime := None\<rparr>, c'), w2, x', Running d2) \<and> w_st w2 = s2 \<and> w_clk w2 = w_clk w \<and> w_tick w2 > w_tick w"
    and "cl_NextRun s2 (sch_name sched) = Truncate now d + d" and "now < Truncate now d + d"
proof -
  let ?I = "cl_sched_ops ra" and ?w = "add_job (c, None :: crash option) w"
  have N: "st_NextRun ?I = cl_NextRun" "st_Interval ?I = cl_Interval" by (simp_all add: cl_sched_ops_def)
  have upd': "st_UpdateNextRun (with_job ?I) (s', c', None) (sch_name sched) (Truncate now d + d) = ((s2, c', None), None)"
    using upd by (simp add: with_job_def)
  note R = csj.Step_Ack_run [of ra ?w sched now d job "(s', c', None)" r "(s2, c', None)", unfolded with_job_sel add_job_sel fst_conv N,
      OF nz due now _ d(2,3) _ fr upd']
  have d': "d = GetInterval (with_job ?I) sched ?w" using d by simp
  show nr: "cl_NextRun s2 (sch_name sched) = Truncate now d + d" and gt: "now < Truncate now d + d"
    using R(3,4) d' job by simp_all
  let ?s2 = "sched\<lparr>sch_lastTime := None\<rparr>" and ?w2 = "?w\<lparr>w_tick := w_tick w + 2, w_st := (s2, c', None :: crash option)\<rparr>"
  have nz2: "st_NextRun (with_job ?I) (w_st ?w2) (sch_name ?s2) \<noteq> 0" using nr gt now by (simp add: N)
  obtain d2 n where W: "WaitChan (with_job ?I) ?s2 ?w2 = (d2, ?w2\<lparr>w_tick := n\<rparr>)" "w_tick w < n"
    by (cases "st_NextRun (with_job ?I) (w_st ?w2) (sch_name ?s2) \<le> w_clk ?w2 (w_tick ?w2)")
      (simp_all only: csj.WaitChan_set [OF nz2] if_True if_False, simp_all)
  have "triggerScheduler (with_job ?I) job f sched ?w x tm = (?s2, ?w2\<lparr>w_tick := n\<rparr>, x', Running d2)"
    using R(1,2) d' job send W by (simp add: triggerScheduler_def)
  then show "\<exists>w2 d2. run_trigger ?I job f (sched, c) w x tm = Ret ((?s2, c'), w2, x', Running d2) \<and> w_st w2 = s2 \<and>
      w_clk w2 = w_clk w \<and> w_tick w2 > w_tick w"
    using W(2) by (simp add: run_trigger_def)
qed

end
