(* ===== verification/Nf_Properties.thy ===== *)
theory Nf_Properties
  imports Nf_Agent Ha_Properties
begin

text \<open>
  Properties of the agents of network functions: the order of their loop, what a stop does to them, and
  heartbeats over the replicated state, whose schedule they share.
\<close>

section \<open>The order of the loop\<close>

text \<open>What a trigger leaves alone.\<close>

lemma triggerMeasurementEvent_frame:
  "triggerMeasurementEvent X s = Ret s' \<Longrightarrow>
   ns_phase s' = ns_phase s \<and> ns_measurementReq s' = ns_measurementReq s \<and>
   na_measIntervalCh (ns_agent s') = na_measIntervalCh (ns_agent s) \<and>
   na_hbIntervalCh (ns_agent s') = na_hbIntervalCh (ns_agent s) \<and> na_hbTimer (ns_agent s') = na_hbTimer (ns_agent s)"
  by (auto simp: triggerMeasurementEvent_def Let_def go_simps split: option.splits)

lemma triggerHeatbeatEvent_frame:
  "triggerHeatbeatEvent X now s = Ret s' \<Longrightarrow>
   ns_phase s' = ns_phase s \<and> ns_measurementReq s' = ns_measurementReq s \<and>
   na_measIntervalCh (ns_agent s') = na_measIntervalCh (ns_agent s) \<and>
   na_hbIntervalCh (ns_agent s') = na_hbIntervalCh (ns_agent s) \<and> na_measTimer (ns_agent s') = na_measTimer (ns_agent s)"
  by (auto simp: triggerHeatbeatEvent_def Let_def go_simps)

text \<open>The invariant of a run: the interval channels stay nil, and every pass through the loop is a measurement followed by
  one event of the second select.\<close>

abbreviation second_select :: "nf_event list \<Rightarrow> nat" where
  "second_select es \<equiv> length (filter (\<lambda>e. e \<in> {Heartbeat, Stop}) es)"

definition loop_inv :: "('r, 'm, 'a, 'k) nf_state \<Rightarrow> nf_event list \<Rightarrow> bool" where
  "loop_inv s es \<longleftrightarrow> na_measIntervalCh (ns_agent s) = None \<and> na_hbIntervalCh (ns_agent s) = None \<and>
     MeasInterval \<notin> set es \<and> HbInterval \<notin> set es \<and>
     (if ns_measurementReq s
      then count_list es Measurement = second_select es + (if ns_phase s = AwaitAny then 1 else 0)
      else count_list es Measurement = 0 \<and> ns_phase s = AwaitAny)"

lemma loop_inv_step: "loop_inv s es \<Longrightarrow> nf_step X s e s' \<Longrightarrow> loop_inv s' (es @ [e]) \<and> ns_measurementReq s' = ns_measurementReq s"
  by (erule nf_stepE)
    (auto simp: loop_inv_def loop_start_def dest!: triggerMeasurementEvent_frame triggerHeatbeatEvent_frame split: if_splits)

lemma loop_inv_run: "nf_run X s es s' \<Longrightarrow> loop_inv s [] \<Longrightarrow> loop_inv s' es \<and> ns_measurementReq s' = ns_measurementReq s"
  by (induction rule: nf_run.induct) (auto dest: loop_inv_step)

lemma newNfAgent_channels:
  "newNfAgent client d conf st = Ret (agent, req) \<Longrightarrow>
   na_measIntervalCh agent = None \<and> na_hbIntervalCh agent = None \<and> na_measTimer agent = Off \<and>
   (req \<longleftrightarrow> na_measSched agent \<noteq> None)"
  by (auto simp: newNfAgent_def Let_def go_simps split: option.splits if_splits)

lemma serveNF_start:
  assumes "newNfAgent client d conf st = Ret (agent, req)" and "serveNF X agent req w k = Ret s"
  shows "loop_inv s [] \<and> ns_measurementReq s = req"
  using newNfAgent_channels [OF assms(1)] assms(2)
  by (auto simp: serveNF_def loop_inv_def loop_start_def Let_def split: prod.splits option.splits bool.splits if_splits)

text \<open>C26: In every run of the agent of a network function with measurements, each pass through the loop first waits for a
  measurement: the measurements exceed the heartbeats and stops by one while the agent waits in its second select, and
  equal them otherwise. Without measurements none is taken. Changes of the intervals are never received.\<close>

theorem heartbeats_wait_for_measurements:
  assumes agent: "newNfAgent client d conf st = Ret (agent, req)" and serve: "serveNF X agent req w k = Ret s0"
    and run: "nf_run X s0 es s"
  shows "MeasInterval \<notin> set es \<and> HbInterval \<notin> set es \<and>
    count_list es Measurement = (if req then second_select es + (if ns_phase s = AwaitAny then 1 else 0) else 0) \<and>
    (req \<longrightarrow> count_list es Heartbeat \<le> count_list es Measurement)"
proof -
  have "loop_inv s es" "ns_measurementReq s = req"
    using loop_inv_run [OF run] serveNF_start [OF agent serve] by auto
  moreover have "count_list es Heartbeat \<le> second_select es" by (induction es) auto
  ultimately show ?thesis by (auto simp: loop_inv_def split: if_splits)
qed

section \<open>Stopping\<close>

lemma stopped_run:
  assumes "nf_run X s es s'" and "ns_phase s = AwaitMeas" "na_measTimer (ns_agent s) = Off"
    "\<forall>d. na_hbTimer (ns_agent s) \<noteq> Running d"
  shows "set es \<subseteq> {Other} \<and> ns_phase s' = AwaitMeas \<and> na_measTimer (ns_agent s') = Off \<and>
    (\<forall>d. na_hbTimer (ns_agent s') \<noteq> Running d)"
  using assms by (induction rule: nf_run.induct) (auto elim!: nf_stepE)

text \<open>A stop of an agent with measurements. If the measurement timer has not fired, the agent takes no step of its own
  ever again, though its goroutine stays. If the timer has fired, its tick is still there and the next measurement is
  taken as if nothing had happened.\<close>

theorem stop_depends_on_tick:
  assumes agent: "newNfAgent client d conf st = Ret (agent, True)" and serve: "serveNF X agent True w k = Ret s0"
    and run: "nf_run X s0 es s" and stop: "nf_step X s Stop s1"
  shows "(na_measTimer (ns_agent s) \<noteq> Fired \<longrightarrow> (\<forall>es' s2. nf_run X s1 es' s2 \<longrightarrow> set es' \<subseteq> {Other})) \<and>
    (na_measTimer (ns_agent s) = Fired \<longrightarrow>
      (\<forall>s2. triggerMeasurementEvent X (s1\<lparr>ns_agent := (ns_agent s1)\<lparr>na_measTimer := Off\<rparr>\<rparr>) = Ret s2 \<longrightarrow>
        nf_step X s1 Measurement (s2\<lparr>ns_phase := AwaitAny\<rparr>)))"
proof -
  have "ns_measurementReq s" using loop_inv_run [OF run] serveNF_start [OF agent serve] by simp
  with stop have s1: "ns_phase s1 = AwaitMeas" "na_measTimer (ns_agent s1) = timer_Stop (na_measTimer (ns_agent s))"
    "\<forall>d. na_hbTimer (ns_agent s1) \<noteq> Running d"
    by (auto elim!: nf_stepE simp: loop_start_def timer_Stop_def split: timer.splits)
  show ?thesis
  proof (cases "na_measTimer (ns_agent s) = Fired")
    case True
    then have "na_measTimer (ns_agent s1) = Fired" using s1 by (simp add: timer_Stop_def)
    with True s1(1) show ?thesis by (auto intro: nf_step.measurement)
  next
    case False
    then have "na_measTimer (ns_agent s1) = Off" using s1 by (simp add: timer_Stop_def split: timer.splits)
    with False s1 stopped_run [of X s1] show ?thesis by blast
  qed
qed

section \<open>Heartbeats on the cluster\<close>

definition ha_NextHeartbeatIndex :: "'r raft \<Rightarrow> 'r Cluster \<Rightarrow> ('r Cluster \<times> (ha_error + int)) go" where
  "ha_NextHeartbeatIndex ra cl =
     go_bind (cl_NextHeartbeatIndex ra cl) (\<lambda>(cl1, i, err). Ret (cl1, case err of None \<Rightarrow> Inr i | Some e \<Rightarrow> Inl e))"

lemma ha_NextHeartbeatIndex_commits:
  assumes "raft_commits ra"
  shows "\<exists>cl'. ha_NextHeartbeatIndex ra cl = Ret (cl', Inr (hs_hbIdx (cl_fsm cl))) \<and>
    cl_fsm cl' = (cl_fsm cl)\<lparr>hs_hbIdx := wrap64 (hs_hbIdx (cl_fsm cl) + 1)\<rparr>"
proof -
  have p: "processCmd (cl_fsm cl) (plain_cmd IncrementHeartbeatIdx) =
      Ret ((cl_fsm cl)\<lparr>hs_hbIdx := wrap64 (hs_hbIdx (cl_fsm cl) + 1)\<rparr>, RInt64 (hs_hbIdx (cl_fsm cl)))"
    by (simp add: processCmd_def plain_cmd_def hs_NextHeartbeatIndex_def)
  moreover have "StateCmd_wf (plain_cmd IncrementHeartbeatIdx)" by (simp add: StateCmd_wf_def plain_cmd_def is_int64_def)
  moreover obtain t where "StateCmd_String (\<lambda>_. []) (\<lambda>_. []) (plain_cmd IncrementHeartbeatIdx) = Ret t"
    by (simp add: StateCmd_String_def plain_cmd_def)
  ultimately obtain cl' where
    a: "cluster_apply ra cl (plain_cmd IncrementHeartbeatIdx) = Ret (cl', Inr (RInt64 (hs_hbIdx (cl_fsm cl))))"
    using cluster_apply_commits [OF assms] by blast
  from cluster_apply_ok [OF a] p a show ?thesis
    by (simp add: ha_NextHeartbeatIndex_def cl_NextHeartbeatIndex_def)
qed

lemma cl_UpdateNextRun_keeps:
  assumes "st_UpdateNextRun (cl_sched_ops ra) cl n t = (cl', None)"
  shows "hs_hbIdx (cl_fsm cl') = hs_hbIdx (cl_fsm cl) \<and> hs_measIdx (cl_fsm cl') = hs_measIdx (cl_fsm cl)"
  using assms by (auto simp: cl_sched_iface handleSchedulerUpdate_def hs_UpdateNextRun_def Let_def
      dest!: apply_err_ok sym [where t = "cl_fsm cl'"] split: option.splits)

text \<open>The heartbeat of a monitor with annotations and an address, as the job of the scheduler.\<close>

lemma hb_job_Ret:
  assumes ra: "raft_commits ra" and hx: "hx_next (nx_hb X) = ha_NextHeartbeatIndex ra"
    and cfg: "ec_Tmaas (mon_eventCfg mon) = Some tmaas" and ip: "mgmt_ip (nx_hb X) = Ret ip"
  shows "\<exists>cl' mon' hb. hb_job X t (cl, mon, None) from to d = ((cl', mon', None), Inr hb) \<and>
    mon_eventCfg mon' = mon_eventCfg mon \<and>
    cl_fsm cl' = (cl_fsm cl)\<lparr>hs_hbIdx := wrap64 (hs_hbIdx (cl_fsm cl) + 1)\<rparr> \<and>
    h_EventID (hb_hdr hb) = ''heartbeat'' @ fmt_prec10d (hs_hbIdx (cl_fsm cl)) \<and>
    h_SourceName (hb_hdr hb) = hx_DnPrefix (nx_hb X) @ ec_SourceName (mon_eventCfg mon) \<and>
    h_NfVendorName (hb_hdr hb) = tm_VendorID tmaas \<and> af_MGMT_IP (hb_AdditionalFields hb) = ip"
proof -
  from ha_NextHeartbeatIndex_commits [OF ra, of cl] obtain cl' where
    "ha_NextHeartbeatIndex ra cl = Ret (cl', Inr (hs_hbIdx (cl_fsm cl)))"
    "cl_fsm cl' = (cl_fsm cl)\<lparr>hs_hbIdx := wrap64 (hs_hbIdx (cl_fsm cl) + 1)\<rparr>" by blast
  with hx cfg ip show ?thesis by (simp add: hb_job_def Monitor_Run_def NewHeartbeat_def Let_def)
qed

text \<open>What the trigger does with a due heartbeat.\<close>

lemma triggerHeatbeatEvent_due:
  assumes ra: "raft_commits (nx_raft X)" and hx: "hx_next (nx_hb X) = ha_NextHeartbeatIndex (nx_raft X)"
    and hb: "na_hbSched (ns_agent s) = (sched, mon)" and cl: "cl = w_st (ns_world s)"
    and cfg: "ec_Tmaas (mon_eventCfg mon) = Some tmaas" and ip: "mgmt_ip (nx_hb X) = Ret ip"
    and nz: "cl_NextRun cl (sch_name sched) \<noteq> 0"
    and due: "cl_NextRun cl (sch_name sched) \<le> w_clk (ns_world s) (w_tick (ns_world s))"
    and now: "now = w_clk (ns_world s) (Suc (w_tick (ns_world s)))" "second \<le> now"
    and d: "d = GetInterval (cl_sched_ops (nx_raft X)) sched (ns_world s)" "second dvd d" "0 < sch_defaultInterval sched"
    and fits: "is_int64 (Unix (Truncate now d + d))"
  shows "\<exists>s' hb d2. triggerHeatbeatEvent X t s = Ret s' \<and> ns_heartbeats s' = ns_heartbeats s @ [hb] \<and>
    h_EventID (hb_hdr hb) = ''heartbeat'' @ fmt_prec10d (hs_hbIdx (cl_fsm cl)) \<and>
    h_SourceName (hb_hdr hb) = hx_DnPrefix (nx_hb X) @ ec_SourceName (mon_eventCfg mon) \<and>
    h_NfVendorName (hb_hdr hb) = tm_VendorID tmaas \<and> af_MGMT_IP (hb_AdditionalFields hb) = ip \<and>
    hs_hbIdx (cl_fsm (w_st (ns_world s'))) = wrap64 (hs_hbIdx (cl_fsm cl) + 1) \<and>
    cl_NextRun (w_st (ns_world s')) (sch_name sched) = Truncate now d + d \<and> now < Truncate now d + d \<and>
    w_clk (ns_world s') = w_clk (ns_world s) \<and> na_hbTimer (ns_agent s') = Running d2"
proof -
  let ?from = "cl_NextRun cl (sch_name sched)"
  from hb_job_Ret [OF ra hx cfg ip, of t cl ?from now d] obtain cl' mon' e where
    j: "hb_job X t (cl, mon, None) ?from now d = ((cl', mon', None), Inr e)"
      "cl_fsm cl' = (cl_fsm cl)\<lparr>hs_hbIdx := wrap64 (hs_hbIdx (cl_fsm cl) + 1)\<rparr>"
      "h_EventID (hb_hdr e) = ''heartbeat'' @ fmt_prec10d (hs_hbIdx (cl_fsm cl))"
      "h_SourceName (hb_hdr e) = hx_DnPrefix (nx_hb X) @ ec_SourceName (mon_eventCfg mon)"
      "h_NfVendorName (hb_hdr e) = tm_VendorID tmaas" "af_MGMT_IP (hb_AdditionalFields e) = ip" by blast
  have fr: "cl_NextRun cl' n = cl_NextRun cl n" "cl_Interval cl' n = cl_Interval cl n" for n
    using j(2) by (simp_all add: cl_NextRun_def cl_Interval_def hs_NextRun_def hs_Interval_def)
  obtain s2 where u: "st_UpdateNextRun (cl_sched_ops (nx_raft X)) cl' (sch_name sched) (Truncate now d + d) = (s2, None)"
    using cl_UpdateNextRun_commits [OF ra fits] by blast
  note R = run_trigger_sent [where w = "ns_world s" and job = "hb_job X t" and c = mon and f = "\<lambda>hb hbs. (hbs @ [hb], True)"
      and x = "ns_heartbeats s", folded cl, OF nz due now d j(1) fr u refl]
  from R(1) [of "na_hbTimer (ns_agent s)"] obtain w2 d2 where
    "run_trigger (cl_sched_ops (nx_raft X)) (hb_job X t) (\<lambda>hb hbs. (hbs @ [hb], True)) (sched, mon)
      (ns_world s) (ns_heartbeats s) (na_hbTimer (ns_agent s)) =
      Ret ((sched\<lparr>sch_lastTime := None\<rparr>, mon'), w2, ns_heartbeats s @ [e], Running d2)" "w_st w2 = s2" "w_clk w2 = w_clk (ns_world s)" by blast
  moreover have "hs_hbIdx (cl_fsm s2) = wrap64 (hs_hbIdx (cl_fsm cl) + 1)"
    using cl_UpdateNextRun_keeps [OF u] j(2) by simp
  ultimately show ?thesis using R(2,3) j(3-6) hb by (simp add: triggerHeatbeatEvent_def Let_def)
qed

text \<open>A due heartbeat of a network function, on a cluster that commits: it carries the next heartbeat number of the cluster,
  the identity from the configuration and the management address; it is sent, the number is used up, and
  the next run is the first multiple of the interval after now.\<close>

theorem due_heartbeat_sent:
  assumes "raft_commits (nx_raft X)" and "hx_next (nx_hb X) = ha_NextHeartbeatIndex (nx_raft X)"
    and "na_hbSched (ns_agent s) = (sched, mon)" and "cl = w_st (ns_world s)"
    and "ec_Tmaas (mon_eventCfg mon) = Some tmaas" and "mgmt_ip (nx_hb X) = Ret ip"
    and "cl_NextRun cl (sch_name sched) \<noteq> 0"
    and "cl_NextRun cl (sch_name sched) \<le> w_clk (ns_world s) (w_tick (ns_world s))"
    and "now = w_clk (ns_world s) (Suc (w_tick (ns_world s)))" "second \<le> now"
    and "d = GetInterval (cl_sched_ops (nx_raft X)) sched (ns_world s)" "second dvd d" "0 < sch_defaultInterval sched"
    and "is_int64 (Unix (Truncate now d + d))"
  shows "\<exists>s' hb d2. triggerHeatbeatEvent X t s = Ret s' \<and> ns_heartbeats s' = ns_heartbeats s @ [hb] \<and>
    h_EventID (hb_hdr hb) = ''heartbeat'' @ fmt_prec10d (hs_hbIdx (cl_fsm cl)) \<and>
    h_SourceName (hb_hdr hb) = hx_DnPrefix (nx_hb X) @ ec_SourceName (mon_eventCfg mon) \<and>
    h_NfVendorName (hb_hdr hb) = tm_VendorID tmaas \<and> af_MGMT_IP (hb_AdditionalFields hb) = ip \<and>
    hs_hbIdx (cl_fsm (w_st (ns_world s'))) = wrap64 (hs_hbIdx (cl_fsm cl) + 1) \<and>
    cl_NextRun (w_st (ns_world s')) (sch_name sched) = Truncate now d + d \<and> now < Truncate now d + d \<and>
    w_clk (ns_world s') = w_clk (ns_world s) \<and> na_hbTimer (ns_agent s') = Running d2"
  by (rule triggerHeatbeatEvent_due [OF assms])

section \<open>One schedule for all network functions\<close>

lemma triggerHeatbeatEvent_early:
  assumes "cl_NextRun (w_st (ns_world s)) (sch_name (fst (na_hbSched (ns_agent s)))) \<noteq> 0"
    and "w_clk (ns_world s) (w_tick (ns_world s)) < cl_NextRun (w_st (ns_world s)) (sch_name (fst (na_hbSched (ns_agent s))))"
  shows "\<exists>s'. triggerHeatbeatEvent X t s = Ret s' \<and> ns_heartbeats s' = ns_heartbeats s \<and>
    w_st (ns_world s') = w_st (ns_world s) \<and> na_hbTimer (ns_agent s') = Running (10 * second)"
  by (simp add: triggerHeatbeatEvent_def Let_def run_trigger_not_ready [OF assms])

lemma newNfAgent_hbSched:
  "newNfAgent client hbInterval (Some conf) st = Ret (agent, req) \<Longrightarrow>
   na_hbSched agent = (NewSchedulerWithState ''heartbeats'' hbInterval, NewMonitorWithState (nf_Event conf) st)"
  by (auto simp: newNfAgent_def initHbScheduler_def Let_def go_simps split: if_splits)

text \<open>C19: The agents of two network functions, each made by \<open>newNfAgent\<close>, share one heartbeat schedule: once the first has sent
  a due heartbeat, the trigger of the second sends nothing before the next multiple of the interval, and tries again
  in ten seconds.\<close>

theorem one_heartbeat_per_interval:
  assumes ra: "raft_commits (nx_raft X)" and hx: "hx_next (nx_hb X) = ha_NextHeartbeatIndex (nx_raft X)"
    and a1: "newNfAgent client1 hbInterval (Some conf1) st1 = Ret (agent1, req1)" "na_hbSched (ns_agent s1) = na_hbSched agent1"
    and a2: "newNfAgent client2 hbInterval (Some conf2) st2 = Ret (agent2, req2)" "na_hbSched (ns_agent s2) = na_hbSched agent2"
    and cfg: "ec_Tmaas (nf_Event conf1) = Some tmaas" and ip: "mgmt_ip (nx_hb X) = Ret ip"
    and nz: "cl_NextRun (w_st (ns_world s1)) ''heartbeats'' \<noteq> 0"
    and due: "cl_NextRun (w_st (ns_world s1)) ''heartbeats'' \<le> w_clk (ns_world s1) (w_tick (ns_world s1))"
    and now: "now = w_clk (ns_world s1) (Suc (w_tick (ns_world s1)))" "second \<le> now"
    and d: "d = GetInterval (cl_sched_ops (nx_raft X)) (fst (na_hbSched agent1)) (ns_world s1)" "second dvd d" "0 < hbInterval"
    and fits: "is_int64 (Unix (Truncate now d + d))"
  shows "\<exists>s1' hb. triggerHeatbeatEvent X t s1 = Ret s1' \<and> ns_heartbeats s1' = ns_heartbeats s1 @ [hb] \<and>
    w_clk (ns_world s1') = w_clk (ns_world s1) \<and>
    (ns_world s2 = ns_world s1' \<and> w_clk (ns_world s2) (w_tick (ns_world s2)) < Truncate now d + d \<longrightarrow>
      (\<exists>s2'. triggerHeatbeatEvent X t' s2 = Ret s2' \<and> ns_heartbeats s2' = ns_heartbeats s2 \<and>
        w_st (ns_world s2') = w_st (ns_world s2) \<and> na_hbTimer (ns_agent s2') = Running (10 * second)))"
proof -
  let ?sched = "NewSchedulerWithState ''heartbeats'' hbInterval"
  have hb1: "na_hbSched (ns_agent s1) = (?sched, NewMonitorWithState (nf_Event conf1) st1)"
    and hb2: "na_hbSched (ns_agent s2) = (?sched, NewMonitorWithState (nf_Event conf2) st2)"
    using a1 a2 newNfAgent_hbSched by metis+
  have m: "ec_Tmaas (mon_eventCfg (NewMonitorWithState (nf_Event conf1) st1)) = Some tmaas" "sch_name ?sched = ''heartbeats''"
    "0 < sch_defaultInterval ?sched" "d = GetInterval (cl_sched_ops (nx_raft X)) ?sched (ns_world s1)"
    using cfg d hb1 a1(2) by (simp_all add: NewMonitorWithState_def NewSchedulerWithState_def)
  from triggerHeatbeatEvent_due [OF ra hx hb1 refl m(1) ip _ _ now m(4) d(2) m(3) fits, unfolded m(2), OF nz due, of t]
  obtain s1' hb where s1': "triggerHeatbeatEvent X t s1 = Ret s1'" "ns_heartbeats s1' = ns_heartbeats s1 @ [hb]"
    "cl_NextRun (w_st (ns_world s1')) ''heartbeats'' = Truncate now d + d" "now < Truncate now d + d"
    "w_clk (ns_world s1') = w_clk (ns_world s1)" by blast
  then have "cl_NextRun (w_st (ns_world s1')) ''heartbeats'' \<noteq> 0" using now by simp
  with s1' triggerHeatbeatEvent_early [of s2 X t'] show ?thesis by (auto simp: hb2 m(2))
qed

section \<open>A sample network function\<close>

definition sample_conf :: NFMetricConfigRulesWithoutNfc where
  "sample_conf = zero_NFRules\<lparr>nf_Measurement := (nf_Measurement zero_NFRules)\<lparr>mc_DefaultInterval := 60 * second,
       mc_Prometheus := \<lparr>pc_Address = ''prometheus'', pc_Timeout = 0, pc_KeepAlive = 0,
         pc_Rules = [\<lparr>ms_MicroserviceName = ''ms'', ms_Defaults = None, ms_Metrics = [], ms_NfcNamingCodes = []\<rparr>]\<rparr>\<rparr>,
     nf_Event := (nf_Event zero_NFRules)\<lparr>ec_Tmaas := Some \<lparr>tm_VendorID = ''v'', tm_XGVelaID = ''x'', tm_NfClass = [], tm_NfType = ''t'',
       tm_NfID = ''n'', tm_NfServiceID = [], tm_NfServiceType = ''s''\<rparr>\<rparr>\<rparr>"

definition sample_nf_ext :: "(json list, unit, unit, unit) nf_ext" where
  "sample_nf_ext = \<lparr>nx_raft = log_raft,
     nx_metrics = \<lparr>mx_Seconds = (\<lambda>_. 0), mx_to_int = (\<lambda>_. 0), mx_md5 = (\<lambda>_. replicate 16 0), mx_DnPrefix = [],
       mx_next = (\<lambda>s. Ret (s, Inr 0)), mx_parse = (\<lambda>_. Inr ()), mx_exec = (\<lambda>_ _ _. Inr []), mx_QueryRange = (\<lambda>a _ _. (a, Inr OtherResult))\<rparr>,
     nx_hb = \<lparr>hx_next = ha_NextHeartbeatIndex log_raft, hx_Seconds = (\<lambda>d. d div second), hx_md5 = (\<lambda>_. replicate 16 0),
       hx_DnPrefix = ''dn'', hx_XGVelaID = ''x'', hx_MgmtIp = ''10.0.0.1'', hx_nodes = Nodes []\<rparr>,
     nx_error = RaftError, nx_encodes = (\<lambda>_. True), nx_publish = (\<lambda>_ k. (k, True))\<rparr>"

text \<open>A clock that stands still, 605 seconds after the epoch; the schedules have their next runs at the given times.\<close>

definition sample_nf_world :: "int \<Rightarrow> int \<Rightarrow> json list Cluster world" where
  "sample_nf_world m h = \<lparr>w_st = sample_cluster\<lparr>cl_fsm := NewInMemState\<lparr>hs_schedulers :=
       [''measurements'' \<mapsto> \<lparr>ss_interval = 0, ss_next = unix_epoch + m * second\<rparr>,
        ''heartbeats'' \<mapsto> \<lparr>ss_interval = 0, ss_next = unix_epoch + h * second\<rparr>]\<rparr>\<rparr>,
     w_clk = (\<lambda>n. unix_epoch + 605 * second), w_tick = 0\<rparr>"

lemma sample_NextRun [simp]:
  "cl_NextRun (w_st (sample_nf_world m h)) ''measurements'' = unix_epoch + m * second"
  "cl_NextRun (w_st (sample_nf_world m h)) ''heartbeats'' = unix_epoch + h * second"
  by (simp_all add: sample_nf_world_def cl_NextRun_def hs_NextRun_def)

lemma sample_world_sel [simp]: "w_clk (sample_nf_world m h) n = unix_epoch + 605 * second" "w_tick (sample_nf_world m h) = 0"
  by (simp_all add: sample_nf_world_def)

definition sample_collector :: "(json list Cluster, unit, unit) MetricCollector" where
  "sample_collector = \<lparr>mco_state = sample_cluster, mco_rules = pc_Rules (mc_Prometheus (nf_Measurement sample_conf)), mco_api = (),
     mco_max = 0, mco_domainAbr = [], mco_evtCfg = nf_Event sample_conf, mco_templates = Map.empty\<rparr>"

definition sample_agent :: "(json list Cluster, unit, unit) NfAgent" where
  "sample_agent = \<lparr>na_measSched = Some (NewSchedulerWithState ''measurements'' (60 * second), sample_collector),
     na_hbSched = initHbScheduler (nf_Event sample_conf) (60 * second) sample_cluster, na_measTimer = Off, na_hbTimer = Off,
     na_measIntervalCh = None, na_hbIntervalCh = None, na_namingCodes = []\<rparr>"

lemma sample_newNfAgent: "newNfAgent (Inr ()) (60 * second) (Some sample_conf) sample_cluster = Ret (sample_agent, True)"
  by (simp add: newNfAgent_def initMeasScheduler_def NewCollectorWithState_def sample_agent_def sample_collector_def
      sample_conf_def zero_NFRules_def Let_def)

definition sample_nf_state :: "int \<Rightarrow> int \<Rightarrow> (json list, unit, unit, unit) nf_state" where
  "sample_nf_state m h = \<lparr>ns_agent = sample_agent, ns_measurementReq = True, ns_phase = AwaitMeas, ns_world = sample_nf_world m h,
     ns_kafka = (), ns_heartbeats = []\<rparr>"

lemma sample_GetInterval: "GetInterval (cl_sched_ops log_raft) (fst (na_hbSched sample_agent)) (sample_nf_world m h) = 60 * second"
  by (simp add: GetInterval_def sample_agent_def initHbScheduler_def NewSchedulerWithState_def cl_sched_ops_def cl_Interval_def
      hs_Interval_def sample_nf_world_def)

lemma sample_fits: "is_int64 (Unix (Truncate (unix_epoch + 605 * second) (60 * second) + 60 * second))"
  by (simp add: is_int64_def Unix_def Truncate_def unix_epoch_def)

lemma sample_ext_sel [simp]: "nx_raft sample_nf_ext = log_raft" "hx_next (nx_hb sample_nf_ext) = ha_NextHeartbeatIndex log_raft"
  "mgmt_ip (nx_hb sample_nf_ext) = Ret ''10.0.0.1''"
  by (simp_all add: sample_nf_ext_def mgmt_ip_def)

theorem due_heartbeat_sent_witness:
  "\<exists>s' hb. triggerHeatbeatEvent sample_nf_ext 0 (sample_nf_state 700 600) = Ret s' \<and> ns_heartbeats s' = [hb] \<and>
     h_EventID (hb_hdr hb) = ''heartbeat0000000000'' \<and> h_SourceName (hb_hdr hb) = ''dn'' \<and>
     cl_NextRun (w_st (ns_world s')) ''heartbeats'' = unix_epoch + 660 * second"
proof -
  let ?s = "sample_nf_state 700 600" and ?now = "unix_epoch + 605 * second" and ?d = "60 * second"
  have hb: "na_hbSched (ns_agent ?s) =
      (NewSchedulerWithState ''heartbeats'' ?d, NewMonitorWithState (nf_Event sample_conf) sample_cluster)"
    by (simp add: sample_nf_state_def sample_agent_def initHbScheduler_def)
  have sel: "ns_world ?s = sample_nf_world 700 600" "ns_heartbeats ?s = []" by (simp_all add: sample_nf_state_def)
  have g: "?d = GetInterval (cl_sched_ops (nx_raft sample_nf_ext)) (NewSchedulerWithState ''heartbeats'' ?d) (sample_nf_world 700 600)"
    using sample_GetInterval [of 700 600] by (simp add: sample_agent_def initHbScheduler_def)
  have t: "Truncate ?now ?d + ?d = unix_epoch + 660 * second" by (simp add: Truncate_def unix_epoch_def)
  have m: "\<exists>t. ec_Tmaas (mon_eventCfg (NewMonitorWithState (nf_Event sample_conf) sample_cluster)) = Some t"
    "ec_SourceName (mon_eventCfg (NewMonitorWithState (nf_Event sample_conf) sample_cluster)) = []"
    by (simp_all add: NewMonitorWithState_def sample_conf_def zero_NFRules_def)
  then obtain tm where tm: "ec_Tmaas (mon_eventCfg (NewMonitorWithState (nf_Event sample_conf) sample_cluster)) = Some tm" by blast
  have i: "hs_hbIdx (cl_fsm (w_st (sample_nf_world 700 600))) = 0" "hx_DnPrefix (nx_hb sample_nf_ext) = ''dn''"
    "fmt_prec10d 0 = ''0000000000''"
    by (simp add: sample_nf_world_def NewInMemState_def, simp add: sample_nf_ext_def, code_simp)
  have n: "sch_name (NewSchedulerWithState ''heartbeats'' ?d) = ''heartbeats''"
    "0 < sch_defaultInterval (NewSchedulerWithState ''heartbeats'' ?d)" by (simp_all add: NewSchedulerWithState_def)
  have e: "unix_epoch + 600 * second \<noteq> 0" "unix_epoch + 600 * second \<le> ?now" "second \<le> ?now" "second dvd ?d"
    by (simp_all add: unix_epoch_def)
  note c = raft_commits_log_raft [folded sample_ext_sel(1)] sample_ext_sel(2) [folded sample_ext_sel(1)]
  note D = due_heartbeat_sent [of sample_nf_ext ?s, OF c hb refl tm sample_ext_sel(3), where now = ?now and d = ?d and t = 0,
      unfolded sel n(1) sample_world_sel sample_NextRun, OF e(1,2) refl e(3) g e(4) n(2) sample_fits, unfolded i m(2) t]
  show ?thesis using D by auto
qed

theorem one_heartbeat_per_interval_witness:
  "\<exists>s1' hb. triggerHeatbeatEvent sample_nf_ext 0 (sample_nf_state 700 600) = Ret s1' \<and> ns_heartbeats s1' = [hb] \<and>
     (\<exists>s2'. triggerHeatbeatEvent sample_nf_ext 0 (s1'\<lparr>ns_agent := sample_agent, ns_heartbeats := []\<rparr>) = Ret s2' \<and> ns_heartbeats s2' = [])"
proof -
  let ?s = "sample_nf_state 700 600" and ?now = "unix_epoch + 605 * second" and ?d = "60 * second"
  have sel: "ns_world ?s = sample_nf_world 700 600" "ns_heartbeats ?s = []" "ns_agent ?s = sample_agent"
    by (simp_all add: sample_nf_state_def)
  have t: "Truncate ?now ?d + ?d = unix_epoch + 660 * second" by (simp add: Truncate_def unix_epoch_def)
  have "\<exists>t. ec_Tmaas (nf_Event sample_conf) = Some t" by (simp add: sample_conf_def zero_NFRules_def)
  then obtain tm where tm: "ec_Tmaas (nf_Event sample_conf) = Some tm" by blast
  have e: "unix_epoch + 600 * second \<noteq> 0" "unix_epoch + 600 * second \<le> ?now" "second \<le> ?now" "second dvd ?d" "0 < ?d"
    by (simp_all add: unix_epoch_def)
  note c = raft_commits_log_raft [folded sample_ext_sel(1)] sample_ext_sel(2) [folded sample_ext_sel(1)]
  have g: "?d = GetInterval (cl_sched_ops (nx_raft sample_nf_ext)) (fst (na_hbSched sample_agent)) (sample_nf_world 700 600)"
    using sample_GetInterval by simp
  note P = one_heartbeat_per_interval [of sample_nf_ext, OF c sample_newNfAgent _ sample_newNfAgent _ tm sample_ext_sel(3),
      where ?s1.0 = ?s and now = ?now and d = ?d and t = 0 and t' = 0,
      unfolded sel sample_world_sel sample_NextRun, OF refl _ e(1,2) refl e(3) g e(4,5) sample_fits, unfolded t]
  obtain s1' hb where s1': "triggerHeatbeatEvent sample_nf_ext 0 ?s = Ret s1'" "ns_heartbeats s1' = [hb]"
    "w_clk (ns_world s1') = (\<lambda>n. ?now)" using P [of ?s, unfolded sel, OF refl] by auto
  let ?s2 = "s1'\<lparr>ns_agent := sample_agent, ns_heartbeats := []\<rparr>"
  have "ns_world ?s2 = ns_world s1'" "na_hbSched (ns_agent ?s2) = na_hbSched sample_agent" "ns_heartbeats ?s2 = []" by simp_all
  moreover have "w_clk (ns_world ?s2) (w_tick (ns_world ?s2)) < unix_epoch + 660 * second" using s1'(3) by simp
  ultimately show ?thesis using P [of ?s2] s1' by fastforce
qed

lemma triggerMeasurementEvent_early:
  assumes "na_measSched (ns_agent s) = Some (sched, col)" and "cl_NextRun (w_st (ns_world s)) (sch_name sched) \<noteq> 0"
    and "w_clk (ns_world s) (w_tick (ns_world s)) < cl_NextRun (w_st (ns_world s)) (sch_name sched)"
  shows "\<exists>s'. triggerMeasurementEvent X s = Ret s' \<and> na_measTimer (ns_agent s') = Running (10 * second)"
  using assms run_trigger_not_ready [where w = "ns_world s" and sc = "(sched, col)" and f = "send_measurements X"]
  by (simp add: triggerMeasurementEvent_def Let_def)

lemma sample_serveNF:
  "\<exists>s0. serveNF sample_nf_ext sample_agent True (sample_nf_world 700 700) () = Ret s0 \<and> ns_phase s0 = AwaitMeas \<and>
     (\<exists>d. na_measTimer (ns_agent s0) = Running d) \<and> na_measSched (ns_agent s0) = na_measSched sample_agent \<and>
     w_st (ns_world s0) = w_st (sample_nf_world 700 700) \<and> w_clk (ns_world s0) = (\<lambda>n. unix_epoch + 605 * second)"
proof -
  let ?w = "sample_nf_world 700 700"
  have "WaitChan (cl_sched_ops log_raft) (NewSchedulerWithState n d) w = (95 * second, w\<lparr>w_tick := w_tick w + 2\<rparr>)"
    if "w_st w = w_st ?w" "w_clk w = (\<lambda>n. unix_epoch + 605 * second)" "n \<in> {''measurements'', ''heartbeats''}" for n d w
    using that cs.WaitChan_set [of log_raft w "NewSchedulerWithState n d"]
    by (auto simp: cl_sched_ops_def NewSchedulerWithState_def unix_epoch_def)
  then show ?thesis
    by (simp add: serveNF_def sample_agent_def initHbScheduler_def loop_start_def sample_nf_world_def Let_def)
qed

lemma sample_nf_run:
  "\<exists>s0 s. serveNF sample_nf_ext sample_agent True (sample_nf_world 700 700) () = Ret s0 \<and>
     nf_run sample_nf_ext s0 [MeasFires, Measurement] s \<and> ns_phase s = AwaitAny \<and> na_measTimer (ns_agent s) = Running (10 * second)"
proof -
  from sample_serveNF obtain s0 d where s0: "serveNF sample_nf_ext sample_agent True (sample_nf_world 700 700) () = Ret s0"
    "ns_phase s0 = AwaitMeas" "na_measTimer (ns_agent s0) = Running d" "na_measSched (ns_agent s0) = na_measSched sample_agent"
    "w_st (ns_world s0) = w_st (sample_nf_world 700 700)" "w_clk (ns_world s0) = (\<lambda>n. unix_epoch + 605 * second)" by blast
  let ?s1 = "s0\<lparr>ns_agent := (ns_agent s0)\<lparr>na_measTimer := Fired\<rparr>\<rparr>"
  let ?s2 = "?s1\<lparr>ns_agent := (ns_agent ?s1)\<lparr>na_measTimer := Off\<rparr>\<rparr>"
  have "\<exists>s'. triggerMeasurementEvent sample_nf_ext ?s2 = Ret s' \<and> na_measTimer (ns_agent s') = Running (10 * second)"
    using s0 by (intro triggerMeasurementEvent_early) (auto simp: sample_agent_def NewSchedulerWithState_def unix_epoch_def)
  then obtain s' where s': "triggerMeasurementEvent sample_nf_ext ?s2 = Ret s'" "na_measTimer (ns_agent s') = Running (10 * second)"
    by blast
  have "nf_run sample_nf_ext s0 ([] @ [MeasFires]) ?s1" by (rule nf_run_snoc [OF nf_run_Nil nf_step.meas_fires]) (rule s0(3))
  moreover have "nf_step sample_nf_ext ?s1 Measurement (s'\<lparr>ns_phase := AwaitAny\<rparr>)"
    by (rule nf_step.measurement) (use s0 s' in simp_all)
  ultimately have "nf_run sample_nf_ext s0 (([] @ [MeasFires]) @ [Measurement]) (s'\<lparr>ns_phase := AwaitAny\<rparr>)"
    by (rule nf_run_snoc)
  with s0(1) s' show ?thesis by force
qed

theorem heartbeats_wait_for_measurements_witness:
  "\<exists>s0 s. nf_run sample_nf_ext s0 [MeasFires, Measurement] s \<and> count_list [MeasFires, Measurement] Heartbeat \<le> 1 \<and>
     (1::nat) = 0 + (if ns_phase s = AwaitAny then 1 else 0)"
proof -
  from sample_nf_run obtain s0 s where s: "serveNF sample_nf_ext sample_agent True (sample_nf_world 700 700) () = Ret s0"
    "nf_run sample_nf_ext s0 [MeasFires, Measurement] s" by blast
  from heartbeats_wait_for_measurements [OF sample_newNfAgent s] s(2) show ?thesis
    by (intro exI [of _ s0] exI [of _ s]) simp
qed

theorem stop_depends_on_tick_witness:
  "\<exists>s s1. nf_step sample_nf_ext s Stop s1 \<and> (\<forall>es s2. nf_run sample_nf_ext s1 es s2 \<longrightarrow> set es \<subseteq> {Other})"
proof -
  from sample_nf_run obtain s0 s where s: "serveNF sample_nf_ext sample_agent True (sample_nf_world 700 700) () = Ret s0"
    "nf_run sample_nf_ext s0 [MeasFires, Measurement] s" "ns_phase s = AwaitAny" "na_measTimer (ns_agent s) = Running (10 * second)" by blast
  from nf_step.stop [OF s(3)] obtain s1 where st: "nf_step sample_nf_ext s Stop s1" by blast
  from stop_depends_on_tick [OF sample_newNfAgent s(1,2) st] s(4) st show ?thesis by (intro exI [of _ s] exI [of _ s1]) simp
qed

end
