(* ===== verification/Ves_Mgr.thy ===== *)
theory Ves_Mgr
  imports Measurement_Config
begin

text \<open>
  The process manager (cmd/vesmgr): it subscribes to the notifications of the application manager, writes the
  configuration of the agent from the metrics that the applications declare, and starts, restarts and supervises the agent
  process. Parameters stand for the environment, the texts of HTTP answers, the JSON parser, the YAML writer and the
  outcome of starting a process. A Go map is visited in the order in which its keys were first assigned.
\<close>

section \<open>Configuration\<close>

text \<open>The structures of vespaconf.go; labels and rules are the ones of the agent's own configuration.\<close>

record vespa_MetricRules =
  vr_DefaultValues :: "MetricRule option"
  vr_Metrics :: "MetricRule list"

record vespa_PrometheusConfig =
  vp_Address :: string
  vp_Timeout :: duration
  vp_KeepAlive :: duration
  vp_Rules :: vespa_MetricRules

record vespa_MeasurementConfiguration =
  vq_DomainAbbreviation :: string
  vq_DefaultInterval :: duration
  vq_MaxBufferingDuration :: duration
  vq_Prometheus :: vespa_PrometheusConfig

record vespa_CollectorConfiguration =
  vl_ServerRoot :: string
  vl_FQDN :: string
  vl_Port :: int
  vl_Secure :: bool
  vl_Topic :: string
  vl_User :: string
  vl_Password :: string
  vl_PassPhrase :: string

record vespa_EventConfiguration =
  ve_VNFName :: string
  ve_ReportingEntityName :: string
  ve_ReportingEntityID :: string
  ve_MaxSize :: int
  ve_NfNamingCode :: string
  ve_NfcNamingCodes :: "(string \<times> string list) list"
  ve_RetryInterval :: duration
  ve_MaxMissed :: int

record vespa_Configuration =
  va_PrimaryCollector :: vespa_CollectorConfiguration
  va_HeartbeatInterval :: duration
  va_Measurement :: vespa_MeasurementConfiguration
  va_Event :: vespa_EventConfiguration
  va_Debug :: bool
  va_CaCert :: string
  va_DataDir :: string

record vm_ext =
  vx_env :: "string \<Rightarrow> string option"
  vx_product_uuid :: "string option"
  vx_json :: "string \<Rightarrow> json option"
  vx_yaml :: "vespa_Configuration \<Rightarrow> string"
  vx_create_fails :: bool

definition Getenv :: "vm_ext \<Rightarrow> string \<Rightarrow> string" where
  "Getenv X v = at [] (vx_env X) v"

text \<open>\<open>strings.TrimSpace\<close> on ASCII.\<close>

definition is_space :: "char \<Rightarrow> bool" where
  "is_space c \<longleftrightarrow> (of_char c :: nat) \<in> {9, 10, 11, 12, 13, 32}"

definition TrimSpace :: "string \<Rightarrow> string" where
  "TrimSpace s = rev (dropWhile is_space (rev (dropWhile is_space s)))"

definition readSystemUUID :: "vm_ext \<Rightarrow> string" where
  "readSystemUUID X = (case vx_product_uuid X of
     None \<Rightarrow> ''00000000-0000-0000-0000-000000000000'' | Some data \<Rightarrow> TrimSpace data)"

definition getVNFName :: "vm_ext \<Rightarrow> string" where
  "getVNFName X = (let v = Getenv X ''VESMGR_VNFNAME'' in if v = [] then ''Vespa'' else v)"

definition getNFNamingCode :: "vm_ext \<Rightarrow> string" where
  "getNFNamingCode X = (let v = Getenv X ''VESMGR_NFNAMINGCODE'' in if v = [] then ''ricp'' else v)"

definition zero_rule :: MetricRule where
  "zero_rule = \<lparr>mr_Target = [], mr_Expr = [], mr_VMIDLabel = [], mr_Labels = [], mr_ObjectName = [], mr_ObjectInstance = [],
     mr_ObjectKeys = []\<rparr>"

definition quoted :: "string \<Rightarrow> string" where
  "quoted s = CHR 0x27 # s @ [CHR 0x27]"

definition basicVespaConf :: "vm_ext \<Rightarrow> vespa_Configuration" where
  "basicVespaConf X =
     \<lparr>va_PrimaryCollector = \<lparr>vl_ServerRoot = [], vl_FQDN = [], vl_Port = 0, vl_Secure = False, vl_Topic = [], vl_User = [],
        vl_Password = [], vl_PassPhrase = []\<rparr>,
      va_HeartbeatInterval = 0,
      va_Measurement = \<lparr>vq_DomainAbbreviation = ''Mvfs'', vq_DefaultInterval = 0, vq_MaxBufferingDuration = 3600 * second,
        vq_Prometheus = \<lparr>vp_Address = [], vp_Timeout = 30 * second, vp_KeepAlive = 30 * second,
          vp_Rules = \<lparr>vr_DefaultValues = Some (zero_rule\<lparr>mr_VMIDLabel := quoted ''{{.labels.instance}}''\<rparr>), vr_Metrics = []\<rparr>\<rparr>\<rparr>,
      va_Event = \<lparr>ve_VNFName = getVNFName X, ve_ReportingEntityName = ''Vespa'', ve_ReportingEntityID = readSystemUUID X,
        ve_MaxSize = 2000000, ve_NfNamingCode = getNFNamingCode X, ve_NfcNamingCodes = [], ve_RetryInterval = 5 * second,
        ve_MaxMissed = 2\<rparr>,
      va_Debug = False, va_CaCert = [], va_DataDir = ''/tmp/data''\<rparr>"

text \<open>The metrics of the applications: name, object name and object instance.\<close>

type_synonym AppMetrics = "(string \<times> string \<times> string) list"

text \<open>\<open>json.Unmarshal\<close> into the two types that are asked for: what does not fit stays at its zero value.\<close>

definition decode_apps :: "json option \<Rightarrow> (string \<times> json) list list" where
  "decode_apps j = (case j of Some (JArr es) \<Rightarrow> map (\<lambda>e. case e of JObj kvs \<Rightarrow> kvs | _ \<Rightarrow> []) es | _ \<Rightarrow> [])"

definition decode_lists :: "json option \<Rightarrow> string \<Rightarrow> json list" where
  "decode_lists j key =
     (case j of Some (JObj kvs) \<Rightarrow> (case jget kvs key of Some (JArr es) \<Rightarrow> es | _ \<Rightarrow> []) | _ \<Rightarrow> [])"

text \<open>A failed type assertion panics.\<close>

definition parse_metric :: "AppMetrics \<Rightarrow> json \<Rightarrow> AppMetrics go" where
  "parse_metric appMetrics element =
     (case element of
        JObj kvs \<Rightarrow>
          (case jget kvs ''name'' of
             Some (JStr name) \<Rightarrow>
               (case (jget kvs ''objectName'', jget kvs ''objectInstance'') of
                  (Some (JStr objectName), Some (JStr objectInstance)) \<Rightarrow>
                    Ret (if map_of appMetrics name = None then appMetrics @ [(name, objectName, objectInstance)] else appMetrics)
                | _ \<Rightarrow> Ret appMetrics)
           | _ \<Rightarrow> Ret appMetrics)
      | _ \<Rightarrow> Crash ExplicitPanic)"

definition parseMetricsRules :: "json list \<Rightarrow> AppMetrics \<Rightarrow> AppMetrics go" where
  "parseMetricsRules metricsMap appMetrics = go_foldl parse_metric appMetrics metricsMap"

definition parse_app :: "AppMetrics \<Rightarrow> (string \<times> json) list \<Rightarrow> AppMetrics go" where
  "parse_app appMetrics app =
     (case jget app ''config'' of
        None \<Rightarrow> Ret appMetrics
      | Some (JObj config) \<Rightarrow>
          (case jget config ''metrics'' of
             None \<Rightarrow> Ret appMetrics
           | Some (JArr metrics) \<Rightarrow> parseMetricsRules metrics appMetrics
           | Some _ \<Rightarrow> Crash ExplicitPanic)
      | Some _ \<Rightarrow> Crash ExplicitPanic)"

definition parseMetricsFromXAppDescriptor :: "vm_ext \<Rightarrow> string \<Rightarrow> AppMetrics \<Rightarrow> AppMetrics go" where
  "parseMetricsFromXAppDescriptor X descriptor appMetrics =
     go_foldl parse_app appMetrics (decode_apps (vx_json X descriptor))"

definition makeRule :: "string \<times> string \<times> string \<Rightarrow> MetricRule" where
  "makeRule m = (case m of (expr, objName, objInstance) \<Rightarrow>
     zero_rule\<lparr>mr_Target := ''AdditionalObjects'', mr_Expr := expr, mr_ObjectInstance := objInstance, mr_ObjectName := objName,
       mr_ObjectKeys := [\<lparr>l_Name = ''ricComponentName'', l_Expr = quoted ''{{.labels.kubernetes_name}}''\<rparr>]\<rparr>)"

definition set_rules :: "MetricRule list \<Rightarrow> vespa_Configuration \<Rightarrow> vespa_Configuration" where
  "set_rules rs conf =
     (let m = va_Measurement conf; p = vq_Prometheus m
      in conf\<lparr>va_Measurement := m\<lparr>vq_Prometheus := p\<lparr>vp_Rules := (vp_Rules p)\<lparr>vr_Metrics := rs\<rparr>\<rparr>\<rparr>\<rparr>)"

definition getRules :: "vm_ext \<Rightarrow> vespa_Configuration \<Rightarrow> string \<Rightarrow> vespa_Configuration go" where
  "getRules X conf xAppConfig =
     go_bind (parseMetricsFromXAppDescriptor X xAppConfig []) (\<lambda>appMetrics.
       go_bind (parseMetricsRules (decode_lists (vx_json X xAppConfig) ''metrics'') appMetrics) (\<lambda>metrics.
         Ret (set_rules (map makeRule metrics) conf)))"

definition getCollectorConfiguration :: "vm_ext \<Rightarrow> vespa_Configuration \<Rightarrow> vespa_Configuration" where
  "getCollectorConfiguration X conf =
     (let portStr = Getenv X ''VESMGR_PRICOLLECTOR_PORT''
      in conf\<lparr>va_PrimaryCollector := \<lparr>vl_ServerRoot = Getenv X ''VESMGR_PRICOLLECTOR_SERVERROOT'',
           vl_FQDN = Getenv X ''VESMGR_PRICOLLECTOR_ADDR'', vl_Port = (if portStr = [] then 8443 else fst (Atoi portStr)),
           vl_Secure = (Getenv X ''VESMGR_PRICOLLECTOR_SECURE'' = ''true''), vl_Topic = Getenv X ''VESMGR_PRICOLLECTOR_TOPIC'',
           vl_User = Getenv X ''VESMGR_PRICOLLECTOR_USER'', vl_Password = Getenv X ''VESMGR_PRICOLLECTOR_PASSWORD'',
           vl_PassPhrase = Getenv X ''VESMGR_PRICOLLECTOR_PASSPHRASE''\<rparr>\<rparr>)"

text \<open>The text that is written, also when the encoder fails.\<close>

definition createVespaConfig :: "vm_ext \<Rightarrow> string \<Rightarrow> string go" where
  "createVespaConfig X xAppStatus =
     go_bind (getRules X (basicVespaConf X) xAppStatus) (\<lambda>conf. Ret (vx_yaml X (getCollectorConfiguration X conf)))"

section \<open>Talking to the application manager\<close>

datatype http_answer = NewRequestFailed string | DoFailed string | Answer int string "string + string"

text \<open>The timeout of the query; the argument is in seconds, and the caller passes ten seconds as a duration.\<close>

definition client_timeout :: "int \<Rightarrow> duration" where
  "client_timeout timeout = wrap64 (second * timeout)"

definition queryXAppsConfig :: "http_answer \<Rightarrow> string \<times> string option" where
  "queryXAppsConfig ans =
     (case ans of
        NewRequestFailed err \<Rightarrow> (''{}'', Some err)
      | DoFailed err \<Rightarrow> (''{}'', Some err)
      | Answer status text body \<Rightarrow>
          if status = 200 then (case body of Inl err \<Rightarrow> (''{}'', Some err) | Inr b \<Rightarrow> (b, None))
          else (''{}'', Some text))"

datatype subs_error = errPostingFailed | errWrongStatusCode | SubsError string

record subscriptionNotification =
  sn_subscribed :: bool
  sn_err :: "subs_error option"
  sn_subsID :: string

definition subscribexAppNotificationsClientDo :: "vm_ext \<Rightarrow> http_answer \<Rightarrow> (subs_error + string) go" where
  "subscribexAppNotificationsClientDo X ans =
     (case ans of
        Answer status text body \<Rightarrow>
          if status \<noteq> 201 then Ret (Inl errWrongStatusCode)
          else (case body of
              Inl err \<Rightarrow> Ret (Inl (SubsError err))
            | Inr b \<Rightarrow>
                (case vx_json X b of
                   Some (JObj kvs) \<Rightarrow> (case jget kvs ''id'' of Some (JStr subsID) \<Rightarrow> Ret (Inr subsID) | _ \<Rightarrow> Crash ExplicitPanic)
                 | Some JNull \<Rightarrow> Crash ExplicitPanic
                 | _ \<Rightarrow> Ret (Inl (SubsError ''json'')))) 
      | _ \<Rightarrow> Ret (Inl errPostingFailed))"

text \<open>The loop that retries; \<open>answers k\<close> is the answer to attempt \<open>k\<close>. \<open>None\<close> if it never ends.\<close>

partial_function (option) subscribe_loop :: "vm_ext \<Rightarrow> (nat \<Rightarrow> http_answer) \<Rightarrow> nat \<Rightarrow> subscriptionNotification go option" where
  "subscribe_loop X answers k =
     (case subscribexAppNotificationsClientDo X (answers k) of
        Crash c \<Rightarrow> Some (Crash c)
      | Ret (Inr subsID) \<Rightarrow> Some (Ret \<lparr>sn_subscribed = True, sn_err = None, sn_subsID = subsID\<rparr>)
      | Ret (Inl err) \<Rightarrow>
          if err \<noteq> errPostingFailed \<and> err \<noteq> errWrongStatusCode
          then Some (Ret \<lparr>sn_subscribed = False, sn_err = Some err, sn_subsID = []\<rparr>)
          else subscribe_loop X answers (Suc k))"

definition subscribexAppNotifications :: "vm_ext \<Rightarrow> string option \<Rightarrow> (nat \<Rightarrow> http_answer) \<Rightarrow> subscriptionNotification go option" where
  "subscribexAppNotifications X newRequestErr answers =
     (case newRequestErr of
        Some err \<Rightarrow> Some (Ret \<lparr>sn_subscribed = False, sn_err = Some (SubsError err), sn_subsID = []\<rparr>)
      | None \<Rightarrow> subscribe_loop X answers 0)"

section \<open>The main loop\<close>

text \<open>A command: one that failed to start, a process that runs, a process that has ended.\<close>

datatype proc = StartFailed | Alive | Dead

text \<open>All commands that the runner has started, oldest first; the runner holds the last one, the others go on running if nobody
  ends them. The results that goroutines wait to send on the channel of the agent, oldest first (\<open>None\<close> for a nil error), the
  buffered notifications, the configuration file and the number of supervisions answered.\<close>

record vm_state =
  vm_procs :: "proc list"
  vm_pending :: "string option list"
  vm_notifs :: "string list"
  vm_file :: "string option"
  vm_acks :: nat

definition createConf :: "vm_ext \<Rightarrow> string \<Rightarrow> vm_state \<Rightarrow> vm_state go" where
  "createConf X xappMetrics st =
     (if vx_create_fails X then Crash ProcessExit
      else go_bind (createVespaConfig X xappMetrics) (\<lambda>text. Ret (st\<lparr>vm_file := Some text\<rparr>)))"

text \<open>\<open>run\<close> and \<open>kill\<close> of the command runner, \<open>run\<close> with the error of starting the process. Without a process \<open>kill\<close>
  dereferences a nil pointer, and a process that has ended cannot be killed.\<close>

definition cmd_run :: "string option \<Rightarrow> vm_state \<Rightarrow> vm_state" where
  "cmd_run startErr st =
     (case startErr of
        None \<Rightarrow> st\<lparr>vm_procs := vm_procs st @ [Alive]\<rparr>
      | Some e \<Rightarrow> st\<lparr>vm_procs := vm_procs st @ [StartFailed], vm_pending := vm_pending st @ [Some e]\<rparr>)"

definition cmd_kill :: "vm_state \<Rightarrow> (vm_state \<times> string option) go" where
  "cmd_kill st =
     (if vm_procs st = [] then Crash NilDeref
      else case last (vm_procs st) of
             StartFailed \<Rightarrow> Crash NilDeref
           | Dead \<Rightarrow> Ret (st, Some ''os: process already finished'')
           | Alive \<Rightarrow> Ret (st\<lparr>vm_procs := butlast (vm_procs st) @ [Dead], vm_pending := vm_pending st @ [Some ''signal: killed'']\<rparr>, None))"

definition startVesagent :: "string option \<Rightarrow> vm_state \<Rightarrow> vm_state" where
  "startVesagent startErr st = cmd_run startErr st"

text \<open>A process that was killed leaves its result; the oldest result is received.\<close>

definition killVespa :: "vm_state \<Rightarrow> (vm_state \<times> string option) go" where
  "killVespa st =
     go_bind (cmd_kill st) (\<lambda>(st1, err).
       if err \<noteq> None then Ret (st1, err)
       else (case vm_pending st1 of
           r # rs \<Rightarrow> Ret (st1\<lparr>vm_pending := rs\<rparr>, r)
         | [] \<Rightarrow> Ret (st1, None)))"

definition emptyNotificationsChannel :: "vm_state \<Rightarrow> vm_state" where
  "emptyNotificationsChannel st = st\<lparr>vm_notifs := []\<rparr>"

definition handle_notification :: "vm_ext \<Rightarrow> http_answer \<Rightarrow> string option \<Rightarrow> vm_state \<Rightarrow> vm_state go" where
  "handle_notification X ans startErr st =
     (let st1 = emptyNotificationsChannel st; (xappConfig, err) = queryXAppsConfig ans
      in if err \<noteq> None then Ret st1
         else go_bind (killVespa st1) (\<lambda>(st2, _).
           go_bind (createConf X xappConfig st2) (\<lambda>st3. Ret (startVesagent startErr st3))))"

text \<open>The handlers of the HTTP server: the state afterwards and the status. A notification waits while the channel is
  full (\<open>None\<close>); a body that cannot be read is dropped. A supervision is answered by the main loop.\<close>

definition notification_request :: "string \<Rightarrow> string option \<Rightarrow> vm_state \<Rightarrow> (vm_state \<times> int) option" where
  "notification_request httpMethod body st =
     (if httpMethod = ''POST'' then
        (case body of
           None \<Rightarrow> Some (st, 200)
         | Some b \<Rightarrow> if length (vm_notifs st) < 10 then Some (st\<lparr>vm_notifs := vm_notifs st @ [b]\<rparr>, 200) else None)
      else Some (st, 405))"

definition supervision_request :: "string \<Rightarrow> vm_state \<Rightarrow> vm_state \<times> int" where
  "supervision_request httpMethod st =
     (if httpMethod = ''GET'' then (st\<lparr>vm_acks := Suc (vm_acks st)\<rparr>, 200) else (st, 405))"

text \<open>\<open>servRequest\<close> and its surroundings as steps: a supervision, a notification and the result of the agent are the cases of
  its select, the others an HTTP request that delivers a notification and the end of one of the agent processes.\<close>

datatype vm_event = Supervision string | Notification http_answer "string option" | AgentResult | Arrive string "string option" |
  AgentExits nat "string option"

inductive vm_step :: "vm_ext \<Rightarrow> vm_state \<Rightarrow> vm_event \<Rightarrow> vm_state go \<Rightarrow> bool" for X where
  supervision: "vm_step X st (Supervision httpMethod) (Ret (fst (supervision_request httpMethod st)))"
| notification: "vm_notifs st \<noteq> [] \<Longrightarrow>
     vm_step X st (Notification ans startErr) (handle_notification X ans startErr (st\<lparr>vm_notifs := tl (vm_notifs st)\<rparr>))"
| agent_result: "vm_pending st = r # rs \<Longrightarrow>
     vm_step X st AgentResult (Crash (case r of None \<Rightarrow> NilDeref | Some e \<Rightarrow> ProcessExit))"
| arrive: "notification_request httpMethod body st = Some (st', status) \<Longrightarrow> vm_step X st (Arrive httpMethod body) (Ret st')"
| agent_exits: "i < length (vm_procs st) \<Longrightarrow> vm_procs st ! i = Alive \<Longrightarrow>
     vm_step X st (AgentExits i r) (Ret (st\<lparr>vm_procs := (vm_procs st)[i := Dead], vm_pending := vm_pending st @ [r]\<rparr>))"

inductive vm_run :: "vm_ext \<Rightarrow> vm_state go \<Rightarrow> vm_event list \<Rightarrow> vm_state go \<Rightarrow> bool" for X where
  vm_run_Nil: "vm_run X s [] s"
| vm_run_snoc: "vm_run X s es (Ret st) \<Longrightarrow> vm_step X st e s' \<Longrightarrow> vm_run X s (es @ [e]) s'"

inductive_cases vm_stepE: "vm_step X st e s'"

text \<open>\<open>waitSubscriptionLoop\<close> and \<open>Run\<close> up to the main loop: \<open>subscription\<close> is what the subscription goroutine sends, the error
  of the query is ignored.\<close>

definition waitSubscriptionLoop :: "subscriptionNotification \<Rightarrow> unit go" where
  "waitSubscriptionLoop isSubscribed = (if sn_err isSubscribed \<noteq> None then Crash ProcessExit else Ret ())"

definition fresh_state :: vm_state where
  "fresh_state = \<lparr>vm_procs = [], vm_pending = [], vm_notifs = [], vm_file = None, vm_acks = 0\<rparr>"

definition vm_Run :: "vm_ext \<Rightarrow> subscriptionNotification \<Rightarrow> http_answer \<Rightarrow> string option \<Rightarrow> vm_state go" where
  "vm_Run X subscription ans startErr =
     go_bind (waitSubscriptionLoop subscription) (\<lambda>_.
       go_bind (createConf X (fst (queryXAppsConfig ans)) fresh_state) (\<lambda>st. Ret (startVesagent startErr st)))"

text \<open>The address of this host: the first IPv4 address of an interface that is not a loopback. An address that is an
  \<open>IPNet\<close> has a flag for loopback and its IPv4 text, if it has one.\<close>

datatype net_addr = IPNet bool "string option" | OtherAddr

fun first_ipv4 :: "net_addr list \<Rightarrow> string" where
  "first_ipv4 [] = []"
| "first_ipv4 (IPNet loopback (Some ip) # addrs) = (if \<not> loopback then ip else first_ipv4 addrs)"
| "first_ipv4 (_ # addrs) = first_ipv4 addrs"

definition getMyIP :: "string + net_addr list \<Rightarrow> string \<times> string option" where
  "getMyIP interfaces = (case interfaces of Inl err \<Rightarrow> ([], Some err) | Inr addrs \<Rightarrow> (first_ipv4 addrs, None))"

text \<open>\<open>Init\<close>: the address and the domain of the application manager. Without an address but no error, the error is
  dereferenced for the log.\<close>

definition vm_Init :: "vm_ext \<Rightarrow> string + net_addr list \<Rightarrow> (string \<times> string) go" where
  "vm_Init X interfaces =
     (case getMyIP interfaces of
        (ip, Some err) \<Rightarrow> Crash ExplicitPanic
      | (ip, None) \<Rightarrow>
          if ip = [] then Crash NilDeref
          else Ret (ip, case vx_env X ''VESMGR_APPMGRDOMAIN'' of
                 Some d \<Rightarrow> d | None \<Rightarrow> ''service-ricplt-appmgr-http.ricplt.svc.cluster.local''))"

end
