(* ===== verification/Ves_Mgr_Properties.thy ===== *)
theory Ves_Mgr_Properties
  imports Ves_Mgr "HOL-Library.AList"
begin

text \<open>
  Properties of the process manager: the rules it derives from the metrics of the applications, the end of the
  subscription loop, and the agent process under its main loop.
\<close>

section \<open>Rules from metrics\<close>

text \<open>The metric that an element defines, if it has all three texts.\<close>

definition complete :: "json \<Rightarrow> (string \<times> string \<times> string) option" where
  "complete element =
     (case element of
        JObj kvs \<Rightarrow>
          (case (jget kvs ''name'', jget kvs ''objectName'', jget kvs ''objectInstance'') of
             (Some (JStr n), Some (JStr ob), Some (JStr i)) \<Rightarrow> Some (n, ob, i)
           | _ \<Rightarrow> None)
      | _ \<Rightarrow> None)"

definition is_JObj :: "json \<Rightarrow> bool" where
  "is_JObj j \<longleftrightarrow> (\<exists>kvs. j = JObj kvs)"

text \<open>The elements that an application or the whole answer declares; something of the wrong shape counts as an element that
  is not an object.\<close>

definition app_elements :: "(string \<times> json) list \<Rightarrow> json list" where
  "app_elements app =
     (case jget app ''config'' of
        None \<Rightarrow> []
      | Some (JObj config) \<Rightarrow> (case jget config ''metrics'' of None \<Rightarrow> [] | Some (JArr es) \<Rightarrow> es | Some _ \<Rightarrow> [JNull])
      | Some _ \<Rightarrow> [JNull])"

definition declared :: "vm_ext \<Rightarrow> string \<Rightarrow> json list" where
  "declared X cfg = concat (map app_elements (decode_apps (vx_json X cfg))) @ decode_lists (vx_json X cfg) ''metrics''"

lemma parse_metric_complete:
  "is_JObj e \<Longrightarrow> parse_metric m e =
     Ret (case complete e of None \<Rightarrow> m | Some p \<Rightarrow> if map_of m (fst p) = None then m @ [p] else m)"
  by (auto simp: is_JObj_def parse_metric_def complete_def split: option.splits json.splits)

lemma parse_metric_other: "\<not> is_JObj e \<Longrightarrow> parse_metric m e = Crash ExplicitPanic"
  by (cases e) (auto simp: is_JObj_def parse_metric_def)

lemma clearjunk_new:
  "filter (\<lambda>p. fst p \<notin> S) (AList.clearjunk (p # ps)) =
     (if fst p \<in> S then [] else [p]) @ filter (\<lambda>q. fst q \<notin> insert (fst p) S) (AList.clearjunk ps)"
proof -
  have "AList.clearjunk (p # ps) = p # AList.delete (fst p) (AList.clearjunk ps)" by (simp add: clearjunk_delete)
  then have "AList.clearjunk (p # ps) = p # filter (\<lambda>q. fst q \<noteq> fst p) (AList.clearjunk ps)"
    by (simp add: AList.delete_eq case_prod_unfold eq_commute)
  then show ?thesis by (simp del: AList.clearjunk.simps add: conj_commute)
qed

text \<open>The parser is a single pass; it comes to the first complete definition of every name.\<close>

lemma parseMetricsRules_eta: "(\<lambda>m. go_foldl parse_metric m es) = parseMetricsRules es"
  by (simp add: fun_eq_iff parseMetricsRules_def)

lemma parseMetricsRules_firsts:
  "parseMetricsRules es m =
     (if list_all is_JObj es then Ret (m @ filter (\<lambda>p. fst p \<notin> fst ` set m) (AList.clearjunk (List.map_filter complete es)))
      else Crash ExplicitPanic)"
proof (induction es arbitrary: m)
  case Nil
  then show ?case by (simp add: parseMetricsRules_def List.map_filter_def)
next
  case (Cons e es)
  have F: "parseMetricsRules (e # es) m = go_bind (parse_metric m e) (parseMetricsRules es)"
    by (simp add: parseMetricsRules_def parseMetricsRules_eta)
  show ?case
  proof (cases "is_JObj e")
    case True
    show ?thesis
    proof (cases "complete e")
      case None
      with True Cons.IH show ?thesis by (simp add: F parse_metric_complete List.map_filter_simps)
    next
      case (Some p)
      with True Cons.IH show ?thesis
        by (cases "fst p \<in> fst ` set m")
          (simp_all del: AList.clearjunk.simps add: F parse_metric_complete List.map_filter_simps clearjunk_new
            map_of_eq_None_iff insert_absorb)
    qed
  next
    case False
    then show ?thesis by (simp add: F parse_metric_other)
  qed
qed

lemma parse_app_elements: "parse_app m app = parseMetricsRules (app_elements app) m"
  by (auto simp: parse_app_def app_elements_def parseMetricsRules_def parse_metric_other is_JObj_def
      split: option.split json.split)

lemma parseMetricsRules_append:
  "go_bind (parseMetricsRules es m) (parseMetricsRules es') = parseMetricsRules (es @ es') m"
  by (simp add: parseMetricsRules_def go_foldl_append parseMetricsRules_eta)

lemma parse_apps_elements: "go_foldl parse_app m apps = parseMetricsRules (concat (map app_elements apps)) m"
proof (induction apps arbitrary: m)
  case (Cons app apps)
  have "go_foldl parse_app m (app # apps) =
      go_bind (parseMetricsRules (app_elements app) m) (parseMetricsRules (concat (map app_elements apps)))"
    by (simp only: go_foldl.simps Cons.IH parse_app_elements)
  then show ?case by (simp add: parseMetricsRules_append)
qed (simp add: parseMetricsRules_def)

text \<open>C29: The rules of the agent's configuration: if everything that the applications declare as a metric is an object there is
  one rule per name, made from the first complete definition of that name in the order of the answer; otherwise the process
  panics.\<close>

theorem rules_of_metrics:
  "getRules X conf cfg =
     (if list_all is_JObj (declared X cfg)
      then Ret (set_rules (map makeRule (AList.clearjunk (List.map_filter complete (declared X cfg)))) conf)
      else Crash ExplicitPanic)"
proof -
  have "getRules X conf cfg = go_bind (parseMetricsRules (declared X cfg) []) (\<lambda>ms. Ret (set_rules (map makeRule ms) conf))"
    by (simp add: getRules_def parseMetricsFromXAppDescriptor_def parse_apps_elements declared_def
        parseMetricsRules_append [symmetric])
  then show ?thesis by (simp add: parseMetricsRules_firsts)
qed

section \<open>The subscription loop\<close>

definition retried :: "vm_ext \<Rightarrow> http_answer \<Rightarrow> bool" where
  "retried X ans \<longleftrightarrow> subscribexAppNotificationsClientDo X ans \<in> {Ret (Inl errPostingFailed), Ret (Inl errWrongStatusCode)}"

lemma retried_status:
  "retried X ans \<longleftrightarrow> (case ans of Answer status text body \<Rightarrow> status \<noteq> 201 | _ \<Rightarrow> True)"
  by (auto simp: retried_def subscribexAppNotificationsClientDo_def split: http_answer.splits sum.splits option.splits json.splits)

definition decided :: "vm_ext \<Rightarrow> http_answer \<Rightarrow> subscriptionNotification go" where
  "decided X ans = (case subscribexAppNotificationsClientDo X ans of
     Crash c \<Rightarrow> Crash c
   | Ret (Inr subsID) \<Rightarrow> Ret \<lparr>sn_subscribed = True, sn_err = None, sn_subsID = subsID\<rparr>
   | Ret (Inl err) \<Rightarrow> Ret \<lparr>sn_subscribed = False, sn_err = Some err, sn_subsID = []\<rparr>)"

lemma subscribe_loop_step:
  "subscribe_loop X answers k = (if retried X (answers k) then subscribe_loop X answers (Suc k) else Some (decided X (answers k)))"
  by (subst subscribe_loop.simps) (auto simp: retried_def decided_def split: go.split sum.split)

lemma subscribe_loop_decided:
  assumes "\<not> retried X (answers n)" and "\<forall>j<n. retried X (answers j)" and "k \<le> n"
  shows "subscribe_loop X answers k = Some (decided X (answers n))"
  using assms(3)
proof (induction rule: inc_induct)
  case base
  then show ?case using assms(1) by (simp add: subscribe_loop_step [of X answers n])
next
  case (step k)
  then show ?case using assms(2) by (simp add: subscribe_loop_step [of X answers k])
qed

lemma subscribe_loop_returns: "subscribe_loop X answers k = Some r \<Longrightarrow> \<exists>j. \<not> retried X (answers j)"
proof (induction rule: subscribe_loop.raw_induct [rotated 1, consumes 1])
  case (1 loop X answers k r)
  show ?case
  proof (cases "retried X (answers k)")
    case True
    with 1(2) have "loop X answers (Suc k) = Some r" by (auto simp: retried_def)
    then show ?thesis by (rule 1(1))
  qed blast
qed

text \<open>C40: The subscription loop ends exactly if some attempt is answered with status 201, and the answer of the first such attempt
  decides its outcome: every other answer and every failure to post is retried.\<close>

theorem subscription_loop_ends:
  "(subscribe_loop X answers 0 = None \<longleftrightarrow> (\<forall>k. case answers k of Answer status text body \<Rightarrow> status \<noteq> 201 | _ \<Rightarrow> True)) \<and>
   (\<not> retried X (answers n) \<and> (\<forall>j<n. retried X (answers j)) \<longrightarrow>
     subscribe_loop X answers 0 = Some (decided X (answers n)))"
proof -
  have "(\<exists>k. \<not> retried X (answers k)) \<longrightarrow> subscribe_loop X answers 0 \<noteq> None"
  proof
    assume "\<exists>k. \<not> retried X (answers k)"
    then obtain n where "\<not> retried X (answers n)" "\<forall>j<n. retried X (answers j)" using exists_least_iff [of "\<lambda>k. \<not> retried X (answers k)"] by blast
    then show "subscribe_loop X answers 0 \<noteq> None" using subscribe_loop_decided by fastforce
  qed
  then have "subscribe_loop X answers 0 = None \<longleftrightarrow> (\<forall>k. retried X (answers k))"
    using subscribe_loop_returns [of X answers 0] by (metis not_None_eq)
  with subscribe_loop_decided [of X answers n 0] show ?thesis by (simp only: retried_status) blast
qed

definition sample_vm_ext :: vm_ext where
  "sample_vm_ext = \<lparr>vx_env = Map.empty, vx_product_uuid = None,
     vx_json = (\<lambda>s. if s = ''ok'' then Some (JObj [(''id'', JStr ''7'')]) else if s = ''{}'' then Some (JObj []) else None),
     vx_yaml = (\<lambda>_. ''conf''), vx_create_fails = False\<rparr>"

theorem subscription_loop_ends_witness:
  "subscribe_loop sample_vm_ext (\<lambda>k. if k = 0 then DoFailed ''refused'' else Answer 201 [] (Inr ''ok'')) 0 =
     Some (Ret \<lparr>sn_subscribed = True, sn_err = None, sn_subsID = ''7''\<rparr>)"
  using subscription_loop_ends [of sample_vm_ext "\<lambda>k. if k = 0 then DoFailed ''refused'' else Answer 201 [] (Inr ''ok'')" 1]
  by (simp add: retried_status decided_def subscribexAppNotificationsClientDo_def sample_vm_ext_def jget_def)

text \<open>The timeout of the query, ten seconds counted in seconds, does not fit into a duration; an HTTP client has no deadline
  then.\<close>

lemma query_timeout_negative: "client_timeout (10 * second) < 0"
  by (simp add: client_timeout_def wrap64_def)

section \<open>The agent process\<close>

text \<open>The configuration of the last query that succeeded.\<close>

definition next_conf :: "string \<Rightarrow> vm_event \<Rightarrow> string" where
  "next_conf cfg e = (case e of
     Notification ans startErr \<Rightarrow> (case queryXAppsConfig ans of (cfg', None) \<Rightarrow> cfg' | _ \<Rightarrow> cfg) | _ \<Rightarrow> cfg)"

definition last_conf :: "string \<Rightarrow> vm_event list \<Rightarrow> string" where
  "last_conf = foldl next_conf"

lemma last_conf_simps [simp]:
  "last_conf cfg [] = cfg" "last_conf cfg (es @ [e]) = next_conf (last_conf cfg es) e"
  by (simp_all add: last_conf_def)

lemma Ret_go_bind: "Ret y = go_bind m f \<longleftrightarrow> (\<exists>x. m = Ret x \<and> f x = Ret y)"
  by (cases m) auto

text \<open>Events that are no trouble with the agent process.\<close>

definition calm :: "vm_event \<Rightarrow> bool" where
  "calm e = (case e of AgentExits i r \<Rightarrow> False | Notification ans startErr \<Rightarrow> startErr = None | _ \<Rightarrow> True)"

text \<open>The number of notifications whose query succeeded.\<close>

definition restarts_agent :: "vm_event \<Rightarrow> bool" where
  "restarts_agent e = (case e of Notification ans startErr \<Rightarrow> snd (queryXAppsConfig ans) = None | _ \<Rightarrow> False)"

definition restarts :: "vm_event list \<Rightarrow> nat" where
  "restarts es = length (filter restarts_agent es)"

lemma restarts_simps [simp]:
  "restarts [] = 0" "restarts (es @ [e]) = restarts es + (if restarts_agent e then 1 else 0)"
  by (simp_all add: restarts_def)

text \<open>After \<open>n\<close> restarts the first \<open>n\<close> agents have ended and the next one runs.\<close>

definition vm_inv :: "vm_ext \<Rightarrow> string \<Rightarrow> nat \<Rightarrow> vm_state \<Rightarrow> bool" where
  "vm_inv X cfg n st \<longleftrightarrow> vm_procs st = replicate n Dead @ [Alive] \<and> vm_pending st = [] \<and> length (vm_notifs st) \<le> 10 \<and>
     (\<exists>text. createVespaConfig X cfg = Ret text \<and> vm_file st = Some text)"

lemma replicate_Dead_snoc: "replicate n Dead @ [Dead] = Dead # replicate n Dead"
  by (simp add: replicate_append_same)

lemma notification_inv:
  assumes "vm_inv X cfg n st" and "handle_notification X ans None (st\<lparr>vm_notifs := ns\<rparr>) = Ret st'"
  shows "case queryXAppsConfig ans of (cfg', None) \<Rightarrow> vm_inv X cfg' (Suc n) st' | _ \<Rightarrow> vm_inv X cfg n st'"
proof -
  obtain cfg' err where q: "queryXAppsConfig ans = (cfg', err)" by fastforce
  show ?thesis
  proof (cases err)
    case (Some e)
    with q assms show ?thesis by (auto simp: handle_notification_def emptyNotificationsChannel_def vm_inv_def)
  next
    case None
    let ?st1 = "st\<lparr>vm_notifs := []\<rparr>"
    let ?st2 = "?st1\<lparr>vm_procs := replicate n Dead @ [Dead]\<rparr>"
    have "killVespa ?st1 = Ret (?st2, Some ''signal: killed'')"
      using assms(1) by (simp add: killVespa_def cmd_kill_def vm_inv_def)
    with assms(2) q None obtain t where
      "createVespaConfig X cfg' = Ret t" "st' = ?st2\<lparr>vm_file := Some t, vm_procs := replicate n Dead @ [Dead, Alive]\<rparr>"
      by (auto simp: handle_notification_def emptyNotificationsChannel_def createConf_def startVesagent_def cmd_run_def Ret_go_bind
          go_simps split: if_splits)
    with assms(1) q None show ?thesis using replicate_Dead_snoc [of n] by (simp add: vm_inv_def)
  qed
qed

lemma vm_inv_step:
  assumes "vm_inv X cfg n st" and "vm_step X st e (Ret st')" and "calm e"
  shows "vm_inv X (next_conf cfg e) (n + (if restarts_agent e then 1 else 0)) st' \<and> e \<noteq> AgentResult"
  using assms(2)
proof (cases rule: vm_step.cases)
  case (notification ans startErr)
  with assms(3) have "handle_notification X ans None (st\<lparr>vm_notifs := tl (vm_notifs st)\<rparr>) = Ret st'" by (simp add: calm_def)
  from notification_inv [OF assms(1) this] notification(1) show ?thesis
    by (auto simp: next_conf_def restarts_agent_def split: option.splits prod.splits)
qed (use assms(1,3) in \<open>auto simp: vm_inv_def calm_def next_conf_def restarts_agent_def supervision_request_def notification_request_def
    split: if_splits option.splits\<close>)

lemma vm_inv_run:
  "vm_run X s es s' \<Longrightarrow> s = Ret st0 \<Longrightarrow> vm_inv X cfg 0 st0 \<Longrightarrow> list_all calm es \<Longrightarrow>
     (\<forall>st. s' = Ret st \<longrightarrow> vm_inv X (last_conf cfg es) (restarts es) st \<and> AgentResult \<notin> set es)"
proof (induction arbitrary: st0 rule: vm_run.induct)
  case (vm_run_snoc s es st e s')
  then have "vm_inv X (last_conf cfg es) (restarts es) st" "AgentResult \<notin> set es" "calm e" by auto
  with vm_run_snoc.hyps(2) vm_inv_step [of X "last_conf cfg es" "restarts es" st e] show ?case by auto
qed simp

text \<open>C27: While the agent neither ends by itself nor fails to start, the process manager that has started keeps exactly one agent
  process alive: of all the agents that it has started, one at the beginning and one for every notification whose query succeeded,
  the earlier ones have ended and the last one runs. No result of an earlier one waits, and the configuration file is the one made
  from the last answer of the application manager.\<close>

theorem agent_follows_configuration:
  assumes start: "vm_Run X subscription ans None = Ret st0" and run: "vm_run X (Ret st0) es (Ret st)" and "list_all calm es"
  shows "vm_procs st = replicate (restarts es) Dead @ [Alive] \<and> vm_pending st = [] \<and> length (vm_notifs st) \<le> 10 \<and> AgentResult \<notin> set es \<and>
    (\<exists>text. createVespaConfig X (last_conf (fst (queryXAppsConfig ans)) es) = Ret text \<and> vm_file st = Some text)"
proof -
  from start have "vm_inv X (fst (queryXAppsConfig ans)) 0 st0"
    by (auto simp: vm_Run_def vm_inv_def createConf_def startVesagent_def cmd_run_def fresh_state_def go_simps split: if_splits)
  from vm_inv_run [OF run refl this assms(3)] show ?thesis by (auto simp: vm_inv_def)
qed

definition sample_answer :: http_answer where
  "sample_answer = Answer 200 [] (Inr ''{}'')"

lemma sample_conf_text: "createVespaConfig sample_vm_ext ''{}'' = Ret ''conf''"
  by (simp add: createVespaConfig_def getRules_def parseMetricsFromXAppDescriptor_def parseMetricsRules_def decode_apps_def
      decode_lists_def jget_def sample_vm_ext_def)

lemma sample_query: "queryXAppsConfig sample_answer = (''{}'', None)"
  by (simp add: sample_answer_def queryXAppsConfig_def)

definition sample_vm_state :: vm_state where
  "sample_vm_state = \<lparr>vm_procs = [Alive], vm_pending = [], vm_notifs = [], vm_file = Some ''conf'', vm_acks = 0\<rparr>"

definition sample_vm_events :: "vm_event list" where
  "sample_vm_events = [Arrive ''POST'' (Some ''deployed''), Notification sample_answer None, Supervision ''GET'']"

lemma sample_vm_run:
  "vm_run sample_vm_ext (Ret sample_vm_state) sample_vm_events (Ret (sample_vm_state\<lparr>vm_procs := [Dead, Alive], vm_acks := 1\<rparr>))"
proof -
  let ?st1 = "sample_vm_state\<lparr>vm_notifs := [''deployed'']\<rparr>" and ?st2 = "sample_vm_state\<lparr>vm_procs := [Dead, Alive]\<rparr>"
  have "vm_step sample_vm_ext sample_vm_state (Arrive ''POST'' (Some ''deployed'')) (Ret ?st1)"
    by (rule arrive [where status = 200]) (simp add: notification_request_def sample_vm_state_def)
  then have 1: "vm_run sample_vm_ext (Ret sample_vm_state) ([] @ [Arrive ''POST'' (Some ''deployed'')]) (Ret ?st1)"
    by (rule vm_run_snoc [OF vm_run_Nil])
  have "handle_notification sample_vm_ext sample_answer None (?st1\<lparr>vm_notifs := tl (vm_notifs ?st1)\<rparr>) = Ret ?st2"
    using sample_conf_text by (simp add: handle_notification_def emptyNotificationsChannel_def sample_query killVespa_def cmd_kill_def
        createConf_def startVesagent_def cmd_run_def sample_vm_state_def) (simp add: sample_vm_ext_def)
  then have 2: "vm_step sample_vm_ext ?st1 (Notification sample_answer None) (Ret ?st2)"
    using notification [of ?st1 sample_vm_ext sample_answer None] by simp
  have 3: "vm_step sample_vm_ext ?st2 (Supervision ''GET'') (Ret (?st2\<lparr>vm_acks := 1\<rparr>))"
    using supervision [of sample_vm_ext ?st2 "''GET''"] by (simp add: supervision_request_def sample_vm_state_def)
  from vm_run_snoc [OF vm_run_snoc [OF 1 2] 3] show ?thesis by (simp add: sample_vm_events_def)
qed

theorem agent_follows_configuration_witness:
  "vm_run sample_vm_ext (Ret sample_vm_state) sample_vm_events (Ret (sample_vm_state\<lparr>vm_procs := [Dead, Alive], vm_acks := 1\<rparr>)) \<and>
   restarts sample_vm_events = 1 \<and>
   vm_procs (sample_vm_state\<lparr>vm_procs := [Dead, Alive], vm_acks := 1\<rparr>) = replicate (restarts sample_vm_events) Dead @ [Alive]"
proof -
  have start: "vm_Run sample_vm_ext \<lparr>sn_subscribed = True, sn_err = None, sn_subsID = []\<rparr> sample_answer None = Ret sample_vm_state"
    by (simp add: vm_Run_def waitSubscriptionLoop_def sample_query createConf_def sample_conf_text startVesagent_def cmd_run_def fresh_state_def
        sample_vm_state_def) (simp add: sample_vm_ext_def)
  have "list_all calm sample_vm_events" by (simp add: sample_vm_events_def calm_def)
  from agent_follows_configuration [OF start sample_vm_run this] sample_vm_run show ?thesis
    by (simp add: sample_vm_events_def restarts_def restarts_agent_def sample_query)
qed

section \<open>An agent that ends\<close>

lemma killVespa_pending: "killVespa st = Ret (st', r) \<Longrightarrow> length (vm_pending st') = length (vm_pending st)"
  by (cases "vm_procs st = []"; cases "last (vm_procs st)"; cases "vm_pending st") (auto simp: killVespa_def cmd_kill_def)

lemma pending_step: "vm_step X st e (Ret st') \<Longrightarrow> vm_pending st \<noteq> [] \<Longrightarrow> vm_pending st' \<noteq> []"
  by (cases rule: vm_step.cases, assumption)
    (auto simp: handle_notification_def emptyNotificationsChannel_def createConf_def startVesagent_def cmd_run_def Ret_go_bind supervision_request_def notification_request_def go_simps Let_def
      dest!: killVespa_pending split: if_splits option.splits prod.splits)

lemma pending_run: "vm_run X s es s' \<Longrightarrow> s = Ret st0 \<Longrightarrow> vm_pending st0 \<noteq> [] \<Longrightarrow> \<forall>st. s' = Ret st \<longrightarrow> vm_pending st \<noteq> []"
  by (induction rule: vm_run.induct) (auto dest: pending_step)

text \<open>C28: If the agent ends and a notification is handled before its result is received, a new agent is started, but the result of
  the old one stays: from then on the manager can end the process at any time, though the new agent runs.\<close>

theorem exit_outlives_restart:
  assumes alive: "vm_procs st = replicate n Dead @ [Alive]" "vm_pending st = []" and notif: "vm_notifs st \<noteq> []"
    and ans: "queryXAppsConfig ans = (cfg, None)" and conf: "createVespaConfig X cfg = Ret text" "\<not> vx_create_fails X"
  shows "\<exists>st'. vm_run X (Ret st) [AgentExits n r, Notification ans None] (Ret st') \<and>
    vm_procs st' = replicate (Suc n) Dead @ [Alive] \<and> vm_file st' = Some text \<and>
    (\<forall>es st''. vm_run X (Ret st') es (Ret st'') \<longrightarrow> (\<exists>c. vm_step X st'' AgentResult (Crash c)))"
proof -
  let ?st1 = "st\<lparr>vm_procs := replicate n Dead @ [Dead], vm_pending := [r]\<rparr>"
  let ?st2 = "?st1\<lparr>vm_notifs := [], vm_file := Some text, vm_procs := (replicate n Dead @ [Dead]) @ [Alive]\<rparr>"
  have "vm_step X st (AgentExits n r) (Ret ?st1)"
    using agent_exits [of n st X r] alive by (simp add: nth_append list_update_append)
  then have 1: "vm_run X (Ret st) ([] @ [AgentExits n r]) (Ret ?st1)" by (rule vm_run_snoc [OF vm_run_Nil])
  have "handle_notification X ans None (?st1\<lparr>vm_notifs := tl (vm_notifs ?st1)\<rparr>) = Ret ?st2"
    using ans conf by (simp add: handle_notification_def emptyNotificationsChannel_def killVespa_def cmd_kill_def createConf_def
      startVesagent_def cmd_run_def)
  moreover have "vm_notifs ?st1 \<noteq> []" using notif by simp
  ultimately have "vm_step X ?st1 (Notification ans None) (Ret ?st2)" using notification [of ?st1 X ans None] by simp
  with 1 have 2: "vm_run X (Ret st) (([] @ [AgentExits n r]) @ [Notification ans None]) (Ret ?st2)" by (rule vm_run_snoc)
  have "\<exists>c. vm_step X st'' AgentResult (Crash c)" if "vm_run X (Ret ?st2) es (Ret st'')" for es st''
    using pending_run [OF that refl] agent_result [of st'' _ _ X] by (auto simp: neq_Nil_conv)
  with 2 replicate_Dead_snoc [of n] show ?thesis by (intro exI [of _ ?st2]) simp
qed

theorem exit_outlives_restart_witness:
  "\<exists>st'. vm_run sample_vm_ext (Ret (sample_vm_state\<lparr>vm_notifs := [''deployed'']\<rparr>)) [AgentExits 0 None, Notification sample_answer None] (Ret st') \<and>
     (\<exists>c. vm_step sample_vm_ext st' AgentResult (Crash c))"
  using exit_outlives_restart [of "sample_vm_state\<lparr>vm_notifs := [''deployed'']\<rparr>" 0 sample_answer "''{}''" sample_vm_ext "''conf''" None]
    sample_query sample_conf_text vm_run_Nil by (fastforce simp: sample_vm_state_def sample_vm_ext_def)

end
