(* ===== verification/Alert_Service.thy ===== *)
theory Alert_Service
  imports Agent
begin

text \<open>
  The two ends of the channel of alerts: the HTTP handler that sends on it (VESPA/ves-agent/rest) and the agent that receives from it in
  its two roles (\<open>serve\<close>, \<open>followerStep\<close>, \<open>leaderStep\<close> and \<open>eventReceived\<close> in agent.go), with the goroutines that post the event. The
  gateway makes the channel but attaches no handler of alerts to its server (only the tests connect the two), so each end is modelled as it
  is written and neither is placed into a run of the program. The JSON decoder is an argument; of an HTTP answer the status and
  the body are kept, not the headers.
\<close>

section \<open>Answers, from \<open>net/http\<close>\<close>

record ResponseWriter =
  rw_status :: "int option"
  rw_body :: string

definition new_rw :: ResponseWriter where
  "new_rw = \<lparr>rw_status = None, rw_body = []\<rparr>"

text \<open>Only the first status counts; a write without a status, and an end of the handler without one, mean 200.\<close>

definition WriteHeader :: "int \<Rightarrow> ResponseWriter \<Rightarrow> ResponseWriter" where
  "WriteHeader c rw = (if rw_status rw = None then rw\<lparr>rw_status := Some c\<rparr> else rw)"

definition rw_Write :: "string \<Rightarrow> ResponseWriter \<Rightarrow> ResponseWriter" where
  "rw_Write s rw = (WriteHeader 200 rw)\<lparr>rw_body := rw_body rw @ s\<rparr>"

definition http_Error :: "string \<Rightarrow> int \<Rightarrow> ResponseWriter \<Rightarrow> ResponseWriter" where
  "http_Error msg code rw = rw_Write (msg @ [char_of (10 :: nat)]) (WriteHeader code rw)"

definition rw_code :: "ResponseWriter \<Rightarrow> int" where
  "rw_code rw = (case rw_status rw of Some c \<Rightarrow> c | None \<Rightarrow> 200)"

section \<open>The handler\<close>

record http_request =
  hr_ContentType :: string
  hr_Body :: string

text \<open>\<open>json.Decoder.Decode\<close> may fill a part of the value before it fails.\<close>

record alert_ext =
  ax_decode :: "string \<Rightarrow> Data \<times> string option"
  ax_domains :: Domains
  ax_objects :: "int \<Rightarrow> bool"

definition errorWrapper :: "ResponseWriter \<Rightarrow> string option \<Rightarrow> ResponseWriter" where
  "errorWrapper rw err = (case err of None \<Rightarrow> rw | Some e \<Rightarrow> rw_Write e (WriteHeader 500 rw))"

definition decodeJSON :: "alert_ext \<Rightarrow> ResponseWriter \<Rightarrow> http_request \<Rightarrow> ResponseWriter \<times> Data" where
  "decodeJSON X rw req =
     (let (dataTca, err) = ax_decode X (hr_Body req)
      in (case err of Some e \<Rightarrow> http_Error e 400 rw | None \<Rightarrow> rw, dataTca))"

text \<open>The handler up to its end, or up to its wait for the response to the alert that it has put into the channel (the channel's
  entries also hold the response channel; they are kept in order).\<close>

datatype handler_state = Answered ResponseWriter | Waiting ResponseWriter

definition AlertReceiver :: "alert_ext \<Rightarrow> http_request \<Rightarrow> Data list \<Rightarrow> handler_state \<times> Data list" where
  "AlertReceiver X req alertCh =
     (if hr_ContentType req \<noteq> ''application/json''
      then (Answered (errorWrapper new_rw (Some ''content-type %s not managed'')), alertCh)
      else
        (let (rw, alertsmsg) = decodeJSON X new_rw req
         in if length alertCh < 1024 then (Waiting rw, alertCh @ [alertsmsg])
            else (Answered (errorWrapper rw (Some (''Alert could not be sent to a channel '' @ data_domain alertsmsg))), alertCh)))"

text \<open>The rest of the handler, when the agent has answered on the response channel or closed it.\<close>

definition AlertReceiver_end :: "ResponseWriter \<Rightarrow> string option \<Rightarrow> ResponseWriter" where
  "AlertReceiver_end rw err = errorWrapper rw err"

section \<open>The agent\<close>

text \<open>An agent: its role, and whether its timers are set. The package variables \<open>Fault\<close>, \<open>Notification\<close> and \<open>TCA\<close> are \<open>av_event\<close>;
  \<open>av_spawned\<close> are the goroutines that have not called \<open>PostEvent\<close> yet and \<open>av_posted\<close> the calls.\<close>

datatype role = Follower | Leading

datatype post_kind = FaultPost | NotificationPost | TcaPost

record served_agent =
  sa_role :: role
  sa_measTimer :: bool
  sa_hbTimer :: bool

record alert_vars =
  av_event :: "post_kind \<Rightarrow> Event option"
  av_spawned :: "(post_kind \<times> int) list"
  av_posted :: "(post_kind \<times> int \<times> Event) list"

text \<open>The domain of an alert, the collectors of the domain, and the event made of an alert.\<close>

definition kind_of :: "Data \<Rightarrow> post_kind option" where
  "kind_of d =
     (if data_domain d = ''fault'' then Some FaultPost
      else if data_domain d = ''notification'' then Some NotificationPost
      else if data_domain d = ''thresholdCrossingAlert'' then Some TcaPost else None)"

definition kind_ids :: "Domains \<Rightarrow> post_kind \<Rightarrow> int list" where
  "kind_ids dm k = (case k of FaultPost \<Rightarrow> dm_Fault dm | NotificationPost \<Rightarrow> dm_Notificaiton dm | TcaPost \<Rightarrow> dm_Tca dm)"

definition kind_event :: "post_kind \<Rightarrow> Data \<Rightarrow> Event" where
  "kind_event k d =
     (let sn = n_Sequence (et_hdr (d_MavData d))
      in case k of FaultPost \<Rightarrow> fault_of d sn | NotificationPost \<Rightarrow> notification_of d sn | TcaPost \<Rightarrow> tca_of d sn)"

text \<open>The event goes into the variable of its domain, a goroutine per collector is started, and the response channel is closed:
  the sender reads a nil error.\<close>

definition eventReceived :: "alert_ext \<Rightarrow> Data \<Rightarrow> alert_vars \<Rightarrow> alert_vars \<times> string option" where
  "eventReceived X d v =
     (case kind_of d of
        Some k \<Rightarrow> (v\<lparr>av_event := (av_event v)(k := Some (kind_event k d)),
            av_spawned := av_spawned v @ map (\<lambda>i. (k, i)) (kind_ids (ax_domains X) k)\<rparr>, None)
      | None \<Rightarrow> (v, None))"

text \<open>What a spawned goroutine does: it posts what the variable holds by then.\<close>

definition run_post :: "alert_ext \<Rightarrow> nat \<Rightarrow> alert_vars \<Rightarrow> alert_vars go" where
  "run_post X j v =
     (let (k, i) = av_spawned v ! j
      in case av_event v k of
           Some e \<Rightarrow>
             if ax_objects X i then
               Ret (v\<lparr>av_spawned := take j (av_spawned v) @ drop (Suc j) (av_spawned v), av_posted := av_posted v @ [(k, i, e)]\<rparr>)
             else Crash NilDeref
         | None \<Rightarrow> Crash NilDeref)"

text \<open>What an agent receives, and its steps: the answer to the sender of an alert (an error or nil), if it was one, and the result.\<close>

datatype agent_input = AlertIn Data | LeaderCh bool

definition followerStep :: "agent_input \<Rightarrow> string option option \<times> bool" where
  "followerStep inp = (case inp of AlertIn d \<Rightarrow> (Some (Some ''Not the leader''), False) | LeaderCh b \<Rightarrow> (None, b))"

definition leaderStep :: "alert_ext \<Rightarrow> agent_input \<Rightarrow> alert_vars \<Rightarrow> alert_vars \<times> string option option \<times> bool" where
  "leaderStep X inp v =
     (case inp of AlertIn d \<Rightarrow> (let (v1, err) = eventReceived X d v in (v1, Some err, True)) | LeaderCh b \<Rightarrow> (v, None, b))"

text \<open>\<open>serve\<close>, one receive at a time: stopping a nil timer is a nil dereference.\<close>

definition serve_step ::
    "alert_ext \<Rightarrow> agent_input \<Rightarrow> served_agent \<Rightarrow> alert_vars \<Rightarrow> (served_agent \<times> alert_vars \<times> string option option) go" where
  "serve_step X inp a v =
     (case sa_role a of
        Follower \<Rightarrow> (let (ans, lead) = followerStep inp in Ret (if lead then a\<lparr>sa_role := Leading\<rparr> else a, v, ans))
      | Leading \<Rightarrow>
          (let (v1, ans, go_on) = leaderStep X inp v
           in if go_on then Ret (a, v1, ans)
              else if \<not> sa_measTimer a \<or> \<not> sa_hbTimer a then Crash NilDeref else Ret (a\<lparr>sa_role := Follower\<rparr>, v1, ans)))"

lemmas serve_defs = serve_step_def followerStep_def leaderStep_def

text \<open>What a leadership notice does to an agent, by its role.\<close>

lemma serve_leader_notice:
  "serve_step X (LeaderCh b) a v =
     (if sa_role a = Leading \<and> \<not> b \<and> (\<not> sa_measTimer a \<or> \<not> sa_hbTimer a) then Crash NilDeref
      else Ret (a\<lparr>sa_role := if b then Leading else Follower\<rparr>, v, None))"
  by (cases a; cases "sa_role a") (auto simp: serve_defs)

section \<open>Statuses\<close>

lemma decodeJSON_code:
  "rw_code (fst (decodeJSON X new_rw req)) = (if snd (ax_decode X (hr_Body req)) = None then 200 else 400)"
  by (auto simp: decodeJSON_def new_rw_def http_Error_def rw_Write_def WriteHeader_def rw_code_def case_prod_beta split: option.split)

lemma errorWrapper_code:
  "rw_code (errorWrapper (fst (decodeJSON X new_rw req)) (Some e)) = (if snd (ax_decode X (hr_Body req)) = None then 500 else 400)"
  by (auto simp: decodeJSON_def errorWrapper_def new_rw_def http_Error_def rw_Write_def WriteHeader_def rw_code_def case_prod_beta split: option.split)

lemma errorWrapper_new_code: "rw_code (errorWrapper new_rw (Some e)) = 500"
  by (simp add: errorWrapper_def new_rw_def rw_Write_def WriteHeader_def rw_code_def)

lemma snd_decodeJSON: "snd (decodeJSON X rw req) = fst (ax_decode X (hr_Body req))"
  by (simp add: decodeJSON_def case_prod_beta)

end
