(* ===== verification/Alert_Properties.thy ===== *)
theory Alert_Properties
  imports Alert_Service Agent_Properties
begin

text \<open>
  Properties of the two ends of the channel of alerts: what the handler answers on every branch, what the agent does with an alert in
  each role, and which alert the posts of a goroutine carry.
\<close>

text \<open>A request with a JSON body, and an environment for examples: alerts that differ in their number.\<close>

definition json_request :: "string \<Rightarrow> http_request" where
  "json_request b = \<lparr>hr_ContentType = ''application/json'', hr_Body = b\<rparr>"

definition sample_alert :: "int \<Rightarrow> Data" where
  "sample_alert n = sample_data\<lparr>d_MavData := (d_MavData sample_data)\<lparr>et_hdr := (et_hdr (d_MavData sample_data))\<lparr>n_Sequence := n\<rparr>\<rparr>\<rparr>"

definition sample_alert_ext :: alert_ext where
  "sample_alert_ext = \<lparr>ax_decode = (\<lambda>b. if b = [] then (sample_alert 0, Some ''EOF'') else (sample_alert (int (length b)), None)),
     ax_domains = sample_domains\<lparr>dm_Fault := [7]\<rparr>, ax_objects = (\<lambda>i. i = 7)\<rparr>"

lemma sample_alert_kind [simp]: "kind_of (sample_alert n) = Some FaultPost"
  by (simp add: kind_of_def sample_alert_def data_domain_def sample_data_def sample_header_def)

lemma sample_alert_ext_sel [simp]:
  "ax_decode sample_alert_ext (c # b) = (sample_alert (int (Suc (length b))), None)" "ax_decode sample_alert_ext [] = (sample_alert 0, Some ''EOF'')"
  "kind_ids (ax_domains sample_alert_ext) FaultPost = [7]" "dm_Fault (ax_domains sample_alert_ext) = [7]"
  "ax_objects sample_alert_ext i \<longleftrightarrow> i = 7"
  by (simp_all add: sample_alert_ext_def kind_ids_def sample_domains_def)

section \<open>The handler\<close>

text \<open>C38: What the handler of alerts answers on every branch. A request that is not JSON gets 500 and nothing is sent on the channel. A JSON
  request is sent unless 1024 alerts wait, also if its body could not be decoded: then the answer is 400 whatever becomes of the alert,
  since the first status counts. Otherwise the answer is 500 if the channel is full or the receiver reports an error, and 200 if it
  reports none.\<close>

theorem alert_handler_answers:
  assumes "AlertReceiver X req ch = (st, ch')" and "ax_decode X (hr_Body req) = (d, decode_err)"
  shows "case st of
      Answered rw \<Rightarrow> ch' = ch \<and> (hr_ContentType req = ''application/json'' \<longrightarrow> 1024 \<le> length ch) \<and>
        rw_code rw = (if hr_ContentType req = ''application/json'' \<and> decode_err \<noteq> None then 400 else 500)
    | Waiting rw \<Rightarrow> hr_ContentType req = ''application/json'' \<and> length ch < 1024 \<and> ch' = ch @ [d] \<and>
        (\<forall>err. rw_code (AlertReceiver_end rw err) = (if decode_err \<noteq> None then 400 else if err = None then 200 else 500))"
proof (cases "hr_ContentType req = ''application/json'' \<and> length ch < 1024")
  case True
  then have "st = Waiting (fst (decodeJSON X new_rw req))" "ch' = ch @ [d]"
    using assms by (auto simp: AlertReceiver_def case_prod_beta snd_decodeJSON)
  moreover have "rw_code (AlertReceiver_end (fst (decodeJSON X new_rw req)) err) =
      (if decode_err \<noteq> None then 400 else if err = None then 200 else 500)" for err
    using assms(2) by (cases err) (simp_all add: AlertReceiver_end_def errorWrapper_code,
        simp add: errorWrapper_def decodeJSON_code)
  ultimately show ?thesis using True by simp
next
  case False
  then show ?thesis
    using assms by (auto simp: AlertReceiver_def case_prod_beta errorWrapper_code errorWrapper_new_code split: if_splits)
qed

theorem alert_handler_answers_witness:
  "\<exists>rw. AlertReceiver sample_alert_ext (json_request []) [] = (Waiting rw, [sample_alert 0]) \<and>
     rw_code (AlertReceiver_end rw None) = 400"
proof -
  obtain st ch' where r: "AlertReceiver sample_alert_ext (json_request []) [] = (st, ch')" by fastforce
  show ?thesis using alert_handler_answers [OF r] r by (cases st) (simp_all add: json_request_def)
qed

section \<open>The agent\<close>

text \<open>An alert at an agent, by its role: a follower refuses it and does nothing else; an agent that leads notes its event and starts a
  goroutine per collector of its domain, and tells the sender nothing but that there is no error. The role stays.\<close>

lemma alert_by_role:
  "serve_step X (AlertIn d) a v =
     Ret (a, if sa_role a = Leading then fst (eventReceived X d v) else v,
       Some (if sa_role a = Leading then None else Some ''Not the leader''))"
  by (cases "sa_role a") (auto simp: serve_defs eventReceived_def split: option.split)

text \<open>Which alert a post carries depends on the goroutines: they read the variable that the agent's loop writes. With one collector of
  faults, of two faults that are received before the first post runs the second one is posted twice and the first one never.\<close>

theorem fault_overtaken:
  assumes "kind_of d1 = Some FaultPost" and "kind_of d2 = Some FaultPost" and "dm_Fault (ax_domains X) = [i]" and "ax_objects X i"
    and "av_spawned v = []"
  shows "go_bind (run_post X 0 (fst (eventReceived X d2 (fst (eventReceived X d1 v))))) (run_post X 0) =
    Ret (v\<lparr>av_event := (av_event v)(FaultPost := Some (kind_event FaultPost d2)),
      av_posted := av_posted v @ [(FaultPost, i, kind_event FaultPost d2), (FaultPost, i, kind_event FaultPost d2)]\<rparr>)"
  using assms by (simp add: eventReceived_def run_post_def kind_ids_def)

definition sample_vars :: alert_vars where
  "sample_vars = \<lparr>av_event = (\<lambda>_. None), av_spawned = [], av_posted = []\<rparr>"

theorem fault_overtaken_witness:
  "\<exists>v. go_bind (run_post sample_alert_ext 0 (fst (eventReceived sample_alert_ext (sample_alert 2)
        (fst (eventReceived sample_alert_ext (sample_alert 1) sample_vars))))) (run_post sample_alert_ext 0) = Ret v \<and>
     av_posted v = [(FaultPost, 7, kind_event FaultPost (sample_alert 2)), (FaultPost, 7, kind_event FaultPost (sample_alert 2))]"
  using fault_overtaken [of "sample_alert 1" "sample_alert 2" sample_alert_ext 7 sample_vars] by (simp add: sample_vars_def)

text \<open>An agent without timers, as it is built, dies when it loses the leadership.\<close>

lemma leadership_lost_crash:
  "sa_role a = Leading \<Longrightarrow> \<not> sa_measTimer a \<Longrightarrow> serve_step X (LeaderCh False) a v = Crash NilDeref"
  by (simp add: serve_leader_notice)

end
