(* ===== verification/Agent_Group.thy ===== *)
theory Agent_Group
  imports Alert_Service
begin

text \<open>
  The agents of a gateway and the leadership of their node. ves-agent.go starts one agent per configured collector
  (\<open>launchVESWithoutUpdate\<close>), each with its own loop (\<open>serve\<close>). All of them share the Raft node of the first one, and so the one channel on
  which it reports changes of leadership, and \<open>once\<close> and \<open>doOnce\<close>, which let only the first of them start the consumers and
  the watcher of config maps. The steps of the loops and of the Raft library interleave. Raft reports every change and waits
  while the channel (1024 entries) is full; nothing is ever sent on the agents' channels of alerts, so the loops receive notices only.
\<close>

section \<open>State\<close>

text \<open>\<open>gr_listening\<close> is the agent that \<open>once\<close> chose, \<open>gr_node_leads\<close> whether the node leads, \<open>gr_leaderCh\<close> the notices that wait and
  \<open>gr_taken\<close> a record of those received so far, with the agent that received each.\<close>

record group =
  gr_agents :: "served_agent list"
  gr_listening :: "nat option"
  gr_watchers :: nat
  gr_node_leads :: bool
  gr_leaderCh :: "bool list"
  gr_taken :: "(nat \<times> bool) list"
  gr_vars :: alert_vars

definition group_start :: group where
  "group_start = \<lparr>gr_agents = [], gr_listening = None, gr_watchers = 0, gr_node_leads = False, gr_leaderCh = [], gr_taken = [],
     gr_vars = \<lparr>av_event = (\<lambda>_. None), av_spawned = [], av_posted = []\<rparr>\<rparr>"

section \<open>Starting agents\<close>

text \<open>\<open>NewAgent\<close> makes an agent without timers.\<close>

definition new_agent :: served_agent where
  "new_agent = \<lparr>sa_role = Follower, sa_measTimer = False, sa_hbTimer = False\<rparr>"

definition StartAgent :: "served_agent \<Rightarrow> group \<Rightarrow> group" where
  "StartAgent a g =
     (let g1 = (if gr_listening g = None then g\<lparr>gr_listening := Some (length (gr_agents g))\<rparr> else g)
      in g1\<lparr>gr_agents := gr_agents g1 @ [a]\<rparr>)"

definition launchVESWithoutUpdate :: "group \<Rightarrow> group" where
  "launchVESWithoutUpdate g =
     (let g1 = (if gr_watchers g = 0 then g\<lparr>gr_watchers := 1\<rparr> else g)
      in StartAgent new_agent g1)"

section \<open>Interleavings\<close>

definition agent_step :: "alert_ext \<Rightarrow> nat \<Rightarrow> agent_input \<Rightarrow> group \<Rightarrow> group go" where
  "agent_step X i inp g =
     go_bind (serve_step X inp (gr_agents g ! i) (gr_vars g))
       (\<lambda>(a, v, ans). Ret (g\<lparr>gr_agents := (gr_agents g)[i := a], gr_vars := v\<rparr>))"

datatype group_event = Launch | LeadershipChange | TakeNotice nat

inductive group_step :: "alert_ext \<Rightarrow> group \<Rightarrow> group_event \<Rightarrow> group go \<Rightarrow> bool" for X where
  launch: "group_step X g Launch (Ret (launchVESWithoutUpdate g))"
| leadership_change: "length (gr_leaderCh g) < 1024 \<Longrightarrow> group_step X g LeadershipChange
     (Ret (g\<lparr>gr_node_leads := \<not> gr_node_leads g, gr_leaderCh := gr_leaderCh g @ [\<not> gr_node_leads g]\<rparr>))"
| take_notice: "i < length (gr_agents g) \<Longrightarrow> gr_leaderCh g = b # q \<Longrightarrow>
     group_step X g (TakeNotice i) (agent_step X i (LeaderCh b) (g\<lparr>gr_leaderCh := q, gr_taken := gr_taken g @ [(i, b)]\<rparr>))"

inductive_cases group_stepE: "group_step X g e (Ret g')"

inductive_simps group_step_simps: "group_step X g Launch r" "group_step X g LeadershipChange r" "group_step X g (TakeNotice i) r"

inductive group_run :: "alert_ext \<Rightarrow> group \<Rightarrow> group_event list \<Rightarrow> group \<Rightarrow> bool" for X where
  group_run_Nil: "group_run X g [] g"
| group_run_Cons: "group_step X g e (Ret g1) \<Longrightarrow> group_run X g1 es g2 \<Longrightarrow> group_run X g (e # es) g2"

inductive_simps group_run_simps: "group_run X g [] g'" "group_run X g (e # es) g'"

lemma group_run_induct_invariant:
  assumes "group_run X g es g'" and "P g" and "\<And>g e g'. e \<in> set es \<Longrightarrow> P g \<Longrightarrow> group_step X g e (Ret g') \<Longrightarrow> P g'"
  shows "P g'"
  using assms by (induction rule: group_run.induct) (simp, metis list.set_intros)

declare Ret_eq_bind [go_simps]

section \<open>Only one agent starts the consumers\<close>

definition once_inv :: "group \<Rightarrow> bool" where
  "once_inv g \<longleftrightarrow> gr_watchers g \<le> 1 \<and> gr_listening g = (if gr_agents g = [] then None else Some 0)"

lemma agent_step_notice:
  "agent_step X i (LeaderCh b) g =
     (let a = gr_agents g ! i
      in if sa_role a = Leading \<and> \<not> b \<and> (\<not> sa_measTimer a \<or> \<not> sa_hbTimer a) then Crash NilDeref
         else Ret (g\<lparr>gr_agents := (gr_agents g)[i := a\<lparr>sa_role := if b then Leading else Follower\<rparr>]\<rparr>))"
  by (simp add: agent_step_def serve_leader_notice Let_def)

text \<open>However many agents are started, one \<open>listen\<close>, that of the first agent, and at most one watcher are running.\<close>

lemma group_once: "group_run X group_start es g \<Longrightarrow> once_inv g"
proof (erule group_run_induct_invariant)
  show "once_inv group_start" by (simp add: once_inv_def group_start_def)
  show "once_inv g'" if "once_inv g" "group_step X g e (Ret g')" for g e g'
    using that(2,1) by (elim group_stepE)
      (auto simp: once_inv_def launchVESWithoutUpdate_def StartAgent_def agent_step_notice Let_def split: if_splits)
qed

section \<open>Leadership\<close>

text \<open>The notices of \<open>n\<close> changes: gain and loss in turn.\<close>

fun alternate :: "bool \<Rightarrow> nat \<Rightarrow> bool list" where
  "alternate b 0 = []"
| "alternate b (Suc n) = b # alternate (\<not> b) n"

lemma length_alternate [simp]: "length (alternate b n) = n"
  by (induction n arbitrary: b) simp_all

lemma alternate_snoc: "alternate b (Suc n) = alternate b n @ [if even n then b else \<not> b]"
proof (induction n arbitrary: b)
  case (Suc n)
  from Suc [of "\<not> b"] show ?case by (subst alternate.simps) simp
qed simp

text \<open>The notices that an agent has received, in order.\<close>

definition notices_of :: "nat \<Rightarrow> (nat \<times> bool) list \<Rightarrow> bool list" where
  "notices_of i tk = map snd (filter (\<lambda>(j, b). j = i) tk)"

lemma notices_of_snoc [simp]: "notices_of i (tk @ [(j, b)]) = notices_of i tk @ (if j = i then [b] else [])"
  by (simp add: notices_of_def)

text \<open>Losses first and gains after them: what an agent without timers lives through.\<close>

definition losses_first :: "bool list \<Rightarrow> bool" where
  "losses_first bs \<longleftrightarrow> sorted_wrt (\<lambda>x y. x \<longrightarrow> y) bs"

lemma losses_first_snoc: "losses_first (bs @ [b]) \<longleftrightarrow> losses_first bs \<and> (True \<in> set bs \<longrightarrow> b)"
  by (auto simp: losses_first_def sorted_wrt_append)

definition notices_inv :: "group \<Rightarrow> bool" where
  "notices_inv g \<longleftrightarrow> (\<exists>n. map snd (gr_taken g) @ gr_leaderCh g = alternate True n \<and> gr_node_leads g = odd n)"

definition leadership_inv :: "group \<Rightarrow> bool" where
  "leadership_inv g \<longleftrightarrow> notices_inv g \<and>
     (\<forall>i < length (gr_agents g). \<not> sa_measTimer (gr_agents g ! i) \<and> \<not> sa_hbTimer (gr_agents g ! i) \<and>
        (sa_role (gr_agents g ! i) = Leading \<longleftrightarrow> True \<in> set (notices_of i (gr_taken g)))) \<and>
     (\<forall>i. losses_first (notices_of i (gr_taken g))) \<and> fst ` set (gr_taken g) \<subseteq> {..<length (gr_agents g)}"

lemma leadership_inv_step:
  assumes "group_step X g e (Ret g')" and inv: "leadership_inv g"
  shows "leadership_inv g'"
  using assms(1)
proof (rule group_stepE)
  assume "g' = launchVESWithoutUpdate g"
  then have g': "gr_agents g' = gr_agents g @ [new_agent]" "gr_taken g' = gr_taken g" "gr_leaderCh g' = gr_leaderCh g"
    "gr_node_leads g' = gr_node_leads g"
    by (auto simp: launchVESWithoutUpdate_def StartAgent_def Let_def)
  have "notices_of (length (gr_agents g)) (gr_taken g) = []"
    using inv by (auto simp: leadership_inv_def notices_of_def filter_empty_conv)
  with inv show ?thesis
    by (auto simp: leadership_inv_def notices_inv_def g' nth_append new_agent_def less_Suc_eq)
next
  assume g': "g' = g\<lparr>gr_node_leads := \<not> gr_node_leads g, gr_leaderCh := gr_leaderCh g @ [\<not> gr_node_leads g]\<rparr>"
  from inv obtain n where n: "map snd (gr_taken g) @ gr_leaderCh g = alternate True n" "gr_node_leads g = odd n"
    by (auto simp: leadership_inv_def notices_inv_def)
  then have "map snd (gr_taken g') @ gr_leaderCh g' = alternate True (Suc n) \<and> gr_node_leads g' = odd (Suc n)"
    by (simp add: g' alternate_snoc del: alternate.simps flip: append_assoc)
  then have "notices_inv g'" unfolding notices_inv_def by blast
  moreover have "gr_agents g' = gr_agents g" "gr_taken g' = gr_taken g" by (simp_all add: g')
  ultimately show ?thesis using inv by (simp add: leadership_inv_def)
next
  fix i b q
  assume i: "i < length (gr_agents g)" and ch: "gr_leaderCh g = b # q"
    and step: "Ret g' = agent_step X i (LeaderCh b) (g\<lparr>gr_leaderCh := q, gr_taken := gr_taken g @ [(i, b)]\<rparr>)"
  have a: "\<not> sa_measTimer (gr_agents g ! i)" "sa_role (gr_agents g ! i) = Leading \<longleftrightarrow> True \<in> set (notices_of i (gr_taken g))"
    using inv i by (auto simp: leadership_inv_def)
  from step a(1) have g': "g' = g\<lparr>gr_leaderCh := q, gr_taken := gr_taken g @ [(i, b)],
      gr_agents := (gr_agents g)[i := (gr_agents g ! i)\<lparr>sa_role := if b then Leading else Follower\<rparr>]\<rparr>"
    and b: "sa_role (gr_agents g ! i) = Leading \<longrightarrow> b"
    by (auto simp: agent_step_notice Let_def split: if_splits)
  from inv ch have "notices_inv g'" by (simp add: leadership_inv_def notices_inv_def g')
  moreover have "\<forall>j. losses_first (notices_of j (gr_taken g'))"
    using inv a(2) b by (simp add: leadership_inv_def g' losses_first_snoc)
  moreover have "\<not> sa_measTimer (gr_agents g' ! j) \<and> \<not> sa_hbTimer (gr_agents g' ! j) \<and>
        (sa_role (gr_agents g' ! j) = Leading \<longleftrightarrow> True \<in> set (notices_of j (gr_taken g')))"
    if "j < length (gr_agents g')" for j
    using that inv a b by (cases "j = i") (auto simp: leadership_inv_def g')
  moreover have "fst ` set (gr_taken g') \<subseteq> {..<length (gr_agents g')}" using inv i by (auto simp: leadership_inv_def g')
  ultimately show ?thesis by (simp add: leadership_inv_def)
qed

lemma group_leadership: "group_run X group_start es g \<Longrightarrow> leadership_inv g"
  by (erule group_run_induct_invariant) (auto simp: leadership_inv_step, auto simp: leadership_inv_def notices_inv_def group_start_def notices_of_def losses_first_def
      intro!: exI [of _ 0])

text \<open>C30: What the agents of a gateway know of the leadership of their node, for any number of agents and any interleaving of launches,
  changes of leadership and receives. Every change is received by at most one agent, in order. An agent leads exactly if it has
  received a notice of gain, so no agent ever goes back: if one that leads receives the next notice of loss the process dies by a nil
  dereference, and if another one receives it the first one goes on leading on a node that follows. So with one collector the process
  survives no second notice.\<close>

theorem leadership_never_released:
  assumes "group_run X group_start es g"
  shows "(\<exists>n. map snd (gr_taken g) @ gr_leaderCh g = alternate True n \<and> gr_node_leads g = odd n) \<and>
    (\<forall>i < length (gr_agents g). sa_role (gr_agents g ! i) = Leading \<longleftrightarrow> (i, True) \<in> set (gr_taken g)) \<and>
    (gr_taken g \<noteq> [] \<longrightarrow> (\<exists>i < length (gr_agents g). sa_role (gr_agents g ! i) = Leading)) \<and>
    (\<forall>i q r. sa_role (gr_agents g ! i) = Leading \<and> gr_leaderCh g = False # q \<and> group_step X g (TakeNotice i) r \<longrightarrow> r = Crash NilDeref) \<and>
    (length (gr_agents g) = 1 \<longrightarrow> length (gr_taken g) \<le> 1)"
proof -
  note inv = group_leadership [OF assms, unfolded leadership_inv_def]
  have seq: "\<exists>n. map snd (gr_taken g) @ gr_leaderCh g = alternate True n \<and> gr_node_leads g = odd n"
    using inv by (simp add: notices_inv_def)
  have mem: "True \<in> set (notices_of i (gr_taken g)) \<longleftrightarrow> (i, True) \<in> set (gr_taken g)" for i
    by (force simp: notices_of_def)
  from seq obtain n where n: "map snd (gr_taken g) @ gr_leaderCh g = alternate True n" by blast
  have first: "snd (hd (gr_taken g))" "0 < n" if "gr_taken g \<noteq> []"
    using that n by (cases "gr_taken g"; cases n; simp)+
  have roles: "\<forall>i < length (gr_agents g). sa_role (gr_agents g ! i) = Leading \<longleftrightarrow> (i, True) \<in> set (gr_taken g)"
    using inv by (simp add: mem)
  moreover have "\<exists>i < length (gr_agents g). sa_role (gr_agents g ! i) = Leading" if "gr_taken g \<noteq> []"
  proof -
    from first(1) [OF that] that obtain i where i: "(i, True) \<in> set (gr_taken g)" by (metis hd_in_set prod.collapse)
    then have "i \<in> fst ` set (gr_taken g)" by (metis fst_conv image_eqI)
    moreover have "fst ` set (gr_taken g) \<subseteq> {..<length (gr_agents g)}" using inv by simp
    ultimately have "i < length (gr_agents g)" by auto
    with i roles show ?thesis by blast
  qed
  moreover have "r = Crash NilDeref"
    if "sa_role (gr_agents g ! i) = Leading" "gr_leaderCh g = False # q" "group_step X g (TakeNotice i) r" for i q r
    using that inv by (auto simp: group_step_simps agent_step_notice)
  moreover have "length (gr_taken g) \<le> 1" if one: "length (gr_agents g) = 1"
  proof (rule ccontr)
    assume "\<not> length (gr_taken g) \<le> 1"
    then obtain x y ys where t: "gr_taken g = x # y # ys" by (cases "gr_taken g"; cases "tl (gr_taken g)") auto
    with n have xy: "snd x" "\<not> snd y" by (cases n; cases "n - 1"; simp)+
    from t inv one have "fst x = 0" "fst y = 0" by auto
    with t xy have "notices_of 0 (gr_taken g) = True # False # notices_of 0 ys"
      by (cases x; cases y) (simp add: notices_of_def)
    moreover have "losses_first (notices_of 0 (gr_taken g))" using inv by blast
    ultimately show False by (simp add: losses_first_def)
  qed
  ultimately show ?thesis using seq by (intro conjI) blast+
qed

lemmas group_eval = group_run_simps group_step_simps launchVESWithoutUpdate_def StartAgent_def agent_step_notice group_start_def new_agent_def

text \<open>Two agents: the first one takes the gain, the second one the loss that follows.\<close>

definition sample_group :: group where
  "sample_group = group_start\<lparr>gr_agents := [new_agent\<lparr>sa_role := Leading\<rparr>, new_agent], gr_listening := Some 0, gr_watchers := 1,
     gr_taken := [(0, True), (1, False)]\<rparr>"

theorem leadership_never_released_witness:
  "\<exists>X g. group_run X group_start [Launch, Launch, LeadershipChange, TakeNotice 0, LeadershipChange, TakeNotice 1] g \<and>
     \<not> gr_node_leads g \<and> (\<exists>i < length (gr_agents g). sa_role (gr_agents g ! i) = Leading)"
proof -
  fix X :: alert_ext
  let ?g1 = "launchVESWithoutUpdate (launchVESWithoutUpdate group_start)"
  let ?g2 = "?g1\<lparr>gr_agents := [new_agent\<lparr>sa_role := Leading\<rparr>, new_agent], gr_node_leads := True, gr_taken := [(0, True)]\<rparr>"
  have take: "group_step X (?g1\<lparr>gr_node_leads := True, gr_leaderCh := [True]\<rparr>) (TakeNotice 0) (Ret ?g2)"
    "group_step X (?g2\<lparr>gr_node_leads := False, gr_leaderCh := [False]\<rparr>) (TakeNotice 1) (Ret sample_group)"
    by (auto simp: group_eval Let_def sample_group_def)
  have change: "group_step X ?g1 LeadershipChange (Ret (?g1\<lparr>gr_node_leads := True, gr_leaderCh := [True]\<rparr>))"
    "group_step X ?g2 LeadershipChange (Ret (?g2\<lparr>gr_node_leads := False, gr_leaderCh := [False]\<rparr>))"
    by (simp_all add: group_eval Let_def)
  have run: "group_run X group_start [Launch, Launch, LeadershipChange, TakeNotice 0, LeadershipChange, TakeNotice 1] sample_group"
    by (rule group_run_Cons [OF launch] group_run_Cons [OF change(1)] group_run_Cons [OF take(1)] group_run_Cons [OF change(2)]
        group_run_Cons [OF take(2)] group_run_Nil)+
  from leadership_never_released [OF run] have "\<exists>i < length (gr_agents sample_group). sa_role (gr_agents sample_group ! i) = Leading"
    by (simp add: sample_group_def)
  with run show ?thesis by (intro exI [of _ X] exI [of _ sample_group]) (simp add: sample_group_def group_start_def)
qed

end
