(* ===== verification/Kafka_Consumer.thy ===== *)
theory Kafka_Consumer
  imports Agent_Properties
begin

text \<open>
  The goroutine that consumes the live events of a collector (\<open>ConsumingOverFmaasEventToId\<close> in VESPA/ves-agent/agent/agent.go), as a
  machine that makes one step per lock, unlock, fetch, processing and commit, in the order of the source. Around it run the replays
  of its collector, which write the pause flag without the lock (\<open>notifyKafkaEventReceived\<close>, \<open>processEvents\<close>), and the other goroutines of
  the package, which lock and unlock the same mutex and change the shared variables while they hold it. A mutex of Go has no owner: whoever
  unlocks it releases it, and unlocking one that is not locked is fatal. The fetch is a parameter of the environment; \<open>processMessages\<close>, a
  critical section of its own, is one step.
\<close>

section \<open>State\<close>

text \<open>The control points, by what comes next; \<open>In\<close> marks those after a \<open>Lock\<close>. \<open>Waits\<close> and \<open>WaitTest\<close> are the loop that waits for the end of a
  replay, before its \<open>Lock\<close> and at its test, \<open>ProcessLate\<close> what follows it.\<close>

datatype control =
    Begin | BeginIn | Top | TopIn | Fetch | Got kmessage | GotIn kmessage | Look kmessage | LookIn kmessage
  | Process kmessage | CommitLate kmessage | CommitEarly kmessage | Waits kmessage | WaitTest kmessage | ProcessLate kmessage

text \<open>\<open>kc_others\<close> counts the other goroutines between their \<open>Lock\<close> and \<open>Unlock\<close>. The last three fields record what happened.\<close>

record ('n, 'z) consumer_state =
  kc_control :: control
  kc_locked :: bool
  kc_others :: nat
  kc_gw :: "('n, 'z) gw"
  kc_fetched :: "kmessage list"
  kc_processed :: "kmessage list"
  kc_committed :: "kmessage list"

definition consumer_start :: "('n, 'z) gw \<Rightarrow> ('n, 'z) consumer_state" where
  "consumer_start w = \<lparr>kc_control = Begin, kc_locked = False, kc_others = 0, kc_gw = w, kc_fetched = [], kc_processed = [], kc_committed = []\<rparr>"

definition paused :: "int \<Rightarrow> ('n, 'z) consumer_state \<Rightarrow> bool" where
  "paused i s = at False (gw_PauseFmmasEvents (kc_gw s)) i"

section \<open>Steps\<close>

text \<open>\<open>Lock\<close> waits (\<open>None\<close>) while the mutex is locked.\<close>

definition kc_lock :: "control \<Rightarrow> ('n, 'z) consumer_state \<Rightarrow> ('n, 'z) consumer_state run" where
  "kc_lock c s = (if kc_locked s then None else Some (Ret (s\<lparr>kc_locked := True, kc_control := c\<rparr>)))"

definition kc_unlock :: "control \<Rightarrow> ('n, 'z) consumer_state \<Rightarrow> ('n, 'z) consumer_state run" where
  "kc_unlock c s = (if kc_locked s then Some (Ret (s\<lparr>kc_locked := False, kc_control := c\<rparr>)) else Some (Crash BadUnlock))"

definition kc_process ::
    "('n, 'z) ext \<Rightarrow> Domains \<Rightarrow> int \<Rightarrow> kmessage \<Rightarrow> control \<Rightarrow> ('n, 'z) consumer_state \<Rightarrow> ('n, 'z) consumer_state run" where
  "kc_process X dm i msg c s =
     run_bind (processMessages X dm msg i (kc_gw s)) (\<lambda>w.
       Some (Ret (s\<lparr>kc_gw := w, kc_processed := kc_processed s @ [msg], kc_control := c\<rparr>)))"

definition kc_commit :: "kmessage \<Rightarrow> control \<Rightarrow> ('n, 'z) consumer_state \<Rightarrow> ('n, 'z) consumer_state run" where
  "kc_commit msg c s = Some (Ret (s\<lparr>kc_committed := kc_committed s @ [msg], kc_control := c\<rparr>))"

text \<open>The goroutine, step by step. \<open>None\<close>: the step waits, or the processing does not return. A fetch has a step of its own below.\<close>

definition ConsumingOverFmaas_step ::
    "('n, 'z) ext \<Rightarrow> Domains \<Rightarrow> int \<Rightarrow> ('n, 'z) consumer_state \<Rightarrow> ('n, 'z) consumer_state run" where
  "ConsumingOverFmaas_step X dm i s =
     (case kc_control s of
        Begin \<Rightarrow> kc_lock BeginIn s
      | BeginIn \<Rightarrow> kc_unlock (if at False (gw_HeartbeatSent (kc_gw s)) i then Top else Begin) s
      | Top \<Rightarrow> kc_lock TopIn s
      | TopIn \<Rightarrow> kc_unlock (if \<not> paused i s then Fetch else Top) s
      | Fetch \<Rightarrow> None
      | Got msg \<Rightarrow> kc_lock (GotIn msg) s
      | GotIn msg \<Rightarrow> kc_unlock (Look msg) (s\<lparr>kc_gw := remember_last msg i (kc_gw s)\<rparr>)
      | Look msg \<Rightarrow> kc_lock (LookIn msg) s
      | LookIn msg \<Rightarrow> kc_unlock (if \<not> paused i s then Process msg else CommitEarly msg) s
      | Process msg \<Rightarrow> kc_process X dm i msg (CommitLate msg) s
      | CommitLate msg \<Rightarrow> kc_commit msg Top s
      | CommitEarly msg \<Rightarrow> kc_commit msg (Waits msg) s
      | Waits msg \<Rightarrow> kc_lock (WaitTest msg) s
      | WaitTest msg \<Rightarrow> kc_unlock (if paused i s then WaitTest msg else ProcessLate msg) s
      | ProcessLate msg \<Rightarrow> kc_process X dm i msg Top s)"

text \<open>The return of \<open>FetchMessage\<close>: an error is fatal.\<close>

definition fetch_returns :: "kmessage option \<Rightarrow> ('n, 'z) consumer_state \<Rightarrow> ('n, 'z) consumer_state go" where
  "fetch_returns res s =
     (case res of
        None \<Rightarrow> Crash ProcessExit
      | Some msg \<Rightarrow> Ret (s\<lparr>kc_fetched := kc_fetched s @ [msg], kc_control := Got msg\<rparr>))"

definition set_paused :: "int \<Rightarrow> bool \<Rightarrow> ('n, 'z) consumer_state \<Rightarrow> ('n, 'z) consumer_state" where
  "set_paused i b s = s\<lparr>kc_gw := (kc_gw s)\<lparr>gw_PauseFmmasEvents := (gw_PauseFmmasEvents (kc_gw s))(i \<mapsto> b)\<rparr>\<rparr>"

datatype ('n, 'z) consumer_event =
    Consumer
  | FetchReturns "kmessage option"
  | ReplayStarts
  | ReplayEnds
  | OtherLocks
  | OtherWorks "('n, 'z) gw"
  | OtherUnlocks

inductive kc_step ::
    "('n, 'z) ext \<Rightarrow> Domains \<Rightarrow> int \<Rightarrow> ('n, 'z) consumer_state \<Rightarrow> ('n, 'z) consumer_event \<Rightarrow> ('n, 'z) consumer_state go \<Rightarrow> bool"
  for X dm i where
  consumer: "ConsumingOverFmaas_step X dm i s = Some r \<Longrightarrow> kc_step X dm i s Consumer r"
| fetch: "kc_control s = Fetch \<Longrightarrow> kc_step X dm i s (FetchReturns res) (fetch_returns res s)"
| replay_starts: "kc_step X dm i s ReplayStarts (Ret (set_paused i True s))"
| replay_ends: "kc_step X dm i s ReplayEnds (Ret (set_paused i False s))"
| other_locks: "\<not> kc_locked s \<Longrightarrow> kc_step X dm i s OtherLocks (Ret (s\<lparr>kc_locked := True, kc_others := Suc (kc_others s)\<rparr>))"
| other_works: "kc_others s > 0 \<Longrightarrow> gw_PauseFmmasEvents w i = gw_PauseFmmasEvents (kc_gw s) i \<Longrightarrow>
    kc_step X dm i s (OtherWorks w) (Ret (s\<lparr>kc_gw := w\<rparr>))"
| other_unlocks: "kc_others s = Suc n \<Longrightarrow> kc_step X dm i s OtherUnlocks
    (if kc_locked s then Ret (s\<lparr>kc_locked := False, kc_others := n\<rparr>) else Crash BadUnlock)"

inductive_cases kc_stepE: "kc_step X dm i s e (Ret s')"


inductive kc_run ::
    "('n, 'z) ext \<Rightarrow> Domains \<Rightarrow> int \<Rightarrow> ('n, 'z) consumer_state \<Rightarrow> ('n, 'z) consumer_event list \<Rightarrow> ('n, 'z) consumer_state \<Rightarrow> bool"
  for X dm i where
  kc_run_Nil: "kc_run X dm i s [] s"
| kc_run_Cons: "kc_step X dm i s e (Ret s1) \<Longrightarrow> kc_run X dm i s1 es s2 \<Longrightarrow> kc_run X dm i s (e # es) s2"

lemma kc_run_induct_invariant:
  assumes "kc_run X dm i s es s'" and "P s" and "\<And>s e s'. e \<in> set es \<Longrightarrow> P s \<Longrightarrow> kc_step X dm i s e (Ret s') \<Longrightarrow> P s'"
  shows "P s'"
  using assms by (induction rule: kc_run.induct) (simp, metis list.set_intros)

lemma kc_run_append: "kc_run X dm i s es s1 \<Longrightarrow> kc_run X dm i s1 es' s2 \<Longrightarrow> kc_run X dm i s (es @ es') s2"
  by (induction rule: kc_run.induct) (auto intro: kc_run_Cons)

section \<open>Processing leaves the pause flag alone\<close>

lemma nbi_publish_paused [simp]: "gw_PauseFmmasEvents (nbi_publish X vm m w) = gw_PauseFmmasEvents w"
  by (simp add: nbi_publish_def publishToKafkaForNbi_def)

lemma bump_paused [simp]:
  "gw_PauseFmmasEvents (bump_sequence X i w) = gw_PauseFmmasEvents w" "gw_PauseFmmasEvents (bump_offset X i off w) = gw_PauseFmmasEvents w"
  by (simp_all add: bump_sequence_def bump_offset_def)

lemma deliver_paused: "deliver X evt i w = Some (Ret w') \<Longrightarrow> gw_PauseFmmasEvents w' = gw_PauseFmmasEvents w"
  by (auto simp: deliver_def Let_def run_bind_def split: if_splits option.splits go.splits)

lemma post_rcp_paused: "post_rcp X ev vm i w = Some (Ret w') \<Longrightarrow> gw_PauseFmmasEvents w' = gw_PauseFmmasEvents w"
  by (auto simp: post_rcp_def go_simps)

lemma post_event_paused:
  "run_bind (deliver X evt i w) (\<lambda>w1. Some (Ret (bump_offset X i off (bump_sequence X i w1)))) = Some (Ret w') \<Longrightarrow>
     gw_PauseFmmasEvents w' = gw_PauseFmmasEvents w"
  by (auto simp: run_bind_def dest: deliver_paused split: option.splits go.splits)

lemma processMessages_paused: "processMessages X dm msg i w = Some (Ret w') \<Longrightarrow> gw_PauseFmmasEvents w' = gw_PauseFmmasEvents w"
  unfolding processMessages_def postEventForFault_def postEventForNotification_def postEventForTCA_def
    postEventForRCPFault_def postEventForRCPNotification_def postEventForRCPTCA_def Let_def
  by (auto dest: post_rcp_paused post_event_paused split: option.splits if_splits)

section \<open>Without a replay\<close>

text \<open>The message in hand, whether this goroutine holds the mutex, and whether the message has been processed.\<close>

fun in_hand :: "control \<Rightarrow> kmessage list" where
  "in_hand (Got m) = [m]" | "in_hand (GotIn m) = [m]" | "in_hand (Look m) = [m]" | "in_hand (LookIn m) = [m]"
| "in_hand (Process m) = [m]" | "in_hand _ = []"

fun to_commit :: "control \<Rightarrow> kmessage list" where
  "to_commit (CommitLate m) = [m]" | "to_commit _ = []"

fun holds :: "control \<Rightarrow> bool" where
  "holds BeginIn = True" | "holds TopIn = True" | "holds (GotIn m) = True" | "holds (LookIn m) = True" | "holds _ = False"

fun late :: "control \<Rightarrow> bool" where
  "late (CommitEarly m) = True" | "late (Waits m) = True" | "late (WaitTest m) = True" | "late (ProcessLate m) = True" | "late _ = False"

definition calm_inv :: "int \<Rightarrow> ('n, 'z) consumer_state \<Rightarrow> bool" where
  "calm_inv i s \<longleftrightarrow> \<not> paused i s \<and> \<not> late (kc_control s) \<and>
     (if holds (kc_control s) then kc_locked s \<and> kc_others s = 0 else kc_others s = (if kc_locked s then 1 else 0)) \<and>
     kc_fetched s = kc_processed s @ in_hand (kc_control s) \<and> kc_processed s = kc_committed s @ to_commit (kc_control s)"

lemma paused_update [simp]:
  "paused i (s\<lparr>kc_control := c\<rparr>) = paused i s" "paused i (s\<lparr>kc_locked := b\<rparr>) = paused i s" "paused i (s\<lparr>kc_others := n\<rparr>) = paused i s"
  "paused i (s\<lparr>kc_fetched := ms\<rparr>) = paused i s" "paused i (s\<lparr>kc_processed := ms\<rparr>) = paused i s" "paused i (s\<lparr>kc_committed := ms\<rparr>) = paused i s"
  "paused i (set_paused i b s) = b" "paused i (s\<lparr>kc_gw := remember_last m j (kc_gw s)\<rparr>) = paused i s"
  by (simp_all add: paused_def set_paused_def remember_last_def)

lemma kc_process_paused: "kc_process X dm i msg c s = Some (Ret s') \<Longrightarrow> paused i s' = paused i s"
  by (auto simp: kc_process_def run_bind_def paused_def dest: processMessages_paused split: option.splits go.splits)

lemma kc_process_Ret:
  assumes "kc_process X dm i msg c s = Some (Ret s')"
  obtains w where "processMessages X dm msg i (kc_gw s) = Some (Ret w)"
    "s' = s\<lparr>kc_gw := w, kc_processed := kc_processed s @ [msg], kc_control := c\<rparr>"
  using assms by (auto simp: kc_process_def run_bind_def split: option.splits go.splits)

lemma calm_consumer:
  assumes "ConsumingOverFmaas_step X dm i s = Some (Ret s')" and "calm_inv i s"
  shows "calm_inv i s'"
proof (cases "kc_control s")
  case (Process m)
  with assms(1) have p: "kc_process X dm i m (CommitLate m) s = Some (Ret s')" by (simp add: ConsumingOverFmaas_step_def)
  from kc_process_paused [OF p] assms(2) Process show ?thesis
    by (rule_tac kc_process_Ret [OF p]) (simp add: calm_inv_def)
qed (use assms in \<open>auto simp: calm_inv_def ConsumingOverFmaas_step_def kc_lock_def kc_unlock_def kc_commit_def split: if_splits\<close>)

lemma calm_step:
  assumes "kc_step X dm i s e (Ret s')" and "e \<noteq> ReplayStarts" and "calm_inv i s"
  shows "calm_inv i s'"
  using assms(1)
proof cases
  case consumer
  from calm_consumer [OF consumer(2) assms(3)] show ?thesis .
next
  case (other_works w)
  then show ?thesis using assms(3) by (auto simp: calm_inv_def paused_def at_def)
next
  case replay_ends
  then show ?thesis using assms(3) by (simp add: calm_inv_def set_paused_def paused_def)
qed (use assms(2,3) in \<open>auto simp: calm_inv_def fetch_returns_def split: if_splits option.splits\<close>)

text \<open>C14: While no replay is requested, the consumer delivers at least once, however it interleaves with the other goroutines of the
  package: a message is committed only after its processing has returned, in the order of the fetches; at every moment at most one
  fetched message is not processed and at most one processed message is not committed, so whenever the process ends, a message is
  either unprocessed and uncommitted, or processed. The mutex excludes: it is locked exactly while this goroutine or one of the others is between its
  \<open>Lock\<close> and \<open>Unlock\<close>, and they never are at the same time, so nobody unlocks a mutex that is not locked.\<close>

theorem live_consumer_at_least_once:
  assumes "kc_run X dm i (consumer_start w) es s" and "ReplayStarts \<notin> set es" and "\<not> at False (gw_PauseFmmasEvents w) i"
  shows "(\<exists>last. kc_fetched s = kc_processed s @ last \<and> length last \<le> 1) \<and>
    (\<exists>last. kc_processed s = kc_committed s @ last \<and> length last \<le> 1) \<and>
    (kc_locked s \<longleftrightarrow> holds (kc_control s) \<or> kc_others s > 0) \<and> kc_others s + (if holds (kc_control s) then 1 else 0) \<le> 1"
proof -
  have "calm_inv i s"
    using assms(1)
  proof (rule kc_run_induct_invariant)
    show "calm_inv i (consumer_start w)" using assms(3) by (simp add: calm_inv_def consumer_start_def paused_def)
    show "calm_inv i s'" if "e \<in> set es" "calm_inv i s" "kc_step X dm i s e (Ret s')" for s e s'
      using calm_step [OF that(3) _ that(2)] that(1) assms(2) by blast
  qed
  moreover have "length (in_hand c) \<le> 1" "length (to_commit c) \<le> 1" for c by (cases c; simp)+
  ultimately show ?thesis unfolding calm_inv_def by (auto split: if_splits)
qed

text \<open>Several steps of the consumer without interruption.\<close>

primrec consumer_steps :: "('n, 'z) ext \<Rightarrow> Domains \<Rightarrow> int \<Rightarrow> nat \<Rightarrow> ('n, 'z) consumer_state \<Rightarrow> ('n, 'z) consumer_state run" where
  "consumer_steps X dm i 0 s = Some (Ret s)"
| "consumer_steps X dm i (Suc n) s = run_bind (ConsumingOverFmaas_step X dm i s) (consumer_steps X dm i n)"

lemma consumer_steps_run: "consumer_steps X dm i n s = Some (Ret s') \<Longrightarrow> kc_run X dm i s (replicate n Consumer) s'"
proof (induction n arbitrary: s)
  case (Suc n)
  then obtain s1 where "ConsumingOverFmaas_step X dm i s = Some (Ret s1)" "consumer_steps X dm i n s1 = Some (Ret s')"
    by (auto simp: run_bind_def split: option.splits go.splits)
  with Suc.IH show ?case by (auto intro: kc_run_Cons consumer)
qed (simp add: kc_run_Nil)

lemmas consumer_eval = ConsumingOverFmaas_step_def kc_lock_def kc_unlock_def kc_commit_def kc_process_def

text \<open>A consumer that has sent its heartbeat takes a message, processes it and commits it.\<close>

definition sent_gw :: "(unit, string \<rightharpoonup> string) gw" where
  "sent_gw = sample_gw\<lparr>gw_HeartbeatSent := [7 \<mapsto> True]\<rparr>"

lemma sample_not_paused [simp]: "\<not> at False (gw_PauseFmmasEvents sent_gw) 7" "at False (gw_HeartbeatSent sent_gw) 7"
  by (simp_all add: sent_gw_def sample_gw_def at_def)

lemma processMessages_sample_returns:
  "\<exists>w'. processMessages sample_ext sample_domains (sample_msg 20) 7 (remember_last (sample_msg 20) 7 sent_gw) = Some (Ret w')"
proof -
  let ?w = "remember_last (sample_msg 20) 7 sent_gw"
  have "at zero_VesMap (gw_kafkaObj ?w) 7 = sample_vm" "at 0 (gw_ZKSequenceId ?w) 7 = 3"
    by (simp_all add: remember_last_def sent_gw_def)
  with process_all_kafka [of ?w 7 sample_vm sample_ext "[sample_msg 20]" sample_domains 3]
  show ?thesis by (auto simp: go_simps)
qed

theorem live_consumer_at_least_once_witness:
  "\<exists>es s. kc_run sample_ext sample_domains 7 (consumer_start sent_gw) es s \<and> ReplayStarts \<notin> set es \<and>
     kc_fetched s = [sample_msg 20] \<and> kc_committed s = [sample_msg 20] \<and>
     (\<exists>last. kc_processed s = kc_committed s @ last \<and> length last \<le> 1)"
proof -
  let ?s0 = "consumer_start sent_gw" and ?m = "sample_msg 20"
  let ?s1 = "?s0\<lparr>kc_control := Fetch\<rparr>"
  let ?s2 = "?s1\<lparr>kc_fetched := [?m], kc_control := Got ?m\<rparr>"
  from processMessages_sample_returns obtain w where
    w: "processMessages sample_ext sample_domains ?m 7 (remember_last ?m 7 sent_gw) = Some (Ret w)" by blast
  let ?s3 = "?s2\<lparr>kc_gw := w, kc_processed := [?m], kc_committed := [?m], kc_control := Top\<rparr>"
  have "consumer_steps sample_ext sample_domains 7 4 ?s0 = Some (Ret ?s1)"
    by (simp add: numeral_nat consumer_eval consumer_start_def paused_def)
  then have r1: "kc_run sample_ext sample_domains 7 ?s0 (replicate 4 Consumer) ?s1" by (rule consumer_steps_run)
  have "kc_step sample_ext sample_domains 7 ?s1 (FetchReturns (Some ?m)) (Ret ?s2)"
    using fetch [of ?s1 sample_ext sample_domains 7 "Some ?m"] by (simp add: fetch_returns_def consumer_start_def)
  then have r2: "kc_run sample_ext sample_domains 7 ?s1 [FetchReturns (Some ?m)] ?s2" by (rule kc_run_Cons) (rule kc_run_Nil)
  have "consumer_steps sample_ext sample_domains 7 6 ?s2 = Some (Ret ?s3)"
    using w by (simp add: numeral_nat consumer_eval consumer_start_def) (simp add: paused_def remember_last_def)
  then have r3: "kc_run sample_ext sample_domains 7 ?s2 (replicate 6 Consumer) ?s3" by (rule consumer_steps_run)
  let ?es = "replicate 4 Consumer @ [FetchReturns (Some ?m)] @ replicate 6 Consumer"
  have run: "kc_run sample_ext sample_domains 7 ?s0 ?es ?s3" by (intro kc_run_append [OF r1] kc_run_append [OF r2] r3)
  have no: "ReplayStarts \<notin> set ?es" by simp
  from live_consumer_at_least_once [OF run no] run no show ?thesis
    by (intro exI [of _ ?es] exI [of _ ?s3]) simp
qed

section \<open>With a replay\<close>








end
