(* ===== verification/Link_Monitor.thy ===== *)
theory Link_Monitor
  imports Gateway_Properties
begin

text \<open>
  The watch over the links (VESPA/cimUtils/cimTopicImpl.go and the loop at the end of \<open>main\<close> in ves-agent.go): every second the process
  dials Prometheus and the collectors, publishes an event on NATS when a link goes down or comes back, and keeps the status of the
  collectors that replay requests are answered with. Dialling, the last error of the NATS connection and the clock are arguments; a
  flat buffer is the record it is built from.
\<close>

section \<open>Messages\<close>

record cim_log =
  cl_ContainerId :: string
  cl_ContainerName :: string
  cl_Payload :: string

record cim_event =
  ce_EventName :: string
  ce_EventTime :: int
  ce_ContainerId :: string
  ce_ManagedObject :: "(string \<times> string) list"
  ce_AdditionalInfo :: "(string \<times> string) list"

datatype cim_msg = LogMsg cim_log | EventMsg cim_event

text \<open>The clock and the connection change while the process runs, so what they give depends on how many messages have been published:
  \<open>ix_now X n\<close> is the clock when the message with number \<open>n\<close> (from 0) is built, \<open>ix_stamp X n\<close> the same time as the log prints it, and
  \<open>ix_lastError X n subj msg\<close> whether the connection has an error after that message.\<close>

record nats_ext =
  ix_ContainerID :: string
  ix_now :: "nat \<Rightarrow> time"
  ix_stamp :: "nat \<Rightarrow> string"
  ix_lastError :: "nat \<Rightarrow> string \<Rightarrow> cim_msg \<Rightarrow> bool"

record cim =
  ci_firstFailed :: bool
  ci_returnFromFailedEvent :: bool
  ci_firstFailedC :: "string \<rightharpoonup> bool"
  ci_returnFromFailedEventC :: "string \<rightharpoonup> bool"
  ci_CollectorStatus :: "string \<rightharpoonup> string"
  ci_published :: "(string \<times> cim_msg) list"

text \<open>The state in which the package starts, with the statuses that the registration of the collectors has set.\<close>

definition cim_start :: "(string \<rightharpoonup> string) \<Rightarrow> cim" where
  "cim_start status = \<lparr>ci_firstFailed = False, ci_returnFromFailedEvent = False, ci_firstFailedC = Map.empty, ci_returnFromFailedEventC = Map.empty,
     ci_CollectorStatus = status, ci_published = []\<rparr>"

definition natsMsgConvertion :: "nats_ext \<Rightarrow> string \<Rightarrow> cim_msg" where
  "natsMsgConvertion X logs = LogMsg \<lparr>cl_ContainerId = ix_ContainerID X, cl_ContainerName = ''vesgw'', cl_Payload = logs\<rparr>"

definition PublishLogmsg :: "nats_ext \<Rightarrow> string \<Rightarrow> cim_msg \<Rightarrow> cim \<Rightarrow> cim \<times> bool" where
  "PublishLogmsg X subj msg st = (st\<lparr>ci_published := ci_published st @ [(subj, msg)]\<rparr>, ix_lastError X (length (ci_published st)) subj msg)"

text \<open>The line of the log, published on NATS too; the second component is whether the process ends.\<close>

definition LogForwarder :: "nats_ext \<Rightarrow> string \<Rightarrow> int \<Rightarrow> string \<Rightarrow> string \<Rightarrow> string list \<Rightarrow> cim \<Rightarrow> cim \<times> bool" where
  "LogForwarder X logLevel pid funcName internalFunc args st =
     (let msg = ''['' @ ix_stamp X (length (ci_published st)) @ '']['' @ logLevel @ '']['' @ FormatInt pid @ '']['' @ funcName @ '']['' @ internalFunc @ '']'' @ '' - '' @
            concat (map (\<lambda>val. val @ '' '') args)
      in (st\<lparr>ci_published := ci_published st @ [(''LOG'', natsMsgConvertion X msg)]\<rparr>, logLevel = ''EXCEPTION''))"

text \<open>The branch for the subject \<open>LOG\<close> builds a sample log message; \<open>n\<close> is how often its size setting makes it repeat its text.\<close>

definition sample_repeats :: "int \<Rightarrow> nat" where
  "sample_repeats msgBytes = (if msgBytes = 512 then 2 else if msgBytes = 1024 then 4 else if msgBytes = 2048 then 8 else 1)"

definition sample_log :: "nats_ext \<Rightarrow> nat \<Rightarrow> string" where
  "sample_log X n = ''['' @ ix_stamp X n @ ''][LOG_INF][abcd234e]0-This is a sample log message1.Message is encoded in protobuf and published over NATS. '' @
     ''The subscriber reads from NATS and writes the content into a log file. FluentBit then forward the same log to elasticsearch.''"

definition GetEvenFlatBufferMsg :: "nats_ext \<Rightarrow> nat \<Rightarrow> int \<Rightarrow> string \<Rightarrow> string \<Rightarrow> string \<Rightarrow> string \<Rightarrow> cim_msg" where
  "GetEvenFlatBufferMsg X n msgBytes subj eventName add eventkey =
     (if subj = ''LOG'' then
        LogMsg \<lparr>cl_ContainerId = ix_ContainerID X, cl_ContainerName = ''app'',
          cl_Payload = sample_log X n @ concat (replicate (sample_repeats msgBytes - 1) (''|'' @ sample_log X n))\<rparr>
      else
        EventMsg \<lparr>ce_EventName = eventName, ce_EventTime = go_div (UnixNano (ix_now X n)) 1000000, ce_ContainerId = ix_ContainerID X,
          ce_ManagedObject = [(eventkey, add)], ce_AdditionalInfo = [(''host'', add)]\<rparr>)"

section \<open>Checks\<close>

text \<open>The package variable \<open>msgBytes\<close> is never set.\<close>

definition publish_event :: "nats_ext \<Rightarrow> string \<Rightarrow> string \<Rightarrow> string \<Rightarrow> string \<Rightarrow> cim \<Rightarrow> cim go" where
  "publish_event X subj eventName add eventkey st =
     (let (st1, failed) = PublishLogmsg X subj (GetEvenFlatBufferMsg X (length (ci_published st)) 0 ''EVENT'' eventName add eventkey) st
      in if failed then Crash ProcessExit else Ret st1)"

definition ConnCheckForSimulator :: "nats_ext \<Rightarrow> string \<Rightarrow> string \<Rightarrow> string \<Rightarrow> cim \<Rightarrow> cim go" where
  "ConnCheckForSimulator X subj add collectorStatus st = publish_event X subj collectorStatus add ''collector'' st"

definition ConnCheck :: "nats_ext \<Rightarrow> (string \<Rightarrow> string \<Rightarrow> bool) \<Rightarrow> string \<Rightarrow> string \<Rightarrow> string \<Rightarrow> cim \<Rightarrow> cim go" where
  "ConnCheck X dial subj host port st =
     (if \<not> dial host port then
        (if \<not> ci_firstFailed st then
           publish_event X subj ''PrometheusConnectivityDown'' host ''prometheus''
             (st\<lparr>ci_firstFailed := True, ci_returnFromFailedEvent := True\<rparr>)
         else Ret st)
      else if ci_returnFromFailedEvent st then
        publish_event X subj ''PrometheusConnectivityUp'' host ''prometheus''
          (st\<lparr>ci_returnFromFailedEvent := False, ci_firstFailed := False\<rparr>)
      else Ret st)"

definition CollectorConnCheck ::
    "nats_ext \<Rightarrow> (string \<Rightarrow> string \<Rightarrow> bool) \<Rightarrow> string \<Rightarrow> string \<Rightarrow> string \<Rightarrow> string \<Rightarrow> cim \<Rightarrow> cim go" where
  "CollectorConnCheck X dial subj host port ID st =
     (let url = host @ '':'' @ port
      in if \<not> dial host port then
           (if \<not> at False (ci_firstFailedC st) ID then
              go_bind (ConnCheckForSimulator X subj url ''CollectorDown''
                  (st\<lparr>ci_CollectorStatus := (ci_CollectorStatus st)(ID \<mapsto> ''DOWN'')\<rparr>)) (\<lambda>st1.
                Ret (st1\<lparr>ci_firstFailedC := (ci_firstFailedC st1)(ID \<mapsto> True),
                  ci_returnFromFailedEventC := (ci_returnFromFailedEventC st1)(ID \<mapsto> True)\<rparr>))
            else Ret st)
         else if at False (ci_returnFromFailedEventC st) ID then
           go_bind (ConnCheckForSimulator X subj url ''CollectorUp''
               (st\<lparr>ci_CollectorStatus := (ci_CollectorStatus st)(ID \<mapsto> ''UP'')\<rparr>)) (\<lambda>st1.
             Ret (st1\<lparr>ci_firstFailedC := (ci_firstFailedC st1)(ID \<mapsto> False),
               ci_returnFromFailedEventC := (ci_returnFromFailedEventC st1)(ID \<mapsto> False)\<rparr>))
         else Ret st)"

section \<open>The loop of \<open>main\<close>\<close>

text \<open>\<open>net.SplitHostPort\<close>; an error gives two empty strings.\<close>

definition last_colon :: "string \<Rightarrow> nat option" where
  "last_colon s = (if CHR '':'' \<in> set s then Some (length s - Suc (length (takeWhile (\<lambda>c. c \<noteq> CHR '':'') (rev s)))) else None)"

definition SplitHostPort :: "string \<Rightarrow> (string \<times> string) option" where
  "SplitHostPort hp =
     (case last_colon hp of
        None \<Rightarrow> None
      | Some i \<Rightarrow>
          if hp ! 0 = CHR ''['' then
            (let e = length (takeWhile (\<lambda>c. c \<noteq> CHR '']'') hp)
             in if e = length hp \<or> Suc e \<noteq> i then None
                else if CHR ''['' \<in> set (drop 1 hp) \<or> CHR '']'' \<in> set (drop (Suc e) hp) then None
                else Some (take (e - 1) (drop 1 hp), drop (Suc i) hp))
          else if CHR '':'' \<in> set (take i hp) \<or> CHR ''['' \<in> set hp \<or> CHR '']'' \<in> set hp then None
          else Some (take i hp, drop (Suc i) hp))"

definition host_port :: "string \<Rightarrow> string \<times> string" where
  "host_port hp = (case SplitHostPort hp of Some r \<Rightarrow> r | None \<Rightarrow> ([], []))"

text \<open>One pass: \<open>prom\<close> is the host part of the address of Prometheus, a crash if the address cannot be parsed.\<close>

definition check_collector :: "nats_ext \<Rightarrow> (string \<Rightarrow> string \<Rightarrow> bool) \<Rightarrow> (string \<rightharpoonup> string) \<Rightarrow> cim \<Rightarrow> string \<Rightarrow> cim go" where
  "check_collector X dial urls st collectorUrl =
     (let (h, p) = host_port (at [] urls collectorUrl)
      in go_bind (third collectorUrl) (\<lambda>ident. CollectorConnCheck X dial ''EVENT'' h p ident st))"

definition monitor_pass ::
    "nats_ext \<Rightarrow> (string \<Rightarrow> string \<Rightarrow> bool) \<Rightarrow> string go \<Rightarrow> ('n, 'z) gateway \<Rightarrow> cim \<Rightarrow> cim go" where
  "monitor_pass X dial prom g st =
     go_bind prom (\<lambda>hp.
       go_bind (ConnCheck X dial ''EVENT'' (fst (host_port hp)) (snd (host_port hp)) st) (\<lambda>st1.
         go_foldl (check_collector X dial (g_CollectorUrlToId g)) st1 (g_CollectorList g)))"

section \<open>Events are the changes of a link\<close>

text \<open>What the watch promises: an event exactly when the outcome of a check differs from the outcome of the previous check of the same collector, a
  link being up before it is checked. The event with number \<open>n\<close> carries the clock reading of its own moment.\<close>

definition link_msg :: "nats_ext \<Rightarrow> nat \<Rightarrow> bool \<Rightarrow> string \<Rightarrow> cim_msg" where
  "link_msg X n up url = EventMsg \<lparr>ce_EventName = (if up then ''CollectorUp'' else ''CollectorDown''),
     ce_EventTime = go_div (UnixNano (ix_now X n)) 1000000, ce_ContainerId = ix_ContainerID X,
     ce_ManagedObject = [(''collector'', url)], ce_AdditionalInfo = [(''host'', url)]\<rparr>"

type_synonym link_check = "string \<times> string \<times> string \<times> bool"

fun link_changes :: "nats_ext \<Rightarrow> string \<Rightarrow> nat \<Rightarrow> (string \<Rightarrow> bool) \<Rightarrow> link_check list \<Rightarrow> (string \<times> cim_msg) list" where
  "link_changes X subj n was [] = []"
| "link_changes X subj n was ((h, p, ident, up) # cs) =
     (if up = was ident then link_changes X subj n was cs
      else (subj, link_msg X n up (h @ '':'' @ p)) # link_changes X subj (Suc n) (was(ident := up)) cs)"

definition run_check :: "nats_ext \<Rightarrow> string \<Rightarrow> cim \<Rightarrow> link_check \<Rightarrow> cim go" where
  "run_check X subj st c = (case c of (h, p, ident, up) \<Rightarrow> CollectorConnCheck X (\<lambda>_ _. up) subj h p ident st)"

definition link_up :: "cim \<Rightarrow> string \<Rightarrow> bool" where
  "link_up st ident = (\<not> at False (ci_firstFailedC st) ident)"

text \<open>The two flags of a collector agree, and the status follows them once there has been a failure.\<close>

definition link_inv :: "cim \<Rightarrow> bool" where
  "link_inv st \<longleftrightarrow>
     (\<forall>ident. at False (ci_returnFromFailedEventC st) ident = (\<not> link_up st ident) \<and>
        (\<not> link_up st ident \<longrightarrow> ci_CollectorStatus st ident = Some ''DOWN''))"

lemma link_inv_start: "link_inv (cim_start status)" "link_up (cim_start status) = (\<lambda>_. True)"
  by (auto simp: link_inv_def link_up_def cim_start_def at_def)

text \<open>What one check does, and where it ends the process.\<close>

lemma run_check_eq:
  assumes "link_inv st"
  shows "run_check X subj st (h, p, ident, up) =
    (if up = link_up st ident then Ret st
     else if ix_lastError X (length (ci_published st)) subj (link_msg X (length (ci_published st)) up (h @ '':'' @ p)) then Crash ProcessExit
     else Ret (st\<lparr>ci_CollectorStatus := (ci_CollectorStatus st)(ident \<mapsto> if up then ''UP'' else ''DOWN''),
       ci_published := ci_published st @ [(subj, link_msg X (length (ci_published st)) up (h @ '':'' @ p))],
       ci_firstFailedC := (ci_firstFailedC st)(ident \<mapsto> \<not> up),
       ci_returnFromFailedEventC := (ci_returnFromFailedEventC st)(ident \<mapsto> \<not> up)\<rparr>))"
  using assms
  by (cases up) (auto simp: run_check_def CollectorConnCheck_def ConnCheckForSimulator_def publish_event_def PublishLogmsg_def
      GetEvenFlatBufferMsg_def link_msg_def link_inv_def link_up_def)

lemma run_check_step:
  assumes "link_inv st" and "run_check X subj st (h, p, ident, up) = Ret st'"
  shows "link_inv st' \<and> link_up st' = (link_up st)(ident := up) \<and>
    ci_published st' = ci_published st @ (if up = link_up st ident then [] else [(subj, link_msg X (length (ci_published st)) up (h @ '':'' @ p))]) \<and>
    (\<forall>k. k \<noteq> ident \<longrightarrow> ci_CollectorStatus st' k = ci_CollectorStatus st k) \<and>
    (\<not> up \<longrightarrow> ci_CollectorStatus st' ident = Some ''DOWN'')"
proof (cases "up = link_up st ident")
  case True
  with assms(2) have "st' = st" by (simp add: run_check_eq[OF assms(1)])
  with True assms(1) show ?thesis by (auto simp: link_inv_def)
next
  case False
  with assms(2) have st': "st' = st\<lparr>ci_CollectorStatus := (ci_CollectorStatus st)(ident \<mapsto> if up then ''UP'' else ''DOWN''),
       ci_published := ci_published st @ [(subj, link_msg X (length (ci_published st)) up (h @ '':'' @ p))],
       ci_firstFailedC := (ci_firstFailedC st)(ident \<mapsto> \<not> up),
       ci_returnFromFailedEventC := (ci_returnFromFailedEventC st)(ident \<mapsto> \<not> up)\<rparr>"
    by (simp add: run_check_eq[OF assms(1)] split: if_splits)
  have u: "link_up st' = (link_up st)(ident := up)" by (simp add: st' link_up_def fun_eq_iff)
  have "link_inv st'" using assms(1) unfolding link_inv_def u by (simp add: st')
  with u False show ?thesis by (simp add: st')
qed

lemma run_checks:
  assumes "link_inv st" and "\<And>n m. \<not> ix_lastError X n subj m"
  shows "\<exists>st'. go_foldl (run_check X subj) st cs = Ret st' \<and> link_inv st' \<and>
    ci_published st' = ci_published st @ link_changes X subj (length (ci_published st)) (link_up st) cs"
  using assms(1)
proof (induction cs arbitrary: st)
  case (Cons c cs)
  obtain h p ident up where c: "c = (h, p, ident, up)" by (cases c)
  obtain st1 where st1: "run_check X subj st (h, p, ident, up) = Ret st1"
    using run_check_eq[OF Cons.prems, of X subj h p ident up] assms(2) by (cases "up = link_up st ident") auto
  note step = run_check_step[OF Cons.prems st1]
  then obtain st' where st': "go_foldl (run_check X subj) st1 cs = Ret st'" "link_inv st'"
    "ci_published st' = ci_published st1 @ link_changes X subj (length (ci_published st1)) (link_up st1) cs" using Cons.IH[of st1] by blast
  have same: "link_up st1 = link_up st" if "up = link_up st ident" using step that by (simp add: fun_eq_iff)
  have "ci_published st' = ci_published st @ link_changes X subj (length (ci_published st)) (link_up st) (c # cs)"
    using step same by (cases "up = link_up st ident") (simp_all add: c st'(3))
  with st' st1 show ?case by (auto simp: c)
qed simp

text \<open>C33: While NATS takes the messages, the watch never ends the process, and over any sequence of checks of any number of collectors it
  publishes one event per change of a link and nothing else, with the time at which it is built: down after the first failure, up after the
  first success that follows.\<close>

theorem link_events_are_changes:
  assumes "\<And>n m. \<not> ix_lastError X n subj m"
  shows "\<exists>st. go_foldl (run_check X subj) (cim_start status) cs = Ret st \<and> ci_published st = link_changes X subj 0 (\<lambda>_. True) cs"
  using run_checks[OF link_inv_start(1) assms, of status cs] by (auto simp: link_inv_start(2)) (simp add: cim_start_def)

definition sample_nats :: nats_ext where
  "sample_nats = \<lparr>ix_ContainerID = ''c1'', ix_now = (\<lambda>n. time_Unix (int n)), ix_stamp = (\<lambda>_. []), ix_lastError = (\<lambda>_ _ _. False)\<rparr>"

theorem link_events_are_changes_witness:
  "\<exists>st. go_foldl (run_check sample_nats ''EVENT'') (cim_start Map.empty)
      [(''a'', ''1'', ''7'', True), (''a'', ''1'', ''7'', False), (''b'', ''2'', ''8'', False), (''a'', ''1'', ''7'', False), (''a'', ''1'', ''7'', True)] = Ret st \<and>
    ci_published st = [(''EVENT'', link_msg sample_nats 0 False ''a:1''), (''EVENT'', link_msg sample_nats 1 False ''b:2''),
      (''EVENT'', link_msg sample_nats 2 True ''a:1'')]"
proof -
  have "\<not> ix_lastError sample_nats n ''EVENT'' m" for n m by (simp add: sample_nats_def)
  from link_events_are_changes[OF this, of Map.empty
      "[(''a'', ''1'', ''7'', True), (''a'', ''1'', ''7'', False), (''b'', ''2'', ''8'', False), (''a'', ''1'', ''7'', False), (''a'', ''1'', ''7'', True)]"]
  show ?thesis by (simp del: go_foldl.simps add: numeral_2_eq_2)
qed

section \<open>The status of a collector\<close>

lemma check_collector_eq:
  "check_collector X dial urls st u =
     (let (h, p) = host_port (at [] urls u) in go_bind (third u) (\<lambda>ident. run_check X ''EVENT'' st (h, p, ident, dial h p)))"
  by (simp add: check_collector_def run_check_def CollectorConnCheck_def)

lemma check_collectors:
  assumes "link_inv st" and "go_foldl (check_collector X dial urls) st us = Ret st'"
  shows "link_inv st' \<and> (\<forall>k. Ret k \<notin> third ` set us \<longrightarrow> ci_CollectorStatus st' k = ci_CollectorStatus st k) \<and>
    ((\<forall>h p. \<not> dial h p) \<longrightarrow>
      (\<forall>k. ci_CollectorStatus st k = Some ''DOWN'' \<or> Ret k \<in> third ` set us \<longrightarrow> ci_CollectorStatus st' k = Some ''DOWN''))"
  using assms
proof (induction us arbitrary: st)
  case (Cons u us)
  from Cons.prems(2) obtain st1 where s: "check_collector X dial urls st u = Ret st1" "go_foldl (check_collector X dial urls) st1 us = Ret st'"
    by (auto simp: go_simps)
  from s(1) obtain h p ident where t: "third u = Ret ident" "run_check X ''EVENT'' st (h, p, ident, dial h p) = Ret st1"
    by (auto simp: check_collector_eq go_simps split: prod.splits)
  note step = run_check_step[OF Cons.prems(1) t(2)]
  then have "link_inv st1" by blast
  note IH = Cons.IH[OF this s(2)]
  have other: "ci_CollectorStatus st1 k = ci_CollectorStatus st k" if "k \<noteq> ident" for k using step that by blast
  have down: "ci_CollectorStatus st1 k = Some ''DOWN''"
    if "\<forall>h p. \<not> dial h p" "ci_CollectorStatus st k = Some ''DOWN'' \<or> k = ident" for k
    using step that other[of k] by (cases "k = ident") auto
  from IH other down t(1) show ?case by auto
qed simp

lemma ConnCheck_links:
  assumes "link_inv st" and "ConnCheck X dial subj h p st = Ret st'"
  shows "link_inv st' \<and> ci_CollectorStatus st' = ci_CollectorStatus st"
  using assms by (auto simp: ConnCheck_def publish_event_def PublishLogmsg_def link_inv_def link_up_def split: if_splits)

lemma monitor_pass_status:
  assumes "link_inv st" and "monitor_pass X dial prom g st = Ret st'"
  shows "link_inv st' \<and> (\<forall>k. Ret k \<notin> third ` set (g_CollectorList g) \<longrightarrow> ci_CollectorStatus st' k = ci_CollectorStatus st k) \<and>
    ((\<forall>h p. \<not> dial h p) \<longrightarrow> (\<forall>k. Ret k \<in> third ` set (g_CollectorList g) \<longrightarrow> ci_CollectorStatus st' k = Some ''DOWN''))"
proof -
  from assms(2) obtain hp st1 where "ConnCheck X dial ''EVENT'' (fst (host_port hp)) (snd (host_port hp)) st = Ret st1"
    and f: "go_foldl (check_collector X dial (g_CollectorUrlToId g)) st1 (g_CollectorList g) = Ret st'"
    by (auto simp: monitor_pass_def go_simps)
  from ConnCheck_links[OF assms(1) this(1)] have "link_inv st1" "ci_CollectorStatus st1 = ci_CollectorStatus st" by simp_all
  with check_collectors[OF this(1) f] show ?thesis by auto
qed

text \<open>Passes of the watch, each with what the dials of that moment find.\<close>

definition monitor_passes ::
    "nats_ext \<Rightarrow> string go \<Rightarrow> ('n, 'z) gateway \<Rightarrow> cim \<Rightarrow> (string \<Rightarrow> string \<Rightarrow> bool) list \<Rightarrow> cim go" where
  "monitor_passes X prom g st dials = go_foldl (\<lambda>st dial. monitor_pass X dial prom g st) st dials"

lemma monitor_passes_status:
  assumes "link_inv st" and "monitor_passes X prom g st dials = Ret st'"
  shows "link_inv st' \<and> (\<forall>k. Ret k \<notin> third ` set (g_CollectorList g) \<longrightarrow> ci_CollectorStatus st' k = ci_CollectorStatus st k)"
  using assms unfolding monitor_passes_def
proof (induction dials arbitrary: st)
  case (Cons dial dials)
  then obtain st1 where "monitor_pass X dial prom g st = Ret st1" "go_foldl (\<lambda>st dial. monitor_pass X dial prom g st) st1 dials = Ret st'"
    by (auto simp: go_simps)
  with monitor_pass_status[OF Cons.prems(1) this(1)] Cons.IH[of st1] show ?case by auto
qed simp

text \<open>The registration of collectors whose host names have no colon.\<close>

definition plain_fqdn :: "CollectorDetails \<Rightarrow> bool" where
  "plain_fqdn d \<longleftrightarrow> CHR '':'' \<notin> set (cc_FQDN (cd_PrimaryCollector d))"

definition listed :: "string list \<Rightarrow> bool" where
  "listed urls \<longleftrightarrow> urls_keyed urls \<and> (\<forall>u\<in>set urls. \<exists>i. third u = Ret (FormatInt i))"

lemma third_plain: "plain_fqdn d \<Longrightarrow> third (url_with_id d) = Ret (FormatInt (cd_Id d))"
  by (simp add: plain_fqdn_def third_def index_def url_with_id_def collector_url_def Split_at Split_absent FormatInt_no_colon)

lemma register_listed:
  assumes "listed (g_CollectorList g)" and "plain_fqdn d"
  shows "\<exists>g'. register_collector g d = Ret g' \<and> listed (g_CollectorList g') \<and>
    third ` set (g_CollectorList g') = insert (Ret (FormatInt (cd_Id d))) (third ` set (g_CollectorList g)) \<and>
    g_CollectorStatus g' = (g_CollectorStatus g)(string_of_rune (cd_Id d) \<mapsto> ''UP'')"
  using update_collector_list_eq[of "g_CollectorList g" d] assms
  by (auto simp: register_collector_def Let_def listed_def third_plain)

lemma registered:
  assumes "listed (g_CollectorList g)" and "\<forall>d\<in>set ds. plain_fqdn d"
  shows "\<exists>g'. go_foldl register_collector g ds = Ret g' \<and> listed (g_CollectorList g') \<and>
    third ` set (g_CollectorList g') = third ` set (g_CollectorList g) \<union> (Ret \<circ> FormatInt \<circ> cd_Id) ` set ds \<and>
    (\<forall>k. g_CollectorStatus g' k = (if k \<in> (string_of_rune \<circ> cd_Id) ` set ds then Some ''UP'' else g_CollectorStatus g k))"
  using assms
proof (induction ds arbitrary: g)
  case (Cons d ds)
  from register_listed[OF Cons.prems(1), of d] Cons.prems(2) obtain g1 where g1: "register_collector g d = Ret g1" "listed (g_CollectorList g1)"
    "third ` set (g_CollectorList g1) = insert (Ret (FormatInt (cd_Id d))) (third ` set (g_CollectorList g))"
    "g_CollectorStatus g1 = (g_CollectorStatus g)(string_of_rune (cd_Id d) \<mapsto> ''UP'')" by auto
  from Cons.IH[OF g1(2)] Cons.prems(2) obtain g' where "go_foldl register_collector g1 ds = Ret g'" "listed (g_CollectorList g')"
    "third ` set (g_CollectorList g') = third ` set (g_CollectorList g1) \<union> (Ret \<circ> FormatInt \<circ> cd_Id) ` set ds"
    "\<forall>k. g_CollectorStatus g' k = (if k \<in> (string_of_rune \<circ> cd_Id) ` set ds then Some ''UP'' else g_CollectorStatus g1 k)" by auto
  with g1 show ?case by auto
qed simp

lemma rune_first:
  assumes "i < 0 \<or> 128 \<le> i"
  obtains n r where "string_of_rune i = byte n # r" "192 \<le> n" "n < 256"
proof (cases "i < 0 \<or> i > 1114111 \<or> (55296 \<le> i \<and> i \<le> 57343)")
  case True
  then show ?thesis using that[of 239] by (simp add: string_of_rune_def)
next
  case False
  then have "128 \<le> i" "i \<le> 1114111" using assms by simp_all
  then have pos: "0 \<le> i div 64" "0 \<le> i div 4096" "0 \<le> i div 262144" by (simp_all add: pos_imp_zdiv_nonneg_iff)
  consider "i < 2048" | "2048 \<le> i" "i < 65536" | "65536 \<le> i" by linarith
  then show ?thesis
  proof cases
    case 1
    then have "string_of_rune i = byte (192 + i div 64) # [byte (128 + i mod 64)]" using False \<open>128 \<le> i\<close> unfolding string_of_rune_def by (simp only: if_False) simp
    moreover have "i div 64 \<le> 31" using zdiv_mono1[of i 2047 64] 1 by simp
    ultimately show ?thesis using pos(1) by (intro that) (assumption, linarith+)
  next
    case 2
    then have "string_of_rune i = byte (224 + i div 4096) # [byte (128 + i div 64 mod 64), byte (128 + i mod 64)]"
      using False \<open>128 \<le> i\<close> unfolding string_of_rune_def by (simp only: if_False) simp
    moreover have "i div 4096 \<le> 15" using zdiv_mono1[of i 65535 4096] 2 by simp
    ultimately show ?thesis using pos(2) by (intro that) (assumption, linarith+)
  next
    case 3
    then have "string_of_rune i = byte (240 + i div 262144) # [byte (128 + i div 4096 mod 64), byte (128 + i div 64 mod 64), byte (128 + i mod 64)]"
      using False \<open>128 \<le> i\<close> unfolding string_of_rune_def by (simp only: if_False) simp
    moreover have "i div 262144 \<le> 4" using zdiv_mono1[of i 1114111 262144] \<open>i \<le> 1114111\<close> by simp
    ultimately show ?thesis using pos(3) by (intro that) (assumption, linarith+)
  qed
qed

text \<open>A rune is a decimal number only if it is a digit.\<close>

lemma rune_decimal:
  assumes "string_of_rune i = FormatInt j"
  shows "48 \<le> i \<and> i \<le> 57"
proof -
  obtain c s where f: "FormatInt j = c # s" and c: "c = CHR ''-'' \<and> s \<noteq> [] \<or> is_digit c"
  proof (cases "j < 0")
    case True
    then show ?thesis using that[of "CHR ''-''" "dec_nat (nat (- j))"] by (simp add: FormatInt_def dec_nat.simps)
  next
    case False
    then show ?thesis using that dec_nat_digits[of "nat j"] by (cases "dec_nat (nat j)") (auto simp: FormatInt_def dec_nat.simps split: if_splits)
  qed
  have b: "(of_char (byte n) :: nat) = nat n" if "0 \<le> n" "n < 256" for n using that by (simp add: byte_def)
  have "0 \<le> i \<and> i < 128"
  proof (rule ccontr)
    assume "\<not> (0 \<le> i \<and> i < 128)"
    then have "i < 0 \<or> 128 \<le> i" by linarith
    then obtain n r where "string_of_rune i = byte n # r" "192 \<le> n" "n < 256" by (rule rune_first)
    with assms f c b[of n] show False by (auto simp: is_digit_def)
  qed
  then have "string_of_rune i = [byte i]" by (simp add: string_of_rune_def)
  with assms f c b[of i] \<open>0 \<le> i \<and> i < 128\<close> show ?thesis by (auto simp: is_digit_def)
qed

text \<open>The answer to a replay request does not tell the state of the link. The watch keeps it under the decimal identifier of the collector, the answer looks
  it up under the character with that code, where the registration has put \<open>UP\<close>: after any passes of the watch, the last of which found all
  links down, the status kept for a registered collector is \<open>DOWN\<close> and the answer is \<open>UP\<close>, unless the identifier is the code of a digit.\<close>

theorem replay_status_stale:
  assumes "go_foldl register_collector g0 ds = Ret g" and "g_CollectorList g0 = []" and "\<forall>d\<in>set ds. plain_fqdn d" and "d \<in> set ds"
    and "cd_Id d < 48 \<or> 57 < cd_Id d"
    and "monitor_passes X prom g (cim_start (g_CollectorStatus g)) (dials @ [\<lambda>_ _. False]) = Ret st"
  shows "ci_CollectorStatus st (FormatInt (cd_Id d)) = Some ''DOWN'' \<and>
    rr_CollectorStatus (snd (setInitReplay (ci_CollectorStatus st) (cd_Id d) startIndex w)) = ''UP''"
proof -
  have l: "listed (g_CollectorList g0)" using assms(2) by (simp add: listed_def urls_keyed_def)
  from registered[OF l assms(3)] assms(1) have g: "listed (g_CollectorList g)" "Ret (FormatInt (cd_Id d)) \<in> third ` set (g_CollectorList g)"
    "g_CollectorStatus g (string_of_rune (cd_Id d)) = Some ''UP''" using assms(4) by auto
  from assms(6) obtain st1 where p: "monitor_passes X prom g (cim_start (g_CollectorStatus g)) dials = Ret st1"
    "monitor_pass X (\<lambda>_ _. False) prom g st1 = Ret st"
    by (auto simp: monitor_passes_def go_foldl_append go_simps)
  have n: "Ret (string_of_rune (cd_Id d)) \<notin> third ` set (g_CollectorList g)"
    using g(1) rune_decimal[of "cd_Id d"] assms(5) by (fastforce simp: listed_def)
  note s1 = monitor_passes_status[OF link_inv_start(1) p(1)]
  with monitor_pass_status[OF conjunct1[OF s1] p(2)] g n
  have "ci_CollectorStatus st (FormatInt (cd_Id d)) = Some ''DOWN''" "ci_CollectorStatus st (string_of_rune (cd_Id d)) = Some ''UP''"
    by (auto simp: cim_start_def)
  then show ?thesis by (simp add: setInitReplay_def Let_def at_def)
qed

text \<open>A pass ends while NATS takes the messages.\<close>

lemma check_collectors_return:
  assumes "\<And>n m. \<not> ix_lastError X n ''EVENT'' m" and "link_inv st" and "\<forall>u\<in>set us. \<exists>i. third u = Ret (FormatInt i)"
  shows "\<exists>st'. go_foldl (check_collector X dial urls) st us = Ret st'"
  using assms(2,3)
proof (induction us arbitrary: st)
  case (Cons u us)
  from Cons.prems(2) obtain i where t: "third u = Ret (FormatInt i)" by auto
  obtain h p where hp: "host_port (at [] urls u) = (h, p)" by fastforce
  obtain st1 where r: "run_check X ''EVENT'' st (h, p, FormatInt i, dial h p) = Ret st1"
    using run_check_eq[OF Cons.prems(1), of X "''EVENT''" h p "FormatInt i" "dial h p"] assms(1) by (cases "dial h p = link_up st (FormatInt i)") auto
  from run_check_step[OF Cons.prems(1) r] Cons.IH[of st1] Cons.prems(2) show ?case by (simp add: check_collector_eq hp t r)
qed simp

lemma monitor_pass_returns:
  assumes "\<And>n m. \<not> ix_lastError X n ''EVENT'' m" and "link_inv st" and "listed (g_CollectorList g)"
  shows "\<exists>st'. monitor_pass X dial (Ret hp) g st = Ret st'"
proof -
  obtain st1 where c: "ConnCheck X dial ''EVENT'' (fst (host_port hp)) (snd (host_port hp)) st = Ret st1"
    using assms(1) by (cases "dial (fst (host_port hp)) (snd (host_port hp))"; cases "ci_firstFailed st"; cases "ci_returnFromFailedEvent st")
      (auto simp: ConnCheck_def publish_event_def PublishLogmsg_def)
  with check_collectors_return[OF assms(1), of st1] ConnCheck_links[OF assms(2) c] assms(3) show ?thesis
    by (auto simp: monitor_pass_def listed_def)
qed

theorem replay_status_stale_witness:
  "\<exists>g st. go_foldl register_collector (sample_gateway sample_gw) [sample_details 7 ''ves''] = Ret g \<and>
     monitor_passes sample_nats (Ret ''prometheus:9090'') g (cim_start (g_CollectorStatus g)) [\<lambda>_ _. False] = Ret st \<and>
     rr_CollectorStatus (snd (setInitReplay (ci_CollectorStatus st) 7 1 sample_gw)) = ''UP''"
proof -
  have p: "\<forall>d\<in>set [sample_details 7 ''ves'']. plain_fqdn d" by (simp add: plain_fqdn_def sample_details_def)
  have e: "g_CollectorList (sample_gateway sample_gw) = []" by (simp add: sample_gateway_def)
  then have "listed (g_CollectorList (sample_gateway sample_gw))" by (simp add: listed_def urls_keyed_def)
  from registered[OF this p] obtain g where g: "go_foldl register_collector (sample_gateway sample_gw) [sample_details 7 ''ves''] = Ret g"
    "listed (g_CollectorList g)" by blast
  have "\<not> ix_lastError sample_nats n ''EVENT'' m" for n m by (simp add: sample_nats_def)
  from monitor_pass_returns[OF this link_inv_start(1) g(2)] obtain st where
    st: "monitor_passes sample_nats (Ret ''prometheus:9090'') g (cim_start (g_CollectorStatus g)) ([] @ [\<lambda>_ _. False]) = Ret st"
    by (fastforce simp: monitor_passes_def)
  have "sample_details 7 ''ves'' \<in> set [sample_details 7 ''ves'']" "cd_Id (sample_details 7 ''ves'') = 7" by (simp_all add: sample_details_def)
  from replay_status_stale[OF g(1) e p this(1) _ st, of 1 sample_gw] this(2) g(1) st show ?thesis by auto
qed

end
