(* ===== verification/Gateway_Start.thy ===== *)
theory Gateway_Start
  imports Gateway_Properties
begin

text \<open>
  The start of the process and its changes at run time: \<open>main\<close>, \<open>InitializeVesGwDefaultConf\<close>, \<open>xgvelaRegister\<close> and \<open>updateConfiguration\<close>
  (VESPA/ves-agent/ves-agent.go), the patching of the management configuration (config/dynamicConfig.go), the peers of the cluster
  (config/clusterConfiguration.go) and the consumers that are started (agent/agent.go). The config map, the codecs, the JSON patch library,
  the answers of the registration and the outcome of connecting to NATS are arguments.
\<close>

section \<open>Peers\<close>

record Peer =
  pe_ID :: string
  pe_Address :: string

text \<open>A server of the Raft library is a pair of identifier and address.\<close>

definition Peer_Server :: "Peer \<Rightarrow> string \<times> string" where
  "Peer_Server p = (pe_ID p, pe_Address p)"

definition Peers_Servers :: "Peer list \<Rightarrow> (string \<times> string) list" where
  "Peers_Servers cfg = map Peer_Server cfg"

fun GetPeer :: "Peer list \<Rightarrow> string \<Rightarrow> Peer \<times> bool" where
  "GetPeer [] ident = (\<lparr>pe_ID = [], pe_Address = []\<rparr>, False)"
| "GetPeer (p # ps) ident = (if pe_ID p = ident then (p, True) else GetPeer ps ident)"

section \<open>The management configuration\<close>

text \<open>\<open>VesConfigOb\<close> is a pointer to a structure with a pointer.\<close>

record VesConfigObj =
  vo_Config :: "Config option"

text \<open>
  \<open>ux_decodePatch\<close> and \<open>ux_apply\<close> are those of the patch library. \<open>ux_unmarshal\<close> is what a nil pointer becomes, and whether there was an error;
  \<open>ux_decode_object\<close> decodes into a map of strings.
\<close>

record 'p update_ext =
  ux_decodePatch :: "string \<Rightarrow> 'p option"
  ux_apply :: "'p \<Rightarrow> string \<Rightarrow> string option"
  ux_marshal :: "VesConfigObj option \<Rightarrow> string"
  ux_unmarshal :: "string \<Rightarrow> VesConfigObj option \<times> bool"
  ux_decode_object :: "string \<Rightarrow> (string \<rightharpoonup> string) option"
  ux_parseDur :: "string \<Rightarrow> duration"

text \<open>Into a structure that is not behind a pointer, the null value and an error leave the zero value.\<close>

definition unmarshal_obj :: "'p update_ext \<Rightarrow> string \<Rightarrow> VesConfigObj" where
  "unmarshal_obj X s = (case fst (ux_unmarshal X s) of Some v \<Rightarrow> v | None \<Rightarrow> \<lparr>vo_Config = None\<rparr>)"

definition ApplyJsonPatch :: "'p update_ext \<Rightarrow> string \<Rightarrow> VesConfigObj option \<Rightarrow> (VesConfigObj option \<times> bool) go" where
  "ApplyJsonPatch X patch ob =
     (case ux_decodePatch X patch of
        None \<Rightarrow> Ret (ob, False)
      | Some decode_patch \<Rightarrow>
          (case ux_apply X decode_patch (ux_marshal X ob) of
             None \<Rightarrow> Ret (ob, False)
           | Some modified \<Rightarrow>
               (let data = unmarshal_obj X modified
                in if vo_Config data = None \<or> Option.bind ob vo_Config = None then Crash NilDeref else Ret (Some data, True))))"

text \<open>The message on the subject \<open>CONFIG\<close>.\<close>

definition sendCommitVersion :: "(string \<rightharpoonup> string) \<Rightarrow> (string \<times> string) list" where
  "sendCommitVersion key =
     [(''change-set-key'', at [] key ''change-set-key''), (''revision'', at [] key ''revision''), (''status'', ''success''),
      (''remarks'', ''Successfully applied the config patch'')]"

definition ProcessUpdateConfig :: "'p update_ext \<Rightarrow> (string \<rightharpoonup> string) \<Rightarrow> VesConfigObj option \<Rightarrow> (VesConfigObj option \<times> (string \<times> string) list) go" where
  "ProcessUpdateConfig X updateConfig ob =
     go_bind (ApplyJsonPatch X (at [] updateConfig ''config-patch'') ob) (\<lambda>(ob1, ok). Ret (ob1, sendCommitVersion updateConfig))"

text \<open>The state of the process: the gateway, the object and the commit messages.\<close>

record ('n, 'z) process =
  ps_gateway :: "('n, 'z) gateway"
  ps_VesConfigOb :: "VesConfigObj option"
  ps_commits :: "(string \<times> string) list list"

definition with_config :: "VesConfigObj option \<Rightarrow> (Config \<Rightarrow> 'a go) \<Rightarrow> 'a go" where
  "with_config ob f = (case ob of Some v \<Rightarrow> (case vo_Config v of Some cfg \<Rightarrow> f cfg | None \<Rightarrow> Crash NilDeref) | None \<Rightarrow> Crash NilDeref)"

text \<open>The words of a patch decide which sections are read; without any of them the object is not touched.\<close>

definition patch_words :: "string list" where
  "patch_words = [''collectorDetails'', ''vesdomains'', ''heartbeat'', ''measurement'', ''event'', ''alertManager'', ''cluster'']"

definition update_sections :: "'p update_ext \<Rightarrow> VesConfigObj option \<Rightarrow> string \<Rightarrow> ('n, 'z) gateway \<Rightarrow> ('n, 'z) gateway go" where
  "update_sections X ob value g =
     (if list_ex (Contains value) patch_words then with_config ob (\<lambda>cfg. updateDefaultConfUponPatch (ux_parseDur X) cfg value g) else Ret g)"

text \<open>The handler of \<open>/updateConfig\<close>; \<open>None\<close> is a body that cannot be read. A panic is caught by the HTTP server, which ends the request.\<close>

definition updateConfiguration ::
    "'p update_ext \<Rightarrow> (string \<Rightarrow> string \<Rightarrow> string + string) option \<Rightarrow> 'z curator \<Rightarrow> string option \<Rightarrow> ('n, 'z) process \<Rightarrow> ('n, 'z) process go" where
  "updateConfiguration X fpm cu body ps =
     (case body of
        None \<Rightarrow> Ret ps
      | Some text \<Rightarrow>
          (case ux_decode_object X text of
             None \<Rightarrow> Ret ps
           | Some updateConfig \<Rightarrow>
               go_bind (ProcessUpdateConfig X updateConfig (ps_VesConfigOb ps)) (\<lambda>(ob, msg).
                 go_bind (update_sections X ob (at [] updateConfig ''config-patch'') (ps_gateway ps)) (\<lambda>g.
                   go_bind (prepareVesgwConfigList fpm cu g) (\<lambda>g1.
                     Ret \<lparr>ps_gateway = g1, ps_VesConfigOb = ob, ps_commits = ps_commits ps @ [msg]\<rparr>)))))"

section \<open>Start\<close>

text \<open>A loop that tries again until an attempt succeeds; the result is the attempt, \<open>None\<close> if there is none.\<close>

partial_function (option) retry_until :: "(nat \<Rightarrow> bool) \<Rightarrow> nat \<Rightarrow> nat option" where
  "retry_until ok k = (if ok k then Some k else retry_until ok (Suc k))"

datatype register_answer = MarshalFailed | PostFailed | StatusCode int

definition xgvelaRegister :: "register_answer \<Rightarrow> int" where
  "xgvelaRegister a = (case a of MarshalFailed \<Rightarrow> 400 | PostFailed \<Rightarrow> 500 | StatusCode c \<Rightarrow> c)"

definition NatsConnection :: "(nat \<Rightarrow> bool) \<Rightarrow> nat option" where
  "NatsConnection connect = retry_until connect 0"

text \<open>A config map that cannot be read ends the process, one that cannot be decoded does not.\<close>

definition InitializeVesGwDefaultConf :: "'p update_ext \<Rightarrow> (string \<rightharpoonup> string) option \<Rightarrow> VesConfigObj option go" where
  "InitializeVesGwDefaultConf X configMap =
     (case configMap of None \<Rightarrow> Crash ProcessExit | Some dat \<Rightarrow> Ret (fst (ux_unmarshal X (at [] dat ''vesgw.json''))))"

definition fill_all :: "(string \<Rightarrow> duration) \<Rightarrow> Config \<Rightarrow> ('n, 'z) gateway \<Rightarrow> ('n, 'z) gateway go" where
  "fill_all parseDur cfg g =
     go_bind (on_conf (\<lambda>c. Ret (fillDomainDetails cfg c)) (fillCollectorDetails cfg g)) (\<lambda>g.
       go_bind (on_conf (fillHeartbeatDetails parseDur cfg) g) (\<lambda>g.
         go_bind (on_conf (fillAlertManagerDetails cfg) g) (\<lambda>g.
           go_bind (on_conf (fillEventDetails parseDur cfg) g) (\<lambda>g.
             go_bind (on_conf (fillMeasurementDetails parseDur cfg) g) (on_conf (fillClusterDetails cfg))))))"

text \<open>\<open>main\<close> up to the start of the watch over the links.\<close>

definition main_start ::
    "'p update_ext \<Rightarrow> (string \<Rightarrow> string \<Rightarrow> string + string) option \<Rightarrow> 'z curator \<Rightarrow> (string \<rightharpoonup> string) option \<Rightarrow> (nat \<Rightarrow> register_answer) \<Rightarrow>
     (nat \<Rightarrow> bool) \<Rightarrow> ('n, 'z) gateway \<Rightarrow> ('n, 'z) process go option" where
  "main_start X fpm cu configMap answers connect g =
     (case InitializeVesGwDefaultConf X configMap of
        Crash c \<Rightarrow> Some (Crash c)
      | Ret ob \<Rightarrow>
          (case retry_until (\<lambda>k. xgvelaRegister (answers k) = 200) 0 of
             None \<Rightarrow> None
           | Some _ \<Rightarrow>
               (case NatsConnection connect of
                  None \<Rightarrow> None
                | Some _ \<Rightarrow>
                    Some (go_bind (with_config ob (\<lambda>cfg. fill_all (ux_parseDur X) cfg g)) (\<lambda>g1.
                      go_bind (prepareVesgwConfigList fpm cu g1) (\<lambda>g2.
                        Ret \<lparr>ps_gateway = g2, ps_VesConfigOb = ob, ps_commits = []\<rparr>))))))"

section \<open>Consumers\<close>

record KafkaReader =
  kr_Brokers :: "string list"
  kr_Topic :: string
  kr_MinBytes :: int
  kr_MaxBytes :: int
  kr_GroupID :: string
  kr_MaxWait :: duration

definition GetKafkaReader :: "string list \<Rightarrow> string \<Rightarrow> int \<Rightarrow> KafkaReader" where
  "GetKafkaReader kafkaAddress topicName i = \<lparr>kr_Brokers = kafkaAddress, kr_Topic = topicName, kr_MinBytes = 10000, kr_MaxBytes = 10000000,
     kr_GroupID = string_of_rune i, kr_MaxWait = 0\<rparr>"

definition GetKafkaReaderForMeas :: "string list \<Rightarrow> string \<Rightarrow> int \<Rightarrow> KafkaReader" where
  "GetKafkaReaderForMeas kafkaAddress topicName i = \<lparr>kr_Brokers = kafkaAddress, kr_Topic = topicName, kr_MinBytes = 10000, kr_MaxBytes = 10000000,
     kr_GroupID = string_of_rune i, kr_MaxWait = 0\<rparr>"

definition GetKafkaReaderForResetReplay :: "string list \<Rightarrow> string \<Rightarrow> int \<Rightarrow> KafkaReader" where
  "GetKafkaReaderForResetReplay kafkaAddress topicName i = \<lparr>kr_Brokers = kafkaAddress, kr_Topic = topicName, kr_MinBytes = 10000,
     kr_MaxBytes = 10000000, kr_GroupID = string_of_rune i, kr_MaxWait = 30\<rparr>"

definition GetKafkaReaderForInitReplay :: "string list \<Rightarrow> string \<Rightarrow> int \<Rightarrow> KafkaReader" where
  "GetKafkaReaderForInitReplay kafkaAddress topicName i = \<lparr>kr_Brokers = kafkaAddress, kr_Topic = topicName, kr_MinBytes = 10000,
     kr_MaxBytes = 10000000, kr_GroupID = [], kr_MaxWait = 0\<rparr>"

text \<open>The goroutines that are started, with their readers; a replay is processed at once, by \<open>processEvents\<close>.\<close>

datatype consumer = MeasConsumer int KafkaReader | FmaasConsumer int KafkaReader | ReplayEvents string int int

definition ConsumingOverMeasurementToId :: "string list \<Rightarrow> string \<Rightarrow> int \<Rightarrow> consumer" where
  "ConsumingOverMeasurementToId kafkaAddress topicName i = MeasConsumer i (GetKafkaReaderForMeas kafkaAddress topicName i)"

definition ConsumingOverFmaasEventToId :: "string list \<Rightarrow> string \<Rightarrow> int \<Rightarrow> consumer" where
  "ConsumingOverFmaasEventToId kafkaAddress topicName i = FmaasConsumer i (GetKafkaReader kafkaAddress topicName i)"

definition ConsumeMessages :: "string list \<Rightarrow> string \<Rightarrow> int \<Rightarrow> ('n, 'z) gateway \<Rightarrow> consumer list go" where
  "ConsumeMessages kafkaAddress topicName replayId g =
     (if topicName = ''measurement'' then
        (case va_Domains (g_conf g) of
           None \<Rightarrow> Crash NilDeref
         | Some dm \<Rightarrow> Ret (map (ConsumingOverMeasurementToId kafkaAddress topicName) (dm_Measurment dm)))
      else if topicName = ''FMAASEVENTS'' then
        Ret (map (ConsumingOverFmaasEventToId kafkaAddress ''FMAASEVENTS'') (g_UniqueEventList g))
      else
        (case gw_CollectorReplayObjects (g_gw g) replayId of
           None \<Rightarrow> Crash NilDeref
         | Some info \<Rightarrow> Ret [ReplayEvents ''FMAASEVENTS'' (ri_ReplayCollectorId info) (ri_StartIndex info)]))"

text \<open>The loop of \<open>notifyKafkaEventReceived\<close>: what it starts first, and on a replay request or a new collector.\<close>

datatype notify_event = ReplayRequest int | NewCollector int

definition notify_start :: "string list \<Rightarrow> ('n, 'z) gateway \<Rightarrow> consumer list go" where
  "notify_start kafkaAddress g =
     go_bind (ConsumeMessages kafkaAddress ''FMAASEVENTS'' 1 g) (\<lambda>cs.
       go_bind (ConsumeMessages kafkaAddress ''measurement'' 1 g) (\<lambda>ms. Ret (cs @ ms)))"

definition notify_step :: "string list \<Rightarrow> notify_event \<Rightarrow> ('n, 'z) gateway \<Rightarrow> (('n, 'z) gateway \<times> consumer list) go" where
  "notify_step kafkaAddress ev g =
     (case ev of
        ReplayRequest i \<Rightarrow>
          (let g1 = g\<lparr>g_gw := (g_gw g)\<lparr>gw_PauseFmmasEvents := (gw_PauseFmmasEvents (g_gw g))(i \<mapsto> True)\<rparr>\<rparr>
           in go_bind (ConsumeMessages kafkaAddress ''REPLAY'' i g1) (\<lambda>cs. Ret (g1, cs)))
      | NewCollector i \<Rightarrow>
          Ret (g, [ConsumingOverFmaasEventToId kafkaAddress ''FMAASEVENTS'' i, ConsumingOverMeasurementToId kafkaAddress ''measurement'' i]))"

section \<open>Loops that try again\<close>

lemma retry_until_finds:
  assumes "ok n" and "\<forall>j<n. \<not> ok j" and "k \<le> n"
  shows "retry_until ok k = Some n"
  using assms(3)
proof (induction rule: inc_induct)
  case base
  then show ?case using assms(1) by (simp add: retry_until.simps[of ok n])
next
  case (step k)
  then show ?case using assms(2) by (simp add: retry_until.simps[of ok k])
qed

lemma retry_until_returns: "retry_until ok k = Some n \<Longrightarrow> ok n"
  by (induction rule: retry_until.raw_induct[rotated 1, consumes 1]) (auto split: if_splits)

lemma retry_until_None: "retry_until ok 0 = None \<longleftrightarrow> (\<forall>k. \<not> ok k)"
proof
  assume "retry_until ok 0 = None"
  show "\<forall>k. \<not> ok k"
  proof (rule ccontr)
    assume "\<not> (\<forall>k. \<not> ok k)"
    then obtain n where "ok n" "\<forall>j<n. \<not> ok j" using exists_least_iff[of ok] by blast
    from retry_until_finds[OF this, of 0] \<open>retry_until ok 0 = None\<close> show False by simp
  qed
qed (metis retry_until_returns not_None_eq)

text \<open>The start of the process comes to an end, regular or by a crash, exactly if the config map cannot be read, or some attempt to register is
  answered with 200 and some attempt to connect to NATS succeeds.\<close>

theorem startup_ends_iff:
  "main_start X fpm cu configMap answers connect g = None \<longleftrightarrow>
     configMap \<noteq> None \<and> ((\<forall>k. answers k \<noteq> StatusCode 200) \<or> (\<forall>k. \<not> connect k))"
proof -
  have "xgvelaRegister a = 200 \<longleftrightarrow> a = StatusCode 200" for a by (cases a) (simp_all add: xgvelaRegister_def)
  then show ?thesis
    by (cases configMap) (auto simp: main_start_def InitializeVesGwDefaultConf_def NatsConnection_def split: option.split
        simp flip: retry_until_None dest: retry_until_returns)
qed

section \<open>Collectors over time\<close>

abbreviation collector_ids :: "('n, 'z) gateway \<Rightarrow> int list" where
  "collector_ids g \<equiv> map cd_Id (va_CollectorDetails (g_conf g))"

lemma register_conf: "register_collector g d = Ret g' \<Longrightarrow> g_conf g' = g_conf g"
  by (auto simp: register_collector_def Let_def go_simps)

lemma connect_ids:
  assumes "connect_collector fpm cu g k = Ret g'"
  shows "collector_ids g' = collector_ids g"
proof -
  from assms have "va_CollectorDetails (g_conf g') = (va_CollectorDetails (g_conf g))
      [k := (va_CollectorDetails (g_conf g) ! k)\<lparr>cd_PrimaryCollector := bracket_fqdn (cd_PrimaryCollector (va_CollectorDetails (g_conf g) ! k)),
         cd_BackupCollector := bracket_fqdn (cd_BackupCollector (va_CollectorDetails (g_conf g) ! k))\<rparr>]"
    by (auto simp: connect_collector_def Let_def go_simps split: option.splits if_splits prod.splits)
  then show ?thesis by (cases "k < length (va_CollectorDetails (g_conf g))") (simp_all add: map_update list_update_same_conv list_update_beyond)
qed

lemma prepare_ids: "prepareVesgwConfigList fpm cu g = Ret g' \<Longrightarrow> collector_ids g' = collector_ids g"
proof -
  assume "prepareVesgwConfigList fpm cu g = Ret g'"
  then obtain dm g1 where "go_foldl register_collector (g\<lparr>g_UniqueEventList := unique_event_list dm\<rparr>) (va_CollectorDetails (g_conf g)) = Ret g1"
    and c: "go_foldl (connect_collector fpm cu) g1 [0 ..< length (va_CollectorDetails (g_conf g1))] = Ret g'"
    by (auto simp: prepareVesgwConfigList_def go_simps split: option.splits)
  from go_foldl_invariant[where P = "\<lambda>h. g_conf h = g_conf g", OF _ _ this(1)] have "g_conf g1 = g_conf g" by (simp add: register_conf)
  moreover from go_foldl_invariant[where P = "\<lambda>h. collector_ids h = collector_ids g1", OF _ _ c] have "collector_ids g' = collector_ids g1"
    by (simp add: connect_ids)
  ultimately show ?thesis by simp
qed

lemma fillCollector_ids: "collector_ids (fillCollectorDetails cfg g) = collector_ids g @ map cj_Id (cf_CollectorDetail cfg)"
proof -
  have "collector_ids (foldl take_over_collector g ds) = collector_ids g @ map cj_Id ds" for ds
    by (induction ds arbitrary: g) (simp_all add: take_over_collector_def coll_details_def Let_def)
  then show ?thesis by (simp add: fillCollectorDetails_def)
qed

lemma fill_sections_ids:
  "va_CollectorDetails (fillDomainDetails cfg c) = va_CollectorDetails c"
  "fillHeartbeatDetails pd cfg c = Ret c' \<Longrightarrow> va_CollectorDetails c' = va_CollectorDetails c"
  "fillMeasurementDetails pd cfg c = Ret c' \<Longrightarrow> va_CollectorDetails c' = va_CollectorDetails c"
  "fillEventDetails pd cfg c = Ret c' \<Longrightarrow> va_CollectorDetails c' = va_CollectorDetails c"
  "fillAlertManagerDetails cfg c = Ret c' \<Longrightarrow> va_CollectorDetails c' = va_CollectorDetails c"
  "fillClusterDetails cfg c = Ret c' \<Longrightarrow> va_CollectorDetails c' = va_CollectorDetails c"
  by (auto simp: fillDomainDetails_def fillHeartbeatDetails_def fillMeasurementDetails_def fillEventDetails_def fillAlertManagerDetails_def
      fillClusterDetails_def split: option.splits)

lemma section_ids:
  assumes "(if b then on_conf f g else Ret g) = Ret g'" and "\<And>c c'. f c = Ret c' \<Longrightarrow> va_CollectorDetails c' = va_CollectorDetails c"
  shows "va_CollectorDetails (g_conf g') = va_CollectorDetails (g_conf g)"
  using assms by (auto simp: on_conf_def go_simps split: if_splits)

lemma patch_ids:
  assumes "updateDefaultConfUponPatch pd cfg value g = Ret g'"
  shows "collector_ids g' = collector_ids g @ (if Contains value ''collectorDetails'' then map cj_Id (cf_CollectorDetail cfg) else [])"
proof -
  define g1 where "g1 = (if Contains value ''collectorDetails'' then fillCollectorDetails cfg g else g)"
  from assms obtain g2 g3 g4 g5 g6 where
    "(if Contains value ''vesdomains'' then on_conf (\<lambda>c. Ret (fillDomainDetails cfg c)) g1 else Ret g1) = Ret g2"
    "(if Contains value ''heartbeat'' then on_conf (fillHeartbeatDetails pd cfg) g2 else Ret g2) = Ret g3"
    "(if Contains value ''measurement'' then on_conf (fillAlertManagerDetails cfg) g3 else Ret g3) = Ret g4"
    "(if Contains value ''event'' then on_conf (fillEventDetails pd cfg) g4 else Ret g4) = Ret g5"
    "(if Contains value ''alertManager'' then on_conf (fillMeasurementDetails pd cfg) g5 else Ret g5) = Ret g6"
    "(if Contains value ''cluster'' then on_conf (fillClusterDetails cfg) g6 else Ret g6) = Ret g'"
    unfolding updateDefaultConfUponPatch_def Let_def g1_def by (simp only: go_bind_Ret_iff) blast
  note parts = this[THEN section_ids]
  have "va_CollectorDetails (g_conf g2) = va_CollectorDetails (g_conf g1)" by (rule parts(1)) (auto simp: fill_sections_ids(1))
  with parts(2)[OF fill_sections_ids(2)] parts(3)[OF fill_sections_ids(5)] parts(4)[OF fill_sections_ids(4)] parts(5)[OF fill_sections_ids(3)]
    parts(6)[OF fill_sections_ids(6)]
  have "va_CollectorDetails (g_conf g') = va_CollectorDetails (g_conf g1)" by simp
  then show ?thesis using fillCollector_ids[of cfg g] by (simp add: g1_def)
qed

lemma update_parts:
  assumes "updateConfiguration X fpm cu (Some text) ps = Ret ps'" and "ux_decode_object X text = Some m"
  obtains ob ok g where "ApplyJsonPatch X (at [] m ''config-patch'') (ps_VesConfigOb ps) = Ret (ob, ok)"
    "update_sections X ob (at [] m ''config-patch'') (ps_gateway ps) = Ret g" "prepareVesgwConfigList fpm cu g = Ret (ps_gateway ps')"
    "ps_VesConfigOb ps' = ob" "ps_commits ps' = ps_commits ps @ [sendCommitVersion m]"
  using assms by (auto simp: updateConfiguration_def ProcessUpdateConfig_def go_simps)

lemma sections_ids:
  assumes "update_sections X ob value g = Ret g'"
  shows "collector_ids g' = collector_ids g @
      (if Contains value ''collectorDetails'' then map cj_Id (cf_CollectorDetail (the (Option.bind ob vo_Config))) else [])"
    and "Contains value ''collectorDetails'' \<Longrightarrow> \<exists>cfg. Option.bind ob vo_Config = Some cfg"
proof -
  consider cfg where "Option.bind ob vo_Config = Some cfg" "updateDefaultConfUponPatch (ux_parseDur X) cfg value g = Ret g'"
    | "\<not> Contains value ''collectorDetails''" "g' = g"
  proof (cases "list_ex (Contains value) patch_words")
    case True
    with assms have "with_config ob (\<lambda>cfg. updateDefaultConfUponPatch (ux_parseDur X) cfg value g) = Ret g'" by (simp add: update_sections_def)
    then show ?thesis using that(1) by (cases ob; cases "Option.bind ob vo_Config") (simp_all add: with_config_def)
  next
    case False
    with assms have "g' = g" by (simp add: update_sections_def)
    moreover from False have "\<not> Contains value ''collectorDetails''" by (simp add: patch_words_def)
    ultimately show ?thesis using that(2) by blast
  qed
  then have "collector_ids g' = collector_ids g @
      (if Contains value ''collectorDetails'' then map cj_Id (cf_CollectorDetail (the (Option.bind ob vo_Config))) else []) \<and>
    (Contains value ''collectorDetails'' \<longrightarrow> (\<exists>cfg. Option.bind ob vo_Config = Some cfg))"
  proof cases
    case 1
    with patch_ids[OF 1(2)] show ?thesis by simp
  next
    case 2
    then show ?thesis by simp
  qed
  then show "collector_ids g' = collector_ids g @
      (if Contains value ''collectorDetails'' then map cj_Id (cf_CollectorDetail (the (Option.bind ob vo_Config))) else [])"
    and "Contains value ''collectorDetails'' \<Longrightarrow> \<exists>cfg. Option.bind ob vo_Config = Some cfg" by blast+
qed

lemma update_ids:
  assumes "updateConfiguration X fpm cu body ps = Ret ps'"
  shows "\<exists>more. collector_ids (ps_gateway ps') = collector_ids (ps_gateway ps) @ more"
proof (cases "\<exists>t m. body = Some t \<and> ux_decode_object X t = Some m")
  case True
  then obtain t m where t: "body = Some t" "ux_decode_object X t = Some m" by blast
  from assms[unfolded t(1)] t(2) obtain ob ok g where
    "update_sections X ob (at [] m ''config-patch'') (ps_gateway ps) = Ret g" "prepareVesgwConfigList fpm cu g = Ret (ps_gateway ps')"
    by (rule update_parts)
  with sections_ids(1)[OF this(1)] prepare_ids[OF this(2)] show ?thesis by simp
next
  case False
  with assms have "ps' = ps" by (auto simp: updateConfiguration_def split: option.splits)
  then show ?thesis by simp
qed

text \<open>C32: Requests to update the configuration only ever add collectors: whatever the patches say, the collectors configured before stay, in
  their order and first in the list; none is removed or replaced.\<close>

theorem collectors_never_leave:
  assumes "go_foldl (\<lambda>ps body. updateConfiguration X fpm cu body ps) ps bodies = Ret ps'"
  shows "\<exists>more. collector_ids (ps_gateway ps') = collector_ids (ps_gateway ps) @ more"
  using assms
proof (induction bodies arbitrary: ps)
  case (Cons body bodies)
  then obtain ps1 where s: "updateConfiguration X fpm cu body ps = Ret ps1" "go_foldl (\<lambda>ps body. updateConfiguration X fpm cu body ps) ps1 bodies = Ret ps'"
    by (auto simp: go_simps)
  from update_ids[OF s(1)] Cons.IH[OF s(2)] show ?case by auto
qed simp

definition idle_update :: "unit update_ext" where
  "idle_update = \<lparr>ux_decodePatch = (\<lambda>_. None), ux_apply = (\<lambda>_ _. None), ux_marshal = (\<lambda>_. []), ux_unmarshal = (\<lambda>_. (None, True)),
     ux_decode_object = (\<lambda>s. if s = [] then None else Some [''config-patch'' \<mapsto> s]), ux_parseDur = (\<lambda>_. 0)\<rparr>"

definition idle_process :: "(unit, string \<rightharpoonup> string) process" where
  "idle_process = \<lparr>ps_gateway = (sample_gateway sample_gw)\<lparr>g_conf := (g_conf (sample_gateway sample_gw))\<lparr>va_CollectorDetails := []\<rparr>\<rparr>,
     ps_VesConfigOb = None, ps_commits = []\<rparr>"

lemma idle_returns: "\<exists>ps'. updateConfiguration idle_update None map_curator (Some ''junk'') idle_process = Ret ps'"
  by (simp add: updateConfiguration_def ProcessUpdateConfig_def ApplyJsonPatch_def idle_update_def update_sections_def patch_words_def
      HasPrefix_def prepareVesgwConfigList_def idle_process_def sample_gateway_def)

theorem collectors_never_leave_witness:
  "\<exists>ps' more. go_foldl (\<lambda>ps body. updateConfiguration idle_update None map_curator body ps) idle_process [Some ''junk''] = Ret ps' \<and>
     collector_ids (ps_gateway ps') = collector_ids (ps_gateway idle_process) @ more"
proof -
  obtain ps' where "updateConfiguration idle_update None map_curator (Some ''junk'') idle_process = Ret ps'" using idle_returns by blast
  then have "go_foldl (\<lambda>ps body. updateConfiguration idle_update None map_curator body ps) idle_process [Some ''junk''] = Ret ps'" by simp
  with collectors_never_leave[OF this] show ?thesis by blast
qed

text \<open>C31: A patch that cannot be decoded or applied leaves the management configuration as it was, and yet the commit message for its change set
  reports success; and if the text of the patch mentions \<open>collectorDetails\<close>, all collectors of the configuration are added once more.\<close>

theorem failed_patch_committed:
  assumes "updateConfiguration X fpm cu (Some text) ps = Ret ps'" and "ux_decode_object X text = Some m"
    and "Option.bind (ux_decodePatch X (at [] m ''config-patch'')) (\<lambda>p. ux_apply X p (ux_marshal X (ps_VesConfigOb ps))) = None"
  shows "ps_VesConfigOb ps' = ps_VesConfigOb ps \<and>
    ps_commits ps' = ps_commits ps @ [[(''change-set-key'', at [] m ''change-set-key''), (''revision'', at [] m ''revision''), (''status'', ''success''),
      (''remarks'', ''Successfully applied the config patch'')]] \<and>
    (Contains (at [] m ''config-patch'') ''collectorDetails'' \<longrightarrow>
      (\<exists>cfg. Option.bind (ps_VesConfigOb ps) vo_Config = Some cfg \<and>
         collector_ids (ps_gateway ps') = collector_ids (ps_gateway ps) @ map cj_Id (cf_CollectorDetail cfg)))"
proof -
  from assms(1,2) obtain ob ok g where p: "ApplyJsonPatch X (at [] m ''config-patch'') (ps_VesConfigOb ps) = Ret (ob, ok)"
    "update_sections X ob (at [] m ''config-patch'') (ps_gateway ps) = Ret g" "prepareVesgwConfigList fpm cu g = Ret (ps_gateway ps')"
    "ps_VesConfigOb ps' = ob" "ps_commits ps' = ps_commits ps @ [sendCommitVersion m]" by (rule update_parts)
  from p(1) assms(3) have ob: "ob = ps_VesConfigOb ps" by (auto simp: ApplyJsonPatch_def split: option.splits)
  show ?thesis using p(4,5) sections_ids[OF p(2)] prepare_ids[OF p(3)] ob by (auto simp: sendCommitVersion_def)
qed

theorem failed_patch_committed_witness:
  "\<exists>ps'. updateConfiguration idle_update None map_curator (Some ''junk'') idle_process = Ret ps' \<and> ps_VesConfigOb ps' = None \<and>
     (''status'', ''success'') \<in> set (last (ps_commits ps'))"
proof -
  obtain ps' where r: "updateConfiguration idle_update None map_curator (Some ''junk'') idle_process = Ret ps'" using idle_returns by blast
  have d: "ux_decode_object idle_update ''junk'' = Some [''config-patch'' \<mapsto> ''junk'']" by (simp add: idle_update_def)
  have "Option.bind (ux_decodePatch idle_update p) f = None" for p and f :: "unit \<Rightarrow> string option" by (simp add: idle_update_def)
  from failed_patch_committed[OF r d this] r show ?thesis by (auto simp: idle_process_def)
qed

section \<open>Consumer groups\<close>

text \<open>An identifier for which \<open>string(Id)\<close> is the replacement character.\<close>

definition no_rune :: "int \<Rightarrow> bool" where
  "no_rune x \<longleftrightarrow> x < 0 \<or> x > 1114111 \<or> (55296 \<le> x \<and> x \<le> 57343) \<or> x = 65533"

lemma rune_replacement: "no_rune x \<Longrightarrow> string_of_rune x = [byte 239, byte 191, byte 189]"
  by (auto simp: no_rune_def string_of_rune_def)

lemma six_bits: "x = 64 * (x div 64) + x mod 64" "x div 64 div 64 = x div 4096" "x div 4096 div 64 = x div 262144" for x :: int
  by (simp_all flip: zdiv_zmult2_eq)

lemma byte_inj: "byte (a + x) = byte (a + y) \<Longrightarrow> 0 \<le> a + x \<Longrightarrow> a + x < 256 \<Longrightarrow> 0 \<le> a + y \<Longrightarrow> a + y < 256 \<Longrightarrow> x = y"
  using byte_eq_iff[of "a + x" "a + y"] by simp

text \<open>Otherwise the string determines the identifier.\<close>

definition rune_bytes :: "int \<Rightarrow> int list" where
  "rune_bytes x =
     (if x < 128 then [x]
      else if x < 2048 then [192 + x div 64, 128 + x mod 64]
      else if x < 65536 then [224 + x div 4096, 128 + x div 64 mod 64, 128 + x mod 64]
      else [240 + x div 262144, 128 + x div 4096 mod 64, 128 + x div 64 mod 64, 128 + x mod 64])"

lemma rune_bytes_eq: "0 \<le> x \<Longrightarrow> x \<le> 1114111 \<Longrightarrow> \<not> (55296 \<le> x \<and> x \<le> 57343) \<Longrightarrow> string_of_rune x = map byte (rune_bytes x)"
  by (auto simp: string_of_rune_def rune_bytes_def)

lemma rune_bytes_bounds:
  assumes "0 \<le> x" and "x \<le> 1114111"
  shows "\<forall>b\<in>set (rune_bytes x). 0 \<le> b \<and> b < 256"
proof -
  have "0 \<le> x div 64" "0 \<le> x div 4096" "0 \<le> x div 262144" using assms(1) by (simp_all add: pos_imp_zdiv_nonneg_iff)
  moreover have "x < 2048 \<Longrightarrow> x div 64 \<le> 31" using zdiv_mono1[of x 2047 64] by simp
  moreover have "x < 65536 \<Longrightarrow> x div 4096 \<le> 15" using zdiv_mono1[of x 65535 4096] by simp
  moreover have "x div 262144 \<le> 4" using zdiv_mono1[of x 1114111 262144] assms(2) by simp
  moreover have "0 \<le> y mod 64 \<and> y mod 64 < 64" for y :: int by simp
  ultimately show ?thesis using assms(1) by (auto simp: rune_bytes_def intro: order_trans less_le_trans add_nonneg_nonneg)
qed

lemma rune_bytes_inject:
  assumes "rune_bytes x = rune_bytes y"
  shows "x = y"
proof -
  consider "x < 128" "y < 128" | "\<not> x < 128" "x < 2048" "\<not> y < 128" "y < 2048" | "\<not> x < 2048" "x < 65536" "\<not> y < 2048" "y < 65536"
    | "\<not> x < 65536" "\<not> y < 65536" using assms by (auto simp: rune_bytes_def split: if_splits)
  then show ?thesis
  proof cases
    case 1
    then show ?thesis using assms by (simp add: rune_bytes_def)
  next
    case 2
    then have "x div 64 = y div 64" "x mod 64 = y mod 64" using assms by (simp_all add: rune_bytes_def)
    then show ?thesis using six_bits(1)[of x] six_bits(1)[of y] by simp
  next
    case 3
    then have "x div 64 div 64 = y div 64 div 64" "x div 64 mod 64 = y div 64 mod 64" "x mod 64 = y mod 64" using assms
      by (simp_all add: rune_bytes_def six_bits(2))
    then show ?thesis by (metis six_bits(1))
  next
    case 4
    then have "x div 4096 div 64 = y div 4096 div 64" "x div 4096 mod 64 = y div 4096 mod 64" "x div 64 mod 64 = y div 64 mod 64" "x mod 64 = y mod 64"
      using assms by (simp_all add: rune_bytes_def six_bits(3))
    then show ?thesis by (metis six_bits(1,2))
  qed
qed

lemma map_byte_inject:
  assumes "map byte xs = map byte ys" and "\<forall>b\<in>set xs \<union> set ys. 0 \<le> b \<and> b < 256"
  shows "xs = ys"
  using assms by (induction xs arbitrary: ys) (auto simp: Cons_eq_map_conv byte_eq_iff)

lemma rune_groups: "string_of_rune i = string_of_rune j \<longleftrightarrow> i = j \<or> (no_rune i \<and> no_rune j)"
proof -
  have good: "string_of_rune x = map byte (rune_bytes x) \<and> (\<forall>b\<in>set (rune_bytes x). 0 \<le> b \<and> b < 256)" if "\<not> no_rune x \<or> x = 65533" for x
    using that rune_bytes_eq[of x] rune_bytes_bounds[of x] by (auto simp: no_rune_def)
  have inj: "x = y" if "string_of_rune x = string_of_rune y" "\<not> no_rune x \<or> x = 65533" "\<not> no_rune y \<or> y = 65533" for x y
    using that good[of x] good[of y] by (metis map_byte_inject rune_bytes_inject Un_iff)
  have rep: "string_of_rune x = string_of_rune 65533" if "no_rune x" for x
    using rune_replacement[OF that] rune_replacement[of 65533] by (simp add: no_rune_def)
  show ?thesis using inj[of i j] inj[of i 65533] inj[of 65533 j] rep[of i] rep[of j] by (metis no_rune_def)
qed

text \<open>The consumers of events that are started are one per collector of the list, and the groups under which Kafka shares out the messages
  are all different if and only if at most one identifier is not a character code; two that are not would each get only a part of the events.\<close>

theorem consumer_groups:
  assumes "distinct (g_UniqueEventList g)"
  shows "ConsumeMessages addr ''FMAASEVENTS'' r g = Ret (map (\<lambda>i. FmaasConsumer i (GetKafkaReader addr ''FMAASEVENTS'' i)) (g_UniqueEventList g)) \<and>
    (distinct (map (\<lambda>i. kr_GroupID (GetKafkaReader addr ''FMAASEVENTS'' i)) (g_UniqueEventList g)) \<longleftrightarrow>
      (\<forall>i\<in>set (g_UniqueEventList g). \<forall>j\<in>set (g_UniqueEventList g). no_rune i \<and> no_rune j \<longrightarrow> i = j))"
proof -
  have "inj_on string_of_rune A \<longleftrightarrow> (\<forall>i\<in>A. \<forall>j\<in>A. no_rune i \<and> no_rune j \<longrightarrow> i = j)" for A by (auto simp: inj_on_def rune_groups)
  with assms show ?thesis by (simp add: ConsumeMessages_def ConsumingOverFmaasEventToId_def GetKafkaReader_def distinct_map)
qed

theorem consumer_groups_witness:
  "\<not> distinct (map (\<lambda>i. kr_GroupID (GetKafkaReader [] ''FMAASEVENTS'' i)) [2000000, 3000000])"
proof -
  have "distinct (g_UniqueEventList ((sample_gateway sample_gw)\<lparr>g_UniqueEventList := [2000000, 3000000]\<rparr>))" by simp
  from consumer_groups[OF this, of "[]" 1] show ?thesis by (auto simp: no_rune_def)
qed

section \<open>Lookup of a peer\<close>

lemma GetPeer_found:
  "(snd (GetPeer ps ident) \<longleftrightarrow> ident \<in> pe_ID ` set ps) \<and> (snd (GetPeer ps ident) \<longrightarrow> fst (GetPeer ps ident) \<in> set ps \<and> pe_ID (fst (GetPeer ps ident)) = ident)"
  by (induction ps ident rule: GetPeer.induct) auto

section \<open>The node of the replicated state\<close>

text \<open>
  \<open>NewCluster\<close> of VESPA/ves-agent/ha/raft.go. \<open>rx_tcp\<close> is the error of resolving the own address and opening the transport, \<open>rx_disk\<close> that of the
  directory, the log store and the snapshot store; a node is its identifier and the servers it knows. With a bootstrap error the node is returned too.
\<close>

record ClusterConfiguration =
  kc_ID :: string
  kc_Peers :: "Peer list"

record raft_setup =
  rx_tcp :: "Peer \<Rightarrow> string option"
  rx_disk :: "string option"
  rx_storeExists :: bool
  rx_inmemAddr :: string
  rx_newRaft :: "string option"
  rx_bootstrap :: "string option"

record raft_node =
  rn_id :: string
  rn_servers :: "(string \<times> string) list"

definition start_node :: "raft_setup \<Rightarrow> bool \<Rightarrow> raft_node \<Rightarrow> raft_node option \<times> string option" where
  "start_node R needBootstrap node =
     (case rx_newRaft R of Some e \<Rightarrow> (None, Some e) | None \<Rightarrow> (Some node, if needBootstrap then rx_bootstrap R else None))"

definition ha_NewCluster :: "raft_setup \<Rightarrow> ClusterConfiguration option \<Rightarrow> raft_node option \<times> string option" where
  "ha_NewCluster R cfg =
     (case cfg of
        Some c \<Rightarrow>
          if length (kc_Peers c) > 0 then
            (let (myself, ok) = GetPeer (kc_Peers c) (kc_ID c)
             in if \<not> ok then (None, Some (''Bad cluster configuration: No peer with id '' @ kc_ID c @ '' found''))
                else case rx_tcp R myself of
                       Some e \<Rightarrow> (None, Some e)
                     | None \<Rightarrow>
                         (case rx_disk R of
                            Some e \<Rightarrow> (None, Some e)
                          | None \<Rightarrow> start_node R (\<not> rx_storeExists R) \<lparr>rn_id = kc_ID c, rn_servers = Peers_Servers (kc_Peers c)\<rparr>))
          else start_node R True \<lparr>rn_id = ''single-node'', rn_servers = [(''single-node'', rx_inmemAddr R)]\<rparr>
      | None \<Rightarrow> start_node R True \<lparr>rn_id = ''single-node'', rn_servers = [(''single-node'', rx_inmemAddr R)]\<rparr>)"

text \<open>
  \<open>NewAgent\<close> of agent.go: the identifier is the host name, and the package variable \<open>ClusterState\<close>, which the agent gets as its state, keeps the first node that
  was made without an error.
\<close>

definition NewAgent :: "raft_setup \<Rightarrow> string \<Rightarrow> ClusterConfiguration option \<Rightarrow> raft_node option \<Rightarrow> raft_node option go" where
  "NewAgent R hostname cfg clusterState =
     (case cfg of
        None \<Rightarrow> Crash NilDeref
      | Some c \<Rightarrow>
          (let (node, err) = ha_NewCluster R (Some (c\<lparr>kc_ID := hostname\<rparr>))
           in Ret (if clusterState = None \<and> err = None then node else clusterState)))"

text \<open>Starting agents again, as every configuration update does, never changes the node that they share.\<close>

lemma first_node_kept:
  assumes "go_foldl (\<lambda>st (R, host, cfg). NewAgent R host cfg st) (Some node) starts = Ret st"
  shows "st = Some node"
  using assms by (induction starts) (auto simp: NewAgent_def go_simps split: option.splits prod.splits)

text \<open>With peers of which none has the name of the host, the agent has no state; without peers it is a cluster of its own.\<close>

lemma unknown_host_no_state:
  assumes "kc_Peers c \<noteq> []" and "host \<notin> pe_ID ` set (kc_Peers c)"
  shows "NewAgent R host (Some c) None = Ret None"
proof -
  have "\<not> snd (GetPeer (kc_Peers c) host)" using GetPeer_found[of "kc_Peers c" host] assms(2) by blast
  with assms(1) show ?thesis by (auto simp: NewAgent_def ha_NewCluster_def split: prod.splits)
qed

lemma single_node:
  assumes "rx_newRaft R = None" and "rx_bootstrap R = None"
  shows "NewAgent R host (Some \<lparr>kc_ID = i, kc_Peers = []\<rparr>) None = Ret (Some \<lparr>rn_id = ''single-node'', rn_servers = [(''single-node'', rx_inmemAddr R)]\<rparr>)"
  using assms by (simp add: NewAgent_def ha_NewCluster_def start_node_def)

end
