(* ===== verification/Ves_Simu.thy ===== *)
theory Ves_Simu
  imports Collector_Properties
begin

text \<open>
  The collector simulator (VESPA/ves-simu: handlers.go, internal.go, the routes of routes.go), and the client library connected to it: the simulator
  is an instance of the transport of \<open>Evel\<close>. Flags, the JSON decoders and the schema validator are arguments. A handler that panics is
  caught by the HTTP server, which drops the connection.
\<close>

section \<open>State\<close>

type_synonym jobject = "(string \<times> json) list"

record simu_env =
  sx_serverRoot :: string
  sx_topic :: string
  sx_user :: string
  sx_pass :: string
  sx_maxEventsKeep :: int
  sx_eventMaxSize :: int
  sx_decode_event :: "string \<Rightarrow> jobject option"
  sx_decode_batch :: "string \<Rightarrow> jobject list option"
  sx_decode_commands :: "string \<Rightarrow> Command list option"
  sx_valid :: "string \<Rightarrow> bool"

record simu =
  su_events :: "jobject list"
  su_commandList :: "Command list"
  su_Batch :: int
  su_Errors :: int
  su_LastSender :: string

definition simu_start :: simu where
  "simu_start = \<lparr>su_events = [], su_commandList = [], su_Batch = 0, su_Errors = 0, su_LastSender = []\<rparr>"

section \<open>Events\<close>

text \<open>The reporting entity of an event; \<open>None\<close> if a type assertion on the way to it fails.\<close>

definition event_sender :: "jobject \<Rightarrow> string option" where
  "event_sender event =
     (case jget event ''commonEventHeader'' of
        Some (JObj h) \<Rightarrow> (case jget h ''reportingEntityName'' of Some (JStr s) \<Rightarrow> Some s | _ \<Rightarrow> None)
      | _ \<Rightarrow> None)"

text \<open>\<open>copy\<close> slides the last events to the front; the slice keeps its length. The flag says whether the handler panics.\<close>

definition slide :: "int \<Rightarrow> jobject list \<Rightarrow> jobject list" where
  "slide maxKeep evs =
     (if maxKeep > 0 \<and> int (length evs) > maxKeep
      then drop (length evs - nat maxKeep) evs @ drop (nat maxKeep) evs else evs)"

definition appendEvent :: "simu_env \<Rightarrow> jobject \<Rightarrow> simu \<Rightarrow> simu \<times> bool" where
  "appendEvent X event s =
     (let s1 = s\<lparr>su_events := slide (sx_maxEventsKeep X) (su_events s @ [event])\<rparr>
      in case event_sender event of Some n \<Rightarrow> (s1\<lparr>su_LastSender := n\<rparr>, False) | None \<Rightarrow> (s1, True))"

fun appendEvents :: "simu_env \<Rightarrow> jobject list \<Rightarrow> simu \<Rightarrow> simu \<times> bool" where
  "appendEvents X [] s = (s, False)"
| "appendEvents X (e # es) s = (let (s1, panic) = appendEvent X e s in if panic then (s1, True) else appendEvents X es s1)"

text \<open>\<open>sprint\<close> is \<open>fmt.Sprint\<close> of a value, \<open>None\<close> being nil; a filter with an empty value is not applied.\<close>

definition header_matches :: "(json option \<Rightarrow> string) \<Rightarrow> (string \<times> string) list \<Rightarrow> jobject \<Rightarrow> bool option" where
  "header_matches sprint filters evt =
     (let fs = filter (\<lambda>(k, v). v \<noteq> []) filters
      in if fs = [] then Some True
         else case jget evt ''commonEventHeader'' of
                Some (JObj h) \<Rightarrow> Some (list_all (\<lambda>(k, v). sprint (jget h k) = v) fs)
              | _ \<Rightarrow> None)"

fun filterEvents :: "(json option \<Rightarrow> string) \<Rightarrow> (string \<times> string) list \<Rightarrow> bool \<Rightarrow> jobject list \<Rightarrow> jobject list option" where
  "filterEvents sprint filters exclude [] = Some []"
| "filterEvents sprint filters exclude (evt # evts) =
     (case header_matches sprint filters evt of
        None \<Rightarrow> None
      | Some check \<Rightarrow> map_option (\<lambda>res. if check \<noteq> exclude then evt # res else res) (filterEvents sprint filters exclude evts))"

definition clearEvents :: "(json option \<Rightarrow> string) \<Rightarrow> (string \<times> string) list \<Rightarrow> simu \<Rightarrow> simu \<times> bool" where
  "clearEvents sprint filters s =
     (case filterEvents sprint filters True (su_events s) of Some evs \<Rightarrow> (s\<lparr>su_events := evs\<rparr>, False) | None \<Rightarrow> (s, True))"

section \<open>Commands\<close>

fun put_command :: "Command \<Rightarrow> Command list \<Rightarrow> Command list" where
  "put_command cmd [] = [cmd]"
| "put_command cmd (c # cs) = (if cmd_CommandType c = cmd_CommandType cmd then cmd # cs else c # put_command cmd cs)"

definition addCommand :: "Command \<Rightarrow> simu \<Rightarrow> simu" where
  "addCommand cmd s = s\<lparr>su_commandList := put_command cmd (su_commandList s)\<rparr>"

section \<open>Handlers\<close>

text \<open>An answer, an error that the wrapper turns into a status, or a panic.\<close>

datatype simu_result = Reply Response | HandlerError | Panicked

definition checkAuth :: "simu_env \<Rightarrow> Request \<Rightarrow> bool" where
  "checkAuth X req = (rq_BasicAuth req = Some (sx_user X, sx_pass X))"

definition empty_answer :: VESResponse where
  "empty_answer = \<lparr>vr_CommandList = [], vr_RequestError = []\<rparr>"

definition sendVESReply :: "simu \<Rightarrow> simu \<times> simu_result" where
  "sendVESReply s =
     (if length (su_commandList s) > 0 then
        (s\<lparr>su_commandList := []\<rparr>, Reply \<lparr>rs_StatusCode = 202, rs_ContentType = ''application/json'',
           rs_decoded = \<lparr>vr_CommandList = su_commandList s, vr_RequestError = []\<rparr>\<rparr>)
      else (s, Reply \<lparr>rs_StatusCode = 202, rs_ContentType = [], rs_decoded = empty_answer\<rparr>))"

text \<open>The decoder's value for the type that is expected, when the size and the schema allow it.\<close>

definition decodeAndValidateJSON :: "simu_env \<Rightarrow> (string \<Rightarrow> 'a option) \<Rightarrow> Request \<Rightarrow> 'a option" where
  "decodeAndValidateJSON X decode req =
     (if sx_eventMaxSize X > 0 \<and> int (length (rq_Body req)) > sx_eventMaxSize X then None
      else case decode (rq_Body req) of None \<Rightarrow> None | Some v \<Rightarrow> if sx_valid X (rq_Body req) then Some v else None)"

definition handlePostEvent :: "simu_env \<Rightarrow> Request \<Rightarrow> simu \<Rightarrow> simu \<times> simu_result" where
  "handlePostEvent X req s =
     (if \<not> checkAuth X req then (s, HandlerError)
      else case decodeAndValidateJSON X (sx_decode_event X) req of
             None \<Rightarrow> (s, HandlerError)
           | Some event \<Rightarrow> (let (s1, panic) = appendEvent X event s in if panic then (s1, Panicked) else sendVESReply s1))"

definition handlePostBatch :: "simu_env \<Rightarrow> Request \<Rightarrow> simu \<Rightarrow> simu \<times> simu_result" where
  "handlePostBatch X req s =
     (if \<not> checkAuth X req then (s, HandlerError)
      else case decodeAndValidateJSON X (sx_decode_batch X) req of
             None \<Rightarrow> (s, HandlerError)
           | Some evs \<Rightarrow>
               (let (s1, panic) = appendEvents X evs s
                in if panic then (s1, Panicked) else sendVESReply (s1\<lparr>su_Batch := (su_Batch s1 + 1) mod 2 ^ 64\<rparr>)))"

definition handleGetEvents ::
    "(json option \<Rightarrow> string) \<Rightarrow> string \<Rightarrow> string \<Rightarrow> string \<Rightarrow> simu \<Rightarrow> simu \<times> jobject list option" where
  "handleGetEvents sprint domain entity clear s =
     (let filters = [(''domain'', domain), (''reportingEntityName'', entity)]
      in case filterEvents sprint filters False (su_events s) of
           None \<Rightarrow> (s, None)
         | Some evs \<Rightarrow> (if clear = ''1'' then fst (clearEvents sprint filters s) else s, Some evs))"

definition handleClearEvents :: "(json option \<Rightarrow> string) \<Rightarrow> simu \<Rightarrow> simu" where
  "handleClearEvents sprint s = fst (clearEvents sprint [] s)"

definition handleSetCommandList :: "simu_env \<Rightarrow> string option \<Rightarrow> simu \<Rightarrow> simu \<times> bool" where
  "handleSetCommandList X body s =
     (case Option.bind body (sx_decode_commands X) of None \<Rightarrow> (s, False) | Some cmds \<Rightarrow> (foldl (\<lambda>s c. addCommand c s) s cmds, True))"

definition simu_errorWrapper :: "(simu \<Rightarrow> simu \<times> simu_result) \<Rightarrow> simu \<Rightarrow> simu \<times> (string + Response)" where
  "simu_errorWrapper hdl s =
     (case hdl s of
        (s1, Reply r) \<Rightarrow> (s1, Inr r)
      | (s1, HandlerError) \<Rightarrow> (s1\<lparr>su_Errors := (su_Errors s1 + 1) mod 2 ^ 64\<rparr>, Inr \<lparr>rs_StatusCode = 400, rs_ContentType = [], rs_decoded = empty_answer\<rparr>)
      | (s1, Panicked) \<Rightarrow> (s1, Inl ''EOF''))"

text \<open>The routes for posts, the first that fits being taken; without one the router answers 404.\<close>

definition simu_send :: "simu_env \<Rightarrow> simu \<Rightarrow> Request \<Rightarrow> simu \<times> (string + Response)" where
  "simu_send X s req =
     (if rq_Header req ''Content-Type'' = Some ''application/json'' \<and>
         url_Path (rq_URL req) = sx_serverRoot X @ ''/eventListener/v7'' @ sx_topic X then simu_errorWrapper (handlePostEvent X req) s
      else if rq_Header req ''Content-Type'' = Some ''application/json'' \<and>
         url_Path (rq_URL req) = sx_serverRoot X @ ''/eventListener/v7/eventBatch'' then simu_errorWrapper (handlePostBatch X req) s
      else (s, Inr \<lparr>rs_StatusCode = 404, rs_ContentType = [], rs_decoded = empty_answer\<rparr>))"

section \<open>The store of events\<close>

lemma length_slide: "length (slide m evs) = length evs"
  by (auto simp: slide_def)

text \<open>Whether \<open>k\<close> more events stay within the limit on the events kept (none if it is not positive).\<close>

definition has_room :: "simu_env \<Rightarrow> simu \<Rightarrow> nat \<Rightarrow> bool" where
  "has_room X s k \<longleftrightarrow> sx_maxEventsKeep X \<le> 0 \<or> int (length (su_events s) + k) \<le> sx_maxEventsKeep X"

lemma appendEvents_ok:
  assumes "\<forall>e\<in>set es. event_sender e \<noteq> None"
  shows "\<exists>s'. appendEvents X es s = (s', False) \<and> length (su_events s') = length (su_events s) + length es \<and>
    su_commandList s' = su_commandList s \<and> su_Batch s' = su_Batch s \<and> su_Errors s' = su_Errors s \<and>
    (has_room X s (length es) \<longrightarrow> su_events s' = su_events s @ es)"
  using assms
proof (induction es arbitrary: s)
  case (Cons e es)
  then obtain n where "event_sender e = Some n" by auto
  then have "appendEvent X e s = (s\<lparr>su_events := slide (sx_maxEventsKeep X) (su_events s @ [e]), su_LastSender := n\<rparr>, False)"
    by (simp add: appendEvent_def)
  with Cons.IH[of "s\<lparr>su_events := slide (sx_maxEventsKeep X) (su_events s @ [e]), su_LastSender := n\<rparr>"] Cons.prems show ?case
    by (auto simp: length_slide has_room_def) (simp_all add: slide_def)
qed simp

text \<open>The limit on the events kept is not one: the store grows with every event that is received. When the limit is exceeded the
  latest events are copied over the first ones, and occur twice.\<close>

theorem simu_never_dismisses:
  assumes "\<forall>e\<in>set es. event_sender e \<noteq> None"
  shows "length (su_events (fst (appendEvents X es s))) = length (su_events s) + length es"
  using appendEvents_ok[OF assms, of X s] by auto

lemma simu_duplicates:
  "appendEvent X e s = (s', False) \<Longrightarrow> 0 < sx_maxEventsKeep X \<Longrightarrow> sx_maxEventsKeep X \<le> int (length (su_events s)) \<Longrightarrow>
     su_events s' ! (nat (sx_maxEventsKeep X) - 1) = e \<and> last (su_events s') = e"
  by (auto simp: appendEvent_def slide_def nth_append last_append Let_def split: option.splits)

text \<open>One command per type, the latest; others keep their place.\<close>

lemma put_command_types: "distinct (map cmd_CommandType cs) \<Longrightarrow> distinct (map cmd_CommandType (put_command c cs))"
proof -
  have "set (map cmd_CommandType (put_command c cs)) = insert (cmd_CommandType c) (set (map cmd_CommandType cs))" for cs
    by (induction cs) auto
  then show "distinct (map cmd_CommandType cs) \<Longrightarrow> distinct (map cmd_CommandType (put_command c cs))"
    by (induction cs) (auto simp: image_iff)
qed

lemma put_command_lookup:
  "distinct (map cmd_CommandType cs) \<Longrightarrow>
     d \<in> set (put_command c cs) \<longleftrightarrow> d = c \<or> (d \<in> set cs \<and> cmd_CommandType d \<noteq> cmd_CommandType c)"
  by (induction cs) (auto simp: image_iff)

section \<open>The client connected to the simulator\<close>

text \<open>
  What makes the connection work: the client's transport is the simulator, with its user and password and under its paths; for the data
  \<open>D\<close> that are to be posted, the request can be built, the decoders read what the encoder wrote, and both schemas accept it. \<open>enc\<close> is
  the tree of an event.
\<close>

definition simu_codec :: "simu_env \<Rightarrow> simu params \<Rightarrow> (Event \<Rightarrow> jobject) \<Rightarrow> Event set \<Rightarrow> bool" where
  "simu_codec X P enc E \<longleftrightarrow>
     (\<forall>e\<in>E. event_sender (enc e) \<noteq> None \<and> pr_validate P (EventReq e) = None \<and> pr_encode_error P (EventReq e) = None \<and>
        sx_valid X (pr_encode P (EventReq e)) \<and> sx_decode_event X (pr_encode P (EventReq e)) = Some (enc e)) \<and>
     (\<forall>b. b \<noteq> [] \<longrightarrow> set b \<subseteq> E \<longrightarrow> pr_validate P (BatchReq b) = None \<and> pr_encode_error P (BatchReq b) = None \<and>
        sx_valid X (pr_encode P (BatchReq b)) \<and> sx_decode_batch X (pr_encode P (BatchReq b)) = Some (map enc b))"

definition simu_link :: "simu_env \<Rightarrow> simu params \<Rightarrow> VESClient \<Rightarrow> string \<Rightarrow> (Event \<Rightarrow> jobject) \<Rightarrow> Event set \<Rightarrow> bool" where
  "simu_link X P ves topic enc E \<longleftrightarrow>
     pr_send P = simu_send X \<and>
     (\<forall>path \<in> {topic, ''eventBatch''}. pr_newreq P ((cli_baseURL ves)\<lparr>url_Path := path_Join (url_Path (cli_baseURL ves)) path\<rparr>) = None) \<and>
     url_User (cli_baseURL ves) = Some (sx_user X, sx_pass X) \<and>
     path_Join (url_Path (cli_baseURL ves)) topic = sx_serverRoot X @ ''/eventListener/v7'' @ sx_topic X \<and>
     path_Join (url_Path (cli_baseURL ves)) ''eventBatch'' = sx_serverRoot X @ ''/eventListener/v7/eventBatch'' \<and>
     sx_topic X \<noteq> ''/eventBatch'' \<and> simu_codec X P enc E \<and>
     (sx_eventMaxSize X > 0 \<longrightarrow> 0 < cli_maxBodySize ves \<and> cli_maxBodySize ves \<le> sx_eventMaxSize X)"

text \<open>The requests that are covered: an event of \<open>E\<close> to the topic, a batch of events of \<open>E\<close> to the path of batches.\<close>

definition linked_post :: "Event set \<Rightarrow> string \<Rightarrow> string \<Rightarrow> payload \<Rightarrow> bool" where
  "linked_post E topic path d \<longleftrightarrow>
     (case d of EventReq e \<Rightarrow> e \<in> E \<and> path = topic | BatchReq b \<Rightarrow> b \<noteq> [] \<and> set b \<subseteq> E \<and> path = ''eventBatch'')"

lemma sendVESReply_parts:
  "\<exists>r. sendVESReply s = (s\<lparr>su_commandList := []\<rparr>, Reply r) \<and>
     DecodeVESResponse r = Inr \<lparr>vr_CommandList = su_commandList s, vr_RequestError = []\<rparr>"
  by (cases "su_commandList s") (simp_all add: sendVESReply_def DecodeVESResponse_def empty_answer_def Let_def)

text \<open>What the client does with a request that it could build.\<close>

lemma link_request:
  assumes "simu_link X P ves topic enc E" and "CreateJSONPostRequest P ves path d = Inr r"
  shows "rq_Body r = pr_encode P d \<and> checkAuth X r \<and> rq_Header r ''Content-Type'' = Some ''application/json'' \<and>
    url_Path (rq_URL r) = path_Join (url_Path (cli_baseURL ves)) path \<and> (sx_eventMaxSize X > 0 \<longrightarrow> int (length (rq_Body r)) \<le> sx_eventMaxSize X)"
proof -
  have "checkAuth X r \<and> rq_Header r ''Content-Type'' = Some ''application/json''"
    using assms by (auto simp: CreateJSONPostRequest_def checkAuth_def simu_link_def Let_def split: option.splits if_splits)
  with CreateJSONPostRequest_size[OF assms(2)] assms(1) show ?thesis by (auto simp: simu_link_def)
qed

lemma link_create:
  assumes "simu_link X P ves topic enc E" and "linked_post E topic path d"
  shows "CreateJSONPostRequest P ves path d =
    (if cli_maxBodySize ves > 0 \<and> int (length (pr_encode P d)) > cli_maxBodySize ves then Inl ErrBodyTooLarge
     else Inr (projr (CreateJSONPostRequest P ves path d)))"
  using assms by (cases d) (auto simp: CreateJSONPostRequest_def ValidateWithSchema_def simu_link_def simu_codec_def linked_post_def Let_def)

lemma batch_received:
  assumes "simu_link X P ves topic enc E" and "CreateJSONPostRequest P ves ''eventBatch'' (BatchReq b) = Inr r"
    and b: "b \<noteq> []" "set b \<subseteq> E" and room: "has_room X n0 (length b)"
  shows "\<exists>n res. simu_send X n0 r = (n, Inr res) \<and> su_events n = su_events n0 @ map enc b \<and> su_commandList n = [] \<and>
    su_Batch n = (su_Batch n0 + 1) mod 2 ^ 64 \<and> su_Errors n = su_Errors n0 \<and>
    DecodeVESResponse res = Inr \<lparr>vr_CommandList = su_commandList n0, vr_RequestError = []\<rparr>"
proof -
  note L = assms(1)[unfolded simu_link_def] and R = link_request[OF assms(1,2)]
  have C: "simu_codec X P enc E" using L by blast
  have "\<forall>e\<in>set (map enc b). event_sender e \<noteq> None" using C b(2) unfolding simu_codec_def by auto
  from appendEvents_ok[OF this, of X n0] room obtain s1 where s1: "appendEvents X (map enc b) n0 = (s1, False)" "su_commandList s1 = su_commandList n0"
    "su_Batch s1 = su_Batch n0" "su_Errors s1 = su_Errors n0" "su_events s1 = su_events n0 @ map enc b" by auto
  have path: "url_Path (rq_URL r) = sx_serverRoot X @ ''/eventListener/v7/eventBatch''" using L R by metis
  then have "url_Path (rq_URL r) \<noteq> sx_serverRoot X @ ''/eventListener/v7'' @ sx_topic X" using L by auto
  then have send: "simu_send X n0 r = simu_errorWrapper (handlePostBatch X r) n0" using path R by (simp add: simu_send_def)
  have "sx_decode_batch X (rq_Body r) = Some (map enc b) \<and> sx_valid X (rq_Body r)"
    using C b R unfolding simu_codec_def by simp
  then have "decodeAndValidateJSON X (sx_decode_batch X) r = Some (map enc b)" using R by (auto simp: decodeAndValidateJSON_def)
  then have "handlePostBatch X r n0 = sendVESReply (s1\<lparr>su_Batch := (su_Batch s1 + 1) mod 2 ^ 64\<rparr>)" using R s1(1) by (simp add: handlePostBatch_def)
  with sendVESReply_parts[of "s1\<lparr>su_Batch := (su_Batch s1 + 1) mod 2 ^ 64\<rparr>"] send s1 show ?thesis by (auto simp: simu_errorWrapper_def)
qed

lemma doPost_batch:
  assumes "simu_link X P (ev_client evel) topic enc E" and "b \<noteq> []" and "set b \<subseteq> E" and "has_room X (env_net env) (length b)"
  shows "if cli_maxBodySize (ev_client evel) > 0 \<and> int (length (pr_encode P (BatchReq b))) > cli_maxBodySize (ev_client evel)
    then doPost P evel env ''eventBatch'' (BatchReq b) = (evel, env, Some ErrBodyTooLarge)
    else \<exists>evel' env'. doPost P evel env ''eventBatch'' (BatchReq b) = (evel', env', None) \<and>
      su_events (env_net env') = su_events (env_net env) @ map enc b"
proof -
  have "linked_post E topic ''eventBatch'' (BatchReq b)" using assms(2,3) by (simp add: linked_post_def)
  note create = link_create[OF assms(1) this]
  show ?thesis
  proof (cases "cli_maxBodySize (ev_client evel) > 0 \<and> int (length (pr_encode P (BatchReq b))) > cli_maxBodySize (ev_client evel)")
    case True
    then show ?thesis using create by (simp add: doPost_def PostJSON_def)
  next
    case False
    then obtain r where r: "CreateJSONPostRequest P (ev_client evel) ''eventBatch'' (BatchReq b) = Inr r"
      using create by auto
    from batch_received[OF assms(1) r assms(2-4)] obtain n res where
      s: "simu_send X (env_net env) r = (n, Inr res)" "su_events n = su_events (env_net env) @ map enc b"
      "DecodeVESResponse res = Inr \<lparr>vr_CommandList = su_commandList (env_net env), vr_RequestError = []\<rparr>" by blast
    have "pr_send P = simu_send X" using assms by (simp add: simu_link_def)
    with s r False show ?thesis
      by (auto simp: doPost_def PostJSON_def SendRequest_def Let_def split: prod.split)
  qed
qed

text \<open>A batch over a connection, in however many parts it is sent.\<close>

lemma batch_over_link:
  assumes "simu_link X P (ev_client evel) topic enc E" and "set (evel_update_batch evel batch) \<subseteq> E"
    and "cli_maxBodySize (ev_client evel) > 0 \<Longrightarrow> \<forall>e\<in>E. int (length (pr_encode P (BatchReq [e]))) \<le> cli_maxBodySize (ev_client evel)"
    and "has_room X (env_net env) (length batch)"
  shows "\<exists>evel' env' b'. evel_PostBatch P evel env batch = Ret (evel', env', b', None) \<and>
    su_events (env_net env') = su_events (env_net env) @ map enc (evel_update_batch evel batch)"
  using assms
proof (induction "length batch" arbitrary: evel env batch rule: less_induct)
  case less
  let ?b = "evel_update_batch evel batch"
  show ?case
  proof (cases "batch = []")
    case True
    then show ?thesis by (simp add: evel_PostBatch.simps evel_update_batch_eq)
  next
    case ne: False
    then have b: "?b \<noteq> []" "has_room X (env_net env) (length ?b)" using less.prems(4) by simp_all
    note post = doPost_batch[OF less.prems(1) b(1) less.prems(2) b(2)]
    show ?thesis
    proof (cases "cli_maxBodySize (ev_client evel) > 0 \<and> int (length (pr_encode P (BatchReq ?b))) > cli_maxBodySize (ev_client evel)")
      case False
      then show ?thesis using ne post by (auto simp: evel_PostBatch.simps[of P evel env batch])
    next
      case True
      then have d: "doPost P evel env ''eventBatch'' (BatchReq ?b) = (evel, env, Some ErrBodyTooLarge)"
        using post by simp
      obtain b1 b2 where sp: "batch_Split ?b = (b1, b2)" by fastforce
      have "length ?b > 1"
      proof (rule ccontr)
        assume "\<not> 1 < length ?b"
        then obtain e where "?b = [e]" using ne by (cases ?b) auto
        with True less.prems(2,3) show False by force
      qed
      then have nn: "b1 \<noteq> []" "b2 \<noteq> []" using batch_Split_stuck[OF sp] by auto
      have app: "b1 @ b2 = ?b" by (rule batch_Split_append[OF sp])
      have len: "length b1 < length batch" "length b2 < length batch" "length b1 + length b2 = length batch"
        using arg_cong[OF app, of length] nn by (cases b1; cases b2; simp)+
      have upd: "evel_update_batch evel b1 @ evel_update_batch evel b2 = ?b"
        using arg_cong[OF app, of "evel_update_batch evel"] by simp
      then have sub: "set (evel_update_batch evel b1) \<subseteq> E" "set (evel_update_batch evel b2) \<subseteq> E"
        using less.prems(2) by (metis Un_subset_iff set_append)+
      have room: "has_room X (env_net env) (length b1)" using less.prems(4) len(3) by (auto simp: has_room_def)
      from less.hyps[OF len(1) less.prems(1) sub(1) less.prems(3) room] obtain evel2 env2 b1' where
        1: "evel_PostBatch P evel env b1 = Ret (evel2, env2, b1', None)"
          "su_events (env_net env2) = su_events (env_net env) @ map enc (evel_update_batch evel b1)" by blast
      from evel_PostBatch_outcome[OF 1(1)] have c: "same_conn evel evel2" by (simp add: batch_outcome_def)
      then have cl: "ev_client evel2 = ev_client evel" by (simp add: same_conn_def)
      have u2: "evel_update_batch evel2 b2 = evel_update_batch evel b2" using evel_update_batch_conn[OF c, of b2] by simp
      have room2: "has_room X (env_net env2) (length b2)" using less.prems(4) len(3) 1(2) by (auto simp: has_room_def)
      have "\<exists>evel' env' b'. evel_PostBatch P evel2 env2 b2 = Ret (evel', env', b', None) \<and>
          su_events (env_net env') = su_events (env_net env2) @ map enc (evel_update_batch evel2 b2)"
        by (rule less.hyps[OF len(2)]) (use less.prems(1,3) sub(2) room2 cl u2 in simp_all)
      then obtain evel3 env3 b2' where
        2: "evel_PostBatch P evel2 env2 b2 = Ret (evel3, env3, b2', None)"
          "su_events (env_net env3) = su_events (env_net env2) @ map enc (evel_update_batch evel2 b2)" by blast
      have "su_events (env_net env3) = su_events (env_net env) @ map enc ?b"
        unfolding 2(2) 1(2) u2 using upd by (metis append_assoc map_append)
      with 1(1) 2(1) d sp nn ne show ?thesis by (simp add: evel_PostBatch.simps[of P evel env batch])
    qed
  qed
qed

text \<open>An event over a connection, and the commands of the simulator.\<close>

lemma event_over_link:
  assumes "simu_link X P (ev_client evel) (ev_topic evel) enc E"
    and evt': "evt' = set_entity_id (ev_reportingEntityID evel) (set_entity_name (ev_reportingEntityName evel) evt)" and "evt' \<in> E"
    and size: "cli_maxBodySize (ev_client evel) > 0 \<Longrightarrow> int (length (pr_encode P (EventReq evt'))) \<le> cli_maxBodySize (ev_client evel)"
    and room: "has_room X (env_net env) 1"
  shows "\<exists>evel' env'. evel_PostEvent P evel env evt = (evel', env', evt', None) \<and>
    su_events (env_net env') = su_events (env_net env) @ [enc evt'] \<and>
    (evel', env_chans env') = processCommands evel (env_chans env) (su_commandList (env_net env)) \<and> su_commandList (env_net env') = []"
proof -
  note L = assms(1)[unfolded simu_link_def]
  have C: "event_sender (enc evt') \<noteq> None" "sx_valid X (pr_encode P (EventReq evt'))"
    "sx_decode_event X (pr_encode P (EventReq evt')) = Some (enc evt')"
    using L assms(3) unfolding simu_codec_def by blast+
  have "linked_post E (ev_topic evel) (ev_topic evel) (EventReq evt')" using assms(3) by (simp add: linked_post_def)
  then obtain r where r: "CreateJSONPostRequest P (ev_client evel) (ev_topic evel) (EventReq evt') = Inr r"
    using link_create[OF assms(1), of "ev_topic evel" "EventReq evt'"] size by (auto simp: not_le split: if_splits)
  note R = link_request[OF assms(1) r]
  from C(1) obtain s where s: "event_sender (enc evt') = Some s" by blast
  define n where "n = env_net env"
  define n1 where "n1 = n\<lparr>su_events := su_events n @ [enc evt'], su_LastSender := s\<rparr>"
  have "decodeAndValidateJSON X (sx_decode_event X) r = Some (enc evt')" using C R by (auto simp: decodeAndValidateJSON_def)
  moreover have "appendEvent X (enc evt') n = (n1, False)"
    using room s by (simp add: appendEvent_def slide_def n1_def has_room_def n_def) linarith
  ultimately have h: "handlePostEvent X r n = sendVESReply n1" using R by (simp add: handlePostEvent_def)
  have "simu_send X n r = simu_errorWrapper (handlePostEvent X r) n" using L R by (simp add: simu_send_def)
  with h sendVESReply_parts[of n1] obtain res where send: "simu_send X n r = (n1\<lparr>su_commandList := []\<rparr>, Inr res)"
    "DecodeVESResponse res = Inr \<lparr>vr_CommandList = su_commandList n, vr_RequestError = []\<rparr>" by (auto simp: simu_errorWrapper_def n1_def)
  obtain evel' cs where p: "processCommands evel (env_chans env) (su_commandList n) = (evel', cs)" by fastforce
  have "pr_send P = simu_send X" using L by simp
  with send r p show ?thesis
    unfolding evel_PostEvent_def doPost_def PostJSON_def SendRequest_def Let_def evt'[symmetric]
    by (simp add: n_def[symmetric] n1_def)
qed

end
