(* ===== verification/Ves_Simu_Start.thy ===== *)
theory Ves_Simu_Start
  imports Ves_Simu
begin

text \<open>
  The start of the collector simulator (ves-simu.go) and the client that is configured for it: if both are given the same server root, topic, user
  and password, their normalisations of these (\<open>NewEvel\<close> of govel, \<open>main\<close> of ves-simu.go) meet in the same paths, so that what the client posts
  arrives. The properties of the connected pair, stated from the two configurations.
\<close>

section \<open>Start of the simulator\<close>

record simu_flags =
  sf_serverRoot :: string
  sf_user :: string
  sf_pass :: string
  sf_port :: int
  sf_topic :: string
  sf_https :: bool
  sf_certFile :: string
  sf_keyFile :: string
  sf_maxEventsKeep :: int
  sf_eventMaxSize :: int
  sf_logfile :: string
  sf_debug :: int

text \<open>\<open>initialize\<close>: every complaint is fatal; \<open>opens\<close> says whether the log file can be opened.\<close>

definition initialize :: "bool \<Rightarrow> simu_flags \<Rightarrow> unit go" where
  "initialize opens F =
     (if sf_user F = [] \<or> sf_pass F = [] then Crash ProcessExit
      else if sf_logfile F \<noteq> [] \<and> \<not> opens then Crash ProcessExit
      else if sf_debug F = 0 \<or> sf_debug F = 1 \<or> sf_debug F = 2 then Ret () else Crash ProcessExit)"

definition simu_root :: "simu_flags \<Rightarrow> string" where
  "simu_root F = TrimRight (slash_path (sf_serverRoot F)) (CHR ''/'')"

text \<open>\<open>main\<close> up to the call that listens, with its address; the decoders and the validator are those of the argument.\<close>

definition simu_main :: "bool \<Rightarrow> simu_flags \<Rightarrow> simu_env \<Rightarrow> (simu_env \<times> string) go" where
  "simu_main opens F X =
     go_bind (initialize opens F) (\<lambda>_.
       (let X1 = X\<lparr>sx_topic := slash_path (sf_topic F), sx_serverRoot := simu_root F, sx_user := sf_user F, sx_pass := sf_pass F,
              sx_maxEventsKeep := sf_maxEventsKeep F, sx_eventMaxSize := sf_eventMaxSize F\<rparr>;
            addr = ''0.0.0.0:'' @ FormatInt (sf_port F)
        in if \<not> sf_https F then Ret (X1, addr)
           else if sf_certFile F = [] then Crash ProcessExit
           else if sf_keyFile F = [] then Crash ProcessExit
           else Ret (X1, addr)))"

section \<open>Paths\<close>

text \<open>The path of a list of elements, and elements that \<open>path.Clean\<close> leaves alone.\<close>

definition path_of :: "string list \<Rightarrow> string" where
  "path_of es = concat (map (Cons (CHR ''/'')) es)"

definition plain_elem :: "string \<Rightarrow> bool" where
  "plain_elem e \<longleftrightarrow> e \<noteq> [] \<and> e \<noteq> ''.'' \<and> e \<noteq> ''..'' \<and> CHR ''/'' \<notin> set e"

lemma path_of_simps [simp]: "path_of [] = []" "path_of (e # es) = CHR ''/'' # e @ path_of es" "path_of (es @ fs) = path_of es @ path_of fs"
  by (simp_all add: path_of_def)

lemma Split_path_of: "CHR ''/'' \<notin> set e \<Longrightarrow> \<forall>f \<in> set es. CHR ''/'' \<notin> set f \<Longrightarrow> Split (e @ path_of es) (CHR ''/'') = e # es"
  by (induction es arbitrary: e) (simp_all add: Split_absent Split_at)

lemma clean_elems_plain:
  "\<forall>e \<in> set es. e = [] \<or> plain_elem e \<Longrightarrow> clean_elems r acc es = rev acc @ filter (\<lambda>e. e \<noteq> []) es"
  by (induction es arbitrary: acc) (auto simp: plain_elem_def)

lemma join_path_of: "join_with ''/'' (e # es) = e @ path_of es"
  by (induction es arbitrary: e) simp_all

lemma path_Clean_path_of:
  assumes "\<forall>e \<in> set es. e = [] \<or> plain_elem e" and "filter (\<lambda>e. e \<noteq> []) es \<noteq> []"
  shows "path_Clean (path_of es) = path_of (filter (\<lambda>e. e \<noteq> []) es)"
proof -
  have "\<forall>f \<in> set es. CHR ''/'' \<notin> set f" using assms(1) unfolding plain_elem_def by fastforce
  then have split: "Split (path_of es) (CHR ''/'') = [] # es"
    using Split_path_of [of "[]" es] by simp
  obtain e fs where f: "filter (\<lambda>e. e \<noteq> []) es = e # fs" using assms(2) by (cases "filter (\<lambda>e. e \<noteq> []) es") blast+
  have ne: "path_of es \<noteq> []" "HasPrefix (path_of es) ''/''" using assms(2) by (cases es; simp add: HasPrefix_def)+
  have "clean_elems True [] ([] # es) = e # fs"
    using clean_elems_plain [of "[] # es" True "[]"] assms(1) f by simp
  then show ?thesis
    using ne by (simp add: path_Clean_def split f join_path_of del: clean_elems.simps)
qed

lemma path_Join_path_of:
  assumes "\<forall>e \<in> set es. plain_elem e" and "es \<noteq> []" and "\<forall>e \<in> set ts. plain_elem e"
  shows "path_Join (path_of es) (path_of ts) = path_of (es @ ts)"
    and "plain_elem t \<Longrightarrow> path_Join (path_of es) t = path_of (es @ [t])"
proof -
  have ne: "path_of es \<noteq> []" using assms(2) by (cases es) simp_all
  have plain: "filter (\<lambda>e. e \<noteq> []) xs = xs" if "\<forall>e \<in> set xs. plain_elem e" for xs
    using that by (auto simp: plain_elem_def filter_id_conv)
  show "path_Join (path_of es) (path_of ts) = path_of (es @ ts)"
  proof (cases "ts = []")
    case True
    with ne assms(1,2) path_Clean_path_of [of es] show ?thesis by (simp add: path_Join_def plain)
  next
    case False
    then have "path_of ts \<noteq> []" by (cases ts) simp_all
    moreover have "path_of es @ ''/'' @ path_of ts = path_of (es @ [[]] @ ts)" by simp
    ultimately show ?thesis
      using ne assms path_Clean_path_of [of "es @ [[]] @ ts"] by (auto simp: path_Join_def plain)
  qed
  assume t: "plain_elem t"
  have "path_of es @ ''/'' @ t = path_of (es @ [t])" by simp
  with t ne assms(1) path_Clean_path_of [of "es @ [t]"] show "path_Join (path_of es) t = path_of (es @ [t])"
    by (auto simp: path_Join_def plain plain_elem_def)
qed

section \<open>A client and a simulator with the same configuration\<close>

text \<open>The same root, topic and credentials on both sides, where the normalised paths have no elements that \<open>path.Clean\<close> would change and the topic is
  not the path of batches; the simulator's size limit, if there is one, is not below the client's, as with the defaults of both.\<close>

definition matching :: "simu_flags \<Rightarrow> CollectorConfiguration \<Rightarrow> EventConfiguration \<Rightarrow> bool" where
  "matching F c ev \<longleftrightarrow>
     cc_ServerRoot c = sf_serverRoot F \<and> cc_Topic c = sf_topic F \<and> cc_User c = sf_user F \<and> cc_Password c = sf_pass F \<and>
     (\<exists>rs. simu_root F = path_of rs \<and> (\<forall>e \<in> set rs. plain_elem e)) \<and>
     (\<exists>ts. slash_path (sf_topic F) = path_of ts \<and> (\<forall>e \<in> set ts. plain_elem e) \<and> ts \<noteq> [''eventBatch'']) \<and>
     (sf_eventMaxSize F > 0 \<longrightarrow> 0 < ec_MaxSize ev \<and> ec_MaxSize ev \<le> sf_eventMaxSize F)"

text \<open>The HTTP connection: the client's transport is the simulator, and \<open>http.NewRequest\<close> accepts the two URLs.\<close>

definition simu_peer :: "simu_env \<Rightarrow> simu params \<Rightarrow> Evel \<Rightarrow> bool" where
  "simu_peer X P evel \<longleftrightarrow>
     pr_send P = simu_send X \<and>
     (\<forall>path \<in> {ev_topic evel, ''eventBatch''}.
        pr_newreq P ((cli_baseURL (ev_client evel))\<lparr>url_Path := path_Join (url_Path (cli_baseURL (ev_client evel))) path\<rparr>) = None)"

lemma simu_main_env:
  assumes "simu_main opens F X0 = Ret (X, addr)"
  shows "sx_topic X = slash_path (sf_topic F) \<and> sx_serverRoot X = simu_root F \<and> sx_user X = sf_user F \<and> sx_pass X = sf_pass F \<and>
    sx_maxEventsKeep X = sf_maxEventsKeep F \<and> sx_eventMaxSize X = sf_eventMaxSize F"
  using assms by (auto simp: simu_main_def go_simps Let_def split: if_splits)

lemma plain_parts [simp]: "plain_elem ''eventListener''" "plain_elem ''v7''" "plain_elem ''eventBatch''"
  by (simp_all add: plain_elem_def)

lemma path_of_inject: "\<forall>e \<in> set es. plain_elem e \<Longrightarrow> \<forall>e \<in> set fs. plain_elem e \<Longrightarrow> path_of es = path_of fs \<longleftrightarrow> es = fs"
proof
  assume es: "\<forall>e \<in> set es. plain_elem e" and fs: "\<forall>e \<in> set fs. plain_elem e" and eq: "path_of es = path_of fs"
  have split: "Split (path_of xs) (CHR ''/'') = [] # xs" if "\<forall>e \<in> set xs. plain_elem e" for xs
    using that Split_path_of [of "[]" xs] unfolding plain_elem_def by fastforce
  from arg_cong [OF eq, of "\<lambda>p. Split p (CHR ''/'')"] show "es = fs" by (simp add: split es fs)
qed simp

lemma configured_link:
  assumes evel: "NewEvel None c event = Inr evel" and main: "simu_main opens F X0 = Ret (X, addr)"
    and match: "matching F c event" and peer: "simu_peer X P evel" and codec: "simu_codec X P enc E"
  shows "simu_link X P (ev_client evel) (ev_topic evel) enc E"
proof -
  note X = simu_main_env [OF main]
  obtain rs ts where rs: "simu_root F = path_of rs" "\<forall>e \<in> set rs. plain_elem e"
    and ts: "slash_path (sf_topic F) = path_of ts" "\<forall>e \<in> set ts. plain_elem e" "ts \<noteq> [''eventBatch'']"
    using match unfolding matching_def by blast
  have base: "url_Path (cli_baseURL (ev_client evel)) = path_of (rs @ [''eventListener'', ''v7''])"
    "url_User (cli_baseURL (ev_client evel)) = Some (sf_user F, sf_pass F)" "ev_topic evel = path_of ts"
    "cli_maxBodySize (ev_client evel) = ec_MaxSize event"
    using evel match rs(1) ts(1) by (auto simp: NewEvel_def Let_def matching_def simu_root_def)
  have el: "\<forall>e \<in> set (rs @ [''eventListener'', ''v7'']). plain_elem e" using rs(2) by auto
  have topic: "path_of ts \<noteq> ''/eventBatch''" using path_of_inject [OF ts(2), of "[''eventBatch'']"] ts(3) by simp
  have "path_Join (path_of (rs @ [''eventListener'', ''v7''])) (path_of ts) = path_of rs @ ''/eventListener/v7'' @ path_of ts"
    "path_Join (path_of (rs @ [''eventListener'', ''v7''])) ''eventBatch'' = path_of rs @ ''/eventListener/v7/eventBatch''"
    using path_Join_path_of [OF el _ ts(2)] by (simp_all del: path_of_simps(2)) simp_all
  with X base topic peer match codec show ?thesis
    by (simp add: simu_link_def simu_peer_def matching_def rs(1) ts(1))
qed

section \<open>What is posted arrives\<close>

text \<open>C4: A batch posted to a simulator with the same configuration arrives: if client and simulator are given the same server root, topic and
  credentials, the events of the batch (with the reporting entity filled in) pass the schemas of both sides, are decoded as they were encoded and name
  their reporting entity, none of them is by itself above the client's size limit, the client's limit is not above the simulator's, and the simulator
  has room for the batch below its limit of events to keep, then the post returns without an error, and the simulator has stored all events of the
  batch at the end of its store, in their order, each once, in however many parts the batch was sent.\<close>

theorem batch_reaches_collector:
  assumes "NewEvel None c event = Inr evel" and "simu_main opens F X0 = Ret (X, addr)" and "matching F c event" and "simu_peer X P evel"
    and "E = set (evel_update_batch evel batch)" and "simu_codec X P enc E"
    and "ec_MaxSize event > 0 \<longrightarrow> (\<forall>e\<in>E. int (length (pr_encode P (BatchReq [e]))) \<le> ec_MaxSize event)"
    and "sf_maxEventsKeep F \<le> 0 \<or> int (length (su_events (env_net env)) + length batch) \<le> sf_maxEventsKeep F"
  shows "\<exists>evel' env' b'. evel_PostBatch P evel env batch = Ret (evel', env', b', None) \<and>
    su_events (env_net env') = su_events (env_net env) @ map enc (evel_update_batch evel batch)"
proof -
  have "cli_maxBodySize (ev_client evel) = ec_MaxSize event"
    using assms(1) by (auto simp: NewEvel_def Let_def)
  moreover have "has_room X (env_net env) (length batch)"
    using assms(8) simu_main_env [OF assms(2)] by (simp add: has_room_def)
  ultimately show ?thesis using batch_over_link [OF configured_link [OF assms(1-4,6)]] assms(5,7) by simp
qed

text \<open>A simulator below \<open>/ves\<close> with a topic and the default limits, and a client for it; the two write the paths differently. An event
  is sent as its identifier, a batch as the identifiers with a slash before each, so that the parts of the batch can be told apart.\<close>

definition sample_flags :: simu_flags where
  "sample_flags = \<lparr>sf_serverRoot = ''ves/'', sf_user = ''user'', sf_pass = ''pass'', sf_port = 8443, sf_topic = ''/faults'', sf_https = False,
     sf_certFile = [], sf_keyFile = [], sf_maxEventsKeep = 4096, sf_eventMaxSize = 2000000, sf_logfile = [], sf_debug = 0\<rparr>"

definition sample_collector :: CollectorConfiguration where
  "sample_collector = \<lparr>cc_ServerRoot = ''ves/'', cc_FQDN = ''simu'', cc_Port = 8443, cc_Secure = False, cc_User = ''user'', cc_Password = ''pass'',
     cc_PassPhrase = [], cc_NbiType = [], cc_Brokers = [], cc_Topic = ''/faults'', cc_KafkaTopic = [], cc_NbiFormat = [], cc_HeartBeat = False\<rparr>"

definition simu_conf :: EventConfiguration where
  "simu_conf = \<lparr>ec_VNFName = [], ec_ReportingEntityName = ''re'', ec_ReportingEntityID = ''1'', ec_MaxSize = 7, ec_NfNamingCode = [],
     ec_RetryInterval = 0, ec_MaxMissed = 0, ec_Tmaas = None, ec_DnPrefix = [], ec_SourceName = [], ec_NfcNamingCodes = []\<rparr>"

definition wire_event :: "string \<Rightarrow> Event" where
  "wire_event i = EvHeartbeat (NewHeartbeat 0 i ''name'' [] ''vm'' 60 [])"

definition wire_id :: "Event \<Rightarrow> string" where
  "wire_id e = h_EventID (Header e)"

definition wire_object :: "string \<Rightarrow> jobject" where
  "wire_object i = [(''commonEventHeader'', JObj [(''eventId'', JStr i), (''reportingEntityName'', JStr ''re'')])]"

definition wire_encode :: "payload \<Rightarrow> string" where
  "wire_encode d = (case d of EventReq e \<Rightarrow> wire_id e | BatchReq b \<Rightarrow> path_of (map wire_id b))"

definition sample_decoders :: simu_env where
  "sample_decoders = \<lparr>sx_serverRoot = [], sx_topic = [], sx_user = [], sx_pass = [],
     sx_maxEventsKeep = 0, sx_eventMaxSize = 0, sx_decode_event = (\<lambda>s. Some (wire_object s)),
     sx_decode_batch = (\<lambda>s. Some (map wire_object (tl (Split s (CHR ''/''))))), sx_decode_commands = (\<lambda>_. None), sx_valid = (\<lambda>s. s \<noteq> [])\<rparr>"

definition sample_simu :: simu_env where
  "sample_simu = sample_decoders\<lparr>sx_topic := ''/faults'', sx_serverRoot := ''/ves'', sx_user := ''user'', sx_pass := ''pass'',
     sx_maxEventsKeep := 4096, sx_eventMaxSize := 2000000\<rparr>"

definition simu_evel :: Evel where
  "simu_evel = projr (NewEvel None sample_collector simu_conf)"

definition simu_params :: "simu params" where
  "simu_params = \<lparr>pr_validate = (\<lambda>_. None), pr_encode_error = (\<lambda>_. None), pr_encode = wire_encode, pr_newreq = (\<lambda>_. None),
     pr_send = simu_send sample_simu\<rparr>"

definition simu_env0 :: "Command list \<Rightarrow> simu env" where
  "simu_env0 cmds = \<lparr>env_chans = (\<lambda>_. \<lparr>ch_cap = 1, ch_buf = []\<rparr>), env_net = simu_start\<lparr>su_commandList := cmds\<rparr>, env_sent = []\<rparr>"

lemma sample_pair:
  "NewEvel None sample_collector simu_conf = Inr simu_evel"
  "simu_main True sample_flags sample_decoders = Ret (sample_simu, ''0.0.0.0:'' @ FormatInt 8443)"
  "matching sample_flags sample_collector simu_conf" "simu_peer sample_simu simu_params simu_evel"
proof -
  show "NewEvel None sample_collector simu_conf = Inr simu_evel" by (simp add: simu_evel_def NewEvel_def Let_def)
  have root: "simu_root sample_flags = ''/ves''" "slash_path (sf_topic sample_flags) = ''/faults''"
    by (simp_all add: simu_root_def slash_path_def sample_flags_def TrimLeft_def TrimRight_def HasPrefix_def)
  then show "simu_main True sample_flags sample_decoders = Ret (sample_simu, ''0.0.0.0:'' @ FormatInt 8443)"
    by (simp add: simu_main_def initialize_def sample_simu_def sample_decoders_def)
      (simp add: sample_flags_def)
  have "\<exists>rs. simu_root sample_flags = path_of rs \<and> (\<forall>e \<in> set rs. plain_elem e)"
    by (rule exI [of _ "[''ves'']"]) (simp add: root(1) plain_elem_def)
  moreover have "\<exists>ts. slash_path (sf_topic sample_flags) = path_of ts \<and> (\<forall>e \<in> set ts. plain_elem e) \<and> ts \<noteq> [''eventBatch'']"
    by (rule exI [of _ "[''faults'']"]) (simp add: root(2) plain_elem_def)
  ultimately show "matching sample_flags sample_collector simu_conf"
    by (simp add: matching_def) (simp add: sample_flags_def sample_collector_def simu_conf_def)
  show "simu_peer sample_simu simu_params simu_evel" by (simp add: simu_peer_def simu_params_def)
qed

lemma wire_codec:
  assumes "\<forall>e\<in>E. wire_id e \<noteq> [] \<and> CHR ''/'' \<notin> set (wire_id e)"
  shows "simu_codec sample_simu simu_params (wire_object \<circ> wire_id) E"
proof -
  have "Split (path_of (map wire_id b)) (CHR ''/'') = [] # map wire_id b" if "set b \<subseteq> E" for b
    using Split_path_of [of "[]" "map wire_id b"] assms that by (simp add: subset_iff)
  then show ?thesis using assms
    by (auto simp: simu_codec_def simu_params_def wire_encode_def sample_simu_def sample_decoders_def event_sender_def wire_object_def
        jget_def neq_Nil_conv)
qed

lemma wire_id_stamp [simp]:
  "wire_id (set_entity_id i (set_entity_name n e)) = wire_id e" "wire_id (wire_event i) = i"
  by (simp_all add: wire_id_def set_entity_id_def set_entity_name_def wire_event_def NewHeartbeat_def)

theorem batch_reaches_collector_witness:
  "\<exists>evel' env' b'. evel_PostBatch simu_params simu_evel (simu_env0 []) (map wire_event [''e1'', ''e2'', ''e3'']) = Ret (evel', env', b', None) \<and>
    su_events (env_net env') = map wire_object [''e1'', ''e2'', ''e3'']"
proof -
  let ?b = "map wire_event [''e1'', ''e2'', ''e3'']"
  let ?E = "set (evel_update_batch simu_evel ?b)"
  have codec: "simu_codec sample_simu simu_params (wire_object \<circ> wire_id) ?E"
    by (rule wire_codec) (auto simp: evel_update_batch_eq)
  have size: "ec_MaxSize simu_conf > 0 \<longrightarrow> (\<forall>e\<in>?E. int (length (pr_encode simu_params (BatchReq [e]))) \<le> ec_MaxSize simu_conf)"
    by (auto simp: simu_conf_def simu_params_def wire_encode_def evel_update_batch_eq)
  have room: "sf_maxEventsKeep sample_flags \<le> 0 \<or>
      int (length (su_events (env_net (simu_env0 []))) + length ?b) \<le> sf_maxEventsKeep sample_flags"
    by (simp add: sample_flags_def simu_env0_def simu_start_def)
  from batch_reaches_collector [OF sample_pair refl codec size room] show ?thesis
    by (simp add: simu_env0_def simu_start_def evel_update_batch_eq)
qed

text \<open>C34: An event posted to a simulator with the same configuration arrives (under the conditions on the event, the sizes and the room that hold for
  a batch), and the commands that were set at the simulator reach the client with the answer: they are applied in order, and are not sent again.\<close>

theorem event_reaches_collector:
  assumes "NewEvel None c event = Inr evel" and "simu_main opens F X0 = Ret (X, addr)" and "matching F c event" and "simu_peer X P evel"
    and "evt' = set_entity_id (ec_ReportingEntityID event) (set_entity_name (ec_ReportingEntityName event) evt)" and "simu_codec X P enc {evt'}"
    and "ec_MaxSize event > 0 \<longrightarrow> int (length (pr_encode P (EventReq evt'))) \<le> ec_MaxSize event"
    and "sf_maxEventsKeep F \<le> 0 \<or> int (length (su_events (env_net env))) < sf_maxEventsKeep F"
  shows "\<exists>evel' env'. evel_PostEvent P evel env evt = (evel', env', evt', None) \<and>
    su_events (env_net env') = su_events (env_net env) @ [enc evt'] \<and>
    (evel', env_chans env') = processCommands evel (env_chans env) (su_commandList (env_net env)) \<and> su_commandList (env_net env') = []"
proof -
  have e: "cli_maxBodySize (ev_client evel) = ec_MaxSize event" "ev_reportingEntityID evel = ec_ReportingEntityID event"
    "ev_reportingEntityName evel = ec_ReportingEntityName event"
    using assms(1) by (auto simp: NewEvel_def Let_def)
  have "has_room X (env_net env) 1" using assms(8) simu_main_env [OF assms(2)] by (auto simp: has_room_def)
  with event_over_link [OF configured_link [OF assms(1-4,6)]] assms(5,7) show ?thesis unfolding e by simp
qed

theorem event_reaches_collector_witness:
  "\<exists>evel' env' evt'. evel_PostEvent simu_params simu_evel
      (simu_env0 [\<lparr>cmd_CommandType = CommandHeartbeatIntervalChange, cmd_HeartbeatInterval = 30, cmd_MeasurementInterval = 0\<rparr>])
      (wire_event ''e1'') = (evel', env', evt', None) \<and>
    su_events (env_net env') = [wire_object ''e1''] \<and> ev_heartbeatInterval evel' = 30 * second"
proof -
  let ?c = "[\<lparr>cmd_CommandType = CommandHeartbeatIntervalChange, cmd_HeartbeatInterval = 30, cmd_MeasurementInterval = 0\<rparr>]"
  let ?e = "set_entity_id (ec_ReportingEntityID simu_conf) (set_entity_name (ec_ReportingEntityName simu_conf) (wire_event ''e1''))"
  have codec: "simu_codec sample_simu simu_params (wire_object \<circ> wire_id) {?e}" by (rule wire_codec) simp
  have size: "ec_MaxSize simu_conf > 0 \<longrightarrow> int (length (pr_encode simu_params (EventReq ?e))) \<le> ec_MaxSize simu_conf"
    by (simp add: simu_params_def wire_encode_def) (simp add: simu_conf_def)
  have room: "sf_maxEventsKeep sample_flags \<le> 0 \<or> int (length (su_events (env_net (simu_env0 ?c)))) < sf_maxEventsKeep sample_flags"
    by (simp add: sample_flags_def simu_env0_def simu_start_def)
  have "ev_hbIntCh simu_evel = []" "ev_measIntCh simu_evel = []"
    by (simp_all add: simu_evel_def NewEvel_def Let_def)
  with event_reaches_collector [OF sample_pair refl codec size room] show ?thesis
    by (auto simp: simu_env0_def simu_start_def processCommands_def processCommand_def wrap64_def split: if_splits)
qed

end
