(* ===== verification/Config_Watch.thy ===== *)
theory Config_Watch
  imports Config_Map_Properties
begin

text \<open>
  The config map reader with its goroutines (\<open>ConfigMapWatcher\<close> and \<open>RunUpdateJob\<close> of
  VESPA/ves-agent/configmapreader/configmaps.go). The watcher starts a goroutine for every event that it takes up, and every ten
  seconds the job goes through the definitions that were noted, writes the rule files and clears the map. Nothing is locked. The steps
  of the model are one entry of a config map's data, one namespace of the job, and the clearing of the map; executions in
  which the Go run-time finds two goroutines inside the same map, and ends the process, are not followed further.
\<close>

section \<open>Goroutines\<close>

text \<open>\<open>UpdateMetricRuleMap\<close> before its first statement, the same with the entries of the data that it has still to note,
  and \<open>deleteNfFile\<close>.\<close>

datatype cm_task =
    Updating ConfigMap string "TmaaSAnnotations option"
  | Noting string string "TmaaSAnnotations option" "(string \<times> string) list"
  | Deleting ConfigMap

text \<open>\<open>wt_job\<close> is the run of \<open>UpdateRules\<close> under way: the namespaces that there were when it began, and those it has gone through.
  \<open>wt_open\<close> is whether the watcher still watches.\<close>

record cm_watcher =
  wt_shared :: cm_state
  wt_tasks :: "cm_task list"
  wt_job :: "(string list \<times> string list) option"
  wt_open :: bool

definition ConfigMapWatcher :: "bool \<Rightarrow> cm_state \<Rightarrow> cm_watcher" where
  "ConfigMapWatcher client st = \<lparr>wt_shared = st\<lparr>cs_msConfigmaps := [], cs_msAnnotations := []\<rparr>, wt_tasks = [], wt_job = None, wt_open = client\<rparr>"

text \<open>The goroutine that the watcher starts for an event.\<close>

definition spawn_task :: "cm_ext \<Rightarrow> watch_type \<times> ConfigMap \<Rightarrow> cm_task option go" where
  "spawn_task X ev =
     (case ev of (ty, cm) \<Rightarrow>
       (let microsvc = at [] (km_Labels cm) ''microSvcName'';
            tmaas = at [] (km_Annotations cm) ''xgvela.com/tmaas''
        in if \<not> watched (km_Name cm) \<or> tmaas = [] then Ret None
           else case getAnnotations X tmaas of
               Inl err \<Rightarrow> Ret None
             | Inr anns \<Rightarrow>
                 (case ty of
                    Deleted \<Rightarrow> Ret (Some (Deleting cm))
                  | OtherChange \<Rightarrow> Ret None
                  | _ \<Rightarrow> (case anns of
                        None \<Rightarrow> Crash NilDeref
                      | Some a \<Rightarrow> Ret (if tm_XGVelaID a = ce_VesgwXGVelaId X then Some (Updating cm microsvc anns) else None)))))"

definition make_maps :: "string \<Rightarrow> cm_state \<Rightarrow> cm_state" where
  "make_maps ns st =
     (let st1 = (if map_of (cs_msConfigmaps st) ns = None
                 then st\<lparr>cs_msConfigmaps := AList.update ns [] (cs_msConfigmaps st)\<rparr> else st)
      in if map_of (cs_msAnnotations st1) ns = None
         then st1\<lparr>cs_msAnnotations := AList.update ns [] (cs_msAnnotations st1)\<rparr> else st1)"

text \<open>Noting an entry assigns into the map of the namespace, or reads it and assigns when there is no entry: when the namespace is gone, the
  map is nil and the assignment panics.\<close>

definition note_entry :: "string \<Rightarrow> string \<Rightarrow> TmaaSAnnotations option \<Rightarrow> cm_state \<Rightarrow> string \<times> string \<Rightarrow> cm_state go" where
  "note_entry ns ms anns st kv =
     (if map_of (cs_msConfigmaps st) ns = None then Crash NilMap else Ret (note_data ns ms anns st kv))"

fun task_step :: "cm_ext \<Rightarrow> cm_task \<Rightarrow> cm_state \<Rightarrow> (cm_task option \<times> cm_state) go" where
  "task_step X (Updating cm ms anns) st =
     Ret (Some (Noting (km_Namespace cm) ms anns (km_Data cm)), make_maps (km_Namespace cm) st)"
| "task_step X (Noting ns ms anns []) st = Ret (None, st)"
| "task_step X (Noting ns ms anns (kv # kvs)) st =
     go_bind (note_entry ns ms anns st kv) (\<lambda>st1. Ret (Some (Noting ns ms anns kvs), st1))"
| "task_step X (Deleting cm) st = Ret (None, deleteNfFile X cm st)"

section \<open>Interleavings\<close>

text \<open>\<open>Reconnect ok\<close> is the end of the watch connection and the attempt to watch again; \<open>Tick\<close> begins a run of \<open>UpdateRules\<close>, \<open>Visit\<close> is its loop for a
  namespace. The range goes through all namespaces that were there when it began, in any order, and may or may not take up
  one that was added since.\<close>

datatype cm_event = Happens watch_type ConfigMap | Reconnect bool | Tick | Visit string | Finish | Go nat

definition put_task :: "nat \<Rightarrow> cm_task option \<Rightarrow> cm_task list \<Rightarrow> cm_task list" where
  "put_task i t ts = take i ts @ (case t of None \<Rightarrow> [] | Some t \<Rightarrow> [t]) @ drop (Suc i) ts"

inductive watch_step :: "cm_ext \<Rightarrow> cm_watcher \<Rightarrow> cm_event \<Rightarrow> cm_watcher go \<Rightarrow> bool" for X where
  happens: "wt_open w \<Longrightarrow> watch_step X w (Happens ty cm)
    (go_bind (spawn_task X (ty, cm)) (\<lambda>t. Ret (w\<lparr>wt_tasks := put_task (length (wt_tasks w)) t (wt_tasks w)\<rparr>)))"
| reconnect: "wt_open w \<Longrightarrow> watch_step X w (Reconnect ok) (Ret (w\<lparr>wt_open := ok\<rparr>))"
| tick: "wt_job w = None \<Longrightarrow> watch_step X w Tick (Ret (w\<lparr>wt_job := Some (map fst (cs_msConfigmaps (wt_shared w)), [])\<rparr>))"
| visit: "wt_job w = Some (todo, vis) \<Longrightarrow> todo \<noteq> [] \<Longrightarrow> ns \<notin> set vis \<Longrightarrow> map_of (cs_msConfigmaps (wt_shared w)) ns = Some details \<Longrightarrow>
    watch_step X w (Visit ns) (go_bind (update_namespace X (wt_shared w) (ns, details))
      (\<lambda>st. Ret (w\<lparr>wt_shared := st, wt_job := Some (todo, ns # vis)\<rparr>)))"
| finish: "wt_job w = Some (todo, vis) \<Longrightarrow> set todo \<subseteq> set vis \<Longrightarrow>
    watch_step X w Finish (Ret (w\<lparr>wt_shared := (wt_shared w)\<lparr>cs_msConfigmaps := []\<rparr>, wt_job := None\<rparr>))"
| run: "i < length (wt_tasks w) \<Longrightarrow> watch_step X w (Go i) (go_bind (task_step X (wt_tasks w ! i) (wt_shared w))
    (\<lambda>(t, st). Ret (w\<lparr>wt_shared := st, wt_tasks := put_task i t (wt_tasks w)\<rparr>)))"

inductive_cases watch_stepE: "watch_step X w e (Ret w')"

inductive_simps watch_step_simps: "watch_step X w (Happens ty cm) r" "watch_step X w (Reconnect ok) r" "watch_step X w Tick r"
  "watch_step X w (Visit ns) r" "watch_step X w Finish r" "watch_step X w (Go i) r"

inductive watch_run :: "cm_ext \<Rightarrow> cm_watcher \<Rightarrow> cm_event list \<Rightarrow> cm_watcher \<Rightarrow> bool" for X where
  watch_run_Nil: "watch_run X w [] w"
| watch_run_snoc: "watch_run X w es w1 \<Longrightarrow> watch_step X w1 e (Ret w2) \<Longrightarrow> watch_run X w (es @ [e]) w2"

lemma watch_run_Nil_iff [simp]: "watch_run X w [] w' \<longleftrightarrow> w' = w"
  by (auto elim: watch_run.cases intro: watch_run_Nil)

lemma watch_run_snoc_iff [simp]: "watch_run X w (es @ [e]) w' \<longleftrightarrow> (\<exists>w1. watch_run X w es w1 \<and> watch_step X w1 e (Ret w'))"
  by (auto elim: watch_run.cases intro: watch_run_snoc)

lemma watch_run_append: "watch_run X w (es @ es') w' \<longleftrightarrow> (\<exists>w1. watch_run X w es w1 \<and> watch_run X w1 es' w')"
proof (induction es' arbitrary: w' rule: rev_induct)
  case (snoc e es')
  then show ?case by (auto simp flip: append_assoc)
qed simp

lemma watch_run_Cons: "watch_run X w (e # es) w' \<longleftrightarrow> (\<exists>w1. watch_step X w e (Ret w1) \<and> watch_run X w1 es w')"
  using watch_run_append [of X w "[e]" es w'] watch_run_snoc_iff [of X w "[]" e] by simp

text \<open>An invariant that the steps of a run keep.\<close>

lemma watch_run_invariant:
  assumes "watch_run X w es w'" and "P w" and "\<And>v e v'. e \<in> set es \<Longrightarrow> P v \<Longrightarrow> watch_step X v e (Ret v') \<Longrightarrow> P v'"
  shows "P w'"
  using assms by (induction rule: watch_run.induct) auto

section \<open>What a namespace's turn leaves alone\<close>

lemma nf_file_inject [simp]: "nf_file ns = nf_file ns' \<longleftrightarrow> ns = ns'"
  by (simp add: nf_file_def)

text \<open>The starts that are called for a rule file.\<close>

definition starts_of :: "string \<Rightarrow> cm_state \<Rightarrow> agent_call list" where
  "starts_of f st = filter (\<lambda>c. \<exists>k. c = StartNfAgentProcessing k f) (cs_calls st)"

lemma first_write_entry_frame:
  assumes "first_write_entry X ns (st, r) e = Ret (st', r')"
  shows "cs_msConfigmaps st' = cs_msConfigmaps st \<and> cs_files st' = cs_files st \<and> cs_calls st' = cs_calls st"
  using assms by (cases r; cases e)
    (auto simp: first_write_entry_def go_simps Let_def split: sum.split_asm option.split_asm)

lemma first_write_all_frame:
  "go_foldl (first_write_entry X ns) (st, r) es = Ret (st', r') \<Longrightarrow>
     cs_msConfigmaps st' = cs_msConfigmaps st \<and> cs_files st' = cs_files st \<and> cs_calls st' = cs_calls st"
  by (induction es arbitrary: st r) (fastforce simp: go_simps dest: first_write_entry_frame)+

lemma ApplyPatch_Ret: "ApplyPatch X f rules st = Ret st' \<Longrightarrow> \<exists>data. st' = st\<lparr>cs_files := (cs_files st)(f \<mapsto> data)\<rparr>"
  by (auto simp: ApplyPatch_def case_sum_eq split: if_splits sum.split_asm)

text \<open>The turn of a namespace writes at most its own rule file, and calls at most one start, for that file.\<close>

definition turn_of :: "string \<Rightarrow> cm_state \<Rightarrow> cm_state \<Rightarrow> bool" where
  "turn_of ns st st' \<longleftrightarrow> cs_msConfigmaps st' = cs_msConfigmaps st \<and>
     (\<forall>f. f \<noteq> nf_file ns \<longrightarrow> cs_files st' f = cs_files st f) \<and>
     (cs_calls st' = cs_calls st \<or> (\<exists>k. cs_calls st' = cs_calls st @ [StartNfAgentProcessing k (nf_file ns)]))"

lemma nfFileFirstWrite_turn:
  assumes "nfFileFirstWrite X ns details rules st = Ret (st', err)"
  shows "turn_of ns st st'"
proof -
  from assms obtain st1 r where 1: "go_foldl (first_write_entry X ns) (st, Inr (first_rules X ns rules)) details = Ret (st1, r)"
    and 2: "(case r of Inl e \<Rightarrow> Ret (st1, Some e) | Inr q \<Rightarrow> go_bind (ApplyPatch X (nf_file ns) q st1) (\<lambda>st2.
      Ret (st2\<lparr>cs_calls := cs_calls st2 @ [StartNfAgentProcessing ''ADDED'' (nf_file ns)]\<rparr>, None))) = Ret (st', err)"
    by (auto simp: nfFileFirstWrite_def go_bind_Ret_iff simp del: go_foldl.simps split: if_splits)
  then show ?thesis using first_write_all_frame [OF 1]
    by (cases r) (auto simp: turn_of_def go_simps dest: ApplyPatch_Ret)
qed

lemma update_namespace_turn:
  assumes "update_namespace X st (ns, details) = Ret st'"
  shows "turn_of ns st st'"
proof (cases "snd (ReadNFMetricFile X st ns zero_NFRules) = Some FileNotFound")
  case True
  with assms show ?thesis
    by (auto simp: update_namespace_def go_simps case_prod_beta dest: nfFileFirstWrite_turn)
next
  case False
  with assms show ?thesis
    by (auto simp: update_namespace_def go_simps case_prod_beta Let_def turn_of_def dest!: ApplyPatch_Ret)
qed

lemma update_namespace_other:
  assumes "update_namespace X st (ns', details) = Ret st'" and "ns \<noteq> ns'"
  shows "cs_files st' (nf_file ns) = cs_files st (nf_file ns)" and "starts_of (nf_file ns) st' = starts_of (nf_file ns) st"
  using update_namespace_turn [OF assms(1)] assms(2) by (auto simp: starts_of_def turn_of_def)

lemma note_data_frame [simp]:
  "cs_files (note_data ns ms anns st kv) = cs_files st" "cs_calls (note_data ns ms anns st kv) = cs_calls st"
  by (simp_all add: note_data_def Let_def)

lemma make_maps_frame [simp]: "cs_files (make_maps ns st) = cs_files st" "cs_calls (make_maps ns st) = cs_calls st"
  by (simp_all add: make_maps_def Let_def)

lemma note_data_names:
  "map_of (cs_msConfigmaps st) ns \<noteq> None \<Longrightarrow>
     dom (map_of (cs_msConfigmaps (note_data ns ms anns st kv))) = dom (map_of (cs_msConfigmaps st))"
  by (auto simp: note_data_def Let_def update_conv' dom_def)

lemma make_maps_names: "dom (map_of (cs_msConfigmaps (make_maps ns st))) = insert ns (dom (map_of (cs_msConfigmaps st)))"
  by (auto simp: make_maps_def Let_def update_conv' dom_def)

lemma task_step_frame:
  assumes "task_step X t st = Ret (t', st')"
  shows "cs_files st' f = cs_files st f \<or> cs_files st' f = None" and "starts_of f st' = starts_of f st"
  using assms by (cases "(X, t, st)" rule: task_step.cases;
      auto simp: go_simps note_entry_def starts_of_def deleteNfFile_def Let_def split: if_splits)+

lemma watch_step_Go:
  assumes "watch_step X w (Go i) (Ret w')"
  obtains t st where "i < length (wt_tasks w)" "task_step X (wt_tasks w ! i) (wt_shared w) = Ret (t, st)"
    "w' = w\<lparr>wt_shared := st, wt_tasks := put_task i t (wt_tasks w)\<rparr>"
  using assms by (auto simp: watch_step_simps go_simps Ret_eq_bind)

section \<open>Updates that come too late\<close>

text \<open>After the job has been at a namespace and until it clears the map, nothing is written for the namespace.\<close>

lemma visited_quiet_step:
  assumes "watch_step X w e (Ret w')" and "e \<noteq> Finish" and "wt_job w = Some (todo, vis)" and "ns \<in> set vis"
  shows "(\<exists>vis'. wt_job w' = Some (todo, vis') \<and> ns \<in> set vis') \<and>
    (cs_files (wt_shared w') (nf_file ns) = cs_files (wt_shared w) (nf_file ns) \<or> cs_files (wt_shared w') (nf_file ns) = None) \<and>
    starts_of (nf_file ns) (wt_shared w') = starts_of (nf_file ns) (wt_shared w)"
  using assms(1)
proof cases
  case (visit todo' vis' ns' details)
  then obtain st where "update_namespace X (wt_shared w) (ns', details) = Ret st" "w' = w\<lparr>wt_shared := st, wt_job := Some (todo', ns' # vis')\<rparr>"
    by (auto simp: go_simps Ret_eq_bind)
  with visit assms update_namespace_other [of X "wt_shared w" ns' details st ns] show ?thesis by auto
next
  case (run i)
  then show ?thesis using assms 
    by (auto simp: Ret_eq_bind dest: task_step_frame(1) [where f = "nf_file ns"] task_step_frame(2) [where f = "nf_file ns"])
qed (use assms(2-4) in \<open>auto simp: Ret_eq_bind\<close>)

lemma visited_quiet_run:
  assumes "watch_run X w es w'" and "Finish \<notin> set es" and "wt_job w = Some (todo, vis)" and "ns \<in> set vis"
  shows "(\<exists>vis'. wt_job w' = Some (todo, vis') \<and> ns \<in> set vis') \<and>
    (cs_files (wt_shared w') (nf_file ns) = cs_files (wt_shared w) (nf_file ns) \<or> cs_files (wt_shared w') (nf_file ns) = None) \<and>
    starts_of (nf_file ns) (wt_shared w') = starts_of (nf_file ns) (wt_shared w)"
  using assms
proof (induction rule: watch_run.induct)
  case (watch_run_snoc w es w1 e w2)
  then obtain vis1 where 1: "wt_job w1 = Some (todo, vis1)" "ns \<in> set vis1" by auto
  have "e \<noteq> Finish" using watch_run_snoc.prems(1) by auto
  from visited_quiet_step [OF watch_run_snoc.hyps(2) this 1] watch_run_snoc show ?case by auto
qed auto

text \<open>C22: an update that comes too late is lost. Once a run of the update job has been at a namespace, whatever happens
  until the run ends - events, goroutines noting new definitions for that very namespace, turns of other namespaces - its rule file stays as it is or is
  deleted and no agent is started for it; and then the run clears the map, so the definitions noted meanwhile are gone and
  nothing is left to write them.\<close>

theorem update_during_job_lost:
  assumes "watch_run X w (es @ [Finish]) w'" and "Finish \<notin> set es" and "wt_job w = Some (todo, vis)" and "ns \<in> set vis"
  shows "cs_msConfigmaps (wt_shared w') = [] \<and> wt_job w' = None \<and>
    cs_files (wt_shared w') (nf_file ns) \<in> {cs_files (wt_shared w) (nf_file ns), None} \<and>
    starts_of (nf_file ns) (wt_shared w') = starts_of (nf_file ns) (wt_shared w)"
proof -
  from assms(1) obtain w1 where w1: "watch_run X w es w1" "watch_step X w1 Finish (Ret w')" by auto
  from visited_quiet_run [OF w1(1) assms(2-4)] w1(2) show ?thesis by (auto simp: watch_step_simps starts_of_def)
qed

text \<open>A new definition of the microservice of the sample arrives while the run is about to end.\<close>

definition sample_update :: ConfigMap where
  "sample_update = \<lparr>km_Namespace = ''ns'', km_Name = ''x-metrics-cfg'', km_Labels = [''microSvcName'' \<mapsto> ''ms''],
     km_Annotations = [''xgvela.com/tmaas'' \<mapsto> ''a''], km_Data = [(''metrics.yml'', ''new'')]\<rparr>"

definition sample_watcher :: "(string list \<times> string list) option \<Rightarrow> cm_watcher" where
  "sample_watcher job = \<lparr>wt_shared = sample_cm_state\<lparr>cs_files := [nf_file ''ns'' \<mapsto> ''old'']\<rparr>, wt_tasks = [], wt_job = job, wt_open = True\<rparr>"

lemma sample_spawn: "spawn_task (sample_cm_ext R) (Modified, sample_update) = Ret (Some (Updating sample_update ''ms'' (Some sample_tmaas)))"
  by (simp add: spawn_task_def sample_update_def sample_cm_ext_def sample_tmaas_def getAnnotations_def watched_def HasSuffix_def HasPrefix_def at_def Let_def)

lemmas watch_eval = watch_run_Cons watch_step_simps sample_spawn put_task_def Ret_eq_bind

theorem update_during_job_lost_witness:
  "\<exists>w1 w2. watch_run (sample_cm_ext zero_NFRules) (sample_watcher (Some ([''ns''], [''ns'']))) [Happens Modified sample_update, Go 0, Go 0, Go 0] w1 \<and>
     cs_msConfigmaps (wt_shared w1) = [(''ns'', [(''ms'', ''new'')])] \<and> wt_tasks w1 = [] \<and>
     watch_step (sample_cm_ext zero_NFRules) w1 Finish (Ret w2) \<and>
     cs_msConfigmaps (wt_shared w2) = [] \<and> cs_files (wt_shared w2) (nf_file ''ns'') \<in> {Some ''old'', None}"
proof -
  let ?w = "sample_watcher (Some ([''ns''], [''ns'']))"
  let ?es = "[Happens Modified sample_update, Go 0, Go 0, Go 0]"
  have "\<exists>w1. watch_run (sample_cm_ext zero_NFRules) ?w ?es w1 \<and> cs_msConfigmaps (wt_shared w1) = [(''ns'', [(''ms'', ''new'')])] \<and>
      wt_tasks w1 = [] \<and> wt_job w1 = Some ([''ns''], [''ns''])"
    by (simp add: watch_eval sample_watcher_def sample_cm_state_def, simp add: sample_update_def make_maps_def note_entry_def note_data_def)
  then obtain w1 where w1: "watch_run (sample_cm_ext zero_NFRules) ?w ?es w1" "cs_msConfigmaps (wt_shared w1) = [(''ns'', [(''ms'', ''new'')])]"
      "wt_tasks w1 = []" "wt_job w1 = Some ([''ns''], [''ns''])" by blast
  then obtain w2 where w2: "watch_step (sample_cm_ext zero_NFRules) w1 Finish (Ret w2)" by (auto simp: watch_step_simps)
  from w1 w2 have "watch_run (sample_cm_ext zero_NFRules) ?w (?es @ [Finish]) w2" by (auto simp del: append.simps)
  from update_during_job_lost [OF this, of "[''ns'']" "[''ns'']" "''ns''"] w1 w2 show ?thesis
    by (auto simp: sample_watcher_def)
qed

section \<open>Updates that find their map gone\<close>

text \<open>The namespaces that the map has, and those of the updates under way. While the map is not cleared, the latter are among the former.\<close>

definition maps_made :: "cm_watcher \<Rightarrow> string \<Rightarrow> bool" where
  "maps_made w ns \<longleftrightarrow> ns \<in> dom (map_of (cs_msConfigmaps (wt_shared w)))"

definition under_way :: "cm_watcher \<Rightarrow> string \<Rightarrow> bool" where
  "under_way w ns \<longleftrightarrow> (\<exists>ms anns kvs. Noting ns ms anns kvs \<in> set (wt_tasks w))"

text \<open>Assigning into a nil map is the only such panic, and only the noting of an entry does it.\<close>

lemma go_foldl_no_crash: "(\<And>s x. f s x \<noteq> Crash c) \<Longrightarrow> go_foldl f s xs \<noteq> Crash c"
  by (induction xs arbitrary: s) (auto simp: go_bind_Crash_iff)

lemma update_namespace_no_NilMap: "update_namespace X st e \<noteq> Crash NilMap"
proof -
  have id: "set_identity X anns ev \<noteq> Crash NilMap" for anns ev by (simp add: set_identity_def Let_def split: option.split)
  have entry: "first_write_entry X ns acc e \<noteq> Crash NilMap" for ns acc e
    using id by (auto simp: first_write_entry_def go_bind_Crash_iff Let_def split: prod.split sum.split option.split)
  have patch: "ApplyPatch X f rules st \<noteq> Crash NilMap" for f rules st by (simp add: ApplyPatch_def split: sum.split)
  have first: "nfFileFirstWrite X ns details rules st \<noteq> Crash NilMap" for ns details rules st
    using go_foldl_no_crash [of "first_write_entry X ns", OF entry] patch
    by (auto simp: nfFileFirstWrite_def go_bind_Crash_iff split: prod.split sum.split)
  have rule: "update_rule X ns m d r \<noteq> Crash NilMap" for ns m d r by (simp add: update_rule_def split: sum.split option.split)
  then have "go_mapM (update_rule X ns m d) rs \<noteq> Crash NilMap" for ns m d rs by (induction rs) (auto simp: go_bind_Crash_iff)
  then have upd: "update_entry X ns ms e \<noteq> Crash NilMap" for ns ms e by (simp add: update_entry_def)
  show ?thesis
    using first patch go_foldl_no_crash [of "update_entry X _", OF upd]
    by (auto simp: update_namespace_def go_bind_Crash_iff Let_def split: prod.split)
qed

lemma watch_step_NilMap:
  assumes "watch_step X w e (Crash NilMap)"
  shows "\<exists>ns. under_way w ns \<and> \<not> maps_made w ns"
  using assms
proof cases
  case (happens ty cm)
  moreover have "spawn_task X (ty, cm) \<noteq> Crash NilMap"
    by (simp add: spawn_task_def Let_def split: sum.split watch_type.split option.split)
  ultimately show ?thesis by (auto simp: go_bind_Crash_iff dest: sym)
next
  case (visit todo vis ns details)
  then show ?thesis using update_namespace_no_NilMap by (auto simp: go_bind_Crash_iff dest!: sym [of "Crash _"])
next
  case (run i)
  then have "task_step X (wt_tasks w ! i) (wt_shared w) = Crash NilMap" by (auto simp: go_bind_Crash_iff dest!: sym [of "Crash _"])
  then obtain ns ms anns kv kvs where t: "wt_tasks w ! i = Noting ns ms anns (kv # kvs)" "map_of (cs_msConfigmaps (wt_shared w)) ns = None"
    by (cases "(X, wt_tasks w ! i, wt_shared w)" rule: task_step.cases)
      (auto simp: go_bind_Crash_iff note_entry_def split: if_splits)
  with run have "Noting ns ms anns (kv # kvs) \<in> set (wt_tasks w)" by (metis nth_mem)
  with t(2) show ?thesis unfolding under_way_def maps_made_def by (metis domIff)
qed

lemma set_put_task: "set (put_task i t ts) \<subseteq> set ts \<union> set_option t"
  by (auto simp: put_task_def dest: in_set_takeD in_set_dropD split: option.splits)

lemma note_entry_names:
  "note_entry ns ms anns st kv = Ret st' \<Longrightarrow>
     ns \<in> dom (map_of (cs_msConfigmaps st)) \<and> dom (map_of (cs_msConfigmaps st')) = dom (map_of (cs_msConfigmaps st))"
  using note_data_names [of st ns ms anns kv] by (auto simp: note_entry_def split: if_splits)

lemma task_step_maps:
  assumes "task_step X t st = Ret (t', st')"
  shows "dom (map_of (cs_msConfigmaps st)) \<subseteq> dom (map_of (cs_msConfigmaps st'))"
    and "t' = Some (Noting ns ms anns kvs) \<Longrightarrow> ns \<in> dom (map_of (cs_msConfigmaps st'))"
proof -
  have "dom (map_of (cs_msConfigmaps st)) \<subseteq> dom (map_of (cs_msConfigmaps st')) \<and>
    (t' = Some (Noting ns ms anns kvs) \<longrightarrow> ns \<in> dom (map_of (cs_msConfigmaps st')))"
  proof (cases "(X, t, st)" rule: task_step.cases)
    case (1 X cm ms anns st)
    with assms make_maps_names [of "km_Namespace cm" st] show ?thesis by auto
  next
    case (3 X ns' ms' anns' kv kvs' st)
    with assms obtain st1 where "note_entry ns' ms' anns' st kv = Ret st1" "st' = st1" "t' = Some (Noting ns' ms' anns' kvs')"
      by (auto simp: go_simps)
    with note_entry_names [of ns' ms' anns' st kv st1] 3 show ?thesis by auto
  qed (use assms in \<open>auto simp: deleteNfFile_def Let_def\<close>)
  then show "dom (map_of (cs_msConfigmaps st)) \<subseteq> dom (map_of (cs_msConfigmaps st'))"
    and "t' = Some (Noting ns ms anns kvs) \<Longrightarrow> ns \<in> dom (map_of (cs_msConfigmaps st'))" by simp_all
qed

lemma maps_made_step:
  assumes "watch_step X w e (Ret w')" and fin: "e = Finish \<Longrightarrow> \<not> under_way w ns" and inv: "under_way w ns \<Longrightarrow> maps_made w ns"
    and now: "under_way w' ns"
  shows "maps_made w' ns"
  using assms(1)
proof cases
  case (happens ty cm)
  then obtain t where t: "spawn_task X (ty, cm) = Ret t" "w' = w\<lparr>wt_tasks := put_task (length (wt_tasks w)) t (wt_tasks w)\<rparr>"
    by (auto simp: Ret_eq_bind)
  from t(1) have "t \<noteq> Some (Noting ns ms anns kvs)" for ms anns kvs
    by (auto simp: spawn_task_def Let_def split: if_splits sum.split_asm watch_type.split_asm option.split_asm)
  moreover from now t(2) obtain ms anns kvs where "Noting ns ms anns kvs \<in> set (put_task (length (wt_tasks w)) t (wt_tasks w))"
    by (auto simp: under_way_def)
  ultimately have "under_way w ns" using set_put_task [of "length (wt_tasks w)" t "wt_tasks w"] unfolding under_way_def by fastforce
  with inv t(2) show ?thesis by (simp add: maps_made_def)
next
  case (visit todo vis ns' details)
  then obtain st where "update_namespace X (wt_shared w) (ns', details) = Ret st" "w' = w\<lparr>wt_shared := st, wt_job := Some (todo, ns' # vis)\<rparr>"
    by (auto simp: Ret_eq_bind)
  with inv now show ?thesis by (auto simp: under_way_def maps_made_def turn_of_def dest: update_namespace_turn)
next
  case (run i)
  then obtain t st where t: "task_step X (wt_tasks w ! i) (wt_shared w) = Ret (t, st)"
    "w' = w\<lparr>wt_shared := st, wt_tasks := put_task i t (wt_tasks w)\<rparr>" by (auto simp: Ret_eq_bind)
  from now t(2) obtain ms anns kvs where "Noting ns ms anns kvs \<in> set (wt_tasks w) \<or> t = Some (Noting ns ms anns kvs)"
    using set_put_task [of i t "wt_tasks w"] by (auto simp: under_way_def)
  then have "under_way w ns \<or> maps_made w' ns"
    using task_step_maps(2) [OF t(1)] t(2) unfolding under_way_def maps_made_def by auto
  with inv task_step_maps(1) [OF t(1)] t(2) show ?thesis by (auto simp: maps_made_def)
qed (use fin inv now in \<open>auto simp: under_way_def maps_made_def\<close>)

text \<open>C23: the only way into the panic. From the start of the reader, the assignment into a nil map that takes the gateway down
  happens only if, at some earlier moment, the update job cleared the map while an update of the same namespace was under way: without such an
  overlap no execution panics on a nil map, however the goroutines interleave.\<close>

theorem nil_map_panic_needs_overlap:
  assumes "watch_run X (ConfigMapWatcher client st) es w" and "watch_step X w e (Crash NilMap)"
  shows "\<exists>es1 es2 w1 ns. es = es1 @ Finish # es2 \<and> watch_run X (ConfigMapWatcher client st) es1 w1 \<and>
    watch_step X w1 Finish (Ret (w1\<lparr>wt_shared := (wt_shared w1)\<lparr>cs_msConfigmaps := []\<rparr>, wt_job := None\<rparr>)) \<and>
    under_way w1 ns \<and> under_way w ns \<and> \<not> maps_made w ns"
proof -
  obtain ns where ns: "under_way w ns" "\<not> maps_made w ns"
    using watch_step_NilMap [OF assms(2)] by blast
  have "under_way w ns \<longrightarrow> maps_made w ns \<or> (\<exists>es1 es2 w1. es = es1 @ Finish # es2 \<and>
      watch_run X (ConfigMapWatcher client st) es1 w1 \<and>
      watch_step X w1 Finish (Ret (w1\<lparr>wt_shared := (wt_shared w1)\<lparr>cs_msConfigmaps := []\<rparr>, wt_job := None\<rparr>)) \<and> under_way w1 ns)"
    using assms(1)
  proof (induction "ConfigMapWatcher client st" es w rule: watch_run.induct)
    case watch_run_Nil
    show ?case by (simp add: under_way_def ConfigMapWatcher_def)
  next
    case (watch_run_snoc es w1 e w2)
    show ?case
    proof (cases "e = Finish \<and> under_way w1 ns")
      case True
      then have "watch_step X w1 Finish (Ret (w1\<lparr>wt_shared := (wt_shared w1)\<lparr>cs_msConfigmaps := []\<rparr>, wt_job := None\<rparr>))"
        using watch_run_snoc.hyps(3) by (auto simp: watch_step_simps)
      with True watch_run_snoc.hyps(1) show ?thesis by blast
    next
      case False
      show ?thesis
      proof (cases "under_way w1 ns \<longrightarrow> maps_made w1 ns")
        case True
        with maps_made_step [OF watch_run_snoc.hyps(3), of ns] False show ?thesis by blast
      next
        case gone: False
        with watch_run_snoc.hyps(2) show ?thesis by (metis append.assoc append_Cons)
      qed
    qed
  qed
  with ns show ?thesis by blast
qed

theorem nil_map_panic_needs_overlap_witness:
  "\<exists>w1. watch_run (sample_cm_ext zero_NFRules) (ConfigMapWatcher True sample_cm_state) [Happens Modified sample_update, Tick, Go 0, Finish] w1 \<and>
     watch_step (sample_cm_ext zero_NFRules) w1 (Go 0) (Crash NilMap) \<and> under_way w1 ''ns''"
proof -
  let ?es = "[Happens Modified sample_update, Tick, Go 0, Finish]"
  let ?w = "ConfigMapWatcher True sample_cm_state"
  have "\<exists>w1. watch_run (sample_cm_ext zero_NFRules) ?w ?es w1 \<and> wt_tasks w1 = [Noting ''ns'' ''ms'' (Some sample_tmaas) [(''metrics.yml'', ''new'')]] \<and>
      cs_msConfigmaps (wt_shared w1) = []"
    by (simp add: watch_eval ConfigMapWatcher_def, simp add: sample_update_def)
  then obtain w1 where w1: "watch_run (sample_cm_ext zero_NFRules) ?w ?es w1" "cs_msConfigmaps (wt_shared w1) = []"
    "wt_tasks w1 = [Noting ''ns'' ''ms'' (Some sample_tmaas) [(''metrics.yml'', ''new'')]]" by blast
  then have crash: "watch_step (sample_cm_ext zero_NFRules) w1 (Go 0) (Crash NilMap)" by (simp add: watch_step_simps note_entry_def)
  from nil_map_panic_needs_overlap [OF w1(1) crash] w1(3) obtain ns where "under_way w1 ns" by blast
  then have "ns = ''ns''" using w1(3) by (simp add: under_way_def)
  with w1 crash \<open>under_way w1 ns\<close> show ?thesis by blast
qed

section \<open>A run of the update job\<close>





section \<open>Where writes and calls come from\<close>

text \<open>An event about a config map of this gateway's own instance, and one that deletes a config map.\<close>

definition own_event :: "cm_ext \<Rightarrow> string \<Rightarrow> cm_event \<Rightarrow> bool" where
  "own_event X ns e \<longleftrightarrow> (\<exists>ty cm a. e = Happens ty cm \<and> (ty = Added \<or> ty = Modified) \<and> watched (km_Name cm) \<and> km_Namespace cm = ns \<and>
     getAnnotations X (at [] (km_Annotations cm) ''xgvela.com/tmaas'') = Inr (Some a) \<and> tm_XGVelaID a = ce_VesgwXGVelaId X)"

definition delete_event :: "string \<Rightarrow> cm_event \<Rightarrow> bool" where
  "delete_event ns e \<longleftrightarrow> (\<exists>cm. e = Happens Deleted cm \<and> watched (km_Name cm) \<and> km_Namespace cm = ns)"

definition task_ns :: "cm_task \<Rightarrow> string" where
  "task_ns t = (case t of Updating cm _ _ \<Rightarrow> km_Namespace cm | Noting ns _ _ _ \<Rightarrow> ns | Deleting cm \<Rightarrow> km_Namespace cm)"

definition is_delete :: "cm_task \<Rightarrow> bool" where
  "is_delete t \<longleftrightarrow> (\<exists>cm. t = Deleting cm)"

lemma spawn_task_event:
  assumes "spawn_task X (ty, cm) = Ret (Some t)"
  shows "task_ns t = km_Namespace cm \<and>
    (if is_delete t then delete_event (task_ns t) (Happens ty cm) else own_event X (task_ns t) (Happens ty cm))"
  using assms
  by (auto simp: spawn_task_def Let_def task_ns_def is_delete_def delete_event_def own_event_def
      split: if_splits sum.split_asm watch_type.split_asm option.split_asm)

text \<open>Every task, noted namespace, start, stop and written file goes back to such an event; \<open>E\<close> are the events so far, \<open>st0\<close> is the state at
  the start.\<close>

definition tasks_from :: "cm_ext \<Rightarrow> cm_event set \<Rightarrow> cm_task list \<Rightarrow> bool" where
  "tasks_from X E ts \<longleftrightarrow>
     (\<forall>t \<in> set ts. \<exists>e \<in> E. if is_delete t then delete_event (task_ns t) e else own_event X (task_ns t) e)"

definition names_from :: "cm_ext \<Rightarrow> cm_event set \<Rightarrow> cm_state \<Rightarrow> bool" where
  "names_from X E st \<longleftrightarrow> (\<forall>ns \<in> dom (map_of (cs_msConfigmaps st)). \<exists>e \<in> E. own_event X ns e)"

definition effects_from :: "cm_ext \<Rightarrow> cm_state \<Rightarrow> cm_event set \<Rightarrow> cm_state \<Rightarrow> bool" where
  "effects_from X st0 E st \<longleftrightarrow>
     (\<forall>c \<in> set (cs_calls st) - set (cs_calls st0). \<exists>ns. \<exists>e \<in> E.
        (\<exists>k. c = StartNfAgentProcessing k (nf_file ns)) \<and> own_event X ns e \<or> c = StopScheduler (nf_file ns) \<and> delete_event ns e) \<and>
     (\<forall>f. cs_files st f \<noteq> cs_files st0 f \<longrightarrow>
        (\<exists>ns. \<exists>e \<in> E. f = nf_file ns \<and> (own_event X ns e \<or> delete_event ns e \<and> cs_files st f = None)))"

lemma events_mono:
  "E \<subseteq> E' \<Longrightarrow> tasks_from X E ts \<Longrightarrow> tasks_from X E' ts" "E \<subseteq> E' \<Longrightarrow> names_from X E st \<Longrightarrow> names_from X E' st"
  "E \<subseteq> E' \<Longrightarrow> effects_from X st0 E st \<Longrightarrow> effects_from X st0 E' st"
  unfolding tasks_from_def names_from_def effects_from_def by (meson subset_iff)+

lemma effects_from_cong:
  "cs_calls st' = cs_calls st \<Longrightarrow> cs_files st' = cs_files st \<Longrightarrow> effects_from X st0 E st' = effects_from X st0 E st"
  by (simp add: effects_from_def)

lemma effects_of_turn:
  assumes "turn_of ns st st'" and "effects_from X st0 E st" and "e \<in> E" "own_event X ns e"
  shows "effects_from X st0 E st'"
  unfolding effects_from_def
proof (intro conjI allI impI)
  show "\<forall>c \<in> set (cs_calls st') - set (cs_calls st0). \<exists>ns. \<exists>e \<in> E.
        (\<exists>k. c = StartNfAgentProcessing k (nf_file ns)) \<and> own_event X ns e \<or> c = StopScheduler (nf_file ns) \<and> delete_event ns e"
  proof
    fix c assume c: "c \<in> set (cs_calls st') - set (cs_calls st0)"
    then consider "c \<in> set (cs_calls st) - set (cs_calls st0)" | k where "c = StartNfAgentProcessing k (nf_file ns)"
      using assms(1) by (auto simp: turn_of_def)
    then show "\<exists>ns. \<exists>e \<in> E. (\<exists>k. c = StartNfAgentProcessing k (nf_file ns)) \<and> own_event X ns e \<or> c = StopScheduler (nf_file ns) \<and> delete_event ns e"
    proof cases
      case 1
      with assms(2) show ?thesis by (simp add: effects_from_def)
    next
      case 2
      with assms(3,4) show ?thesis by blast
    qed
  qed
  show "\<exists>ns. \<exists>e \<in> E. f = nf_file ns \<and> (own_event X ns e \<or> delete_event ns e \<and> cs_files st' f = None)"
    if "cs_files st' f \<noteq> cs_files st0 f" for f
  proof (cases "f = nf_file ns")
    case True
    with assms(3,4) show ?thesis by blast
  next
    case False
    with assms(1) that have "cs_files st f \<noteq> cs_files st0 f" "cs_files st' f = cs_files st f" by (auto simp: turn_of_def)
    with assms(2) show ?thesis by (simp add: effects_from_def)
  qed
qed

lemma effects_of_delete:
  assumes "effects_from X st0 E st" and "e \<in> E" "delete_event (km_Namespace cm) e"
  shows "effects_from X st0 E (deleteNfFile X cm st)"
  using assms unfolding effects_from_def deleteNfFile_def Let_def by auto

lemma effects_of_task:
  assumes "task_step X t st = Ret (t', st')" and "tasks_from X E [t]" and "names_from X E st" and "effects_from X st0 E st"
  shows "tasks_from X E (case t' of None \<Rightarrow> [] | Some t \<Rightarrow> [t]) \<and> names_from X E st' \<and> effects_from X st0 E st'"
proof (cases "(X, t, st)" rule: task_step.cases)
  case (1 X' cm ms anns st1)
  with assms effects_from_cong [of st' st] make_maps_names [of "km_Namespace cm" st] show ?thesis
    by (auto simp: tasks_from_def names_from_def task_ns_def is_delete_def)
next
  case (3 X' ns ms anns kv kvs st1)
  with assms(1) obtain st2 where s: "note_entry ns ms anns st kv = Ret st2" "st' = st2" "t' = Some (Noting ns ms anns kvs)"
    by (auto simp: go_simps)
  moreover from s have "effects_from X st0 E st' = effects_from X st0 E st"
    by (intro effects_from_cong) (auto simp: note_entry_def split: if_splits)
  ultimately show ?thesis using 3 assms note_entry_names [OF s(1)]
    by (simp add: tasks_from_def names_from_def task_ns_def is_delete_def)
next
  case (4 X' cm st1)
  with assms(2) obtain e where "e \<in> E" "delete_event (km_Namespace cm) e" by (auto simp: tasks_from_def task_ns_def is_delete_def)
  moreover have "cs_msConfigmaps (deleteNfFile X cm st) = cs_msConfigmaps st" by (simp add: deleteNfFile_def Let_def)
  ultimately show ?thesis using 4 assms effects_of_delete [OF assms(4)] by (auto simp: tasks_from_def names_from_def)
qed (use assms in \<open>auto simp: tasks_from_def\<close>)

lemma tasks_from_put:
  assumes "tasks_from X E ts" and "tasks_from X E (case t of None \<Rightarrow> [] | Some t \<Rightarrow> [t])"
  shows "tasks_from X E (put_task i t ts)"
proof -
  have "set (put_task i t ts) \<subseteq> set ts \<union> set (case t of None \<Rightarrow> [] | Some t \<Rightarrow> [t])"
    using set_put_task [of i t ts] by (cases t) auto
  with assms show ?thesis unfolding tasks_from_def by blast
qed

definition accounted :: "cm_ext \<Rightarrow> cm_state \<Rightarrow> cm_event set \<Rightarrow> cm_watcher \<Rightarrow> bool" where
  "accounted X st0 E w \<longleftrightarrow> tasks_from X E (wt_tasks w) \<and> names_from X E (wt_shared w) \<and> effects_from X st0 E (wt_shared w)"

lemma accounted_step:
  assumes "watch_step X w e (Ret w')" and acc: "accounted X st0 E w" and "e \<in> E"
  shows "accounted X st0 E w'"
  using assms(1)
proof cases
  case (happens ty cm)
  then obtain t where t: "spawn_task X (ty, cm) = Ret t" "w' = w\<lparr>wt_tasks := put_task (length (wt_tasks w)) t (wt_tasks w)\<rparr>"
    by (auto simp: Ret_eq_bind)
  have "tasks_from X E (case t of None \<Rightarrow> [] | Some t \<Rightarrow> [t])"
  proof (cases t)
    case (Some t')
    with spawn_task_event [of X ty cm t'] t(1) \<open>e \<in> E\<close> happens(1) show ?thesis unfolding tasks_from_def by fastforce
  qed (simp add: tasks_from_def)
  with acc t(2) show ?thesis by (simp add: accounted_def tasks_from_put)
next
  case (visit todo vis ns details)
  then obtain st where st: "update_namespace X (wt_shared w) (ns, details) = Ret st" "w' = w\<lparr>wt_shared := st, wt_job := Some (todo, ns # vis)\<rparr>"
    by (auto simp: Ret_eq_bind)
  from acc visit obtain e' where "e' \<in> E" "own_event X ns e'" by (auto simp: accounted_def names_from_def)
  with effects_of_turn [OF update_namespace_turn [OF st(1)]] acc st update_namespace_turn [OF st(1)] show ?thesis
    by (auto simp: accounted_def names_from_def turn_of_def)
next
  case (run i)
  then obtain t st where t: "task_step X (wt_tasks w ! i) (wt_shared w) = Ret (t, st)"
    "w' = w\<lparr>wt_shared := st, wt_tasks := put_task i t (wt_tasks w)\<rparr>" by (auto simp: Ret_eq_bind)
  have "tasks_from X E [wt_tasks w ! i]" using acc nth_mem [OF run(3)] unfolding accounted_def tasks_from_def by (metis empty_iff insert_iff list.set)
  with effects_of_task [OF t(1), of E st0] acc
  have "tasks_from X E (case t of None \<Rightarrow> [] | Some t \<Rightarrow> [t]) \<and> names_from X E st \<and> effects_from X st0 E st"
    by (simp add: accounted_def)
  with acc t(2) tasks_from_put show ?thesis by (simp add: accounted_def)
next
  case (finish todo vis)
  then show ?thesis using acc effects_from_cong [of "(wt_shared w)\<lparr>cs_msConfigmaps := []\<rparr>" "wt_shared w"]
    by (auto simp: accounted_def names_from_def)
qed (use acc in \<open>auto simp: accounted_def\<close>)

text \<open>C24: effects come from events. However the goroutines interleave, an agent is started only for the rule file of a namespace for which an
  addition or change of a config map of this gateway's own XGVela instance was seen, stopped only for one with a deletion, and only the rule
  files of such namespaces differ from those at the start. Config maps of other instances have no effect - except that their deletion is not
  told apart: it can remove a file, never change one.\<close>

theorem effects_from_events:
  assumes "watch_run X (ConfigMapWatcher client st) es w"
  shows "(\<forall>c \<in> set (cs_calls (wt_shared w)) - set (cs_calls st). \<exists>ns. \<exists>e \<in> set es.
        (\<exists>k. c = StartNfAgentProcessing k (nf_file ns)) \<and> own_event X ns e \<or> c = StopScheduler (nf_file ns) \<and> delete_event ns e) \<and>
     (\<forall>f. cs_files (wt_shared w) f \<noteq> cs_files st f \<longrightarrow>
        (\<exists>ns. \<exists>e \<in> set es. f = nf_file ns \<and> (own_event X ns e \<or> delete_event ns e \<and> cs_files (wt_shared w) f = None)))"
proof -
  have "accounted X st (set es) w"
  proof (rule watch_run_invariant [OF assms])
    show "accounted X st (set es) (ConfigMapWatcher client st)"
      by (simp add: accounted_def ConfigMapWatcher_def tasks_from_def names_from_def effects_from_def)
  qed (rule accounted_step)
  then show ?thesis by (simp add: accounted_def effects_from_def)
qed

text \<open>The deletion of a config map of another instance, seen by the sample gateway: the rule file of the namespace goes.\<close>

theorem effects_from_events_witness:
  "\<exists>w. watch_run ((sample_cm_ext zero_NFRules)\<lparr>ce_VesgwXGVelaId := ''other''\<rparr>)
       (ConfigMapWatcher True (sample_cm_state\<lparr>cs_files := [nf_file ''ns'' \<mapsto> ''old'']\<rparr>)) [Happens Deleted sample_update, Go 0] w \<and>
     cs_files (wt_shared w) (nf_file ''ns'') = None \<and>
     delete_event ''ns'' (Happens Deleted sample_update)"
proof -
  let ?X = "(sample_cm_ext zero_NFRules)\<lparr>ce_VesgwXGVelaId := ''other''\<rparr>" and ?st = "sample_cm_state\<lparr>cs_files := [nf_file ''ns'' \<mapsto> ''old'']\<rparr>"
  have s: "spawn_task ?X (Deleted, sample_update) = Ret (Some (Deleting sample_update))"
    by (simp add: spawn_task_def sample_update_def sample_cm_ext_def getAnnotations_def watched_def HasSuffix_def HasPrefix_def at_def Let_def)
  have "\<exists>w. watch_run ?X (ConfigMapWatcher True ?st) [Happens Deleted sample_update, Go 0] w \<and>
      cs_files (wt_shared w) (nf_file ''ns'') = None \<and> cs_calls (wt_shared w) = [StopScheduler (nf_file ''ns'')]"
    by (simp add: watch_eval s ConfigMapWatcher_def, simp add: deleteNfFile_def sample_update_def sample_cm_ext_def sample_cm_state_def)
  then obtain w where w: "watch_run ?X (ConfigMapWatcher True ?st) [Happens Deleted sample_update, Go 0] w"
      "cs_files (wt_shared w) (nf_file ''ns'') = None" "cs_calls (wt_shared w) = [StopScheduler (nf_file ''ns'')]" by blast
  have "cs_calls ?st = []" by (simp add: sample_cm_state_def)
  with effects_from_events [OF w(1)] w(3) have "delete_event ''ns'' (Happens Deleted sample_update)"
    by (auto simp: delete_event_def)
  with w show ?thesis by blast
qed

section \<open>The sequential reading\<close>

text \<open>The reader at rest: no goroutine, no run of the job.\<close>

definition at_rest :: "cm_state \<Rightarrow> cm_watcher" where
  "at_rest st = \<lparr>wt_shared = st, wt_tasks = [], wt_job = None, wt_open = True\<rparr>"

lemma noting_alone:
  "map_of (cs_msConfigmaps st) ns \<noteq> None \<Longrightarrow>
     watch_run X ((at_rest st)\<lparr>wt_tasks := [Noting ns ms anns kvs]\<rparr>) (replicate (Suc (length kvs)) (Go 0))
       (at_rest (foldl (note_data ns ms anns) st kvs))"
proof (induction kvs arbitrary: st)
  case Nil
  then show ?case by (simp add: watch_eval at_rest_def)
next
  case (Cons kv kvs)
  have "watch_step X ((at_rest st)\<lparr>wt_tasks := [Noting ns ms anns (kv # kvs)]\<rparr>) (Go 0)
      (Ret ((at_rest (note_data ns ms anns st kv))\<lparr>wt_tasks := [Noting ns ms anns kvs]\<rparr>))"
    using Cons.prems by (simp add: watch_step_simps put_task_def note_entry_def at_rest_def)
  moreover have "map_of (cs_msConfigmaps (note_data ns ms anns st kv)) ns \<noteq> None"
    using note_data_names [OF Cons.prems, of ms anns kv] Cons.prems by blast
  ultimately show ?case using Cons.IH [of "note_data ns ms anns st kv"] by (auto simp: watch_run_Cons)
qed

lemma updating_alone:
  "watch_run X ((at_rest st)\<lparr>wt_tasks := [Updating cm ms anns]\<rparr>) (replicate (length (km_Data cm) + 2) (Go 0))
     (at_rest (UpdateMetricRuleMap cm ms anns st))"
proof -
  have "watch_step X ((at_rest st)\<lparr>wt_tasks := [Updating cm ms anns]\<rparr>) (Go 0)
      (Ret ((at_rest (make_maps (km_Namespace cm) st))\<lparr>wt_tasks := [Noting (km_Namespace cm) ms anns (km_Data cm)]\<rparr>))"
    by (simp add: watch_step_simps put_task_def at_rest_def)
  moreover have "map_of (cs_msConfigmaps (make_maps (km_Namespace cm) st)) (km_Namespace cm) \<noteq> None"
    using make_maps_names [of "km_Namespace cm" st] by blast
  moreover have "UpdateMetricRuleMap cm ms anns st = foldl (note_data (km_Namespace cm) ms anns) (make_maps (km_Namespace cm) st) (km_Data cm)"
    by (simp add: UpdateMetricRuleMap_def make_maps_def Let_def)
  ultimately show ?thesis using noting_alone [of "make_maps (km_Namespace cm) st"] by (auto simp: watch_run_Cons)
qed

lemma turns_alone:
  assumes "go_foldl (update_namespace X) st es = Ret st'" and "distinct (map fst (ds @ es))" and "cs_msConfigmaps st = ds @ es" and "ds @ es \<noteq> []"
  shows "watch_run X ((at_rest st)\<lparr>wt_job := Some (map fst (ds @ es), rev (map fst ds))\<rparr>) (map (Visit \<circ> fst) es)
    ((at_rest st')\<lparr>wt_job := Some (map fst (ds @ es), rev (map fst (ds @ es)))\<rparr>)"
  using assms
proof (induction es arbitrary: ds st)
  case (Cons e es)
  from Cons.prems(1) obtain st1 where st1: "update_namespace X st e = Ret st1" "go_foldl (update_namespace X) st1 es = Ret st'"
    by (auto simp: go_simps)
  have "map_of (cs_msConfigmaps st) (fst e) = Some (snd e)"
    using map_of_eq_Some_iff [OF Cons.prems(2), of "fst e" "snd e"] Cons.prems(3) by simp
  with Cons.prems(2,3) st1(1) have "watch_step X ((at_rest st)\<lparr>wt_job := Some (map fst (ds @ e # es), rev (map fst ds))\<rparr>) (Visit (fst e))
      (Ret ((at_rest st1)\<lparr>wt_job := Some (map fst (ds @ e # es), rev (map fst (ds @ [e])))\<rparr>))"
    by (auto simp: watch_step_simps at_rest_def)
  moreover have "cs_msConfigmaps st1 = (ds @ [e]) @ es"
    using update_namespace_turn [of X st "fst e" "snd e" st1] st1(1) Cons.prems(3) by (simp add: turn_of_def)
  then have "watch_run X ((at_rest st1)\<lparr>wt_job := Some (map fst ((ds @ [e]) @ es), rev (map fst (ds @ [e])))\<rparr>) (map (Visit \<circ> fst) es)
    ((at_rest st')\<lparr>wt_job := Some (map fst ((ds @ [e]) @ es), rev (map fst ((ds @ [e]) @ es)))\<rparr>)"
    using Cons.prems(2) by (intro Cons.IH [OF st1(2)]) simp_all
  ultimately show ?case by (auto simp: watch_run_Cons o_def)
qed simp

text \<open>Without overlaps the reader does what its sequential description says: an event taken up at rest and handled
  (\<open>watch_event\<close>), and a run of the update job from rest (\<open>UpdateRules\<close>), are executions of the goroutines.\<close>

theorem sequential_reading:
  "watch_event X st (ty, cm) = Ret st' \<Longrightarrow> \<exists>es. watch_run X (at_rest st) (Happens ty cm # es) (at_rest st')"
  "UpdateRules X st = Ret st' \<Longrightarrow> distinct (map fst (cs_msConfigmaps st)) \<Longrightarrow>
     watch_run X (at_rest st) (Tick # map (Visit \<circ> fst) (cs_msConfigmaps st) @ [Finish]) (at_rest st')"
proof -
  assume ev: "watch_event X st (ty, cm) = Ret st'"
  then obtain t where t: "spawn_task X (ty, cm) = Ret t" and
    "st' = (case t of None \<Rightarrow> st | Some (Updating cm ms anns) \<Rightarrow> UpdateMetricRuleMap cm ms anns st | Some (Deleting cm) \<Rightarrow> deleteNfFile X cm st)"
    "\<nexists>ns ms anns kvs. t = Some (Noting ns ms anns kvs)"
    by (auto simp: watch_event_def spawn_task_def Let_def split: if_splits sum.splits watch_type.splits option.splits)
  moreover have step: "watch_step X (at_rest st) (Happens ty cm) (Ret ((at_rest st)\<lparr>wt_tasks := (case t of None \<Rightarrow> [] | Some t \<Rightarrow> [t])\<rparr>))"
    using t by (simp add: watch_step_simps put_task_def at_rest_def)
  ultimately consider "t = None" "st' = st" | cm' ms anns where "t = Some (Updating cm' ms anns)" "st' = UpdateMetricRuleMap cm' ms anns st"
    | cm' where "t = Some (Deleting cm')" "st' = deleteNfFile X cm' st" by (cases t) (auto split: cm_task.splits)
  then have "\<exists>es. watch_run X ((at_rest st)\<lparr>wt_tasks := (case t of None \<Rightarrow> [] | Some t \<Rightarrow> [t])\<rparr>) es (at_rest st')"
  proof cases
    case 1
    then have "(at_rest st)\<lparr>wt_tasks := (case t of None \<Rightarrow> [] | Some t \<Rightarrow> [t])\<rparr> = at_rest st'" by (simp add: at_rest_def)
    then show ?thesis using watch_run_Nil by metis
  next
    case 2
    with updating_alone show ?thesis by fastforce
  next
    case 3
    then have "watch_run X ((at_rest st)\<lparr>wt_tasks := (case t of None \<Rightarrow> [] | Some t \<Rightarrow> [t])\<rparr>) [Go 0] (at_rest st')"
      by (simp add: watch_eval at_rest_def)
    then show ?thesis by blast
  qed
  with step show "\<exists>es. watch_run X (at_rest st) (Happens ty cm # es) (at_rest st')" by (auto simp: watch_run_Cons)
next
  let ?cms = "cs_msConfigmaps st"
  assume "UpdateRules X st = Ret st'" and d: "distinct (map fst ?cms)"
  then obtain st1 where st1: "go_foldl (update_namespace X) st ?cms = Ret st1" "st' = st1\<lparr>cs_msConfigmaps := []\<rparr>"
    by (auto simp: UpdateRules_def go_simps)
  have "watch_run X ((at_rest st)\<lparr>wt_job := Some (map fst ?cms, [])\<rparr>) (map (Visit \<circ> fst) ?cms) ((at_rest st1)\<lparr>wt_job := Some (map fst ?cms, rev (map fst ?cms))\<rparr>)"
    using turns_alone [OF st1(1), of "[]"] d st1(1) by (cases "?cms = []") auto
  then have "watch_run X ((at_rest st)\<lparr>wt_job := Some (map fst ?cms, [])\<rparr>) (map (Visit \<circ> fst) ?cms @ [Finish]) (at_rest st')"
    using st1(2) by (auto simp: watch_step_simps at_rest_def)
  then show "watch_run X (at_rest st) (Tick # map (Visit \<circ> fst) ?cms @ [Finish]) (at_rest st')"
    by (simp add: watch_run_Cons watch_step_simps at_rest_def)
qed

end
