(* ===== verification/Conf_Init.thy ===== *)
theory Conf_Init
  imports Ves_Mgr
begin

text \<open>
  The command line and the configuration of the agent's process (\<open>InitConf\<close>, \<open>setFlags\<close> and \<open>retrieveReportingEntityName\<close> of
  VESPA/ves-agent/config/configuration.go; the fields of VESAgentConfiguration in config/vesAgentConfiguration.go), with the
  options that vesmgr gives to the agent it starts. The libraries for flags and configurations (pflag, viper) and the file that they read are
  arguments.
\<close>

section \<open>Flags\<close>

datatype flag_value = StringFlag string | IntFlag int | BoolFlag bool | DurationFlag duration

record cli_flag =
  fl_name :: string
  fl_short :: string
  fl_default :: flag_value

definition FlagString :: "string \<Rightarrow> string \<Rightarrow> string \<Rightarrow> cli_flag" where
  "FlagString name short v = \<lparr>fl_name = name, fl_short = short, fl_default = StringFlag v\<rparr>"

definition FlagInt :: "string \<Rightarrow> string \<Rightarrow> int \<Rightarrow> cli_flag" where
  "FlagInt name short v = \<lparr>fl_name = name, fl_short = short, fl_default = IntFlag v\<rparr>"

definition FlagBool :: "string \<Rightarrow> string \<Rightarrow> bool \<Rightarrow> cli_flag" where
  "FlagBool name short v = \<lparr>fl_name = name, fl_short = short, fl_default = BoolFlag v\<rparr>"

definition FlagDuration :: "string \<Rightarrow> string \<Rightarrow> duration \<Rightarrow> cli_flag" where
  "FlagDuration name short v = \<lparr>fl_name = name, fl_short = short, fl_default = DurationFlag v\<rparr>"

text \<open>The flag for the reporting entity exists only if the host name can be retrieved; \<open>Inl\<close> is the failure of the command.\<close>

definition retrieveReportingEntityName :: "string + string \<Rightarrow> cli_flag list" where
  "retrieveReportingEntityName out =
     (case out of
        Inl err \<Rightarrow> []
      | Inr out \<Rightarrow> [FlagString ''Event.ReportingEntityName'' ''H'' (TrimSuffix out [CHR 0x0A])])"

definition setFlags :: "string + string \<Rightarrow> cli_flag list" where
  "setFlags hostname =
     [FlagString ''PrimaryCollector.ServerRoot'' [] [], FlagString ''PrimaryCollector.FQDN'' ''f'' ''localhost'',
      FlagInt ''PrimaryCollector.Port'' ''p'' 8443, FlagBool ''PrimaryCollector.Secure'' ''S'' False,
      FlagString ''PrimaryCollector.Topic'' ''t'' [], FlagString ''PrimaryCollector.User'' ''u'' [],
      FlagString ''PrimaryCollector.Password'' ''k'' [], FlagString ''PrimaryCollector.PassPhrase'' [] [],
      FlagString ''BackupCollector.ServerRoot'' [] [], FlagString ''BackupCollector.FQDN'' [] [],
      FlagInt ''BackupCollector.Port'' [] 0, FlagBool ''BackupCollector.Secure'' [] False,
      FlagString ''BackupCollector.Topic'' [] [], FlagString ''BackupCollector.User'' [] [],
      FlagString ''BackupCollector.Password'' [] [], FlagString ''BackupCollector.PassPhrase'' [] [],
      FlagDuration ''Heartbeat.DefaultInterval'' ''i'' (60 * second), FlagString ''Measurement.DomainAbbreviation'' ''d'' ''Measurement'',
      FlagDuration ''Measurement.DefaultInterval'' ''m'' (60 * second),
      FlagString ''Measurement.Prometheus.Address'' [] ''http://0.0.0.0:9090'',
      FlagDuration ''Measurement.MaxBufferingDuration'' [] (3600 * second), FlagInt ''Event.MaxSize'' ''s'' 200] @
     retrieveReportingEntityName hostname @
     [FlagDuration ''Event.RetryInterval'' ''r'' (10 * second), FlagInt ''Event.MaxMissed'' ''a'' 3,
      FlagString ''AlertManager.Bind'' [] ''0.0.0.0:9081'', FlagString ''AlertManager.Path'' [] ''/alerts'',
      FlagString ''AlertManager.User'' [] [], FlagString ''AlertManager.Password'' [] [], FlagString ''Cluster.ID'' [] [],
      FlagString ''DataDir'' ''D'' ''/var/lib/ves-agent/data'', FlagBool ''Debug'' [] False]"

section \<open>Reading the configuration\<close>

datatype config_file = ConfigFileFound string | ConfigFileNotFound | ConfigFileError string

text \<open>What viper knows when the configuration is taken out of it: the document of the file if there is one, the prefix of environment
  variables with the replacement that names undergo, and the flags with the values of those that the command line sets.\<close>

record viper_state =
  vp_document :: "string option"
  vp_prefix :: string
  vp_replace :: "char \<Rightarrow> char"
  vp_flags :: "cli_flag list"
  vp_changed :: "(string \<times> flag_value) list"

text \<open>Outside code. \<open>ci_parse\<close> is \<open>None\<close> where pflag ends the process (a command line that it rejects, or a request for help); the
  merged configuration is the value of a key, and \<open>ci_unmarshal\<close> fills the structure.\<close>

record 'conf conf_ext =
  ci_file :: "string \<Rightarrow> string list \<Rightarrow> config_file"
  ci_hostname :: "string + string"
  ci_parse :: "cli_flag list \<Rightarrow> string list \<Rightarrow> (string \<times> flag_value) list option"
  ci_lookup :: "viper_state \<Rightarrow> string \<Rightarrow> flag_value option"
  ci_unmarshal :: "(string \<Rightarrow> flag_value option) \<Rightarrow> 'conf \<Rightarrow> 'conf \<times> string option"

definition configName :: string where
  "configName = ''ves-agent''"

definition configPaths :: "string list" where
  "configPaths = [''/etc/ves-agent/'', ''.'']"

definition merged :: "'conf conf_ext \<Rightarrow> config_file \<Rightarrow> (string \<times> flag_value) list \<Rightarrow> string \<Rightarrow> flag_value option" where
  "merged X file changed =
     ci_lookup X \<lparr>vp_document = (case file of ConfigFileFound doc \<Rightarrow> Some doc | _ \<Rightarrow> None), vp_prefix = ''ves'',
       vp_replace = (\<lambda>c. if c = CHR ''.'' then CHR ''_'' else c), vp_flags = setFlags (ci_hostname X), vp_changed = changed\<rparr>"

definition InitConf :: "'conf conf_ext \<Rightarrow> string list \<Rightarrow> 'conf \<Rightarrow> ('conf \<times> string option) go" where
  "InitConf X args conf =
     (let file = ci_file X configName configPaths
      in case file of
          ConfigFileError err \<Rightarrow> Ret (conf, Some err)
        | _ \<Rightarrow>
            (case ci_parse X (setFlags (ci_hostname X)) args of
               None \<Rightarrow> Crash ProcessExit
             | Some changed \<Rightarrow> Ret (ci_unmarshal X (merged X file changed) conf)))"

text \<open>The call in \<open>main\<close>: a failure is logged with level EXCEPTION.\<close>

definition main_conf :: "'conf conf_ext \<Rightarrow> string list \<Rightarrow> 'conf \<Rightarrow> 'conf go" where
  "main_conf X args conf =
     go_bind (InitConf X args conf) (\<lambda>(conf, err). if err \<noteq> None then Crash ProcessExit else Ret conf)"

section \<open>The fields of the configuration\<close>

text \<open>The names of the fields of \<open>VESAgentConfiguration\<close>, which select the keys that they are filled from.\<close>

definition VESAgentConfiguration_fields :: "string list" where
  "VESAgentConfiguration_fields = [''CollectorDetails'', ''Domains'', ''Heartbeat'', ''Measurement'', ''Event'', ''AlertManager'', ''Cluster'',
     ''Debug'', ''LogLevel'', ''CaCert'', ''DataDir'', ''XGVelaInfo'', ''KafkaAddress'', ''Topic'']"

definition section_of :: "string \<Rightarrow> string" where
  "section_of key = takeWhile (\<lambda>c. c \<noteq> CHR ''.'') key"

definition reaches_conf :: "string \<Rightarrow> bool" where
  "reaches_conf key \<longleftrightarrow> section_of key \<in> set VESAgentConfiguration_fields"

section \<open>The options of vesmgr\<close>

text \<open>The command line that vesmgr makes for the agent (the arguments after the name of the program).\<close>

definition vesagent_args :: "(string \<Rightarrow> string) \<Rightarrow> string list" where
  "vesagent_args getenv = [''-i'', getenv ''VESMGR_HB_INTERVAL'', ''-m'', getenv ''VESMGR_MEAS_INTERVAL'',
     ''--Measurement.Prometheus.Address'', getenv ''VESMGR_PROMETHEUS_ADDR'']"

text \<open>The flag that an option stands for.\<close>

definition option_flag :: "cli_flag list \<Rightarrow> string \<Rightarrow> cli_flag option" where
  "option_flag flags opt = List.find (\<lambda>fl. opt = ''--'' @ fl_name fl \<or> fl_short fl \<noteq> [] \<and> opt = ''-'' @ fl_short fl) flags"

section \<open>What holds\<close>

lemmas flag_simps = setFlags_def retrieveReportingEntityName_def FlagString_def FlagInt_def FlagBool_def FlagDuration_def

text \<open>pflag panics on a name or a shorthand that is defined twice: there is none.\<close>

lemma flags_distinct:
  "distinct (map fl_name (setFlags h)) \<and> distinct (filter (\<lambda>s. s \<noteq> []) (map fl_short (setFlags h)))"
  by (cases h) (simp_all add: flag_simps)

text \<open>The options that vesmgr gives are flags of the agent: two durations and a text.\<close>

lemma vesmgr_options_declared:
  "map_option fl_name (option_flag (setFlags h) ''-i'') = Some ''Heartbeat.DefaultInterval''"
  "map_option fl_name (option_flag (setFlags h) ''-m'') = Some ''Measurement.DefaultInterval''"
  "map_option fl_name (option_flag (setFlags h) ''--Measurement.Prometheus.Address'') = Some ''Measurement.Prometheus.Address''"
  by (cases h; simp add: option_flag_def flag_simps)+

text \<open>The sixteen flags of the two collectors name no field.\<close>

lemma collector_flags_reach_nothing:
  "filter (\<lambda>n. \<not> reaches_conf n) (map fl_name (setFlags h)) = map fl_name (take 16 (setFlags h))"
  by (cases h) (simp_all add: flag_simps reaches_conf_def section_of_def VESAgentConfiguration_fields_def)

text \<open>The collector flags do nothing. When taking the configuration out depends only on keys whose section is a field of the
  structure, two processes that differ only in the values of other keys - such as all sixteen flags of the primary and the backup
  collector, or the sections of those names in the file - end up with the same configuration, or both end.\<close>

theorem collector_flags_ignored:
  assumes fields: "\<And>f g conf. (\<And>k. reaches_conf k \<Longrightarrow> f k = g k) \<Longrightarrow> ci_unmarshal X f conf = ci_unmarshal X g conf"
    and parse: "ci_parse X (setFlags (ci_hostname X)) args = Some vs" "ci_parse X (setFlags (ci_hostname X)) args' = Some vs'"
    and agree: "\<And>doc k. reaches_conf k \<Longrightarrow> merged X doc vs k = merged X doc vs' k"
  shows "main_conf X args conf = main_conf X args' conf \<and>
    (\<forall>fl \<in> set (take 16 (setFlags (ci_hostname X))). \<not> reaches_conf (fl_name fl))"
proof
  have "ci_unmarshal X (merged X doc vs) conf = ci_unmarshal X (merged X doc vs') conf" for doc
    by (rule fields) (rule agree)
  with parse show "main_conf X args conf = main_conf X args' conf"
    by (simp add: main_conf_def InitConf_def Let_def split: config_file.split)
  have "fl_name ` set (take 16 (setFlags (ci_hostname X))) = set (filter (\<lambda>n. \<not> reaches_conf n) (map fl_name (setFlags (ci_hostname X))))"
    by (simp only: collector_flags_reach_nothing set_map)
  then show "\<forall>fl \<in> set (take 16 (setFlags (ci_hostname X))). \<not> reaches_conf (fl_name fl)" by auto
qed

text \<open>A library that looks a key up in the command line first and in the defaults then, and fills one field.\<close>

definition sample_conf_ext :: "(flag_value option) conf_ext" where
  "sample_conf_ext = \<lparr>ci_file = (\<lambda>_ _. ConfigFileNotFound), ci_hostname = Inl ''no host'',
     ci_parse = (\<lambda>_ args. if args = [] then Some [] else Some [(''PrimaryCollector.FQDN'', StringFlag ''other'')]),
     ci_lookup = (\<lambda>v k. case map_of (vp_changed v) k of Some x \<Rightarrow> Some x
        | None \<Rightarrow> map_option fl_default (List.find (\<lambda>fl. fl_name fl = k) (vp_flags v))),
     ci_unmarshal = (\<lambda>f _. (f ''Event.MaxSize'', None))\<rparr>"

theorem collector_flags_ignored_witness:
  "main_conf sample_conf_ext [''-f'', ''other''] None = main_conf sample_conf_ext [] None \<and>
   main_conf sample_conf_ext [] None = Ret (Some (IntFlag 200))"
proof
  have r: "reaches_conf ''Event.MaxSize''" "\<not> reaches_conf ''PrimaryCollector.FQDN''"
    by (simp_all add: reaches_conf_def section_of_def VESAgentConfiguration_fields_def)
  have "(\<And>k. reaches_conf k \<Longrightarrow> f k = g k) \<Longrightarrow> ci_unmarshal sample_conf_ext f conf = ci_unmarshal sample_conf_ext g conf" for f g conf
    using r(1) by (simp add: sample_conf_ext_def)
  moreover have "merged sample_conf_ext doc [(''PrimaryCollector.FQDN'', StringFlag ''other'')] k = merged sample_conf_ext doc [] k"
    if "reaches_conf k" for doc k
    using that r(2) by (auto simp: merged_def sample_conf_ext_def)
  ultimately show "main_conf sample_conf_ext [''-f'', ''other''] None = main_conf sample_conf_ext [] None"
    using collector_flags_ignored [of sample_conf_ext "[''-f'', ''other'']" "[(''PrimaryCollector.FQDN'', StringFlag ''other'')]" "[]" "[]" None]
    by (simp add: sample_conf_ext_def)
  show "main_conf sample_conf_ext [] None = Ret (Some (IntFlag 200))"
    by (simp add: main_conf_def InitConf_def sample_conf_ext_def merged_def flag_simps)
qed

text \<open>The outcomes of reading the configuration: a file that cannot be read ends the process before the command line is looked at, an absent
  file does not matter, and no value is required - the check of the required ones is commented out.\<close>

theorem conf_outcomes:
  "ci_file X configName configPaths = ConfigFileError err \<Longrightarrow> main_conf X args conf = Crash ProcessExit"
  "ci_file X configName configPaths = ConfigFileNotFound \<Longrightarrow> ci_parse X (setFlags (ci_hostname X)) args = Some vs \<Longrightarrow>
     ci_unmarshal X (merged X ConfigFileNotFound vs) conf = (conf', None) \<Longrightarrow> main_conf X args conf = Ret conf'"
  by (simp_all add: main_conf_def InitConf_def)

end
