(* ===== verification/Spec2Isabelle.thy ===== *)
theory Spec2Isabelle
  imports Logs Uuid_Time Ha_Properties Ha_Snapshot Collector_Properties Agent_Properties Gateway_Properties Metrics_Properties
    Config_Map_Properties Nf_Properties Ves_Mgr_Properties Alert_Properties Agent_Group Kafka_Consumer Link_Monitor Gateway_Start Ves_Simu_Start Config_Watch Conf_Init
begin

text \<open>
  Verification of the VES gateway: the agent VESPA/ves-agent, which reports faults, measurements and heartbeats of network
  functions to VES collectors, with the client library VESPA/govel, and its process manager cmd/vesmgr.

  \<^bold>\<open>The program.\<close> Applications raise alarms and publish metrics. FMaaS puts faults, notifications and threshold crossings on Kafka;
  the agent (agent.go) consumes them, numbers them per collector, keeps the last number and offset in ZooKeeper and posts them
  through govel or Kafka. A handler of alerts (rest) and the fault manager (convert) are written for the alarms of the alert manager; the
  gateway attaches the handler to no route. The state that several agents share (indices,
  alarm table, schedules) is replicated by Raft (ha). A config map reader writes one rule file per namespace, and for each file an
  agent of the network function (nf_agent.go) collects metrics from Prometheus (metrics) and sends heartbeats (heartbeat), both
  timed by the scheduler. ves-agent.go fills the configuration and connects the collectors. vesmgr writes the configuration of an
  agent process from what the applications declare, and starts and supervises it.

  \<^bold>\<open>Conventions.\<close> A function that can panic, exit or dereference nil returns a value of type \<open>go\<close> (theory \<open>Prelude\<close>): \<open>Ret\<close>
  or \<open>Crash\<close> with the kind of crash; a loop that need not end is a \<open>partial_function (option)\<close>, so that not returning is \<open>None\<close>. Go errors
  are options or sums. int64 and int32 values are \<open>int\<close> with \<open>wrap64\<close> and \<open>wrap32\<close> where the code computes, bytes are 8-bit words;
  times and durations are nanoseconds. Log lines are left out, except that the level EXCEPTION ends the process. No definition
  uses fuel; recursion on batches ends because they get shorter.

  \<^bold>\<open>Theories.\<close>
  \<^item> \<open>Prelude\<close>, \<open>Go_Std\<close>, \<open>Go_Date\<close>: the \<open>go\<close> monad, Go maps, integers, and what the code uses of strconv, strings, time, path and
    encoding/json; the calendar and RFC 3339 texts, with their round trip.
  \<^item> \<open>Logs\<close> (logs): levels, the log file, lines and time stamps; a stamp names its instant, and no line reaches the file.
  \<^item> \<open>Go_Reflect\<close>: types and values of Go's reflect, with laws of lookup after update and typing.
  \<^item> \<open>Uuid\<close>, \<open>Uuid_Time\<close> (go.uuid): text, binary and SQL codecs, name-based, random and time-based generation; round trips, version and variant, no repetition of time-based values.
  \<^item> \<open>Scheduler\<close> (scheduler/scheduler.go): the \<open>State\<close> interface with its contract, locale \<open>sched_state\<close>, and every operation.
  \<^item> \<open>Govel_Events\<close>, \<open>Govel_Config\<close>, \<open>Govel_Measurements\<close>, \<open>Evel\<close>, \<open>Collector_Cluster\<close> (govel): events, configuration, requests and
    answers, posting with splitting of batches, collector commands, failover; \<open>Collector_Properties\<close>.
  \<^item> \<open>Fault_Manager\<close> (convert): the fault store's contract, locale \<open>fault_state\<close>, alert conversion, and the abstract alarm table
    that it refines.
  \<^item> \<open>Ha\<close>, \<open>Ha_Properties\<close> (ha): commands, state machine, snapshots, cluster operations; it interprets \<open>sched_state\<close> and
    \<open>fault_state\<close>. Shown: alarms refine the table, schedules advance, what a restore leaves of the old state.
  \<^item> \<open>Ha_Snapshot\<close> (ha/snapshot.go, ha/fsm.go): the JSON form of snapshots, \<open>Persist\<close> and \<open>Restore\<close>; every state that a log leads to
    is read back exactly from its file.
  \<^item> \<open>Agent_Post\<close>, \<open>Agent_Rcp\<close>, \<open>Agent\<close>, \<open>Agent_Properties\<close> (agent/agent.go, zk): processing and posting in both formats, replay,
    heartbeats, triggers. Shown: numbering and persistence, replay offsets. \<open>Kafka_Consumer\<close>: the goroutine that consumes live events, lock by lock,
    among replays and the other users of its mutex; it delivers at least once, and what a replay between fetch and processing does to it.
  \<^item> \<open>Alert_Service\<close>, \<open>Alert_Properties\<close> (rest, agent/agent.go): the two ends of the channel of alerts, which only the tests connect: the handler and
    its answers on every branch, and the agent's two roles with the goroutines that post. \<open>Agent_Group\<close> (agent/agent.go, ves-agent.go): the agents of
    a gateway and the leadership of their node, for any number of agents and every interleaving: leadership is never given back.
  \<^item> \<open>Gateway_Config\<close>, \<open>Gateway_Properties\<close> (ves-agent.go, config): sections, collectors, registration, sequence numbers.
  \<^item> \<open>Gateway_Start\<close> (ves-agent.go, config/dynamicConfig.go, config/clusterConfiguration.go, ha/raft.go, agent/agent.go): start-up with its retry
    loops, updates at run time, the Raft node of an agent, the Kafka consumers that are started.
  \<^item> \<open>Link_Monitor\<close> (cimUtils, ves-agent.go): the watch over the links; its events are the changes of the links, and what replay requests
    are told of them.
  \<^item> \<open>Measurement_Config\<close>, \<open>Metrics_Set\<close>, \<open>Metrics_Collector\<close>, \<open>Metrics_Properties\<close> (config, metrics): rules with defaults, the
    builder that fills events by reflection, the collection; events are well typed, values read back, numbers are consecutive.
  \<^item> \<open>Config_Map\<close>, \<open>Config_Map_Properties\<close> (configmapreader, config/configuration.go): watching, rule files and their updates, one event at a
    time. \<open>Config_Watch\<close>: the same with the goroutines of the watcher and the update job as a step relation, which contains the sequential reading; what an
    execution writes and calls comes from its events, an update during a run of the job can be lost, and only an overlap with its end leads to the panic on a nil map.
  \<^item> \<open>Conf_Init\<close> (config/configuration.go, ves-agent.go): flags and the reading of the agent's configuration, and which keys can reach it.
  \<^item> \<open>Nf_Agent\<close>, \<open>Nf_Properties\<close> (heartbeat/monitor.go, agent/nf_agent.go): monitor, agents of network functions as a step relation,
    heartbeats over the replicated state.
  \<^item> \<open>Ves_Mgr\<close>, \<open>Ves_Mgr_Properties\<close> (cmd/vesmgr): derived rules, subscription loop, main loop with the list of all agent processes it has
    started.
  \<^item> \<open>Ves_Simu\<close>, \<open>Ves_Simu_Start\<close> (ves-simu): the collector simulator as an instance of the client's transport, and its start; if the
    schema accepts the events of a post and the codec reads them back, what a client with the same configuration posts arrives there, and what is
    ordered there reaches the client.
  \<^item> This theory: the way of a rule from a config map to the collector.

  \<^bold>\<open>Parameters.\<close> Code outside the repository is an argument of the definitions that use it: the Raft library, the curator client of
  ZooKeeper, Kafka readers and writers, the HTTP transport, the JSON schema validator, YAML and JSON text codecs where the text itself
  does not matter, text templates, the Prometheus client, the kubernetes client, hashes, the clock and random bytes. What a theorem relies
  on is a named hypothesis (that Raft commits, that a codec reads back what it wrote, that an address answers), and its witness
  gives a concrete instance.

  \<^bold>\<open>Interleaving.\<close> A goroutine that runs for ever is modelled by its iteration or as a step relation. Where the order of goroutines
  matters it is explicit: the receives of several agents from their channel of notices, the moments at which the goroutines that post read their shared event, every
  lock, unlock, fetch and commit of the consumer, the select of the agents' loops, the goroutines and the update job of the config map reader, the result of an agent process that waits while the manager restarts it. Elsewhere
  goroutines run at once.

  \<^bold>\<open>Not modelled\<close>, because there is no logic of the program in it: the texts of the JSON schemas and the call that validates
  against them (govel/schema), generated flat buffer accessors (flatbuf), the HTTP routers and listening sockets, TLS set-up, the
  parsers of pflag and viper, the certificate tool and the URL probe. Left out of modelled parts: the connection of the
  curator client, the set-up of the kubernetes client, the server of a process without collectors.
\<close>

section \<open>From a config map to the collector\<close>






end
